(* ===== verification/Prelude.thy ===== *)
theory Prelude
  imports Main "HOL-Library.Word"
begin

text \<open>
  Shared vocabulary of the development.

  \<^item> The machine integers of the firmware (\<open>uint8_t\<close>, \<open>uint16_t\<close>, \<open>uint32_t\<close>, \<open>uint64_t\<close>)
    are words of that width; a C \<open>int\<close> or \<open>long\<close> whose overflow would be undefined behaviour
    is an \<open>int\<close> whose range is checked where the code computes with it.
  \<^item> A C string is the list of its characters before the terminating NUL; a pointer into it
    is the remaining suffix, and dereferencing the end reads the NUL (\<open>c_deref\<close>).
  \<^item> The POSIX error numbers are those of the C library Zephyr is built with.
  \<^item> The functions of \<open>ctype.h\<close>, \<open>string.h\<close> and \<open>stdlib.h\<close> used by several components.
\<close>

unbundle bit_operations_syntax

named_theorems parse_simps \<open>definitions of the text parser, unfolded by its proofs\<close>
named_theorems cstr_simps \<open>rewrite rules for C strings\<close>

type_synonym u8 = "8 word"
type_synonym u16 = "16 word"
type_synonym u32 = "32 word"
type_synonym u64 = "64 word"
type_synonym cstring = string

section \<open>Error numbers\<close>

abbreviation (input) ENOENT :: int where "ENOENT \<equiv> 2"
abbreviation (input) EIO :: int where "EIO \<equiv> 5"
abbreviation (input) ENOMEM :: int where "ENOMEM \<equiv> 12"
abbreviation (input) EFAULT :: int where "EFAULT \<equiv> 14"
abbreviation (input) EBUSY :: int where "EBUSY \<equiv> 16"
abbreviation (input) EEXIST :: int where "EEXIST \<equiv> 17"
abbreviation (input) EINVAL :: int where "EINVAL \<equiv> 22"
abbreviation (input) ETIME :: int where "ETIME \<equiv> 62"
abbreviation (input) EBADMSG :: int where "EBADMSG \<equiv> 77"
abbreviation (input) ESHUTDOWN :: int where "ESHUTDOWN \<equiv> 110"
abbreviation (input) EINPROGRESS :: int where "EINPROGRESS \<equiv> 119"
abbreviation (input) ENOTCONN :: int where "ENOTCONN \<equiv> 128"
abbreviation (input) ENOTSUP :: int where "ENOTSUP \<equiv> 134"

abbreviation (input) MSEC_PER_SEC :: int where "MSEC_PER_SEC \<equiv> 1000"

section \<open>Signed C integers\<close>

text \<open>C division truncates towards zero; \<open>i32\<close> is the range check of a 32-bit signed result,
  where leaving the range is undefined behaviour (\<open>None\<close>).\<close>

definition c_div :: "int \<Rightarrow> int \<Rightarrow> int" where
  "c_div a b = sgn a * sgn b * (\<bar>a\<bar> div \<bar>b\<bar>)"

definition in_i32 :: "int \<Rightarrow> bool" where
  "in_i32 x \<longleftrightarrow> - (2 ^ 31) \<le> x \<and> x < 2 ^ 31"

definition i32 :: "int \<Rightarrow> int option" where
  "i32 x = (if in_i32 x then Some x else None)"

lemma c_div_nonneg: "0 \<le> a \<Longrightarrow> 0 < b \<Longrightarrow> c_div a b = a div b"
  by (cases "a = 0") (simp_all add: c_div_def sgn_if)

lemma c_div_nonpos: "a \<le> 0 \<Longrightarrow> 0 < b \<Longrightarrow> c_div a b = - ((- a) div b)"
  by (cases "a = 0") (simp_all add: c_div_def sgn_if)

lemma c_div_0 [simp]: "c_div 0 b = 0"
  by (simp add: c_div_def)

lemma i32_Some [simp]: "i32 x = Some y \<longleftrightarrow> in_i32 x \<and> y = x"
  by (auto simp: i32_def)

lemma i32_in [simp]: "in_i32 x \<Longrightarrow> i32 x = Some x"
  by (simp add: i32_def)

section \<open>C strings\<close>

abbreviation (input) NUL :: char where "NUL \<equiv> CHR 0x00"

definition c_deref :: "cstring \<Rightarrow> char" where
  "c_deref s = (case s of [] \<Rightarrow> NUL | c # _ \<Rightarrow> c)"

definition is_cstring :: "cstring \<Rightarrow> bool" where
  "is_cstring s \<longleftrightarrow> NUL \<notin> set s"

lemma c_deref_simps [simp, cstr_simps]:
  "c_deref [] = NUL"
  "c_deref (c # s) = c"
  by (simp_all add: c_deref_def)

lemma is_cstring_simps [simp, cstr_simps]:
  "is_cstring []"
  "is_cstring (c # s) \<longleftrightarrow> c \<noteq> NUL \<and> is_cstring s"
  "is_cstring (s @ t) \<longleftrightarrow> is_cstring s \<and> is_cstring t"
  by (auto simp: is_cstring_def)

lemma is_cstring_drop [intro]: "is_cstring s \<Longrightarrow> is_cstring (drop n s)"
  by (auto simp: is_cstring_def dest: in_set_dropD)

lemma is_cstring_take [intro]: "is_cstring s \<Longrightarrow> is_cstring (take n s)"
  by (auto simp: is_cstring_def dest: in_set_takeD)

definition tolower :: "char \<Rightarrow> char" where
  "tolower c = (let n = of_char c :: nat in if 65 \<le> n \<and> n \<le> 90 then char_of (n + 32) else c)"

lemma tolower_NUL [simp]: "tolower NUL = NUL"
  by (simp add: tolower_def)

lemma tolower_eq_NUL [simp]: "tolower c = NUL \<longleftrightarrow> c = NUL" "NUL = tolower c \<longleftrightarrow> c = NUL"
proof -
  have "c = NUL" if "tolower c = NUL"
  proof (rule ccontr)
    assume "c \<noteq> NUL"
    with that have "char_of (of_char c + (32 :: nat)) = NUL" and "of_char c \<le> (90 :: nat)"
      by (auto simp: tolower_def Let_def split: if_splits)
    then have "of_char (char_of (of_char c + (32 :: nat))) = (of_char NUL :: nat)"
      by simp
    with \<open>of_char c \<le> (90 :: nat)\<close> show False by simp
  qed
  then show "tolower c = NUL \<longleftrightarrow> c = NUL" "NUL = tolower c \<longleftrightarrow> c = NUL"
    by auto
qed

definition isspace :: "char \<Rightarrow> bool" where
  "isspace c \<longleftrightarrow> c \<in> {CHR '' '', CHR 0x09, CHR 0x0A, CHR 0x0B, CHR 0x0C, CHR 0x0D}"

text \<open>\<open>strchr\<close> as an option of the suffix found; \<open>strchr(s, 0)\<close> finds the terminator.\<close>

definition strchr :: "cstring \<Rightarrow> char \<Rightarrow> cstring option" where
  "strchr s c = (let r = dropWhile (\<lambda>x. x \<noteq> c) s in if r \<noteq> [] \<or> c = NUL then Some r else None)"

definition strspn :: "cstring \<Rightarrow> cstring \<Rightarrow> nat" where
  "strspn s accept = length (takeWhile (\<lambda>c. c \<in> set accept) s)"

definition strcspn :: "cstring \<Rightarrow> cstring \<Rightarrow> nat" where
  "strcspn s reject = length (takeWhile (\<lambda>c. c \<notin> set reject) s)"

lemma strchr_Some_iff: "c \<noteq> NUL \<Longrightarrow> strchr s c \<noteq> None \<longleftrightarrow> c \<in> set s"
  by (auto simp: strchr_def Let_def dropWhile_eq_Nil_conv)

lemma strspn_le: "strspn s a \<le> length s"
  by (simp add: strspn_def length_takeWhile_le)

lemma strcspn_le: "strcspn s a \<le> length s"
  by (simp add: strcspn_def length_takeWhile_le)

section \<open>Big-endian numbers\<close>

text \<open>The mathematical meaning of a big-endian byte sequence: what the \<open>sys_put_be...\<close> and
  \<open>sys_get_be...\<close> functions of Zephyr are documented to produce and read.\<close>

fun be_bytes :: "nat \<Rightarrow> int \<Rightarrow> u8 list" where
  "be_bytes 0 x = []"
| "be_bytes (Suc n) x = be_bytes n (x div 256) @ [word_of_int x]"

definition be_val :: "u8 list \<Rightarrow> int" where
  "be_val bs = foldl (\<lambda>acc b. acc * 256 + uint b) 0 bs"

lemma length_be_bytes [simp]: "length (be_bytes n x) = n"
  by (induction n x rule: be_bytes.induct) auto

lemma be_val_snoc [simp]: "be_val (bs @ [b]) = be_val bs * 256 + uint b"
  by (simp add: be_val_def)

lemma be_val_Nil [simp]: "be_val [] = 0"
  by (simp add: be_val_def)

lemma be_val_be_bytes: "be_val (be_bytes n x) = x mod 256 ^ n"
proof (induction n x rule: be_bytes.induct)
  case (1 x)
  then show ?case by simp
next
  case (2 n x)
  have "x mod 256 ^ Suc n = x div 256 mod 256 ^ n * 256 + x mod 256"
    using mod_mult2_eq' [of x 256 "256 ^ n"] by (simp add: mult.commute)
  with 2 show ?case by (simp add: uint_word_of_int)
qed

lemma be_val_bounds: "0 \<le> be_val bs \<and> be_val bs < 256 ^ length bs"
proof (induction bs rule: rev_induct)
  case Nil
  then show ?case by simp
next
  case (snoc b bs)
  have "uint b < 256" "0 \<le> uint b" using uint_lt2p [of b] by simp_all
  with snoc show ?case by auto
qed

lemma be_val_replicate_ff: "be_val (replicate n 0xff) = 256 ^ n - 1"
proof (induction n)
  case 0
  then show ?case by simp
next
  case (Suc n)
  have "replicate (Suc n) (0xff :: u8) = replicate n 0xff @ [0xff]" by (simp add: replicate_append_same)
  with Suc show ?case by simp
qed

end
