(* ===== verification/Parse.thy ===== *)
theory Parse
  imports Prelude "HOL-Library.Sublist"
begin

text \<open>
  The text helpers of \<open>src/src/parse.c\<close>: binary printing, field splitting, number parsing and
  the case-insensitive comparisons every AT response, shell command and setting goes through.
  A returned pointer is the remaining suffix of the argument; an out-parameter is part of the
  result, \<open>None\<close> when the pointer is NULL or nothing is stored. Separators are never NUL (no
  call passes it). The section on lemmas relates each loop to a closed form over lists.
\<close>

section \<open>The standard library functions the parser calls\<close>

definition digit_val :: "char \<Rightarrow> nat option" where
  "digit_val c = (let n = of_char c :: nat in
     if 48 \<le> n \<and> n \<le> 57 then Some (n - 48)
     else if 97 \<le> n \<and> n \<le> 122 then Some (n - 87)
     else if 65 \<le> n \<and> n \<le> 90 then Some (n - 55)
     else None)"

definition is_digit_in :: "nat \<Rightarrow> char \<Rightarrow> bool" where
  "is_digit_in base c = (case digit_val c of Some d \<Rightarrow> d < base | None \<Rightarrow> False)"

fun digits_val :: "nat \<Rightarrow> int \<Rightarrow> cstring \<Rightarrow> int" where
  "digits_val base acc [] = acc"
| "digits_val base acc (c # s) = digits_val base (acc * int base + int (the (digit_val c))) s"

definition long_clamp :: "int \<Rightarrow> int" where
  "long_clamp x = max (- (2 ^ 31)) (min (2 ^ 31 - 1) x)"

definition hex_prefix :: "cstring \<Rightarrow> bool" where
  "hex_prefix s = (case s of z # x # d # _ \<Rightarrow>
     z = CHR ''0'' \<and> (x = CHR ''x'' \<or> x = CHR ''X'') \<and> is_digit_in 16 d | _ \<Rightarrow> False)"

text \<open>\<open>strtol\<close> with a 32-bit \<open>long\<close>: the value, saturated, and how many characters it consumed
  (the distance of \<open>endptr\<close> from the start; 0 when there is nothing to convert).\<close>

definition strtol :: "cstring \<Rightarrow> nat \<Rightarrow> int \<times> nat" where
  "strtol v base =
     (let ws = length (takeWhile isspace v);
          s = drop ws v;
          neg = (c_deref s = CHR ''-'');
          sg = (if neg \<or> c_deref s = CHR ''+'' then 1 else 0);
          s1 = drop sg s;
          hex = ((base = 0 \<or> base = 16) \<and> hex_prefix s1);
          base' = (if base = 0 then (if hex then 16 else if c_deref s1 = CHR ''0'' then 8 else 10)
                   else base);
          pre = (if hex then 2 else 0);
          ds = takeWhile (is_digit_in base') (drop pre s1);
          n = digits_val base' 0 ds
      in if ds = [] then (0, 0)
         else (long_clamp (if neg then - n else n), ws + sg + pre + length ds))"

section \<open>The operations of parse.c\<close>

fun print_bin_loop :: "nat \<Rightarrow> nat \<Rightarrow> u32 \<Rightarrow> cstring \<Rightarrow> cstring" where
  "print_bin_loop 0 groups val buf = buf"
| "print_bin_loop (Suc b) groups val buf =
     (let buf = (if buf \<noteq> [] \<and> Suc b mod groups = 0 then buf @ '' '' else buf)
      in print_bin_loop b groups val (buf @ (if bit val b then ''1'' else ''0'')))"

definition print_bin_groups :: "nat \<Rightarrow> nat \<Rightarrow> u32 \<Rightarrow> cstring" where
  "print_bin_groups bits groups val = print_bin_loop bits groups val []"

definition print_bin :: "nat \<Rightarrow> u32 \<Rightarrow> cstring" where
  "print_bin bits val = print_bin_groups bits bits val"

fun skip_to :: "char \<Rightarrow> cstring \<Rightarrow> cstring" where
  "skip_to sep [] = []"
| "skip_to sep (c # s) = (if c \<noteq> sep then skip_to sep s else c # s)"

definition parse_next_char :: "cstring option \<Rightarrow> char \<Rightarrow> cstring" where
  "parse_next_char v sep = (case v of None \<Rightarrow> [] | Some v \<Rightarrow>
     (let v = skip_to sep v in if c_deref v = sep then tl v else v))"

fun parse_next_chars :: "cstring option \<Rightarrow> char \<Rightarrow> nat \<Rightarrow> cstring option" where
  "parse_next_chars v sep 0 = v"
| "parse_next_chars v sep (Suc count) =
     (let v = parse_next_char v sep in if v = [] then Some v else parse_next_chars (Some v) sep count)"

definition parse_next_long :: "cstring \<Rightarrow> nat \<Rightarrow> int option \<Rightarrow> cstring \<times> int option" where
  "parse_next_long v base result =
     (let (l, n) = strtol v base
      in (drop n v, if n \<noteq> 0 then map_option (\<lambda>_. l) result else result))"

definition parse_next_long_text :: "cstring \<Rightarrow> char \<Rightarrow> nat \<Rightarrow> int option \<Rightarrow> cstring \<times> int option" where
  "parse_next_long_text val sep base result =
     (let v = (if c_deref val = sep then tl val else val);
          (l, n) = strtol v base
      in if n \<noteq> 0
         then (let v = drop n v in (if c_deref v = sep then tl v else v, map_option (\<lambda>_. l) result))
         else (val, result))"

definition parse_next_long_qtext :: "cstring \<Rightarrow> char \<Rightarrow> nat \<Rightarrow> int option \<Rightarrow> cstring \<times> int option" where
  "parse_next_long_qtext val sep base result =
     (if c_deref val \<noteq> sep then (val, map_option (\<lambda>_. 0) result)
      else parse_next_long_text val sep base result)"

text \<open>The copying loop of \<open>parse_next_text\<close>: \<open>out\<close> is what has been stored so far, \<open>None\<close> once the
  result pointer is NULL; \<open>len\<close> counts the room left before the terminator.\<close>

fun parse_next_text_loop :: "char \<Rightarrow> cstring \<Rightarrow> cstring option \<Rightarrow> nat \<Rightarrow> cstring \<times> cstring option" where
  "parse_next_text_loop sep [] out len = ([], out)"
| "parse_next_text_loop sep (c # s) out len =
     (if c \<noteq> sep
      then (case out of
              Some buf \<Rightarrow> if len \<noteq> 0 then parse_next_text_loop sep s (Some (buf @ [c])) (len - 1)
                          else parse_next_text_loop sep s (Some buf) len
            | None \<Rightarrow> parse_next_text_loop sep s None len)
      else (c # s, out))"

definition parse_next_text :: "cstring \<Rightarrow> char \<Rightarrow> nat option \<Rightarrow> cstring \<times> cstring option" where
  "parse_next_text val sep result =
     (let out = (case result of Some len \<Rightarrow> if len > 0 then Some [] else None | None \<Rightarrow> None);
          len = (case result of Some len \<Rightarrow> len - 1 | None \<Rightarrow> 0);
          v = (if c_deref val = sep then tl val else val);
          (v, out) = parse_next_text_loop sep v out len
      in (if v \<noteq> [] \<and> c_deref v = sep then tl v else v, out))"

definition parse_next_qtext :: "cstring \<Rightarrow> char \<Rightarrow> nat option \<Rightarrow> cstring \<times> cstring option" where
  "parse_next_qtext val sep result =
     (if c_deref val \<noteq> sep
      then (val, case result of Some len \<Rightarrow> if len > 0 then Some [] else None | None \<Rightarrow> None)
      else parse_next_text val sep result)"

definition char_eq :: "bool \<Rightarrow> char \<Rightarrow> char \<Rightarrow> bool" where
  "char_eq ignore_case a b = (if ignore_case then tolower a = tolower b else a = b)"

text \<open>What is left of \<open>head\<close> when the comparison loop of \<open>strstart\<close> stops.\<close>

fun strstart_loop :: "bool \<Rightarrow> cstring \<Rightarrow> cstring \<Rightarrow> cstring" where
  "strstart_loop ic v [] = []"
| "strstart_loop ic [] (c # cur) = c # cur"
| "strstart_loop ic (d # v) (c # cur) = (if char_eq ic d c then strstart_loop ic v cur else c # cur)"

definition strstart :: "cstring \<Rightarrow> cstring \<Rightarrow> bool \<Rightarrow> int" where
  "strstart v head ic = (if strstart_loop ic v head \<noteq> [] then 0 else int (length head))"

definition strend :: "cstring \<Rightarrow> cstring \<Rightarrow> bool \<Rightarrow> int" where
  "strend v tail ic =
     (let offset = int (length v) - int (length tail)
      in strstart (if offset > 0 then drop (nat offset) v else v) tail ic)"

fun strichr_loop :: "char \<Rightarrow> cstring \<Rightarrow> cstring" where
  "strichr_loop c [] = []"
| "strichr_loop c (d # s) = (if c \<noteq> tolower d then strichr_loop c s else d # s)"

definition strichr :: "cstring \<Rightarrow> char \<Rightarrow> cstring option" where
  "strichr v c = (let r = strichr_loop (tolower c) v in if r \<noteq> [] then Some r else None)"

definition strichr_case :: "cstring \<Rightarrow> char \<Rightarrow> bool \<Rightarrow> cstring option" where
  "strichr_case v c ic = (if ic then strichr v c else strchr v c)"

definition strstartsep :: "cstring \<Rightarrow> cstring \<Rightarrow> bool \<Rightarrow> cstring option \<Rightarrow> int" where
  "strstartsep v head ic separators =
     (let index = strstart v head ic
      in case separators of
           Some seps \<Rightarrow>
             if index \<noteq> 0
             then (let e = c_deref (drop (nat index) v)
                   in if e \<noteq> NUL then (if strichr_case seps e ic \<noteq> None then index + 1 else 0) else index)
             else index
         | None \<Rightarrow> index)"

definition strsepend :: "cstring \<Rightarrow> cstring \<Rightarrow> bool \<Rightarrow> cstring option \<Rightarrow> int" where
  "strsepend v tail ic separators =
     (let index = strend v tail ic
      in case separators of
           Some seps \<Rightarrow>
             if index \<noteq> 0
             then (let pos = int (length v) - index - 1
                   in if pos \<ge> 0
                      then (let e = c_deref (drop (nat pos) v)
                            in if e \<noteq> NUL then (if strichr_case seps e ic \<noteq> None then index + 1 else 0)
                               else index)
                      else index)
             else index
         | None \<Rightarrow> index)"

definition tolower_diff :: "char \<Rightarrow> char \<Rightarrow> int" where
  "tolower_diff a b = of_char (tolower a) - of_char (tolower b)"

fun stricmp :: "cstring \<Rightarrow> cstring \<Rightarrow> int" where
  "stricmp [] w = tolower_diff NUL (c_deref w)"
| "stricmp (c # v) w =
     (let res = tolower_diff c (c_deref w) in if res = 0 then stricmp v (tl w) else res)"

text \<open>The backward loop of \<open>strtrim\<close> over the first \<open>e\<close> characters.\<close>

fun strtrim_tail :: "cstring \<Rightarrow> nat \<Rightarrow> nat" where
  "strtrim_tail u 0 = 0"
| "strtrim_tail u (Suc e) = (if \<not> isspace (u ! e) then e + 1 else strtrim_tail u e)"

definition strtrim :: "cstring \<Rightarrow> int \<times> nat" where
  "strtrim v = (let u = dropWhile isspace v
                in (int (length v) - int (length u), strtrim_tail u (length u)))"

text \<open>\<open>strtrunc2\<close>: the returned \<open>index\<close> is the outer variable, which the inner declaration
  shadows. \<open>None\<close> stands for the \<open>memmove\<close> of \<open>-1\<close> bytes that a lone quote leads to.\<close>

definition strtrunc2 :: "cstring \<Rightarrow> char \<Rightarrow> char \<Rightarrow> (int \<times> cstring) option" where
  "strtrunc2 v quote1 quote2 =
     (if v \<noteq> [] \<and> c_deref v = quote1
      then (let index = int (length v)
            in if v ! nat (index - 1) = quote2
               then (let index = index - 2
                     in if index < 0 then None else Some (0, take (nat index) (tl v)))
               else Some (0, v))
      else Some (0, v))"

definition strtrunc :: "cstring \<Rightarrow> char \<Rightarrow> (int \<times> cstring) option" where
  "strtrunc v quote = strtrunc2 v quote quote"

section \<open>Closed forms of the loops\<close>

lemma skip_to_eq: "skip_to sep v = dropWhile (\<lambda>c. c \<noteq> sep) v"
  by (induction v) auto

lemma parse_next_text_loop_None:
  "parse_next_text_loop sep v None len = (dropWhile (\<lambda>c. c \<noteq> sep) v, None)"
  by (induction v arbitrary: len) auto

lemma parse_next_text_loop_Some:
  "parse_next_text_loop sep v (Some buf) len =
     (dropWhile (\<lambda>c. c \<noteq> sep) v, Some (buf @ take len (takeWhile (\<lambda>c. c \<noteq> sep) v)))"
proof (induction v arbitrary: buf len)
  case Nil
  then show ?case by simp
next
  case (Cons c v)
  then show ?case by (cases len) auto
qed

lemma strstart_loop_Nil:
  "strstart_loop ic v head = [] \<longleftrightarrow>
     length head \<le> length v \<and> list_all2 (char_eq ic) (take (length head) v) head"
  by (induction ic v head rule: strstart_loop.induct) auto

lemma strtrim_tail_eq:
  "e \<le> length u \<Longrightarrow> take (strtrim_tail u e) u = rev (dropWhile isspace (rev (take e u)))"
  by (induction e) (auto simp: take_Suc_conv_app_nth)

lemma strtrim_tail_le: "strtrim_tail u e \<le> e"
  by (induction e) auto

lemma field_found:
  assumes "sep \<in> set v"
  shows "c_deref (dropWhile (\<lambda>c. c \<noteq> sep) v) = sep"
    and "tl (dropWhile (\<lambda>c. c \<noteq> sep) v) = drop (Suc (length (takeWhile (\<lambda>c. c \<noteq> sep) v))) v"
  using assms by (induction v) auto

lemma field_last:
  assumes "sep \<notin> set v"
  shows "dropWhile (\<lambda>c. c \<noteq> sep) v = []" and "takeWhile (\<lambda>c. c \<noteq> sep) v = v"
  using assms by (induction v) auto

lemma strichr_loop_eq: "strichr_loop c v = dropWhile (\<lambda>d. tolower d \<noteq> c) v"
  by (induction v) auto

section \<open>Properties\<close>

lemma char_eq_simps [simp]:
  "char_eq False a b \<longleftrightarrow> a = b"
  "char_eq True a b \<longleftrightarrow> tolower a = tolower b"
  by (auto simp: char_eq_def)

lemma tolower_diff_0: "tolower_diff a b = 0 \<longleftrightarrow> tolower a = tolower b"
  by (auto simp: tolower_diff_def)

lemma stricmp_eq_0:
  assumes "is_cstring v" and "is_cstring w"
  shows "stricmp v w = 0 \<longleftrightarrow> map tolower v = map tolower w"
  using assms
proof (induction v arbitrary: w)
  case Nil
  then show ?case by (cases w) (auto simp: tolower_diff_0 )
next
  case (Cons c v)
  then show ?case
    by (cases w) (auto simp: tolower_diff_0 Let_def)
qed

text \<open>Splitting a field off a command line or AT response: whatever the input, the text stored is
  the field (after one leading separator) cut to fit the buffer together with its terminator, and
  the returned pointer stands right after the field's separator.\<close>

lemma parse_next_text_spec:
  assumes "sep \<noteq> NUL"
  shows "parse_next_text val sep (Some len) =
     (let v = (if c_deref val = sep then tl val else val);
          field = takeWhile (\<lambda>c. c \<noteq> sep) v
      in (drop (Suc (length field)) v,
          if len = 0 then None else Some (take (len - 1) field)))"
proof -
  define v where "v = (if c_deref val = sep then tl val else val)"
  show ?thesis
    by (cases "sep \<in> set v")
      (auto simp: parse_next_text_def Let_def v_def [symmetric] field_found field_last
        parse_next_text_loop_None parse_next_text_loop_Some)
qed

text \<open>\<open>strend\<close> recognises exactly the values that end with the tail (up to case, if asked), and
  answers with its length.\<close>

lemma strend_spec:
  "strend v tail ic =
     (if length tail \<le> length v \<and> list_all2 (char_eq ic) (drop (length v - length tail) v) tail
      then int (length tail) else 0)"
proof (cases "length tail \<le> length v")
  case True
  then have "nat (int (length v) - int (length tail)) = length v - length tail" by simp
  with True show ?thesis
    by (cases "length tail = length v")
      (auto simp: strend_def strstart_def strstart_loop_Nil Let_def of_nat_diff)
next
  case False
  then show ?thesis
    by (auto simp: strend_def strstart_def strstart_loop_Nil Let_def)
qed

text \<open>\<open>strtrim\<close> returns where the trimmed text starts and how long it is: cutting the value there
  removes exactly the white space at both ends.\<close>

lemma strtrim_spec:
  "case strtrim v of (off, len) \<Rightarrow>
     0 \<le> off \<and> take len (drop (nat off) v) =
       rev (dropWhile isspace (rev (dropWhile isspace v)))"
proof -
  have "length v - length (dropWhile isspace v) = length (takeWhile isspace v)"
    by (metis length_append takeWhile_dropWhile_id add_diff_cancel_right')
  then have "nat (int (length v) - int (length (dropWhile isspace v))) = length (takeWhile isspace v)"
    by (simp add: nat_diff_distrib' )
  then show ?thesis
    using strtrim_tail_eq [of "length (dropWhile isspace v)" "dropWhile isspace v"]
    by (simp add: strtrim_def Let_def length_dropWhile_le dropWhile_eq_drop [symmetric])
qed

lemma print_bin_loop_no_groups:
  "buf \<noteq> [] \<Longrightarrow> b < groups \<Longrightarrow>
   print_bin_loop b groups val buf =
     buf @ map (\<lambda>i. if bit val i then CHR ''1'' else CHR ''0'') (rev [0..<b])"
  by (induction b arbitrary: buf) (auto simp: Let_def)

lemma print_bin_eq:
  "print_bin bits val = map (\<lambda>i. if bit val i then CHR ''1'' else CHR ''0'') (rev [0..<bits])"
  by (cases bits) (auto simp: print_bin_def print_bin_groups_def print_bin_loop_no_groups Let_def)

lemma digit_val_bin: "digit_val (CHR ''0'') = Some 0" "digit_val (CHR ''1'') = Some 1"
  by (simp_all add: digit_val_def)

lemma digits_val_bin:
  "digits_val 2 acc (map (\<lambda>i. if bit val i then CHR ''1'' else CHR ''0'') (rev [0..<b])) =
     acc * 2 ^ b + uint (take_bit b val)" for val :: u32
proof (induction b arbitrary: acc)
  case 0
  then show ?case by simp
next
  case (Suc b)
  have "uint (take_bit (Suc b) val) = uint (take_bit b val) + (if bit val b then 2 ^ b else 0)"
    by (auto simp: unsigned_take_bit_eq take_bit_Suc_from_most bit_uint_iff dest: bit_imp_le_length)
  with Suc show ?case by (simp add: digit_val_bin algebra_simps)
qed

text \<open>A value printed in binary, as the modem's PSM and eDRX parameters are, reads back in base 2
  as its low bits.\<close>

lemma print_bin_strtol:
  assumes "0 < bits" and "bits \<le> 31"
  shows "strtol (print_bin bits val) 2 = (uint (take_bit bits val), bits)"
proof -
  define ds where "ds = map (\<lambda>i. if bit val i then CHR ''1'' else CHR ''0'') (rev [0..<bits])"
  have ds: "set ds \<subseteq> {CHR ''0'', CHR ''1''}" "length ds = bits" "ds \<noteq> []"
    using assms(1) by (auto simp: ds_def)
  then have hd: "c_deref ds \<in> {CHR ''0'', CHR ''1''}" by (cases ds) auto
  have tw: "takeWhile isspace ds = []" "takeWhile (is_digit_in 2) ds = ds"
    using ds by (cases ds; auto simp: isspace_def is_digit_in_def digit_val_bin takeWhile_eq_all_conv)+
  have "uint (take_bit bits val) < 2 ^ 31"
    using assms(2) take_bit_tightened_less_eq_int [of bits 31 "uint val"] take_bit_int_less_exp [of 31 "uint val"]
    by (simp add: unsigned_take_bit_eq)
  moreover have "0 \<le> uint (take_bit bits val)" by simp
  ultimately have "long_clamp (uint (take_bit bits val)) = uint (take_bit bits val)"
    unfolding long_clamp_def by linarith
  then show ?thesis
    using digits_val_bin [of 0 val bits] ds hd
    by (auto simp: tw print_bin_eq ds_def [symmetric] strtol_def Let_def)
qed

text \<open>\<open>strtrunc2\<close> strips a matching pair of quotes and leaves any other text alone; the length it
  computes for the stripped text is never returned (the result is always 0).\<close>

lemma strtrunc2_spec:
  "strtrunc2 v q1 q2 =
     (if v = [q1] \<and> q1 = q2 then None
      else if 2 \<le> length v \<and> hd v = q1 \<and> last v = q2 then Some (0, butlast (tl v))
      else Some (0, v))"
  by (cases v; cases "tl v" rule: rev_cases) (auto simp: strtrunc2_def Let_def nth_append)

end
