(* ===== verification/Transform.thy ===== *)
theory Transform
  imports Prelude "HOL-Library.Monad_Syntax"
begin

text \<open>
  Piecewise linear transformation curves, \<open>src/src/transform.c\<close>. The result is \<open>None\<close> where the C
  code would have undefined behaviour: a read past the end of the curve, a 32-bit signed overflow
  in the interpolation, or a division by zero.
\<close>

record transform_point =
  in_value :: int
  out_value :: int

record transform_curve_t =
  points :: nat
  curve :: "transform_point list"

definition curve_at :: "transform_curve_t \<Rightarrow> nat \<Rightarrow> transform_point option" where
  "curve_at tc i = (if i < length (curve tc) then Some (curve tc ! i) else None)"

text \<open>The search loop: \<open>n\<close> is the local \<open>points\<close>, \<open>i\<close> the index of \<open>pb\<close>.\<close>

fun transform_search :: "int \<Rightarrow> transform_curve_t \<Rightarrow> nat \<Rightarrow> nat \<Rightarrow> nat option" where
  "transform_search v tc 0 i = Some i"
| "transform_search v tc (Suc n) i =
     (if n > 0
      then do {
        pb \<leftarrow> curve_at tc i;
        if v < in_value pb then transform_search v tc n (Suc i) else Some i
      }
      else Some i)"

definition transform_interpolate :: "int \<Rightarrow> transform_point \<Rightarrow> transform_point \<Rightarrow> int option" where
  "transform_interpolate v pa pb = do {
     d \<leftarrow> i32 (out_value pa - out_value pb);
     e \<leftarrow> i32 (v - in_value pb);
     m \<leftarrow> i32 (d * e);
     w \<leftarrow> i32 (in_value pa - in_value pb);
     if w = 0 then None else i32 (out_value pb + c_div m w)
   }"

definition transform_curve :: "int \<Rightarrow> transform_curve_t \<Rightarrow> int option" where
  "transform_curve v tc = do {
     p0 \<leftarrow> curve_at tc 0;
     if v \<ge> in_value p0 then Some (out_value p0)
     else do {
       i \<leftarrow> transform_search v tc (points tc - 1) 1;
       pb \<leftarrow> curve_at tc i;
       if v \<le> in_value pb then Some (out_value pb)
       else transform_interpolate v (curve tc ! (i - 1)) pb
     }
   }"

section \<open>Well-formed curves\<close>

text \<open>The header asks for decreasing input values; \<open>curve_ok lim\<close> adds that the output values do not
  increase and that all values are small enough for the 32-bit interpolation.\<close>

definition curve_ok :: "transform_curve_t \<Rightarrow> bool" where
  "curve_ok tc \<longleftrightarrow> points tc = length (curve tc) \<and> 2 \<le> length (curve tc) \<and>
     sorted_wrt (\<lambda>p q. in_value q < in_value p \<and> out_value q \<le> out_value p) (curve tc) \<and>
     (\<forall>p \<in> set (curve tc). 0 \<le> in_value p \<and> in_value p \<le> 20000 \<and> 0 \<le> out_value p \<and> out_value p \<le> 20000)"

lemma curve_ok_nth:
  assumes "curve_ok tc" and "i < j" and "j < length (curve tc)"
  shows "in_value (curve tc ! j) < in_value (curve tc ! i)"
    and "out_value (curve tc ! j) \<le> out_value (curve tc ! i)"
  using assms by (auto simp: curve_ok_def sorted_wrt_iff_nth_less)

lemma curve_ok_range:
  assumes "curve_ok tc" and "i < length (curve tc)"
  shows "0 \<le> in_value (curve tc ! i)" "in_value (curve tc ! i) \<le> 20000"
    "0 \<le> out_value (curve tc ! i)" "out_value (curve tc ! i) \<le> 20000"
  using assms by (auto simp: curve_ok_def)

text \<open>Where the search stops: the first point from \<open>i\<close> on that is not above the value, or the last
  point.\<close>

lemma transform_search_spec:
  assumes "i + n = length (curve tc)" and "0 < n"
  shows "\<exists>j. transform_search v tc n i = Some j \<and> i \<le> j \<and> j < length (curve tc) \<and>
    (j + 1 = length (curve tc) \<or> in_value (curve tc ! j) \<le> v) \<and>
    (\<forall>k. i \<le> k \<and> k < j \<longrightarrow> v < in_value (curve tc ! k))"
  using assms
proof (induction n arbitrary: i)
  case 0
  then show ?case by simp
next
  case (Suc n)
  show ?case
  proof (cases "n > 0 \<and> v < in_value (curve tc ! i)")
    case True
    with Suc.IH [of "Suc i"] Suc.prems obtain j where
      "transform_search v tc n (Suc i) = Some j" "Suc i \<le> j" "j < length (curve tc)"
      "j + 1 = length (curve tc) \<or> in_value (curve tc ! j) \<le> v"
      "\<forall>k. Suc i \<le> k \<and> k < j \<longrightarrow> v < in_value (curve tc ! k)"
      by auto
    moreover from this(5) True have "\<forall>k. i \<le> k \<and> k < j \<longrightarrow> v < in_value (curve tc ! k)"
      by (metis Suc_leI le_neq_implies_less)
    ultimately show ?thesis
      using True Suc.prems by (intro exI [of _ j]) (simp add: curve_at_def)
  next
    case False
    with Suc.prems show ?thesis by (auto simp: curve_at_def)
  qed
qed

lemma div_segment:
  fixes d e w :: int
  assumes "0 \<le> d" "0 \<le> e" "e \<le> w" "0 < w"
  shows "0 \<le> d * e div w" and "d * e div w \<le> d"
proof -
  show "0 \<le> d * e div w" using assms by (simp add: pos_imp_zdiv_nonneg_iff)
  have "d * e div w \<le> d * w div w" using assms by (intro zdiv_mono1 mult_left_mono) auto
  with assms show "d * e div w \<le> d" by simp
qed

lemma transform_interpolate_spec:
  assumes "in_value pb < v" "v < in_value pa" "out_value pb \<le> out_value pa"
    and "0 \<le> in_value pb" "in_value pa \<le> 20000" "0 \<le> out_value pb" "out_value pa \<le> 20000"
  shows "transform_interpolate v pa pb =
     Some (out_value pb + (out_value pa - out_value pb) * (v - in_value pb) div (in_value pa - in_value pb))"
proof -
  let ?d = "out_value pa - out_value pb" and ?e = "v - in_value pb"
    and ?w = "in_value pa - in_value pb"
  define m where "m = ?d * ?e"
  have "0 \<le> m" "m \<le> 20000 * 20000"
    using assms mult_mono [of ?d 20000 ?e 20000] by (simp_all add: m_def)
  moreover have "0 \<le> m div ?w" "m div ?w \<le> ?d"
    unfolding m_def using assms by (auto intro!: div_segment)
  ultimately show ?thesis
    unfolding transform_interpolate_def m_def [symmetric]
    using assms by (simp add: m_def [symmetric] in_i32_def c_div_nonneg)
qed

definition segment_value :: "transform_curve_t \<Rightarrow> nat \<Rightarrow> int \<Rightarrow> int" where
  "segment_value tc j v = out_value (curve tc ! Suc j) +
     (out_value (curve tc ! j) - out_value (curve tc ! Suc j)) * (v - in_value (curve tc ! Suc j))
       div (in_value (curve tc ! j) - in_value (curve tc ! Suc j))"

text \<open>The value of a well-formed curve at \<open>v\<close>, by the segment that holds \<open>v\<close>.\<close>

lemma transform_curve_cases:
  assumes ok: "curve_ok tc"
  obtains (above) "in_value (curve tc ! 0) \<le> v" "transform_curve v tc = Some (out_value (curve tc ! 0))"
  | (below) j where "j + 1 = length (curve tc)" "v \<le> in_value (curve tc ! j)"
      "transform_curve v tc = Some (out_value (curve tc ! j))"
  | (between) j where "Suc j < length (curve tc)"
      "in_value (curve tc ! Suc j) \<le> v" "v < in_value (curve tc ! j)"
      "transform_curve v tc = Some (segment_value tc j v)"
proof (cases "in_value (curve tc ! 0) \<le> v")
  case True
  with ok show ?thesis by (intro above) (auto simp: transform_curve_def curve_at_def curve_ok_def)
next
  case v0: False
  have len: "2 \<le> length (curve tc)" "points tc = length (curve tc)" using ok by (auto simp: curve_ok_def)
  then obtain j where j: "transform_search v tc (points tc - 1) 1 = Some j" "1 \<le> j" "j < length (curve tc)"
      "j + 1 = length (curve tc) \<or> in_value (curve tc ! j) \<le> v"
      "\<forall>k. 1 \<le> k \<and> k < j \<longrightarrow> v < in_value (curve tc ! k)"
    using transform_search_spec [of 1 "points tc - 1" tc v] by (metis Suc_1 Suc_le_eq le_add_diff_inverse less_imp_le zero_less_diff)
  then obtain i where i: "j = Suc i" by (cases j) auto
  have vi: "v < in_value (curve tc ! i)"
    using v0 j(5) i by (cases "i = 0") auto
  have tc: "transform_curve v tc = (if v \<le> in_value (curve tc ! j) then Some (out_value (curve tc ! j))
      else transform_interpolate v (curve tc ! i) (curve tc ! j))"
    using v0 len j i by (auto simp: transform_curve_def curve_at_def)
  show ?thesis
  proof (cases "v \<le> in_value (curve tc ! j)")
    case True
    show ?thesis
    proof (cases "j + 1 = length (curve tc)")
      case True
      with \<open>v \<le> in_value (curve tc ! j)\<close> tc show ?thesis by (intro below [of j]) auto
    next
      case False
      with True j(4) have "v = in_value (curve tc ! j)" by auto
      with tc vi i j(3) show ?thesis by (intro between [of i]) (auto simp: segment_value_def)
    qed
  next
    case False
    have "out_value (curve tc ! j) \<le> out_value (curve tc ! i)"
      using curve_ok_nth [OF ok, of i j] i j(3) by simp
    with False vi tc i j(3) show ?thesis
      using transform_interpolate_spec [of "curve tc ! j" v "curve tc ! i"]
        curve_ok_range [OF ok, of i] curve_ok_range [OF ok, of j]
      by (intro between [of i]) (auto simp: segment_value_def)
  qed
qed

lemma segment_value_bounds:
  assumes "curve_ok tc" "Suc j < length (curve tc)" "in_value (curve tc ! Suc j) \<le> v"
    "v < in_value (curve tc ! j)"
  shows "out_value (curve tc ! Suc j) \<le> segment_value tc j v"
    and "segment_value tc j v \<le> out_value (curve tc ! j)"
proof -
  let ?d = "out_value (curve tc ! j) - out_value (curve tc ! Suc j)"
  have "0 \<le> ?d" using curve_ok_nth(2) [OF assms(1), of j "Suc j"] assms(2) by simp
  with div_segment [of ?d "v - in_value (curve tc ! Suc j)"
      "in_value (curve tc ! j) - in_value (curve tc ! Suc j)"] assms
  show "out_value (curve tc ! Suc j) \<le> segment_value tc j v"
    and "segment_value tc j v \<le> out_value (curve tc ! j)"
    by (auto simp: segment_value_def)
qed

lemma segment_value_mono:
  assumes "curve_ok tc" "Suc j < length (curve tc)" "in_value (curve tc ! Suc j) \<le> v" "v \<le> v'"
    "v' < in_value (curve tc ! j)"
  shows "segment_value tc j v \<le> segment_value tc j v'"
  using assms curve_ok_nth(2) [OF assms(1), of j "Suc j"]
  by (auto simp: segment_value_def intro!: zdiv_mono1 mult_left_mono)

section \<open>Properties\<close>

lemma transform_curve_total:
  assumes "curve_ok tc"
  shows "\<exists>r. transform_curve v tc = Some r \<and>
     out_value (last (curve tc)) \<le> r \<and> r \<le> out_value (hd (curve tc))"
proof -
  have len: "curve tc \<noteq> []" "2 \<le> length (curve tc)" using assms by (auto simp: curve_ok_def)
  have mono: "out_value (curve tc ! j) \<le> out_value (curve tc ! i)" if "i \<le> j" "j < length (curve tc)" for i j
    using curve_ok_nth(2) [OF assms, of i j] that by (cases "i = j") auto
  from assms show ?thesis
  proof (cases rule: transform_curve_cases [of tc v])
    case above
    with len mono [of 0 "length (curve tc) - 1"] show ?thesis by (simp add: hd_conv_nth last_conv_nth)
  next
    case (below j)
    with len mono [of 0 j] mono [of j "length (curve tc) - 1"] show ?thesis
      by (simp add: hd_conv_nth last_conv_nth)
  next
    case (between j)
    then have "Suc j \<le> length (curve tc) - 1" by simp
    with between len mono [of 0 j] mono [of "Suc j" "length (curve tc) - 1"]
      segment_value_bounds [OF assms between(1-3)]
    show ?thesis by (auto simp: hd_conv_nth last_conv_nth)
  qed
qed

lemma transform_curve_segment:
  assumes ok: "curve_ok tc" and j: "Suc j < length (curve tc)"
    and v: "in_value (curve tc ! Suc j) < v" "v < in_value (curve tc ! j)"
  shows "transform_curve v tc = Some (segment_value tc j v)"
  using ok
proof (cases rule: transform_curve_cases [of tc v])
  case above
  with v curve_ok_nth(1) [OF ok, of 0 j] j show ?thesis by (cases "j = 0") auto
next
  case (below i)
  with v curve_ok_nth(1) [OF ok, of "Suc j" i] j show ?thesis by (cases "i = Suc j") auto
next
  case (between i)
  have "\<not> i < j"
    using v between j curve_ok_nth(1) [OF ok, of "Suc i" j] by (cases "Suc i = j") auto
  moreover have "\<not> j < i"
    using v between j curve_ok_nth(1) [OF ok, of "Suc j" i] by (cases "Suc j = i") auto
  ultimately have "i = j" by simp
  with between show ?thesis by simp
qed

text \<open>On a well-formed curve the transformation is total for every input (no overflow, no read past
  the curve), and its result lies between the outputs of the curve's last and first point.\<close>

lemma transform_curve_bounds:
  assumes "curve_ok tc"
  shows "\<exists>r. transform_curve v tc = Some r \<and>
     out_value (last (curve tc)) \<le> r \<and> r \<le> out_value (hd (curve tc))"
  using assms by (rule transform_curve_total)

lemma transform_curve_le_point:
  assumes ok: "curve_ok tc" and k: "k < length (curve tc)" and v: "v \<le> in_value (curve tc ! k)"
    and r: "transform_curve v tc = Some r"
  shows "r \<le> out_value (curve tc ! k)"
  using ok
proof (cases rule: transform_curve_cases [of tc v])
  case above
  with v k curve_ok_nth(1) [OF ok, of 0 k] r show ?thesis by (cases "k = 0") auto
next
  case (below j)
  with r k curve_ok_nth(2) [OF ok, of k j] show ?thesis by (cases "k = j") auto
next
  case (between j)
  show ?thesis
  proof (cases "k \<le> j")
    case True
    then have "out_value (curve tc ! j) \<le> out_value (curve tc ! k)"
      using curve_ok_nth(2) [OF ok, of k j] between by (cases "k = j") auto
    with segment_value_bounds [OF ok between(1-3)] between r show ?thesis by simp
  next
    case False
    then have "k = Suc j" using curve_ok_nth(1) [OF ok, of "Suc j" k] k v between
      by (cases "k = Suc j") auto
    with between v r show ?thesis by (simp add: segment_value_def)
  qed
qed

text \<open>The transformation is monotone: a higher input never gives a lower output.\<close>

lemma transform_curve_mono:
  assumes "curve_ok tc" and "v \<le> v'"
  shows "\<exists>r r'. transform_curve v tc = Some r \<and> transform_curve v' tc = Some r' \<and> r \<le> r'"
proof -
  obtain r where r: "transform_curve v tc = Some r" "r \<le> out_value (hd (curve tc))"
    using transform_curve_total [OF assms(1)] by blast
  note le = transform_curve_le_point [OF assms(1) _ _ r(1)]
  have ne: "curve tc \<noteq> []" using assms(1) by (auto simp: curve_ok_def)
  from assms(1) show ?thesis
  proof (cases rule: transform_curve_cases [of tc v'])
    case above
    with r ne show ?thesis by (simp add: hd_conv_nth)
  next
    case (below j)
    with r le [of j] assms(2) show ?thesis by simp
  next
    case (between j)
    note b = segment_value_bounds [OF assms(1) between(1-3)]
    show ?thesis
    proof (cases "v \<le> in_value (curve tc ! Suc j)")
      case True
      with le [of "Suc j"] between b r show ?thesis by auto
    next
      case False
      then have "transform_curve v tc = Some (segment_value tc j v)"
        using transform_curve_segment [OF assms(1) between(1)] assms(2) between(3) by simp
      with segment_value_mono [OF assms(1) between(1), of v v'] False assms(2) between show ?thesis by simp
    qed
  qed
qed

end
