(* ===== verification/Battery.thy ===== *)
theory Battery
  imports Transform
begin

text \<open>
  The battery model of \<open>src/src/power_manager.c\<close>: the discharge curves compiled in, the choice of
  the profile, the level computed from a voltage, and the state machine that forecasts the days
  left. \<open>uint16_t\<close> levels are only copied, compared and subtracted after promotion to \<open>int\<close>, so
  they are \<open>int\<close> here; the change counter, which is incremented, keeps its width. The linear
  regression works on floating point numbers and is not modelled beyond its reset.
\<close>

section \<open>Profiles\<close>

record battery_profile =
  profile_name :: "string option"
  profile_curve :: transform_curve_t

definition mk_curve :: "(int \<times> int) list \<Rightarrow> transform_curve_t" where
  "mk_curve ps = \<lparr>points = length ps, curve = map (\<lambda>(i, out). \<lparr>in_value = i, out_value = out\<rparr>) ps\<rparr>"

definition curve_lipo_1350 :: transform_curve_t where
  "curve_lipo_1350 = mk_curve [(4200, 10000), (3950, 8332), (3812, 5313), (3689, 1592), (3626, 1146),
     (3540, 700), (3300, 0)]"

definition curve_lipo_2000 :: transform_curve_t where
  "curve_lipo_2000 = mk_curve [(4150, 10000), (3762, 6188), (3688, 5246), (3633, 3688), (3554, 1844),
     (3474, 656), (3466, 491), (3431, 246), (3300, 0)]"

definition curve_lipo_2000_adc :: transform_curve_t where
  "curve_lipo_2000_adc = mk_curve [(4180, 10000), (4136, 9900), (4068, 9500), (4022, 9000), (4000, 7700),
     (3800, 4500), (3420, 500), (3350, 0)]"

definition curve_nimh_2000 :: transform_curve_t where
  "curve_nimh_2000 = mk_curve [(4300, 10000), (4029, 9144), (3939, 8558), (3903, 8063), (3877, 6982),
     (3802, 4820), (3445, 765), (3398, 315), (3300, 0)]"

definition curve_nimh_2000_adc :: transform_curve_t where
  "curve_nimh_2000_adc = mk_curve [(4350, 10000), (4024, 9265), (3886, 7746), (3784, 3380), (3696, 1830),
     (3540, 845), (3430, 422), (3300, 0)]"

definition curve_nimh_4_2000 :: transform_curve_t where
  "curve_nimh_4_2000 = mk_curve [(5800, 10000), (5365, 9265), (5181, 7746), (5045, 3380), (4928, 1830),
     (4720, 845), (4573, 422), (4400, 0)]"

definition curve_supcap_lihy :: transform_curve_t where
  "curve_supcap_lihy = mk_curve [(3950, 10000), (3550, 1682), (3472, 412), (3415, 0)]"

definition curve_no_bat :: transform_curve_t where
  "curve_no_bat = mk_curve [(0, -1)]"

text \<open>The \<open>CONFIG_BATTERY_TYPE_...\<close> switches of the build.\<close>

record battery_config =
  cfg_lipo_1350_mah :: bool
  cfg_lipo_2000_mah :: bool
  cfg_lipo_2000_mah_adc :: bool
  cfg_nimh_2000_mah :: bool
  cfg_nimh_2000_mah_adc :: bool
  cfg_nimh_4_2000_mah :: bool
  cfg_super_cap_lihy :: bool

definition profile_no_bat :: battery_profile where
  "profile_no_bat = \<lparr>profile_name = None, profile_curve = curve_no_bat\<rparr>"

definition battery_profiles :: "battery_config \<Rightarrow> battery_profile option list" where
  "battery_profiles cfg =
     [Some profile_no_bat,
      if cfg_lipo_1350_mah cfg then Some \<lparr>profile_name = None, profile_curve = curve_lipo_1350\<rparr> else None,
      if cfg_lipo_2000_mah cfg then Some \<lparr>profile_name = Some ''LiPo'', profile_curve = curve_lipo_2000\<rparr>
      else if cfg_lipo_2000_mah_adc cfg
      then Some \<lparr>profile_name = Some ''LiPo'', profile_curve = curve_lipo_2000_adc\<rparr> else None,
      if cfg_nimh_2000_mah cfg then Some \<lparr>profile_name = Some ''NiMH'', profile_curve = curve_nimh_2000\<rparr>
      else if cfg_nimh_2000_mah_adc cfg
      then Some \<lparr>profile_name = Some ''NiMH'', profile_curve = curve_nimh_2000_adc\<rparr> else None,
      if cfg_nimh_4_2000_mah cfg
      then Some \<lparr>profile_name = Some ''NiMH/4'', profile_curve = curve_nimh_4_2000\<rparr> else None,
      if cfg_super_cap_lihy cfg
      then Some \<lparr>profile_name = Some ''LiHy'', profile_curve = curve_supcap_lihy\<rparr> else None]"

text \<open>\<open>profile\<close> is the setting \<open>appl_settings_get_battery_profile()\<close> returns.\<close>

definition pm_get_battery_profile :: "battery_config \<Rightarrow> int \<Rightarrow> battery_profile" where
  "pm_get_battery_profile cfg profile =
     (let ps = battery_profiles cfg;
          profile = (if profile < 0 \<or> int (length ps) \<le> profile \<or> ps ! nat profile = None then 0 else profile)
      in the (ps ! nat profile))"

abbreviation (input) PM_INVALID_INTERNAL_LEVEL :: int where "PM_INVALID_INTERNAL_LEVEL \<equiv> 0xffff"
abbreviation (input) PM_RESET_INTERNAL_LEVEL :: int where "PM_RESET_INTERNAL_LEVEL \<equiv> 0xfffe"
abbreviation (input) PM_INVALID_LEVEL :: int where "PM_INVALID_LEVEL \<equiv> 0xff"

text \<open>The level of \<open>power_manager_status\<close>: the curve's value stored into a \<open>uint16_t\<close>.\<close>

definition internal_level :: "battery_config \<Rightarrow> int \<Rightarrow> u16 \<Rightarrow> int option" where
  "internal_level cfg profile voltage =
     map_option (\<lambda>r. uint (word_of_int r :: u16))
       (transform_curve (uint voltage) (profile_curve (pm_get_battery_profile cfg profile)))"

definition level_percent :: "int \<Rightarrow> int" where
  "level_percent lvl = (if lvl < 25500 then lvl div 100 else PM_INVALID_LEVEL)"

section \<open>Forecast\<close>

datatype power_manager_status =
  POWER_UNKNOWN | FROM_BATTERY | CHARGING_TRICKLE | CHARGING_I | CHARGING_V | CHARGING_S
| CHARGING_COMPLETED | FROM_EXTERNAL

record forecast_state =
  calc_lr_count :: u16
  current_battery_changes :: u16
  forecast_first_day :: bool
  first_battery_level :: int
  first_battery_level_uptime :: int
  last_battery_level :: int
  last_battery_level_uptime :: int
  lowest_battery_level :: int
  lowest_battery_level_uptime :: int
  battery_reset_threshold :: int
  last_battery_left_time :: int

definition forecast_init :: "int \<Rightarrow> forecast_state" where
  "forecast_init threshold = \<lparr>calc_lr_count = 0, current_battery_changes = 0, forecast_first_day = False,
     first_battery_level = PM_INVALID_INTERNAL_LEVEL, first_battery_level_uptime = 0,
     last_battery_level = PM_INVALID_INTERNAL_LEVEL, last_battery_level_uptime = 0,
     lowest_battery_level = PM_INVALID_INTERNAL_LEVEL, lowest_battery_level_uptime = 0,
     battery_reset_threshold = threshold, last_battery_left_time = 0\<rparr>"

abbreviation (input) MSEC_PER_HOUR :: int where "MSEC_PER_HOUR \<equiv> 3600000"
abbreviation (input) MSEC_PER_DAY :: int where "MSEC_PER_DAY \<equiv> 86400000"
abbreviation (input) MSEC_PER_WEEK :: int where "MSEC_PER_WEEK \<equiv> 604800000"
abbreviation (input) MINIMUM_BATTERY_LEVEL_DELTA :: int where "MINIMUM_BATTERY_LEVEL_DELTA \<equiv> 20"

definition ROUND_DAYS :: "int \<Rightarrow> int" where
  "ROUND_DAYS m = sint (word_of_int (c_div (m + MSEC_PER_DAY div 2) MSEC_PER_DAY) :: 16 word)"

definition reset_linear_regresion :: "forecast_state \<Rightarrow> forecast_state" where
  "reset_linear_regresion s = s\<lparr>calc_lr_count := 0\<rparr>"

definition calculate_left_time :: "int \<Rightarrow> int \<Rightarrow> int \<Rightarrow> int \<Rightarrow> int \<Rightarrow> int \<times> int" where
  "calculate_left_time now level past level_past time =
     (let diff = level_past - level
      in if diff = 0 then (-1, time)
         else (0, time + c_div ((now - past) * level) diff))"

text \<open>The two resets of \<open>calculate_forecast\<close>: an unnoticed (solar) charging, and any other state in
  which no forecast is possible.\<close>

definition forecast_reset_solar :: "int \<Rightarrow> int \<Rightarrow> forecast_state \<Rightarrow> forecast_state" where
  "forecast_reset_solar now level s = reset_linear_regresion (s\<lparr>last_battery_level_uptime := now + MSEC_PER_HOUR,
     last_battery_level := level, lowest_battery_level_uptime := now, lowest_battery_level := level,
     current_battery_changes := 1\<rparr>)"

definition forecast_reset :: "int \<Rightarrow> int \<Rightarrow> forecast_state \<Rightarrow> forecast_state" where
  "forecast_reset now level s = reset_linear_regresion (s\<lparr>last_battery_level_uptime := now + MSEC_PER_HOUR,
     last_battery_level := level, lowest_battery_level_uptime := now, lowest_battery_level := level,
     forecast_first_day := False, current_battery_changes := 0\<rparr>)"

text \<open>Lines 561 to 583: a new lowest level, the start of a forecast, the adjustment after a day.\<close>

definition forecast_track :: "int \<Rightarrow> int \<Rightarrow> forecast_state \<Rightarrow> forecast_state" where
  "forecast_track now level s =
     (let s = (if lowest_battery_level s > level
               then (let s = s\<lparr>lowest_battery_level := level, lowest_battery_level_uptime := now\<rparr>
                     in if current_battery_changes s < 2
                        then s\<lparr>first_battery_level := level, first_battery_level_uptime := now,
                               last_battery_level := level, last_battery_level_uptime := now,
                               current_battery_changes := 2\<rparr>
                        else s)
               else s)
      in if 1 < current_battery_changes s
         then (if \<not> forecast_first_day s \<and> MSEC_PER_DAY < now - first_battery_level_uptime s
               then s\<lparr>forecast_first_day := True,
                      first_battery_level := lowest_battery_level s,
                      first_battery_level_uptime := lowest_battery_level_uptime s,
                      last_battery_level := lowest_battery_level s,
                      last_battery_level_uptime := lowest_battery_level_uptime s\<rparr>
               else s)
         else s)"

text \<open>Lines 586 to 598, and the calculation of lines 601 to 612. \<open>delta\<close> and \<open>passed\<close> are the values
  computed on entry.\<close>

definition refresh_calculation :: "int \<Rightarrow> int \<Rightarrow> forecast_state \<Rightarrow> bool" where
  "refresh_calculation delta passed s =
     (if current_battery_changes s = 2
      then MINIMUM_BATTERY_LEVEL_DELTA \<le> delta \<or> MSEC_PER_DAY < passed
      else (MINIMUM_BATTERY_LEVEL_DELTA \<le> delta \<and> MSEC_PER_DAY < passed) \<or> MSEC_PER_WEEK < passed)"

definition forecast_refresh :: "forecast_state \<Rightarrow> forecast_state" where
  "forecast_refresh s =
     (let s = s\<lparr>current_battery_changes := (current_battery_changes s + 1) mod 2 ^ 16\<rparr>;
          low_t = lowest_battery_level_uptime s; low = lowest_battery_level s;
          left = (if first_battery_level_uptime s = last_battery_level_uptime s
                  then snd (calculate_left_time low_t low (last_battery_level_uptime s) (last_battery_level s) 0)
                  else (let t = snd (calculate_left_time low_t low (first_battery_level_uptime s)
                                       (first_battery_level s) 0);
                            t = snd (calculate_left_time low_t low (last_battery_level_uptime s)
                                       (last_battery_level s) (t * 2))
                        in c_div t 3))
      in s\<lparr>last_battery_left_time := left, last_battery_level := low, last_battery_level_uptime := low_t\<rparr>)"

definition calculate_forecast ::
  "int \<Rightarrow> int \<Rightarrow> power_manager_status option \<Rightarrow> forecast_state
   \<Rightarrow> int \<times> power_manager_status option \<times> forecast_state" where
  "calculate_forecast now level status s =
     (let passed = now - last_battery_level_uptime s;
          delta = last_battery_level s - level
      in if level = PM_INVALID_INTERNAL_LEVEL \<or> level = PM_RESET_INTERNAL_LEVEL \<or> status = None \<or>
            (status \<noteq> Some FROM_BATTERY \<and> status \<noteq> Some POWER_UNKNOWN)
         then (-1, status, forecast_reset now level s)
         else if current_battery_changes s \<noteq> 0 \<and> battery_reset_threshold s \<noteq> 0 \<and>
                 delta < - battery_reset_threshold s
         then (-1, Some CHARGING_S, forecast_reset_solar now level s)
         else if 0 > passed then (-1, status, s)
         else (let s = forecast_track now level s;
                   refresh = (1 < current_battery_changes s \<and>
                     last_battery_level_uptime s \<noteq> lowest_battery_level_uptime s \<and>
                     refresh_calculation delta passed s);
                   s = (if refresh then forecast_refresh s else s);
                   passed = (if refresh then now - last_battery_level_uptime s else passed)
               in if 2 < current_battery_changes s
                  then (ROUND_DAYS (last_battery_left_time s - passed), status, s)
                  else (-1, status, s)))"

fun forecast_run :: "forecast_state \<Rightarrow> (int \<times> int \<times> power_manager_status option) list \<Rightarrow> forecast_state" where
  "forecast_run s [] = s"
| "forecast_run s ((now, level, status) # xs) =
     forecast_run (snd (snd (calculate_forecast now level status s))) xs"

section \<open>Lemmas\<close>

lemmas curve_defs = curve_lipo_1350_def curve_lipo_2000_def curve_lipo_2000_adc_def curve_nimh_2000_def
  curve_nimh_2000_adc_def curve_nimh_4_2000_def curve_supcap_lihy_def mk_curve_def

lemma curves_ok:
  "curve_ok curve_lipo_1350" "curve_ok curve_lipo_2000" "curve_ok curve_lipo_2000_adc"
  "curve_ok curve_nimh_2000" "curve_ok curve_nimh_2000_adc" "curve_ok curve_nimh_4_2000"
  "curve_ok curve_supcap_lihy"
  by (simp_all add: curve_ok_def curve_defs)

lemma curves_ends:
  "c \<in> {curve_lipo_1350, curve_lipo_2000, curve_lipo_2000_adc, curve_nimh_2000, curve_nimh_2000_adc,
     curve_nimh_4_2000, curve_supcap_lihy} \<Longrightarrow>
   curve_ok c \<and> out_value (hd (curve c)) = 10000 \<and> out_value (last (curve c)) = 0"
  using curves_ok by (auto simp: curve_defs)

lemma battery_profiles_all:
  "\<forall>p \<in> set (battery_profiles cfg). p = None \<or> p = Some profile_no_bat \<or> profile_curve (the p) \<in>
     {curve_lipo_1350, curve_lipo_2000, curve_lipo_2000_adc, curve_nimh_2000, curve_nimh_2000_adc,
      curve_nimh_4_2000, curve_supcap_lihy}"
  by (simp add: battery_profiles_def)

lemma battery_profile_cases:
  "pm_get_battery_profile cfg profile = profile_no_bat \<or>
   profile_curve (pm_get_battery_profile cfg profile) \<in>
     {curve_lipo_1350, curve_lipo_2000, curve_lipo_2000_adc, curve_nimh_2000, curve_nimh_2000_adc,
      curve_nimh_4_2000, curve_supcap_lihy}"
proof (cases "profile < 0 \<or> int (length (battery_profiles cfg)) \<le> profile \<or>
    battery_profiles cfg ! nat profile = None")
  case True
  then have "pm_get_battery_profile cfg profile = the (battery_profiles cfg ! 0)"
    by (simp only: pm_get_battery_profile_def Let_def if_True nat_0 simp_thms)
  then show ?thesis by (simp add: battery_profiles_def)
next
  case False
  then have "pm_get_battery_profile cfg profile = the (battery_profiles cfg ! nat profile)"
    by (simp only: pm_get_battery_profile_def Let_def if_False)
  moreover have "battery_profiles cfg ! nat profile \<in> set (battery_profiles cfg)"
    using False by (intro nth_mem) linarith
  ultimately show ?thesis
    using False battery_profiles_all [of cfg] by (metis option.sel)
qed

text \<open>What the tracked levels keep once a forecast runs.\<close>

definition forecast_inv :: "forecast_state \<Rightarrow> bool" where
  "forecast_inv s \<longleftrightarrow> (1 < current_battery_changes s \<longrightarrow>
     lowest_battery_level s \<le> last_battery_level s \<and> last_battery_level s \<le> first_battery_level s \<and>
     (last_battery_level_uptime s \<noteq> lowest_battery_level_uptime s \<longrightarrow>
        lowest_battery_level s < last_battery_level s))"

lemma forecast_inv_init: "forecast_inv (forecast_init t)"
  by (simp add: forecast_inv_def forecast_init_def)

lemma forecast_inv_reset:
  "forecast_inv (forecast_reset now level s)" "forecast_inv (forecast_reset_solar now level s)"
  by (simp_all add: forecast_inv_def forecast_reset_def forecast_reset_solar_def reset_linear_regresion_def)

lemma forecast_inv_track: "forecast_inv s \<Longrightarrow> forecast_inv (forecast_track now level s)"
  by (auto simp: forecast_inv_def forecast_track_def Let_def not_less)

lemma forecast_inv_refresh:
  "forecast_inv s \<Longrightarrow> 1 < current_battery_changes s \<Longrightarrow> forecast_inv (forecast_refresh s)"
  by (auto simp: forecast_inv_def forecast_refresh_def Let_def)

lemma forecast_inv_calculate:
  "forecast_inv s \<Longrightarrow> forecast_inv (snd (snd (calculate_forecast now level status s)))"
  by (auto simp: calculate_forecast_def Let_def forecast_inv_reset forecast_inv_track forecast_inv_refresh)

lemma forecast_inv_run: "forecast_inv s \<Longrightarrow> forecast_inv (forecast_run s xs)"
  by (induction s xs rule: forecast_run.induct) (auto simp: forecast_inv_calculate)

section \<open>Properties\<close>

text \<open>C23. Every battery profile that can be configured gives, for every 16-bit voltage, either the
  invalid level (no battery) or a level between 0 and 100.00 percent, without overflowing the 32-bit
  interpolation.\<close>

theorem internal_level_total:
  "\<exists>l. internal_level cfg profile voltage = Some l \<and> (l = 0xffff \<or> 0 \<le> l \<and> l \<le> 10000) \<and>
     (level_percent l = 255 \<or> 0 \<le> level_percent l \<and> level_percent l \<le> 100)"
proof -
  have 1: "\<exists>r. transform_curve (uint voltage) (profile_curve (pm_get_battery_profile cfg profile)) = Some r \<and>
      (r = -1 \<or> 0 \<le> r \<and> r \<le> 10000)"
  proof (cases "pm_get_battery_profile cfg profile = profile_no_bat")
    case True
    then show ?thesis
      by (simp add: profile_no_bat_def curve_no_bat_def mk_curve_def transform_curve_def curve_at_def)
  next
    case False
    then have "curve_ok (profile_curve (pm_get_battery_profile cfg profile))"
      "out_value (hd (curve (profile_curve (pm_get_battery_profile cfg profile)))) = 10000"
      "out_value (last (curve (profile_curve (pm_get_battery_profile cfg profile)))) = 0"
      using battery_profile_cases [of cfg profile] curves_ends by auto
    with transform_curve_total show ?thesis by metis
  qed
  then obtain r where r: "internal_level cfg profile voltage = Some (uint (word_of_int r :: u16))"
      "r = -1 \<or> 0 \<le> r \<and> r \<le> 10000"
    by (auto simp: internal_level_def)
  have "uint (word_of_int r :: u16) = (if r = -1 then 0xffff else r)"
    using r(2) by (auto simp: uint_word_of_int)
  with r show ?thesis
    by (auto simp: level_percent_def)
qed

text \<open>C22. The battery forecast never divides by zero: in every state the state machine can reach, when
  a new calculation starts the level has dropped both since the last and since the first
  measurement, so both left-time calculations succeed (the code's comment \<open>diff should never be
  0\<close> holds).\<close>

theorem forecast_no_division_by_zero:
  assumes "s = forecast_track now level (forecast_run (forecast_init threshold) xs)"
    and "1 < current_battery_changes s"
    and "last_battery_level_uptime s \<noteq> lowest_battery_level_uptime s"
  shows "fst (calculate_left_time (lowest_battery_level_uptime s) (lowest_battery_level s)
           (last_battery_level_uptime s) (last_battery_level s) t) = 0 \<and>
         fst (calculate_left_time (lowest_battery_level_uptime s) (lowest_battery_level s)
           (first_battery_level_uptime s) (first_battery_level s) t) = 0"
proof -
  have "forecast_inv s"
    unfolding assms(1) by (intro forecast_inv_track forecast_inv_run forecast_inv_init)
  with assms(2,3) have "lowest_battery_level s < last_battery_level s"
    "last_battery_level s \<le> first_battery_level s"
    by (auto simp: forecast_inv_def)
  then show ?thesis
    by (auto simp: calculate_left_time_def Let_def)
qed

text \<open>A run for the witness: charging at 91 percent, then on battery at 90 percent after an hour, then
  89 percent.\<close>

definition forecast_example :: forecast_state where
  "forecast_example = forecast_track 3900000 8900 (forecast_run (forecast_init 0)
     [(0, 9100, Some CHARGING_I), (3700000, 9000, Some FROM_BATTERY)])"

theorem forecast_no_division_by_zero_witness:
  "1 < current_battery_changes forecast_example \<and>
   last_battery_level_uptime forecast_example \<noteq> lowest_battery_level_uptime forecast_example \<and>
   fst (calculate_left_time (lowest_battery_level_uptime forecast_example) (lowest_battery_level forecast_example)
     (last_battery_level_uptime forecast_example) (last_battery_level forecast_example) 0) = 0"
proof -
  have c: "1 < current_battery_changes forecast_example"
    "last_battery_level_uptime forecast_example \<noteq> lowest_battery_level_uptime forecast_example"
    by (simp_all add: forecast_example_def forecast_init_def forecast_track_def calculate_forecast_def
        forecast_reset_def reset_linear_regresion_def Let_def)
  with forecast_no_division_by_zero [OF forecast_example_def c] show ?thesis by simp
qed

end
