(* ===== verification/Appl_Time.thy ===== *)
theory Appl_Time
  imports Prelude
begin

text \<open>
  The wall clock of \<open>src/src/appl_time.c\<close>: the last time received from the server and the uptime at
  which it was received. Times are 64-bit values in milliseconds, signed and unsigned sharing their
  bit pattern; \<open>uptime\<close> is what \<open>k_uptime_get()\<close> returns at the call.
\<close>

record appl_clock =
  appl_time :: u64
  appl_uptime :: u64

definition appl_clock_init :: appl_clock where
  "appl_clock_init = \<lparr>appl_time = 0, appl_uptime = 0\<rparr>"

definition appl_get_now :: "u64 \<Rightarrow> appl_clock \<Rightarrow> u64" where
  "appl_get_now uptime c =
     (let now = appl_time c in if appl_uptime c \<noteq> 0 then now + (uptime - appl_uptime c) else now)"

definition appl_set_now :: "u64 \<Rightarrow> u64 \<Rightarrow> appl_clock \<Rightarrow> appl_clock" where
  "appl_set_now uptime now c = c\<lparr>appl_time := now, appl_uptime := uptime\<rparr>"

lemma appl_get_now_set:
  "u \<noteq> 0 \<Longrightarrow> appl_get_now (u + d) (appl_set_now u now c) = now + d"
  by (simp add: appl_get_now_def appl_set_now_def)

lemma appl_get_now_init [simp]: "appl_get_now u appl_clock_init = 0"
  by (simp add: appl_get_now_def appl_clock_init_def)

text \<open>The clock runs on from the time that was set: \<open>d\<close> milliseconds of uptime after
  \<open>appl_set_now\<close> the clock shows the time set plus \<open>d\<close>, and setting it again forgets the
  earlier setting.\<close>

lemma appl_clock_runs:
  assumes "u \<noteq> 0"
  shows "appl_get_now (u + d) (appl_set_now u now (appl_set_now u' now' c)) = now + d"
  using assms by (simp add: appl_get_now_set)

end
