(* ===== verification/Env_History.thy ===== *)
theory Env_History
  imports Prelude
begin

text \<open>
  The sensor histories of \<open>src/src/environment_history.c\<close>: a fixed array with the newest value
  first, filled at most once per interval unless forced. The values are only copied, so the type
  of a value (\<open>double\<close> or \<open>uint16_t\<close>) is a parameter. \<open>CONFIG_ENVIRONMENT_HISTORY_SIZE\<close> and
  \<open>CONFIG_ENVIRONMENT_HISTORY_INTERVAL_S\<close> are the arguments \<open>sz\<close> and \<open>interval\<close>; \<open>now\<close> is
  \<open>k_uptime_get()\<close>. Every operation runs under one spinlock and is one atomic step.
\<close>

record 'a sensor_history =
  next_time :: int
  hsize :: u8
  history :: "'a list"

section \<open>The double histories\<close>

definition environment_init_double_history :: "nat \<Rightarrow> 'a \<Rightarrow> 'a sensor_history" where
  "environment_init_double_history sz zero = \<lparr>next_time = 0, hsize = 0, history = replicate sz zero\<rparr>"

text \<open>The copying loops: \<open>values[index] = history[index]\<close>, and the shift towards the end.\<close>

function copy_loop :: "nat \<Rightarrow> 'a list \<Rightarrow> nat \<Rightarrow> 'a list \<Rightarrow> 'a list" where
  "copy_loop index h n vs = (if index < n then copy_loop (Suc index) h n (vs @ [h ! index]) else vs)"
  by pat_completeness auto
termination
  by (relation "measure (\<lambda>(index, h, n, vs). n - index)") auto

declare copy_loop.simps [simp del]

fun shift_loop :: "nat \<Rightarrow> 'a list \<Rightarrow> 'a list" where
  "shift_loop 0 h = h"
| "shift_loop (Suc i) h = shift_loop i (h[Suc i := h ! i])"

definition environment_get_double_history :: "u8 \<Rightarrow> 'a sensor_history \<Rightarrow> 'a list" where
  "environment_get_double_history n h =
     (let n = (if hsize h < n then hsize h else n) in copy_loop 0 (history h) (unat n) [])"

definition environment_add_double_history ::
  "nat \<Rightarrow> int \<Rightarrow> int \<Rightarrow> 'a \<Rightarrow> bool \<Rightarrow> 'a sensor_history \<Rightarrow> 'a sensor_history" where
  "environment_add_double_history sz interval now v force h =
     (if force \<or> now - next_time h \<ge> 0
      then (let n = (if unat (hsize h) < sz then hsize h + 1 else hsize h)
            in h\<lparr>hsize := n, history := (shift_loop (unat (n - 1)) (history h))[0 := v],
                 next_time := now + interval * MSEC_PER_SEC\<rparr>)
      else h)"

section \<open>The uint16 history\<close>

definition environment_init_uint16_history :: "nat \<Rightarrow> u16 sensor_history" where
  "environment_init_uint16_history sz = \<lparr>next_time = 0, hsize = 0, history = replicate sz 0\<rparr>"

definition environment_get_uint16_history :: "u8 \<Rightarrow> u16 sensor_history \<Rightarrow> u16 list" where
  "environment_get_uint16_history n h =
     (let n = (if hsize h < n then hsize h else n) in copy_loop 0 (history h) (unat n) [])"

definition environment_add_uint16_history ::
  "nat \<Rightarrow> int \<Rightarrow> int \<Rightarrow> u16 \<Rightarrow> bool \<Rightarrow> u16 sensor_history \<Rightarrow> u16 sensor_history" where
  "environment_add_uint16_history sz interval now v force h =
     (if force \<or> now - next_time h \<ge> 0
      then (let n = (if unat (hsize h) < sz then hsize h + 1 else hsize h)
            in h\<lparr>hsize := n, history := (shift_loop (unat (n - 1)) (history h))[0 := v],
                 next_time := now + interval * MSEC_PER_SEC\<rparr>)
      else h)"

section \<open>All histories and the worker\<close>

record 'a env_histories =
  s_temperature_history :: "'a sensor_history"
  s_humidity_history :: "'a sensor_history"
  s_pressure_history :: "'a sensor_history"
  s_iaq_history :: "u16 sensor_history"

definition environment_add_temperature_history ::
  "nat \<Rightarrow> int \<Rightarrow> int \<Rightarrow> 'a \<Rightarrow> bool \<Rightarrow> 'a env_histories \<Rightarrow> 'a env_histories" where
  "environment_add_temperature_history sz interval now v force e =
     e\<lparr>s_temperature_history := environment_add_double_history sz interval now v force (s_temperature_history e)\<rparr>"

definition environment_add_humidity_history ::
  "nat \<Rightarrow> int \<Rightarrow> int \<Rightarrow> 'a \<Rightarrow> bool \<Rightarrow> 'a env_histories \<Rightarrow> 'a env_histories" where
  "environment_add_humidity_history sz interval now v force e =
     e\<lparr>s_humidity_history := environment_add_double_history sz interval now v force (s_humidity_history e)\<rparr>"

definition environment_add_pressure_history ::
  "nat \<Rightarrow> int \<Rightarrow> int \<Rightarrow> 'a \<Rightarrow> bool \<Rightarrow> 'a env_histories \<Rightarrow> 'a env_histories" where
  "environment_add_pressure_history sz interval now v force e =
     e\<lparr>s_pressure_history := environment_add_double_history sz interval now v force (s_pressure_history e)\<rparr>"

definition environment_add_iaq_history ::
  "bool \<Rightarrow> nat \<Rightarrow> int \<Rightarrow> int \<Rightarrow> u16 \<Rightarrow> bool \<Rightarrow> 'a env_histories \<Rightarrow> 'a env_histories" where
  "environment_add_iaq_history bsec sz interval now v force e =
     (if bsec then e\<lparr>s_iaq_history := environment_add_uint16_history sz interval now v force (s_iaq_history e)\<rparr>
      else e)"

definition environment_init_history :: "bool \<Rightarrow> nat \<Rightarrow> 'a \<Rightarrow> 'a env_histories \<Rightarrow> 'a env_histories" where
  "environment_init_history bsec sz zero e =
     (let e = e\<lparr>s_temperature_history := environment_init_double_history sz zero,
                s_humidity_history := environment_init_double_history sz zero,
                s_pressure_history := environment_init_double_history sz zero\<rparr>
      in if bsec then e\<lparr>s_iaq_history := environment_init_uint16_history sz\<rparr> else e)"

text \<open>The periodic worker: each sensor's reading is \<open>Some\<close> when its getter returned 0.\<close>

definition environment_history_work_fn ::
  "nat \<Rightarrow> int \<Rightarrow> int \<Rightarrow> 'a option \<Rightarrow> 'a option \<Rightarrow> 'a option \<Rightarrow> 'a env_histories \<Rightarrow> 'a env_histories" where
  "environment_history_work_fn sz interval now temp hum press e =
     (let e = (case temp of Some v \<Rightarrow> environment_add_temperature_history sz interval now v True e | None \<Rightarrow> e);
          e = (case hum of Some v \<Rightarrow> environment_add_humidity_history sz interval now v True e | None \<Rightarrow> e);
          e = (case press of Some v \<Rightarrow> environment_add_pressure_history sz interval now v True e | None \<Rightarrow> e)
      in e)"

section \<open>The contract of a history\<close>

text \<open>What the users of a history rely on: it shows the newest accepted values, newest first.\<close>

locale history_ops =
  fixes sz :: nat
    and h_init :: "'h"
    and h_get :: "u8 \<Rightarrow> 'h \<Rightarrow> 'a list"
    and h_add :: "int \<Rightarrow> 'a \<Rightarrow> bool \<Rightarrow> 'h \<Rightarrow> 'h"
    and h_due :: "int \<Rightarrow> 'h \<Rightarrow> bool"
    and h_list :: "'h \<Rightarrow> 'a list"
    and h_inv :: "'h \<Rightarrow> bool"
  assumes inv_init: "h_inv h_init"
    and list_init: "h_list h_init = []"
    and inv_add: "h_inv h \<Longrightarrow> h_inv (h_add now v force h)"
    and list_add: "h_inv h \<Longrightarrow>
      h_list (h_add now v force h) = (if force \<or> h_due now h then take sz (v # h_list h) else h_list h)"
    and get_list: "h_inv h \<Longrightarrow> h_get n h = take (unat n) (h_list h)"
begin

lemma inv_fold: "h_inv h \<Longrightarrow> h_inv (fold (\<lambda>(now, v). h_add now v True) xs h)"
  by (induction xs arbitrary: h) (auto simp: inv_add)

lemma list_fold: "h_inv h \<Longrightarrow> length (h_list h) \<le> sz \<Longrightarrow>
  h_list (fold (\<lambda>(now, v). h_add now v True) xs h) = take sz (rev (map snd xs) @ h_list h)"
proof (induction xs arbitrary: h)
  case Nil
  then show ?case by simp
next
  case (Cons x xs)
  then show ?case
    by (cases x) (simp add: inv_add list_add take_append min_def)
qed

lemma get_fold:
  "h_get n (fold (\<lambda>(now, v). h_add now v True) xs h_init) = take (min (unat n) sz) (rev (map snd xs))"
  by (simp add: get_list inv_fold inv_init list_fold list_init)

lemma add_not_due: "h_inv h \<Longrightarrow> \<not> h_due now h \<Longrightarrow> h_get n (h_add now v False h) = h_get n h"
  by (simp add: get_list list_add inv_add)

end

section \<open>Lemmas on the loops\<close>

lemma copy_loop_eq: "index \<le> n \<Longrightarrow> n \<le> length h \<Longrightarrow> copy_loop index h n vs = vs @ drop index (take n h)"
proof (induction index h n vs rule: copy_loop.induct)
  case (1 index h n vs)
  then show ?case
    by (subst copy_loop.simps) (auto simp: Cons_nth_drop_Suc [symmetric])
qed

lemma length_shift_loop [simp]: "length (shift_loop i h) = length h"
  by (induction i h rule: shift_loop.induct) auto

lemma shift_loop_eq: "i < length h \<Longrightarrow> shift_loop i h = take 1 h @ take i h @ drop (Suc i) h"
proof (induction i h rule: shift_loop.induct)
  case (1 h)
  then show ?case by (cases h) auto
next
  case (2 i h)
  then show ?case
    by (simp add: take_Suc_conv_app_nth drop_update_swap Cons_nth_drop_Suc [symmetric])
qed

section \<open>Both histories satisfy the contract\<close>

definition history_list :: "'a sensor_history \<Rightarrow> 'a list" where
  "history_list h = take (unat (hsize h)) (history h)"

definition history_inv :: "nat \<Rightarrow> 'a sensor_history \<Rightarrow> bool" where
  "history_inv sz h \<longleftrightarrow> length (history h) = sz \<and> unat (hsize h) \<le> sz"

definition history_due :: "int \<Rightarrow> 'a sensor_history \<Rightarrow> bool" where
  "history_due now h \<longleftrightarrow> now - next_time h \<ge> 0"

lemma history_get_eq:
  "history_inv sz h \<Longrightarrow> environment_get_double_history n h = take (unat n) (history_list h)"
  by (auto simp: environment_get_double_history_def history_inv_def history_list_def copy_loop_eq Let_def
      word_less_nat_alt min_def)

lemma take_shifted:
  assumes "k \<le> length xs" and "xs \<noteq> []" and "m = min (length xs) (Suc k)"
  shows "take m (v # take (m - Suc 0) xs @ drop m xs) = take (length xs) (v # take k xs)"
proof (cases "k < length xs")
  case True
  with assms have "m = Suc k" by simp
  with True show ?thesis by simp
next
  case False
  with assms show ?thesis by (cases xs) (auto simp: min_def)
qed

lemma history_add_eq:
  assumes "history_inv sz h" and "0 < sz" and "sz \<le> 255"
  shows "history_inv sz (environment_add_double_history sz interval now v force h)"
    and "history_list (environment_add_double_history sz interval now v force h) =
      (if force \<or> history_due now h then take sz (v # history_list h) else history_list h)"
proof -
  let ?n = "if unat (hsize h) < sz then hsize h + 1 else hsize h"
  have n: "unat ?n = min sz (Suc (unat (hsize h)))"
    using assms by (auto simp: history_inv_def unat_word_ariths min_def)
  then have pred: "unat (?n - 1) = min sz (Suc (unat (hsize h))) - 1"
    using assms(2) by (subst unat_sub) (auto simp: word_le_nat_alt)
  have "(shift_loop (unat (?n - 1)) (history h))[0 := v] =
      v # take (unat (?n - 1)) (history h) @ drop (Suc (unat (?n - 1))) (history h)"
    using assms pred by (subst shift_loop_eq) (auto simp: history_inv_def neq_Nil_conv)
  then show "history_inv sz (environment_add_double_history sz interval now v force h)"
    and "history_list (environment_add_double_history sz interval now v force h) =
      (if force \<or> history_due now h then take sz (v # history_list h) else history_list h)"
    using assms n pred
    by (auto simp: environment_add_double_history_def history_inv_def history_list_def history_due_def Let_def
        take_shifted)
qed


lemma uint16_history_eq:
  "environment_init_uint16_history sz = environment_init_double_history sz 0"
  "environment_get_uint16_history = environment_get_double_history"
  "environment_add_uint16_history = environment_add_double_history"
  by (auto simp: fun_eq_iff environment_init_uint16_history_def environment_init_double_history_def
      environment_get_uint16_history_def environment_get_double_history_def
      environment_add_uint16_history_def environment_add_double_history_def)

lemma history_init_eq:
  "history_inv sz (environment_init_double_history sz zero)"
  "history_list (environment_init_double_history sz zero) = []"
  by (simp_all add: history_inv_def history_list_def environment_init_double_history_def)

text \<open>The build's configuration: a history that is not empty and whose size fits a \<open>uint8_t\<close>.\<close>

locale history_config =
  fixes sz :: nat and interval :: int
  assumes sz_pos: "0 < sz" and sz_u8: "sz \<le> 255"

sublocale history_config \<subseteq> dh: history_ops sz "environment_init_double_history sz zero"
  environment_get_double_history "environment_add_double_history sz interval" history_due history_list
  "history_inv sz"
  for zero
  by unfold_locales (simp_all add: history_get_eq history_add_eq history_init_eq sz_pos sz_u8)

sublocale history_config \<subseteq> uh: history_ops sz "environment_init_uint16_history sz"
  environment_get_uint16_history "environment_add_uint16_history sz interval" history_due history_list
  "history_inv sz"
  by unfold_locales
    (simp_all add: uint16_history_eq history_get_eq history_add_eq history_init_eq sz_pos sz_u8)

context history_config
begin

lemmas double_get_fold = dh.get_fold

lemma uint16_add_get:
  "history_inv sz h \<Longrightarrow>
   environment_get_uint16_history n (environment_add_uint16_history sz interval now v force h) =
     (if force \<or> history_due now h then take (min (unat n) sz) (v # history_list h)
      else environment_get_uint16_history n h)"
  by (simp add: uh.get_list uh.inv_add uh.list_add)

end

interpretation default_config: history_config 12 30
  by unfold_locales simp_all

section \<open>Properties\<close>

text \<open>C25. After the periodic worker has recorded any sequence of measurements, a history of any
  configured size shows the most recent ones, newest first and as many as were asked for.\<close>

theorem environment_history_newest_first:
  assumes "0 < sz" and "sz \<le> 255"
  shows "environment_get_double_history n
       (fold (\<lambda>(now, v). environment_add_double_history sz interval now v True) xs
          (environment_init_double_history sz zero)) =
     take (min (unat n) sz) (rev (map snd xs))"
  using history_config.double_get_fold [OF history_config.intro [OF assms]] .

theorem environment_history_newest_first_witness:
  "(0 :: nat) < 3 \<and> (3 :: nat) \<le> 255 \<and>
   environment_get_double_history 4
     (fold (\<lambda>(now, v). environment_add_double_history 3 30 now v True)
        [(0, 10), (30000, 11), (60000, 12), (90000, 13)] (environment_init_double_history 3 (0 :: int))) =
     [13, 12, 11]"
  using environment_history_newest_first [of 3 4 30 "[(0, 10), (30000, 11), (60000, 12), (90000, 13)]" "0 :: int"]
  by simp

text \<open>Between two due times a history ignores measurements that are not forced, also after any
  earlier use, and shows the same values; once due, it takes the value in front. The two
  histories of different value types behave alike.\<close>

lemma environment_history_rate_limit:
  assumes "0 < sz" and "sz \<le> 255" and "history_inv sz h"
  shows "environment_get_uint16_history n (environment_add_uint16_history sz interval now v False h) =
     (if now < next_time h then environment_get_uint16_history n h
      else take (min (unat n) sz) (v # history_list h))"
  using history_config.uint16_add_get [OF history_config.intro [OF assms(1,2)] assms(3), of n interval now v False]
  by (simp add: history_due_def)

end
