(* ===== verification/Appl_Storage.thy ===== *)
theory Appl_Storage
  imports Prelude
begin

text \<open>
  The persistent event log of \<open>src/src/appl_storage.c\<close> (boot codes, calibration values): a ring of
  fixed-size items, each a 48-bit time and a value, on EEPROM or SPI flash.

  The drivers are not part of this repository: \<open>storage_env\<close> bundles the functions of Zephyr the
  code calls (EEPROM and flash access, page layout, byte order) as parameters, over a world of
  type \<open>'w\<close> that holds the devices' contents. A driver call returns its error code; a read also
  returns the bytes. What the code relies on is stated as hypotheses of the theorems.

  Offsets are natural numbers. The mutex is held during each operation, so an operation is one
  step. \<open>None\<close> as the result of \<open>appl_storage_add\<close> and \<open>appl_storage_init\<close> is a write past the array
  of setups.
\<close>

section \<open>The drivers and the configuration\<close>

record flash_pages_info =
  pg_start_offset :: nat
  pg_size :: nat
  pg_index :: nat

record 'w storage_env =
  cfg_flash_appl_storage :: bool
  cfg_eeprom_appl_storage :: bool
  device_is_ready :: "nat \<Rightarrow> 'w \<Rightarrow> bool"
  eeprom_read :: "nat \<Rightarrow> nat \<Rightarrow> nat \<Rightarrow> 'w \<Rightarrow> int \<times> u8 list"
  eeprom_write :: "nat \<Rightarrow> nat \<Rightarrow> u8 list \<Rightarrow> 'w \<Rightarrow> int \<times> 'w"
  flash_read :: "nat \<Rightarrow> nat \<Rightarrow> nat \<Rightarrow> 'w \<Rightarrow> int \<times> u8 list"
  flash_write :: "nat \<Rightarrow> nat \<Rightarrow> u8 list \<Rightarrow> 'w \<Rightarrow> int \<times> 'w"
  flash_erase :: "nat \<Rightarrow> nat \<Rightarrow> nat \<Rightarrow> 'w \<Rightarrow> int \<times> 'w"
  flash_get_page_info_by_offs :: "nat \<Rightarrow> nat \<Rightarrow> int \<times> flash_pages_info"
  flash_get_parameters :: "nat \<Rightarrow> u8 option"
  sys_put_be16 :: "u16 \<Rightarrow> u8 list"
  sys_put_be32 :: "u32 \<Rightarrow> u8 list"
  sys_put_be48 :: "u64 \<Rightarrow> u8 list"
  sys_get_be16 :: "u8 list \<Rightarrow> u16"
  sys_get_be48 :: "u8 list \<Rightarrow> u64"

record storage_config =
  storage_device :: "nat option"
  storage_desc :: string
  is_flash_device :: bool
  storage_id :: int
  magic :: u32
  version :: u32
  pages :: nat
  value_size :: nat

datatype storage_init_state = STORAGE_NOT_INITIALIZED | STORAGE_INITIALIZED | STORAGE_INITIALIZE_ERROR

record storage_setup =
  config :: storage_config
  header :: "u8 list"
  erase_value :: u8
  init_state :: storage_init_state
  page_size :: nat
  item_size :: nat
  headers_offset :: nat
  start_offset :: nat
  current_offset :: nat
  end_offset :: nat

abbreviation (input) MAX_STORAGE_SETUPS :: nat where "MAX_STORAGE_SETUPS \<equiv> 6"
abbreviation (input) TIME_SIZE :: nat where "TIME_SIZE \<equiv> 6"
abbreviation (input) MAX_VALUE_SIZE :: nat where "MAX_VALUE_SIZE \<equiv> 26"
abbreviation (input) MAX_ITEM_SIZE :: nat where "MAX_ITEM_SIZE \<equiv> 32"
abbreviation (input) HEADER_SIZE :: nat where "HEADER_SIZE \<equiv> 10"
abbreviation (input) EEPROM_BLOCK_SIZE :: nat where "EEPROM_BLOCK_SIZE \<equiv> 128"

record 'w storage_state =
  storage_setups :: "storage_setup list"
  storage_world :: 'w

text \<open>The first initialised setup with the id.\<close>

definition appl_storage_setup :: "int \<Rightarrow> storage_setup list \<Rightarrow> nat option" where
  "appl_storage_setup sid setups =
     (if sid \<noteq> 0
      then find (\<lambda>i. storage_id (config (setups ! i)) = sid \<and> init_state (setups ! i) = STORAGE_INITIALIZED)
             [0..<length setups]
      else None)"

section \<open>Memory access\<close>

text \<open>The 128-byte blocks of \<open>0xff\<close> an EEPROM is erased with.\<close>

function appl_eeprom_storage_erase_memory ::
  "'w storage_env \<Rightarrow> nat \<Rightarrow> nat \<Rightarrow> nat \<Rightarrow> int \<Rightarrow> 'w \<Rightarrow> int \<times> 'w" where
  "appl_eeprom_storage_erase_memory env dev addr num rc w =
     (if num > 0 \<and> rc = 0
      then (let block_bytes = min num EEPROM_BLOCK_SIZE;
                (rc, w) = eeprom_write env dev addr (replicate block_bytes 0xff) w
            in appl_eeprom_storage_erase_memory env dev (addr + block_bytes) (num - block_bytes) rc w)
      else (rc, w))"
  by pat_completeness auto
termination
  by (relation "measure (\<lambda>(env, dev, addr, num, rc, w). num)") auto

declare appl_eeprom_storage_erase_memory.simps [simp del]

definition appl_eeprom_storage_get_page_info_by_offs :: "nat \<Rightarrow> int \<times> flash_pages_info" where
  "appl_eeprom_storage_get_page_info_by_offs addr =
     (let index = addr div EEPROM_BLOCK_SIZE
      in (0, \<lparr>pg_start_offset = index * EEPROM_BLOCK_SIZE, pg_size = EEPROM_BLOCK_SIZE, pg_index = index\<rparr>))"

definition appl_flash_storage_get_erase_value :: "'w storage_env \<Rightarrow> nat \<Rightarrow> u8" where
  "appl_flash_storage_get_erase_value env dev =
     (case flash_get_parameters env dev of Some ev \<Rightarrow> ev | None \<Rightarrow> 0xff)"

definition appl_storage_read_memory ::
  "'w storage_env \<Rightarrow> storage_config \<Rightarrow> nat \<Rightarrow> nat \<Rightarrow> 'w \<Rightarrow> int \<times> u8 list" where
  "appl_storage_read_memory env cfg addr num w =
     (case storage_device cfg of
        None \<Rightarrow> (- ENOTSUP, [])
      | Some dev \<Rightarrow>
          if device_is_ready env dev w
          then (if is_flash_device cfg
                then (if cfg_flash_appl_storage env then flash_read env dev addr num w else (- ENOTSUP, []))
                else (if cfg_eeprom_appl_storage env then eeprom_read env dev addr num w else (- ENOTSUP, [])))
          else (- ENOTSUP, []))"

definition appl_storage_write_memory ::
  "'w storage_env \<Rightarrow> storage_config \<Rightarrow> nat \<Rightarrow> u8 list \<Rightarrow> 'w \<Rightarrow> int \<times> 'w" where
  "appl_storage_write_memory env cfg addr data w =
     (case storage_device cfg of
        None \<Rightarrow> (- ENOTSUP, w)
      | Some dev \<Rightarrow>
          if device_is_ready env dev w
          then (if is_flash_device cfg
                then (if cfg_flash_appl_storage env then flash_write env dev addr data w else (- ENOTSUP, w))
                else (if cfg_eeprom_appl_storage env then eeprom_write env dev addr data w else (- ENOTSUP, w)))
          else (- ENOTSUP, w))"

definition appl_storage_erase_memory ::
  "'w storage_env \<Rightarrow> storage_config \<Rightarrow> nat \<Rightarrow> nat \<Rightarrow> 'w \<Rightarrow> int \<times> 'w" where
  "appl_storage_erase_memory env cfg addr num w =
     (case storage_device cfg of
        None \<Rightarrow> (- ENOTSUP, w)
      | Some dev \<Rightarrow>
          if device_is_ready env dev w
          then (if is_flash_device cfg
                then (if cfg_flash_appl_storage env then flash_erase env dev addr num w else (- ENOTSUP, w))
                else (if cfg_eeprom_appl_storage env
                      then appl_eeprom_storage_erase_memory env dev addr num 0 w else (- ENOTSUP, w)))
          else (- ENOTSUP, w))"

definition no_page_info :: flash_pages_info where
  "no_page_info = \<lparr>pg_start_offset = 0, pg_size = 0, pg_index = 0\<rparr>"

definition appl_storage_get_page_info_by_offs ::
  "'w storage_env \<Rightarrow> storage_config \<Rightarrow> nat \<Rightarrow> 'w \<Rightarrow> int \<times> flash_pages_info" where
  "appl_storage_get_page_info_by_offs env cfg addr w =
     (case storage_device cfg of
        None \<Rightarrow> (- ENOTSUP, no_page_info)
      | Some dev \<Rightarrow>
          if device_is_ready env dev w
          then (if is_flash_device cfg
                then (if cfg_flash_appl_storage env then flash_get_page_info_by_offs env dev addr
                      else (- ENOTSUP, no_page_info))
                else (if cfg_eeprom_appl_storage env then appl_eeprom_storage_get_page_info_by_offs addr
                      else (- ENOTSUP, no_page_info)))
          else (- ENOTSUP, no_page_info))"

text \<open>The \<open>int\<close> result is stored into the \<open>uint8_t\<close> field of the setup.\<close>

definition appl_storage_get_erase_value :: "'w storage_env \<Rightarrow> storage_config \<Rightarrow> 'w \<Rightarrow> u8" where
  "appl_storage_get_erase_value env cfg w =
     (case storage_device cfg of
        None \<Rightarrow> word_of_int (- ENOTSUP)
      | Some dev \<Rightarrow>
          if device_is_ready env dev w
          then (if is_flash_device cfg
                then (if cfg_flash_appl_storage env then appl_flash_storage_get_erase_value env dev
                      else word_of_int (- ENOTSUP))
                else (if cfg_eeprom_appl_storage env then 0xff else word_of_int (- ENOTSUP)))
          else word_of_int (- ENOTSUP))"

section \<open>Formatting and finding the current position\<close>

definition is_erased :: "u8 list \<Rightarrow> nat \<Rightarrow> u8 \<Rightarrow> bool" where
  "is_erased data len ev = list_all (\<lambda>b. b = ev) (take len data)"

definition appl_storage_init_headers :: "'w storage_env \<Rightarrow> storage_setup \<Rightarrow> 'w \<Rightarrow> 'w" where
  "appl_storage_init_headers env s w =
     snd (appl_storage_write_memory env (config s) (headers_offset s) (header s) w)"

definition appl_storage_format ::
  "'w storage_env \<Rightarrow> storage_setup \<Rightarrow> 'w \<Rightarrow> int \<times> storage_setup \<times> 'w" where
  "appl_storage_format env s w =
     (let (rc, w) = appl_storage_erase_memory env (config s) (headers_offset s)
                      (end_offset s - headers_offset s) w
      in if rc < 0 then (rc, s, w)
         else (rc, s\<lparr>current_offset := start_offset s\<rparr>, appl_storage_init_headers env s w))"

text \<open>The inner loop over one chunk of \<open>MAX_ITEM_SIZE\<close> bytes read from \<open>addr\<close>. The item size is
  at least \<open>TIME_SIZE\<close>, so the guard \<open>0 < item_size\<close> never decides.\<close>

function scan_chunk :: "storage_setup \<Rightarrow> nat \<Rightarrow> u8 list \<Rightarrow> nat \<Rightarrow> nat option" where
  "scan_chunk s addr data index =
     (if index < MAX_ITEM_SIZE \<and> addr + index < end_offset s \<and> 0 < item_size s
      then (if is_erased (drop index data) TIME_SIZE (erase_value s) then Some (addr + index)
            else scan_chunk s addr data (index + item_size s))
      else None)"
  by pat_completeness auto
termination
  by (relation "measure (\<lambda>(s, addr, data, index). MAX_ITEM_SIZE - index)") auto

declare scan_chunk.simps [simp del]

text \<open>The outer loop: \<open>Some\<close> offset of the first free item; a chunk that cannot be read is skipped.\<close>

function scan_items :: "'w storage_env \<Rightarrow> storage_setup \<Rightarrow> nat \<Rightarrow> 'w \<Rightarrow> nat option" where
  "scan_items env s addr w =
     (if addr < end_offset s
      then (let (rc, data) = appl_storage_read_memory env (config s) addr MAX_ITEM_SIZE w
            in case (if rc = 0 then scan_chunk s addr data 0 else None) of
                 Some off \<Rightarrow> Some off
               | None \<Rightarrow> scan_items env s (addr + MAX_ITEM_SIZE) w)
      else None)"
  by pat_completeness auto
termination
  by (relation "measure (\<lambda>(env, s, addr, w). end_offset s - addr)") auto

declare scan_items.simps [simp del]

definition appl_storage_init_offset ::
  "'w storage_env \<Rightarrow> storage_setup \<Rightarrow> 'w \<Rightarrow> int \<times> storage_setup \<times> 'w" where
  "appl_storage_init_offset env s w =
     (let (rc, data) = appl_storage_read_memory env (config s) (headers_offset s) HEADER_SIZE w
      in if rc = 0
         then (if take HEADER_SIZE data \<noteq> header s then appl_storage_format env s w
               else (case scan_items env s (start_offset s) w of
                       Some off \<Rightarrow> (0, s\<lparr>current_offset := off\<rparr>, w)
                     | None \<Rightarrow> appl_storage_format env s w))
         else (rc, s, w))"

definition appl_storage_check_config :: "'w storage_env \<Rightarrow> storage_config \<Rightarrow> 'w \<Rightarrow> int" where
  "appl_storage_check_config env cfg w =
     (if is_flash_device cfg \<and> \<not> cfg_flash_appl_storage env then - EINVAL
      else if \<not> is_flash_device cfg \<and> \<not> cfg_eeprom_appl_storage env then - EINVAL
      else if storage_device cfg = None then - EINVAL
      else if \<not> device_is_ready env (the (storage_device cfg)) w then - EINVAL
      else fst (appl_storage_read_memory env cfg 0 1 w))"

text \<open>The header of the area: whole items, at least \<open>HEADER_SIZE\<close> bytes.\<close>

function header_size_loop :: "nat \<Rightarrow> nat \<Rightarrow> nat" where
  "header_size_loop header_size isize =
     (if header_size < HEADER_SIZE \<and> 0 < isize then header_size_loop (header_size + isize) isize
      else header_size)"
  by pat_completeness auto
termination
  by (relation "measure (\<lambda>(h, i). HEADER_SIZE - h)") auto

declare header_size_loop.simps [simp del]

definition appl_storage_init_setup ::
  "'w storage_env \<Rightarrow> storage_setup \<Rightarrow> storage_config \<Rightarrow> nat \<Rightarrow> 'w \<Rightarrow> int \<times> storage_setup \<times> 'w" where
  "appl_storage_init_setup env s cfg end w =
     (let (rc, info) = appl_storage_get_page_info_by_offs env cfg end w
      in if rc = 0
         then (let isize = value_size cfg + TIME_SIZE;
                   header_size = header_size_loop isize isize
               in appl_storage_init_offset env
                    (s\<lparr>config := cfg, erase_value := appl_storage_get_erase_value env cfg w,
                       page_size := pg_size info, item_size := isize,
                       headers_offset := end, start_offset := end + header_size,
                       current_offset := end + header_size,
                       end_offset := end + pages cfg * pg_size info,
                       header := sys_put_be32 env (magic cfg) @ sys_put_be32 env (version cfg) @
                         sys_put_be16 env (of_nat (value_size cfg))\<rparr>) w)
         else (rc, s, w))"

definition empty_setup :: "storage_config \<Rightarrow> storage_setup" where
  "empty_setup cfg = \<lparr>config = cfg, header = [], erase_value = 0, init_state = STORAGE_NOT_INITIALIZED,
     page_size = 0, item_size = 0, headers_offset = 0, start_offset = 0, current_offset = 0, end_offset = 0\<rparr>"

text \<open>The loop that dumps the area to the log: all it leaves behind is the code of its last read.\<close>

function dump_loop :: "'w storage_env \<Rightarrow> storage_setup \<Rightarrow> nat \<Rightarrow> int \<Rightarrow> 'w \<Rightarrow> int" where
  "dump_loop env s addr rc w =
     (if addr < end_offset s
      then dump_loop env s (addr + 16) (fst (appl_storage_read_memory env (config s) addr 16 w)) w
      else rc)"
  by pat_completeness auto
termination
  by (relation "measure (\<lambda>(env, s, addr, rc, w). end_offset s - addr)") auto

declare dump_loop.simps [simp del]

definition appl_storage_add ::
  "'w storage_env \<Rightarrow> storage_config \<Rightarrow> 'w storage_state \<Rightarrow> (int \<times> 'w storage_state) option" where
  "appl_storage_add env cfg st =
     (let rc = appl_storage_check_config env cfg (storage_world st);
          setups = storage_setups st
      in if rc \<noteq> 0 then Some (rc, st)
         else (case find (\<lambda>i. storage_id (config (setups ! i)) = storage_id cfg) [0..<length setups] of
             Some i \<Rightarrow>
               (let (rc, s, w) = appl_storage_init_setup env (setups ! i) cfg 0 (storage_world st);
                    s = s\<lparr>init_state := if rc \<noteq> 0 then STORAGE_INITIALIZE_ERROR else STORAGE_INITIALIZED\<rparr>;
                    rc = (if rc \<noteq> 0 then rc else dump_loop env s (headers_offset s) rc w)
                in Some (rc, st\<lparr>storage_setups := setups[i := s], storage_world := w\<rparr>))
           | None \<Rightarrow>
               if length setups \<ge> MAX_STORAGE_SETUPS then None
               else (let (rc, s, w) = appl_storage_init_setup env (empty_setup cfg) cfg 0 (storage_world st)
                     in if rc \<noteq> 0 then Some (rc, st\<lparr>storage_world := w\<rparr>)
                        else Some (dump_loop env s (headers_offset s) rc w,
                               st\<lparr>storage_setups := setups @ [s\<lparr>init_state := STORAGE_INITIALIZED\<rparr>],
                                  storage_world := w\<rparr>))))"

text \<open>The start-up loop over the configured areas: areas of one device follow each other. \<open>dev\<close> and
  \<open>ok\<close> are the loop's variables.\<close>

fun appl_storage_init_loop ::
  "'w storage_env \<Rightarrow> storage_config list \<Rightarrow> nat option \<Rightarrow> bool \<Rightarrow> nat \<Rightarrow> 'w storage_state
   \<Rightarrow> 'w storage_state option" where
  "appl_storage_init_loop env [] dev ok end st = Some st"
| "appl_storage_init_loop env (cfg # cfgs) dev ok end st =
     (let new = (dev \<noteq> storage_device cfg);
          end = (if new then 0 else end);
          ok = (if new then appl_storage_check_config env cfg (storage_world st) = 0 else ok);
          dev = storage_device cfg
      in if ok
         then (if length (storage_setups st) \<ge> MAX_STORAGE_SETUPS then None
               else (let (rc, s, w) = appl_storage_init_setup env (empty_setup cfg) cfg end (storage_world st);
                         s = s\<lparr>init_state := if rc \<noteq> 0 then STORAGE_INITIALIZE_ERROR else STORAGE_INITIALIZED\<rparr>
                     in appl_storage_init_loop env cfgs dev ok (end_offset s)
                          (st\<lparr>storage_setups := storage_setups st @ [s], storage_world := w\<rparr>)))
         else appl_storage_init_loop env cfgs dev ok end st)"

definition appl_storage_init ::
  "'w storage_env \<Rightarrow> storage_config list \<Rightarrow> 'w storage_state \<Rightarrow> 'w storage_state option" where
  "appl_storage_init env cfgs st = appl_storage_init_loop env cfgs None False 0 st"

section \<open>Writing and reading items\<close>

text \<open>The stored time: seconds, 47 bits, so that the first byte is never \<open>0xff\<close>.\<close>

definition item_time :: "int \<Rightarrow> u64" where
  "item_time time = word_of_int (take_bit 47 (c_div time MSEC_PER_SEC))"

text \<open>\<open>rc || f()\<close> yields 1, not the error number.\<close>

definition c_bool :: "int \<Rightarrow> int" where
  "c_bool rc = (if rc \<noteq> 0 then 1 else 0)"

text \<open>Making room: if the byte at \<open>next\<close> is in use, erase its page (flash) or the byte (EEPROM).\<close>

definition storage_make_room ::
  "'w storage_env \<Rightarrow> storage_setup \<Rightarrow> nat \<Rightarrow> 'w \<Rightarrow> int \<times> 'w" where
  "storage_make_room env s next w =
     (if is_flash_device (config s)
      then (let (rc, info) = appl_storage_get_page_info_by_offs env (config s) next w
            in if rc \<noteq> 0 then (1, w)
               else (let (rc, w) = appl_storage_erase_memory env (config s) (pg_start_offset info) (pg_size info) w;
                         rc = c_bool rc
                     in if rc = 0 \<and> pg_start_offset info = headers_offset s
                        then (rc, appl_storage_init_headers env s w) else (rc, w)))
      else appl_storage_erase_memory env (config s) next 1 w)"

definition appl_storage_write_item ::
  "'w storage_env \<Rightarrow> storage_setup \<Rightarrow> int \<Rightarrow> u8 list \<Rightarrow> 'w \<Rightarrow> int \<times> storage_setup \<times> 'w" where
  "appl_storage_write_item env s time val w =
     (let cur = current_offset s; isize = item_size s;
          (rc, data, next) =
            (if cur + (isize + 1) \<le> end_offset s
             then (let (rc, d) = appl_storage_read_memory env (config s) cur (isize + 1) w
                   in (rc, d, cur + isize))
             else (let (rc, d) = appl_storage_read_memory env (config s) cur isize w;
                       next = start_offset s
                   in if rc \<noteq> 0 then (1, d, next)
                      else (let (rc, d') = appl_storage_read_memory env (config s) next 1 w
                            in (c_bool rc, d @ d', next))))
      in if rc \<noteq> 0 then (rc, s, w)
         else (let (rc, w) = (if data ! isize \<noteq> erase_value s then storage_make_room env s next w else (0, w));
                   vs = min (length val) (value_size (config s));
                   item = take isize (sys_put_be48 env (item_time time) @ take vs val @ drop (TIME_SIZE + vs) data)
               in if rc \<noteq> 0 then (1, s, w)
                  else (let (rc, w) = appl_storage_write_memory env (config s) cur item w;
                            rc = c_bool rc
                        in if rc = 0 then (rc, s\<lparr>current_offset := next\<rparr>, w) else (rc, s, w))))"

text \<open>One item before \<open>cur\<close>: the result code (the number of value bytes, 0 at the end of the log,
  or an error), the item's offset, its time in milliseconds and its value cut to the buffer, whose
  size is \<open>vsize\<close> (\<open>None\<close> for a NULL pointer).\<close>

definition appl_storage_read_item ::
  "'w storage_env \<Rightarrow> storage_setup \<Rightarrow> nat \<Rightarrow> nat option \<Rightarrow> 'w \<Rightarrow> int \<times> nat \<times> u64 \<times> u8 list" where
  "appl_storage_read_item env s cur vsize w =
     (let offset = (if cur = start_offset s then end_offset s else cur) - item_size s;
          (rc, data) = appl_storage_read_memory env (config s) offset (item_size s) w
      in if rc = 0
         then (if is_erased data TIME_SIZE (erase_value s) then (0, offset, 0, [])
               else (let t = sys_get_be48 env (take TIME_SIZE data) * 1000
                     in case vsize of
                          None \<Rightarrow> (int (value_size (config s)), offset, t, [])
                        | Some vs \<Rightarrow> (let n = min vs (value_size (config s))
                                     in (int n, offset, t, take n (drop TIME_SIZE data)))))
         else (rc, offset, 0, []))"

text \<open>The loop \<open>while (index--)\<close> of \<open>appl_storage_read_bytes_item\<close>.\<close>

fun skip_items :: "'w storage_env \<Rightarrow> storage_setup \<Rightarrow> nat \<Rightarrow> nat \<Rightarrow> 'w \<Rightarrow> int \<times> nat" where
  "skip_items env s 0 cur w = (1, cur)"
| "skip_items env s (Suc index) cur w =
     (let (rc, cur, _, _) = appl_storage_read_item env s cur None w
      in if rc \<le> 0 then (rc, cur) else skip_items env s index cur w)"

definition appl_storage_read_bytes_item ::
  "'w storage_env \<Rightarrow> int \<Rightarrow> nat \<Rightarrow> nat option \<Rightarrow> 'w storage_state \<Rightarrow> int \<times> u64 \<times> u8 list" where
  "appl_storage_read_bytes_item env sid index data_size st =
     (case appl_storage_setup sid (storage_setups st) of
        None \<Rightarrow> (- EINVAL, 0, [])
      | Some i \<Rightarrow>
          (let s = storage_setups st ! i;
               (rc, cur) = skip_items env s index (current_offset s) (storage_world st)
           in if rc > 0
              then (let (rc, _, t, v) = appl_storage_read_item env s cur data_size (storage_world st) in (rc, t, v))
              else (rc, 0, [])))"

text \<open>The loop of \<open>appl_storage_read_int_items\<close>: \<open>acc\<close> holds the pairs stored so far.\<close>

function read_int_items_loop ::
  "'w storage_env \<Rightarrow> storage_setup \<Rightarrow> nat \<Rightarrow> nat \<Rightarrow> nat \<Rightarrow> int \<Rightarrow> (u64 \<times> u16) list \<Rightarrow> 'w
   \<Rightarrow> int \<times> (u64 \<times> u16) list" where
  "read_int_items_loop env s index cur count rc acc w =
     (if length acc < count
      then (let (rc, cur, t, v) = appl_storage_read_item env s cur (Some 2) w
            in if rc \<le> 0 then (rc, acc)
               else if index > 0 then read_int_items_loop env s (index - 1) cur count rc acc w
               else read_int_items_loop env s index cur count rc (acc @ [(t, sys_get_be16 env v)]) w)
      else (rc, acc))"
  by pat_completeness auto
termination
  by (relation "measure (\<lambda>(env, s, index, cur, count, rc, acc, w). index + (count - length acc))") auto

declare read_int_items_loop.simps [simp del]

definition appl_storage_read_int_items ::
  "'w storage_env \<Rightarrow> int \<Rightarrow> nat \<Rightarrow> nat \<Rightarrow> 'w storage_state \<Rightarrow> int \<times> (u64 \<times> u16) list" where
  "appl_storage_read_int_items env sid index count st =
     (case appl_storage_setup sid (storage_setups st) of
        None \<Rightarrow> (- EINVAL, [])
      | Some i \<Rightarrow>
          (let s = storage_setups st ! i;
               (rc, items) = read_int_items_loop env s index (current_offset s) count (- EINVAL) [] (storage_world st)
           in if items \<noteq> [] then (int (length items), items) else (rc, [])))"

definition appl_storage_write_bytes_item ::
  "'w storage_env \<Rightarrow> int \<Rightarrow> int \<Rightarrow> u8 list \<Rightarrow> 'w storage_state \<Rightarrow> int \<times> 'w storage_state" where
  "appl_storage_write_bytes_item env now sid data st =
     (case appl_storage_setup sid (storage_setups st) of
        None \<Rightarrow> (- EINVAL, st)
      | Some i \<Rightarrow>
          (let (rc, s, w) = appl_storage_write_item env (storage_setups st ! i) now data (storage_world st)
           in (rc, st\<lparr>storage_setups := (storage_setups st)[i := s], storage_world := w\<rparr>)))"

definition appl_storage_write_int_item ::
  "'w storage_env \<Rightarrow> int \<Rightarrow> int \<Rightarrow> u16 \<Rightarrow> 'w storage_state \<Rightarrow> int \<times> 'w storage_state" where
  "appl_storage_write_int_item env now sid code st =
     appl_storage_write_bytes_item env now sid (sys_put_be16 env code) st"

text \<open>The shell command \<open>storageclear\<close>.\<close>

fun appl_storage_clear_loop :: "'w storage_env \<Rightarrow> storage_setup list \<Rightarrow> 'w \<Rightarrow> storage_setup list \<times> 'w" where
  "appl_storage_clear_loop env [] w = ([], w)"
| "appl_storage_clear_loop env (s # ss) w =
     (let (_, s, w) = appl_storage_format env s w;
          (ss, w) = appl_storage_clear_loop env ss w
      in (s # ss, w))"

definition appl_storage_clear :: "'w storage_env \<Rightarrow> 'w storage_state \<Rightarrow> int \<times> 'w storage_state" where
  "appl_storage_clear env st =
     (let (ss, w) = appl_storage_clear_loop env (storage_setups st) (storage_world st)
      in (0, st\<lparr>storage_setups := ss, storage_world := w\<rparr>))"

end
