(* ===== verification/Storage_Log.thy ===== *)
theory Storage_Log
  imports Appl_Storage
begin

text \<open>
  Correctness of the event log of \<open>src/src/appl_storage.c\<close> over drivers that behave as documented.

  \<^item> The hypotheses on the drivers (\<open>eeprom_driver_ok\<close>, \<open>flash_driver_ok\<close>, \<open>byteorder_ok\<close>): a
    successful read returns the contents, a successful write stores the data and touches nothing
    else (flash: if the area was erased before), a successful erase sets the erase value.
  \<^item> The locale \<open>storage_memory\<close>: the contract \<open>appl_storage_read_memory\<close> and its siblings give the
    log, whatever the device; both kinds of device satisfy it.
  \<^item> The log's own theorems, proved once from that contract.
\<close>

section \<open>What the drivers are documented to do\<close>

definition byteorder_ok :: "'w storage_env \<Rightarrow> bool" where
  "byteorder_ok env \<longleftrightarrow>
     (\<forall>x. sys_put_be16 env x = be_bytes 2 (uint x)) \<and> (\<forall>x. sys_put_be32 env x = be_bytes 4 (uint x)) \<and>
     (\<forall>x. sys_put_be48 env x = be_bytes 6 (uint x)) \<and>
     (\<forall>d. length d = 2 \<longrightarrow> sys_get_be16 env d = word_of_int (be_val d)) \<and>
     (\<forall>d. length d = 6 \<longrightarrow> sys_get_be48 env d = word_of_int (be_val d))"

definition eeprom_driver_ok :: "'w storage_env \<Rightarrow> nat \<Rightarrow> ('w \<Rightarrow> nat \<Rightarrow> u8) \<Rightarrow> bool" where
  "eeprom_driver_ok env dev mem \<longleftrightarrow>
     (\<forall>a n w d. eeprom_read env dev a n w = (0, d) \<longrightarrow> d = map (mem w) [a..<a + n]) \<and>
     (\<forall>a d w w'. eeprom_write env dev a d w = (0, w') \<longrightarrow>
        (\<forall>x. mem w' x = (if a \<le> x \<and> x < a + length d then d ! (x - a) else mem w x)))"

definition flash_driver_ok :: "'w storage_env \<Rightarrow> nat \<Rightarrow> ('w \<Rightarrow> nat \<Rightarrow> u8) \<Rightarrow> u8 \<Rightarrow> bool" where
  "flash_driver_ok env dev mem ev \<longleftrightarrow>
     (\<forall>a n w d. flash_read env dev a n w = (0, d) \<longrightarrow> d = map (mem w) [a..<a + n]) \<and>
     (\<forall>a d w w'. flash_write env dev a d w = (0, w') \<longrightarrow>
        (\<forall>x. \<not> (a \<le> x \<and> x < a + length d) \<longrightarrow> mem w' x = mem w x) \<and>
        ((\<forall>x. a \<le> x \<and> x < a + length d \<longrightarrow> mem w x = ev) \<longrightarrow>
          (\<forall>x. a \<le> x \<and> x < a + length d \<longrightarrow> mem w' x = d ! (x - a)))) \<and>
     (\<forall>a n w w'. flash_erase env dev a n w = (0, w') \<longrightarrow>
        (\<forall>x. mem w' x = (if a \<le> x \<and> x < a + n then ev else mem w x)))"

section \<open>The contract of the memory access layer\<close>

locale storage_memory =
  fixes env :: "'w storage_env" and cfg :: storage_config
    and mem :: "'w \<Rightarrow> nat \<Rightarrow> u8" and ev :: u8
  assumes byteorder: "byteorder_ok env"
    and read_ok: "appl_storage_read_memory env cfg a n w = (0, d) \<Longrightarrow> d = map (mem w) [a..<a + n]"
    and write_frame: "appl_storage_write_memory env cfg a d w = (0, w') \<Longrightarrow>
      \<not> (a \<le> x \<and> x < a + length d) \<Longrightarrow> mem w' x = mem w x"
    and write_data: "appl_storage_write_memory env cfg a d w = (0, w') \<Longrightarrow>
      \<not> is_flash_device cfg \<or> (\<forall>y. a \<le> y \<and> y < a + length d \<longrightarrow> mem w y = ev) \<Longrightarrow>
      a \<le> x \<Longrightarrow> x < a + length d \<Longrightarrow> mem w' x = d ! (x - a)"
    and erase_ok: "appl_storage_erase_memory env cfg a n w = (0, w') \<Longrightarrow>
      mem w' x = (if a \<le> x \<and> x < a + n then ev else mem w x)"

lemma nth_replicate_shift: "a \<le> x \<Longrightarrow> x < a + n \<Longrightarrow> replicate n v ! (x - a) = v" for a x n :: nat
  by (subst nth_replicate) auto

lemma eeprom_write_mem:
  "eeprom_driver_ok env dev mem \<Longrightarrow> eeprom_write env dev a d w = (0, w') \<Longrightarrow>
   mem w' x = (if a \<le> x \<and> x < a + length d then d ! (x - a) else mem w x)"
  unfolding eeprom_driver_ok_def by blast

lemma flash_erase_mem:
  "flash_driver_ok env dev mem ev \<Longrightarrow> flash_erase env dev a n w = (0, w') \<Longrightarrow>
   mem w' x = (if a \<le> x \<and> x < a + n then ev else mem w x)"
  unfolding flash_driver_ok_def by blast

lemma eeprom_erase_rc:
  "appl_eeprom_storage_erase_memory env dev addr num rc w = (0, w') \<Longrightarrow> rc = 0"
  by (subst (asm) appl_eeprom_storage_erase_memory.simps) (auto split: if_splits)

lemma eeprom_erase_loop:
  assumes "eeprom_driver_ok env dev mem"
    and "appl_eeprom_storage_erase_memory env dev addr num rc w = (0, w')"
  shows "mem w' x = (if addr \<le> x \<and> x < addr + num then 0xff else mem w x)"
  using assms
proof (induction env dev addr num rc w rule: appl_eeprom_storage_erase_memory.induct)
  case (1 env dev addr num rc w)
  show ?case
  proof (cases "num > 0 \<and> rc = 0")
    case True
    let ?b = "min num 128"
    obtain rc1 w1 where ew: "eeprom_write env dev addr (replicate ?b 0xff) w = (rc1, w1)"
      by (cases "eeprom_write env dev addr (replicate ?b 0xff) w") auto
    have rest: "appl_eeprom_storage_erase_memory env dev (addr + ?b) (num - ?b) rc1 w1 = (0, w')"
      using "1.prems"(2) True ew
      by (subst (asm) appl_eeprom_storage_erase_memory.simps) (simp add: Let_def)
    have ih: "mem w' x = (if addr + ?b \<le> x \<and> x < addr + ?b + (num - ?b) then 0xff else mem w1 x)"
      using "1.IH" True ew rest "1.prems"(1) by (simp add: Let_def)
    have "rc1 = 0"
      using rest by (rule eeprom_erase_rc)
    then have "mem w1 x = (if addr \<le> x \<and> x < addr + ?b then 0xff else mem w x)"
      using "1.prems"(1) ew by (auto simp: eeprom_driver_ok_def nth_replicate_shift)
    with ih True show ?thesis by auto
  next
    case False
    then show ?thesis using "1.prems"(2)
      by (subst (asm) appl_eeprom_storage_erase_memory.simps) auto
  qed
qed

text \<open>Both kinds of device give the contract.\<close>

lemma storage_memory_eeprom:
  assumes "storage_device cfg = Some dev" "\<not> is_flash_device cfg"
    and drv: "eeprom_driver_ok env dev mem" and "byteorder_ok env"
  shows "storage_memory env cfg mem 0xff"
proof
  show "byteorder_ok env" by fact
  show "d = map (mem w) [a..<a + n]" if "appl_storage_read_memory env cfg a n w = (0, d)" for a n w d
    using that drv assms(1,2) by (auto simp: appl_storage_read_memory_def eeprom_driver_ok_def split: if_splits)
  show "mem w' x = mem w x"
    if "appl_storage_write_memory env cfg a d w = (0, w')" "\<not> (a \<le> x \<and> x < a + length d)" for a d w w' x
    using that assms(1,2) eeprom_write_mem [OF drv] by (auto simp: appl_storage_write_memory_def split: if_splits)
  show "mem w' x = d ! (x - a)"
    if "appl_storage_write_memory env cfg a d w = (0, w')" "a \<le> x" "x < a + length d" for a d w w' x
    using that assms(1,2) eeprom_write_mem [OF drv] by (auto simp: appl_storage_write_memory_def split: if_splits)
  show "mem w' x = (if a \<le> x \<and> x < a + n then 0xff else mem w x)"
    if "appl_storage_erase_memory env cfg a n w = (0, w')" for a n w w' x
    using that assms(1,2) eeprom_erase_loop [OF drv]
    by (simp add: appl_storage_erase_memory_def split: if_splits)
qed

lemma storage_memory_flash:
  assumes "storage_device cfg = Some dev" "is_flash_device cfg"
    and drv: "flash_driver_ok env dev mem ev" and "byteorder_ok env"
  shows "storage_memory env cfg mem ev"
proof
  show "byteorder_ok env" by fact
  show "d = map (mem w) [a..<a + n]" if "appl_storage_read_memory env cfg a n w = (0, d)" for a n w d
    using that drv assms(1,2) by (auto simp: appl_storage_read_memory_def flash_driver_ok_def split: if_splits)
  show "mem w' x = mem w x"
    if "appl_storage_write_memory env cfg a d w = (0, w')" "\<not> (a \<le> x \<and> x < a + length d)" for a d w w' x
  proof -
    have "flash_write env dev a d w = (0, w')"
      using that(1) assms(1,2) by (auto simp: appl_storage_write_memory_def split: if_splits)
    with drv that(2) show ?thesis unfolding flash_driver_ok_def by blast
  qed
  show "mem w' x = d ! (x - a)"
    if "appl_storage_write_memory env cfg a d w = (0, w')"
      "\<not> is_flash_device cfg \<or> (\<forall>y. a \<le> y \<and> y < a + length d \<longrightarrow> mem w y = ev)"
      "a \<le> x" "x < a + length d" for a d w w' x
  proof -
    have "flash_write env dev a d w = (0, w')"
      using that(1) assms(1,2) by (auto simp: appl_storage_write_memory_def split: if_splits)
    with drv that(2-4) assms(2) show ?thesis unfolding flash_driver_ok_def by blast
  qed
  show "mem w' x = (if a \<le> x \<and> x < a + n then ev else mem w x)"
    if "appl_storage_erase_memory env cfg a n w = (0, w')" for a n w w' x
    using that assms(1,2) flash_erase_mem [OF drv]
    by (simp add: appl_storage_erase_memory_def split: if_splits)
qed

section \<open>The ring of items\<close>

text \<open>The number of items of the area, the offset of an item and its neighbours on the ring.\<close>

definition slots :: "storage_setup \<Rightarrow> nat" where
  "slots s = (end_offset s - start_offset s) div item_size s"

definition slot :: "storage_setup \<Rightarrow> nat \<Rightarrow> nat" where
  "slot s c = start_offset s + c * item_size s"

definition prev_slot :: "nat \<Rightarrow> nat \<Rightarrow> nat" where
  "prev_slot n c = (if c = 0 then n - 1 else c - 1)"

definition next_slot :: "nat \<Rightarrow> nat \<Rightarrow> nat" where
  "next_slot n c = (if Suc c < n then Suc c else 0)"

text \<open>A well-formed ring: whole items, at least two of them, and the current offset is an item's.\<close>

definition ring_ok :: "storage_setup \<Rightarrow> bool" where
  "ring_ok s \<longleftrightarrow>
     item_size s = value_size (config s) + TIME_SIZE \<and> 0 < value_size (config s) \<and>
     end_offset s = start_offset s + slots s * item_size s \<and> 2 \<le> slots s \<and>
     (\<exists>c < slots s. current_offset s = slot s c)"

lemma slot_inj: "ring_ok s \<Longrightarrow> slot s c = slot s d \<longleftrightarrow> c = d"
  by (simp add: slot_def ring_ok_def)

lemma slot_Suc: "slot s c + item_size s = slot s (Suc c)"
  by (simp add: slot_def)

lemma slot_mono: "c \<le> d \<Longrightarrow> slot s c \<le> slot s d"
  by (simp add: slot_def)

lemma slot_end: "ring_ok s \<Longrightarrow> end_offset s = slot s (slots s)"
  by (simp add: slot_def ring_ok_def)

lemma slot_disjoint:
  assumes "c \<noteq> d" "slot s c \<le> x" "x < slot s c + item_size s"
  shows "\<not> (slot s d \<le> x \<and> x < slot s d + item_size s)"
proof (cases "c < d")
  case True
  then have "slot s (Suc c) \<le> slot s d" by (intro slot_mono) simp
  then show ?thesis using assms(3) by (simp add: slot_Suc)
next
  case False
  then have "slot s (Suc d) \<le> slot s c" using assms(1) by (intro slot_mono) simp
  then show ?thesis using assms(2) by (simp add: slot_Suc)
qed

lemma prev_next_slot: "c < n \<Longrightarrow> prev_slot n (next_slot n c) = c"
  by (auto simp: prev_slot_def next_slot_def)

lemma prev_slot_less: "c < n \<Longrightarrow> prev_slot n c < n"
  by (auto simp: prev_slot_def)

lemma next_slot_less: "c < n \<Longrightarrow> next_slot n c < n"
  by (auto simp: next_slot_def)

lemma prev_slot_offset:
  assumes "ring_ok s" "c < slots s"
  shows "(if slot s c = start_offset s then end_offset s else slot s c) - item_size s
       = slot s (prev_slot (slots s) c)"
proof (cases "c = 0")
  case True
  then show ?thesis using assms slot_end [OF assms(1)] slot_Suc [of s "slots s - 1"]
    by (simp add: prev_slot_def slot_def)
next
  case False
  then have "slot s c \<noteq> start_offset s" using slot_inj [OF assms(1), of c 0] by (simp add: slot_def)
  then show ?thesis using False slot_Suc [of s "c - 1"] by (simp add: prev_slot_def)
qed

lemma next_slot_offset:
  assumes "ring_ok s" "c < slots s"
  shows "(if slot s c + (item_size s + 1) \<le> end_offset s then slot s c + item_size s else start_offset s)
       = slot s (next_slot (slots s) c)"
proof (cases "Suc c < slots s")
  case True
  then have "slot s (Suc (Suc c)) \<le> end_offset s" using slot_mono [of "Suc (Suc c)" "slots s" s] slot_end [OF assms(1)] by simp
  then show ?thesis using True assms slot_Suc [of s c] slot_Suc [of s "Suc c"]
    by (simp add: next_slot_def ring_ok_def)
next
  case False
  then have "Suc c = slots s" using assms(2) by simp
  then have "slot s c + item_size s = end_offset s" using slot_end [OF assms(1)] by (simp add: slot_Suc)
  then show ?thesis using False by (simp add: next_slot_def slot_def)
qed

text \<open>Walking back \<open>k\<close> items.\<close>

lemma prev_slot_iter:
  "c < n \<Longrightarrow> k \<le> n \<Longrightarrow> (prev_slot n ^^ k) c = (if k \<le> c then c - k else c + n - k)"
  by (induction k) (auto simp: prev_slot_def)

lemma prev_slot_iter_fresh:
  assumes "c < n" "0 < k" "Suc k < n"
  shows "(prev_slot n ^^ k) c \<noteq> c \<and> (prev_slot n ^^ k) c \<noteq> next_slot n c"
  using assms by (auto simp: prev_slot_iter next_slot_def)

section \<open>The log over the contract\<close>

text \<open>What an item's bytes decode to, and a read of the item at an index as one recursion.\<close>

definition decode_item :: "'w storage_env \<Rightarrow> storage_setup \<Rightarrow> nat option \<Rightarrow> u8 list \<Rightarrow> int \<times> u64 \<times> u8 list" where
  "decode_item env s vsize data =
     (if is_erased data TIME_SIZE (erase_value s) then (0, 0, [])
      else (let t = sys_get_be48 env (take TIME_SIZE data) * 1000
            in case vsize of
                 None \<Rightarrow> (int (value_size (config s)), t, [])
               | Some vs \<Rightarrow> (let n = min vs (value_size (config s)) in (int n, t, take n (drop TIME_SIZE data)))))"

fun read_at :: "'w storage_env \<Rightarrow> storage_setup \<Rightarrow> nat \<Rightarrow> nat \<Rightarrow> nat option \<Rightarrow> 'w \<Rightarrow> int \<times> u64 \<times> u8 list" where
  "read_at env s 0 cur vsize w = (let (rc, _, t, v) = appl_storage_read_item env s cur vsize w in (rc, t, v))"
| "read_at env s (Suc k) cur vsize w =
     (let (rc, cur, _, _) = appl_storage_read_item env s cur None w
      in if rc \<le> 0 then (rc, 0, []) else read_at env s k cur vsize w)"

lemma read_at_skip:
  "read_at env s k cur vsize w =
     (let (rc, cur) = skip_items env s k cur w
      in if rc > 0 then (let (rc, _, t, v) = appl_storage_read_item env s cur vsize w in (rc, t, v))
         else (rc, 0, []))"
  by (induction k arbitrary: cur) (auto simp: Let_def split: prod.splits)

lemma read_item_current:
  "appl_storage_read_item env (s\<lparr>current_offset := x\<rparr>) = appl_storage_read_item env s"
  by (intro ext) (simp add: appl_storage_read_item_def Let_def split: prod.splits option.splits)

lemma read_at_current: "read_at env (s\<lparr>current_offset := x\<rparr>) k cur vsize w = read_at env s k cur vsize w"
  by (induction k arbitrary: cur) (simp_all add: read_item_current split: prod.splits)

lemma read_bytes_item_at:
  "appl_storage_read_bytes_item env sid k vsize st =
     (case appl_storage_setup sid (storage_setups st) of
        None \<Rightarrow> (- EINVAL, 0, [])
      | Some i \<Rightarrow> read_at env (storage_setups st ! i) k (current_offset (storage_setups st ! i)) vsize (storage_world st))"
  by (simp add: appl_storage_read_bytes_item_def read_at_skip Let_def split: option.splits prod.splits)

context storage_memory
begin

lemma item_first_byte:
  "sys_put_be48 env (item_time time) = be_bytes 6 (take_bit 47 (c_div time MSEC_PER_SEC))"
  using byteorder by (simp add: byteorder_ok_def item_time_def unsigned_of_int take_bit_take_bit)

lemma length_put_be48 [simp]: "length (sys_put_be48 env x) = 6"
  using byteorder by (simp add: byteorder_ok_def)

lemma item_not_erased: "\<not> is_erased (sys_put_be48 env (item_time time) @ rest) 6 0xff"
proof
  let ?t = "take_bit 47 (c_div time MSEC_PER_SEC)"
  assume "is_erased (sys_put_be48 env (item_time time) @ rest) 6 0xff"
  then have "be_bytes 6 ?t = replicate 6 0xff"
    by (intro replicate_eqI) (auto simp: is_erased_def item_first_byte list_all_iff)
  then have "be_val (be_bytes 6 ?t) = 256 ^ 6 - 1"
    by (simp only: be_val_replicate_ff)
  moreover have "?t < 2 ^ 47" by (rule take_bit_int_less_exp)
  ultimately show False by (simp add: be_val_be_bytes)
qed

lemma get_put_time: "sys_get_be48 env (sys_put_be48 env (item_time time)) = item_time time"
proof -
  let ?t = "take_bit 47 (c_div time MSEC_PER_SEC)"
  have "?t mod 256 ^ 6 = ?t"
    using take_bit_int_less_exp [of 47 "c_div time MSEC_PER_SEC"] by (intro mod_pos_pos_trivial) auto
  then have "word_of_int (be_val (sys_put_be48 env (item_time time))) = item_time time"
    unfolding item_first_byte be_val_be_bytes by (simp only: item_time_def)
  then show ?thesis using byteorder length_put_be48 by (simp add: byteorder_ok_def)
qed

text \<open>What a successful write does to an EEPROM: the current item, and one byte of the next.\<close>

lemma write_item_setup:
  assumes "ring_ok s" "current_offset s = slot s c" "c < slots s"
    and "appl_storage_write_item env s time val w = (0, s', w')"
  shows "s' = s\<lparr>current_offset := slot s (next_slot (slots s) c)\<rparr>"
  using assms(4) next_slot_offset [OF assms(1,3)] assms(2)
  by (auto simp: appl_storage_write_item_def Let_def c_bool_def split: prod.splits if_splits)

lemma write_item_memory:
  assumes "ring_ok s" "current_offset s = slot s c" "c < slots s" "config s = cfg" "\<not> is_flash_device cfg"
    and "length val = value_size cfg"
    and "appl_storage_write_item env s time val w = (0, s', w')"
  obtains w1 where "\<forall>x. x \<noteq> slot s (next_slot (slots s) c) \<longrightarrow> mem w1 x = mem w x"
    "appl_storage_write_memory env cfg (slot s c) (sys_put_be48 env (item_time time) @ val) w1 = (0, w')"
proof -
  let ?n = "slot s (next_slot (slots s) c)"
  have isize: "item_size s = value_size cfg + 6" using assms(1,4) by (simp add: ring_ok_def)
  have room: "mem w1 x = mem w x" if "storage_make_room env s ?n w = (0, w1)" "x \<noteq> ?n" for w1 x
    using that assms(4,5) erase_ok [of ?n 1 w w1 x] by (auto simp: storage_make_room_def)
  have cases: "(\<exists>w1. storage_make_room env s ?n w = (0, w1) \<and>
        appl_storage_write_memory env cfg (slot s c) (sys_put_be48 env (item_time time) @ val) w1 = (0, w')) \<or>
     appl_storage_write_memory env cfg (slot s c) (sys_put_be48 env (item_time time) @ val) w = (0, w')"
    using assms(7) next_slot_offset [OF assms(1,3)] isize assms(4,6)
    unfolding appl_storage_write_item_def assms(2)
    by (auto simp: Let_def c_bool_def split: prod.splits if_splits)
  from cases show thesis using room that by blast
qed

end

text \<open>A device that also answers every read below \<open>lim\<close>.\<close>

locale storage_memory_live = storage_memory +
  fixes lim :: nat
  assumes read_live: "a + n \<le> lim \<Longrightarrow> fst (appl_storage_read_memory env cfg a n w) = 0"
begin

abbreviation item_bytes :: "storage_setup \<Rightarrow> nat \<Rightarrow> 'a \<Rightarrow> u8 list" where
  "item_bytes s c w \<equiv> map (mem w) [slot s c..<slot s c + item_size s]"

lemma read_item_decode:
  assumes "ring_ok s" "config s = cfg" "c < slots s" "end_offset s \<le> lim"
  shows "appl_storage_read_item env s (slot s c) vsize w =
     (let p = prev_slot (slots s) c; (rc, t, v) = decode_item env s vsize (item_bytes s p w)
      in (rc, slot s p, t, v))"
proof -
  let ?p = "prev_slot (slots s) c"
  have "slot s ?p + item_size s \<le> lim"
    using slot_mono [of "Suc ?p" "slots s" s] prev_slot_less [OF assms(3)] assms(4) slot_end [OF assms(1)]
    by (simp add: slot_Suc)
  from read_live [OF this, of w] read_ok [of "slot s ?p" "item_size s" w]
  have "appl_storage_read_memory env cfg (slot s ?p) (item_size s) w = (0, item_bytes s ?p w)"
    by (metis prod.collapse)
  then show ?thesis
    using prev_slot_offset [OF assms(1,3)] assms(2)
    by (simp add: appl_storage_read_item_def decode_item_def Let_def split: option.splits)
qed

lemma read_item_frame:
  assumes "ring_ok s" "config s = cfg" "end_offset s \<le> lim" "c < slots s"
    and "item_bytes s (prev_slot (slots s) c) w' = item_bytes s (prev_slot (slots s) c) w"
  shows "appl_storage_read_item env s (slot s c) vsize w' = appl_storage_read_item env s (slot s c) vsize w"
  by (simp only: read_item_decode [OF assms(1,2,4,3)] assms(5) Let_def)

text \<open>A read depends only on the items it walks over.\<close>

lemma read_at_frame:
  assumes "ring_ok s" "config s = cfg" "end_offset s \<le> lim" "c < slots s"
    and "\<forall>j \<le> k. item_bytes s ((prev_slot (slots s) ^^ Suc j) c) w' = item_bytes s ((prev_slot (slots s) ^^ Suc j) c) w"
  shows "read_at env s k (slot s c) vsize w' = read_at env s k (slot s c) vsize w"
  using assms(4,5)
proof (induction k arbitrary: c)
  case 0
  then show ?case using read_item_frame [OF assms(1-3), of c w' w] by simp
next
  case (Suc k)
  let ?p = "prev_slot (slots s) c"
  have same: "item_bytes s ?p w' = item_bytes s ?p w" using Suc.prems(2) by (auto dest: spec [of _ 0])
  have "read_at env s k (slot s ?p) vsize w' = read_at env s k (slot s ?p) vsize w"
  proof (rule Suc.IH)
    show "?p < slots s" using Suc.prems(1) by (rule prev_slot_less)
    show "\<forall>j\<le>k. item_bytes s ((prev_slot (slots s) ^^ Suc j) ?p) w' = item_bytes s ((prev_slot (slots s) ^^ Suc j) ?p) w"
      using Suc.prems(2) by (auto simp: funpow_swap1 dest: spec [of _ "Suc _"])
  qed
  moreover have "fst (snd (appl_storage_read_item env s (slot s c) None w)) = slot s ?p"
    using read_item_decode [OF assms(1,2) Suc.prems(1) assms(3)] by (simp add: Let_def split: prod.splits)
  ultimately show ?case using read_item_frame [OF assms(1-3) Suc.prems(1) same]
    by (auto simp: Let_def split: prod.splits)
qed

lemma item_bytes_frame:
  assumes "ring_ok s" "current_offset s = slot s c" "c < slots s" "config s = cfg" "\<not> is_flash_device cfg"
    and "length val = value_size cfg"
    and "appl_storage_write_item env s time val w = (0, s', w')"
    and "d \<noteq> c" "d \<noteq> next_slot (slots s) c"
  shows "item_bytes s d w' = item_bytes s d w"
proof -
  have isize: "item_size s = value_size cfg + 6" using assms(1,4) by (simp add: ring_ok_def)
  obtain w1 where w1: "\<forall>x. x \<noteq> slot s (next_slot (slots s) c) \<longrightarrow> mem w1 x = mem w x"
    and wr: "appl_storage_write_memory env cfg (slot s c) (sys_put_be48 env (item_time time) @ val) w1 = (0, w')"
    by (rule write_item_memory [OF assms(1-7)])
  have "mem w' x = mem w x" if "slot s d \<le> x" "x < slot s d + item_size s" for x
  proof -
    have "mem w' x = mem w1 x"
      using write_frame [OF wr] slot_disjoint [OF assms(8) that] isize assms(6) by auto
    moreover have "x \<noteq> slot s (next_slot (slots s) c)"
      using slot_disjoint [OF assms(9) that] isize by auto
    ultimately show ?thesis using w1 by simp
  qed
  then show ?thesis by simp
qed

lemma item_bytes_written:
  assumes "ring_ok s" "current_offset s = slot s c" "c < slots s" "config s = cfg" "\<not> is_flash_device cfg"
    and "length val = value_size cfg"
    and "appl_storage_write_item env s time val w = (0, s', w')"
  shows "item_bytes s c w' = sys_put_be48 env (item_time time) @ val"
proof -
  have isize: "item_size s = value_size cfg + 6" using assms(1,4) by (simp add: ring_ok_def)
  obtain w1 where wr:
    "appl_storage_write_memory env cfg (slot s c) (sys_put_be48 env (item_time time) @ val) w1 = (0, w')"
    by (rule write_item_memory [OF assms])
  show ?thesis
    using write_data [OF wr] assms(5,6) isize by (intro nth_equalityI) simp_all
qed

lemma read_at_newest:
  assumes "ring_ok s" "current_offset s = slot s c" "c < slots s" "config s = cfg" "\<not> is_flash_device cfg"
    and "length val = value_size cfg" "erase_value s = 0xff" "end_offset s \<le> lim"
    and "appl_storage_write_item env s time val w = (0, s', w')"
  shows "read_at env s' 0 (current_offset s') (Some vs) w' =
    (int (min vs (value_size cfg)), item_time time * 1000, take vs val)"
proof -
  let ?n = "next_slot (slots s) c"
  have s': "s' = s\<lparr>current_offset := slot s ?n\<rparr>" by (rule write_item_setup [OF assms(1-3,9)])
  have same: "slots s' = slots s" "slot s' = slot s" "config s' = cfg" "end_offset s' = end_offset s"
      "item_size s' = item_size s"
    using s' assms(4) by (simp_all add: slots_def slot_def fun_eq_iff)
  have n: "?n < slots s" using assms(3) by (rule next_slot_less)
  have ring: "ring_ok s'" using assms(1,4) same s' n by (auto simp: ring_ok_def)
  have "?n < slots s'" "end_offset s' \<le> lim" using n assms(8) same by simp_all
  note rd = read_item_decode [OF ring same(3) this, of "Some vs" w']
  have ev: "erase_value s' = 0xff" "current_offset s' = slot s ?n" using assms(7) s' by simp_all
  have "appl_storage_read_item env s' (slot s ?n) (Some vs) w' =
      (let (rc, t, v) = decode_item env s' (Some vs) (sys_put_be48 env (item_time time) @ val) in (rc, slot s c, t, v))"
    using rd by (simp only: same Let_def prev_next_slot [OF assms(3)] item_bytes_written [OF assms(1-6,9)])
  then show ?thesis
    using item_not_erased assms(6) by (simp add: decode_item_def get_put_time ev same Let_def min_def)
qed

text \<open>Older items move one index up, except the one whose first byte was erased.\<close>

lemma read_at_older:
  assumes "ring_ok s" "current_offset s = slot s c" "c < slots s" "config s = cfg" "\<not> is_flash_device cfg"
    and "length val = value_size cfg" "erase_value s = 0xff" "end_offset s \<le> lim"
    and "appl_storage_write_item env s time val w = (0, s', w')"
    and "k + 2 < slots s"
  shows "read_at env s' (Suc k) (current_offset s') vsize w' = read_at env s k (current_offset s) vsize w"
proof -
  have s': "s' = s\<lparr>current_offset := slot s (next_slot (slots s) c)\<rparr>"
    by (rule write_item_setup [OF assms(1-3,9)])
  have reads: "read_at env s' j cur vsize u = read_at env s j cur vsize u" for j cur u
    unfolding s' by (rule read_at_current)
  have first: "read_at env s (Suc k) (slot s (next_slot (slots s) c)) vsize w' = read_at env s k (slot s c) vsize w'"
  proof -
    have "\<not> is_erased (item_bytes s c w') 6 0xff"
      using item_bytes_written [OF assms(1-6,9)] item_not_erased by simp
    moreover have "0 < value_size (config s)" using assms(1) by (simp add: ring_ok_def)
    ultimately show ?thesis
      using read_item_decode [OF assms(1,4) next_slot_less [OF assms(3)] assms(8), of None w'] assms(7)
      by (simp add: prev_next_slot [OF assms(3)] decode_item_def Let_def)
  qed
  have "read_at env s k (slot s c) vsize w' = read_at env s k (slot s c) vsize w"
  proof (rule read_at_frame [OF assms(1,4,8,3)], intro allI impI)
    fix j assume "j \<le> k"
    then have "(prev_slot (slots s) ^^ Suc j) c \<noteq> c \<and> (prev_slot (slots s) ^^ Suc j) c \<noteq> next_slot (slots s) c"
      using assms(3,10) by (intro prev_slot_iter_fresh) auto
    then show "item_bytes s ((prev_slot (slots s) ^^ Suc j) c) w' = item_bytes s ((prev_slot (slots s) ^^ Suc j) c) w"
      by (intro item_bytes_frame [OF assms(1-6,9)]) auto
  qed
  then show ?thesis using first reads s' assms(2) by (simp del: read_at.simps)
qed

end

section \<open>The EEPROM log of an application\<close>

text \<open>An initialised area on an EEPROM that answers every read below \<open>lim\<close>.\<close>

definition eeprom_log_ok :: "'w storage_env \<Rightarrow> ('w \<Rightarrow> nat \<Rightarrow> u8) \<Rightarrow> nat \<Rightarrow> storage_setup \<Rightarrow> bool" where
  "eeprom_log_ok env mem lim s \<longleftrightarrow>
     (\<exists>dev. storage_device (config s) = Some dev \<and> eeprom_driver_ok env dev mem \<and>
        (\<forall>w. device_is_ready env dev w) \<and> (\<forall>a n w. a + n \<le> lim \<longrightarrow> fst (eeprom_read env dev a n w) = 0)) \<and>
     byteorder_ok env \<and> cfg_eeprom_appl_storage env \<and> \<not> is_flash_device (config s) \<and>
     ring_ok s \<and> erase_value s = 0xff \<and> end_offset s \<le> lim"

lemma eeprom_log_live:
  "eeprom_log_ok env mem lim s \<Longrightarrow> storage_memory_live env (config s) mem 0xff lim"
  by (auto simp: eeprom_log_ok_def storage_memory_live_def storage_memory_live_axioms_def
      appl_storage_read_memory_def intro: storage_memory_eeprom)

lemma setup_index: "appl_storage_setup sid setups = Some i \<Longrightarrow> i < length setups"
  by (auto simp: appl_storage_setup_def find_Some_iff split: if_splits)

lemma setup_after_write:
  assumes "appl_storage_setup sid setups = Some i"
    and "config s = config (setups ! i)" "init_state s = init_state (setups ! i)"
  shows "appl_storage_setup sid (setups[i := s]) = Some i"
proof -
  have "storage_id (config (setups[i := s] ! j)) = storage_id (config (setups ! j)) \<and>
      init_state (setups[i := s] ! j) = init_state (setups ! j)" if "j < length setups" for j
    using assms(2,3) that by (cases "i = j") auto
  then have "find (\<lambda>j. storage_id (config (setups[i := s] ! j)) = sid \<and> init_state (setups[i := s] ! j) = STORAGE_INITIALIZED)
        [0..<length setups]
      = find (\<lambda>j. storage_id (config (setups ! j)) = sid \<and> init_state (setups ! j) = STORAGE_INITIALIZED)
        [0..<length setups]"
    by (intro find_cong) auto
  then show ?thesis using assms(1) by (simp only: appl_storage_setup_def length_list_update)
qed

text \<open>A successful write through the API is a successful write of the area's item.\<close>

lemma write_bytes_item_area:
  assumes "appl_storage_setup sid (storage_setups st) = Some i" "s = storage_setups st ! i"
    and "appl_storage_write_bytes_item env now sid val st = (0, st')" "ring_ok s"
  obtains c s' w' where "c < slots s" "current_offset s = slot s c"
    "appl_storage_write_item env s now val (storage_world st) = (0, s', w')"
    "s' = s\<lparr>current_offset := slot s (next_slot (slots s) c)\<rparr>"
    "storage_setups st' ! i = s'" "storage_world st' = w'"
    "appl_storage_setup sid (storage_setups st') = Some i"
proof -
  obtain c where c: "c < slots s" "current_offset s = slot s c" using assms(4) by (auto simp: ring_ok_def)
  obtain s' w' where wr: "appl_storage_write_item env s now val (storage_world st) = (0, s', w')"
    and st': "st' = st\<lparr>storage_setups := (storage_setups st)[i := s'], storage_world := w'\<rparr>"
    using assms(1-3) by (auto simp: appl_storage_write_bytes_item_def split: prod.splits)
  have s': "s' = s\<lparr>current_offset := slot s (next_slot (slots s) c)\<rparr>"
    using next_slot_offset [OF assms(4) c(1)] wr c(2)
    by (auto simp: appl_storage_write_item_def Let_def c_bool_def split: prod.splits if_splits)
  have "appl_storage_setup sid (storage_setups st') = Some i"
    using setup_after_write [OF assms(1), of s'] s' st' assms(2) by simp
  then show thesis using that c wr s' st' setup_index [OF assms(1)] by simp
qed

lemma write_keeps_ring:
  assumes "ring_ok s" "c < slots s"
  shows "ring_ok (s\<lparr>current_offset := slot s (next_slot (slots s) c)\<rparr>)"
proof -
  let ?s = "s\<lparr>current_offset := slot s (next_slot (slots s) c)\<rparr>"
  have "slots ?s = slots s" "slot ?s = slot s" by (simp_all add: slots_def slot_def fun_eq_iff)
  then show ?thesis using assms next_slot_less [OF assms(2)] by (auto simp: ring_ok_def)
qed

subsection \<open>A simulated EEPROM\<close>

text \<open>256 bytes of EEPROM that behave as the driver is documented, to exercise the model.\<close>

definition sim_env :: "(nat \<Rightarrow> u8) storage_env" where
  "sim_env = \<lparr>cfg_flash_appl_storage = False, cfg_eeprom_appl_storage = True,
     device_is_ready = (\<lambda>_ _. True),
     eeprom_read = (\<lambda>_ a n w. if a + n \<le> 256 then (0, map w [a..<a + n]) else (- EINVAL, [])),
     eeprom_write = (\<lambda>_ a d w. if a + length d \<le> 256
        then (0, \<lambda>x. if a \<le> x \<and> x < a + length d then d ! (x - a) else w x) else (- EINVAL, w)),
     flash_read = (\<lambda>_ _ _ _. (- ENOTSUP, [])), flash_write = (\<lambda>_ _ _ w. (- ENOTSUP, w)),
     flash_erase = (\<lambda>_ _ _ w. (- ENOTSUP, w)),
     flash_get_page_info_by_offs = (\<lambda>_ _. (- ENOTSUP, no_page_info)),
     flash_get_parameters = (\<lambda>_. None),
     sys_put_be16 = (\<lambda>x. be_bytes 2 (uint x)), sys_put_be32 = (\<lambda>x. be_bytes 4 (uint x)),
     sys_put_be48 = (\<lambda>x. be_bytes 6 (uint x)),
     sys_get_be16 = (\<lambda>d. word_of_int (be_val d)), sys_get_be48 = (\<lambda>d. word_of_int (be_val d))\<rparr>"

definition sim_config :: storage_config where
  "sim_config = \<lparr>storage_device = Some 0, storage_desc = ''boot-code'', is_flash_device = False,
     storage_id = 1, magic = 0x01200340, version = 2, pages = 1, value_size = 2\<rparr>"

lemma sim_byteorder: "byteorder_ok sim_env"
  by (simp add: byteorder_ok_def sim_env_def)

lemma sim_driver: "eeprom_driver_ok sim_env dev (\<lambda>w. w)"
  by (auto simp: eeprom_driver_ok_def sim_env_def split: if_splits)

interpretation sim: storage_memory_live sim_env sim_config "\<lambda>w. w" "0xff" "256"
proof (intro storage_memory_live.intro storage_memory_live_axioms.intro)
  show "storage_memory sim_env sim_config (\<lambda>w. w) 0xff"
    by (rule storage_memory_eeprom [OF _ _ sim_driver sim_byteorder]) (simp_all add: sim_config_def)
  show "fst (appl_storage_read_memory sim_env sim_config a n w) = 0" if "a + n \<le> 256" for a n w
    using that by (simp add: appl_storage_read_memory_def sim_config_def sim_env_def)
qed

lemma sim_log_ok:
  assumes "config s = sim_config" "ring_ok s" "erase_value s = 0xff" "end_offset s \<le> 256"
  shows "eeprom_log_ok sim_env (\<lambda>w. w) 256 s"
  using assms sim_driver sim_byteorder
  by (auto simp: eeprom_log_ok_def sim_config_def) (simp_all add: sim_env_def)

text \<open>The simulated device after start-up, with an area for boot codes.\<close>

definition sim_state :: "(nat \<Rightarrow> u8) storage_state" where
  "sim_state =
     \<lparr>storage_setups =
        [\<lparr>config = sim_config, header = [1, 32, 3, 64, 0, 0, 0, 2, 0, 2], erase_value = 0xff,
          init_state = STORAGE_INITIALIZED, page_size = 128, item_size = 8, headers_offset = 0,
          start_offset = 16, current_offset = 16, end_offset = 128\<rparr>],
      storage_world = (\<lambda>x. if x < 10 then [1, 32, 3, 64, 0, 0, 0, 2, 0, 2] ! x else 0xff)\<rparr>"

lemma sim_state_ok: "eeprom_log_ok sim_env (\<lambda>w. w) 256 (storage_setups sim_state ! 0)"
proof (rule sim_log_ok)
  have "slots (storage_setups sim_state ! 0) = 14" by (simp add: sim_state_def slots_def)
  then show "ring_ok (storage_setups sim_state ! 0)"
    by (auto simp: sim_state_def ring_ok_def slot_def sim_config_def intro!: exI [of _ 0])
qed (simp_all add: sim_state_def)

section \<open>Properties\<close>

lemma write_read_newest:
  assumes "appl_storage_setup sid (storage_setups st) = Some i"
    and "eeprom_log_ok env mem lim (storage_setups st ! i)"
    and "length val = value_size (config (storage_setups st ! i))"
    and "appl_storage_write_bytes_item env now sid val st = (0, st')"
  shows "appl_storage_read_bytes_item env sid 0 (Some vs) st' =
      (int (min vs (length val)), item_time now * 1000, take vs val) \<and>
    eeprom_log_ok env mem lim (storage_setups st' ! i) \<and>
    appl_storage_setup sid (storage_setups st') = Some i"
proof -
  let ?s = "storage_setups st ! i"
  note live = eeprom_log_live [OF assms(2)]
  have ok: "ring_ok ?s" "\<not> is_flash_device (config ?s)" "erase_value ?s = 0xff" "end_offset ?s \<le> lim"
    using assms(2) by (simp_all add: eeprom_log_ok_def)
  obtain c s' w' where c: "c < slots ?s" "current_offset ?s = slot ?s c"
    and wr: "appl_storage_write_item env ?s now val (storage_world st) = (0, s', w')"
    and s': "s' = ?s\<lparr>current_offset := slot ?s (next_slot (slots ?s) c)\<rparr>"
    and st': "storage_setups st' ! i = s'" "storage_world st' = w'"
      "appl_storage_setup sid (storage_setups st') = Some i"
    by (rule write_bytes_item_area [OF assms(1) refl assms(4) ok(1)])
  have "ring_ok s'" using write_keeps_ring [OF ok(1) c(1)] s' by simp
  then have "eeprom_log_ok env mem lim s'" using assms(2) s' by (simp add: eeprom_log_ok_def)
  then show ?thesis
    using storage_memory_live.read_at_newest [OF live ok(1) c(2,1) refl ok(2) assms(3) ok(3,4) wr] st' assms(3)
    by (simp add: read_bytes_item_at del: read_at.simps)
qed

text \<open>C6. The newest item of an EEPROM log: after a successful \<open>appl_storage_write_bytes_item\<close> of a
  value of the area's size, index 0 reads that value (cut to the reader's buffer) with the time of
  the write, in whole seconds of 47 bits; and the area stays well-formed, so this holds after every
  sequence of writes, around the ring any number of times.\<close>

theorem storage_write_read_newest:
  assumes "appl_storage_setup sid (storage_setups st) = Some i"
    and "eeprom_log_ok env mem lim (storage_setups st ! i)"
    and "length val = value_size (config (storage_setups st ! i))"
    and "appl_storage_write_bytes_item env now sid val st = (0, st')"
  shows "appl_storage_read_bytes_item env sid 0 (Some vs) st' =
      (int (min vs (length val)), item_time now * 1000, take vs val) \<and>
    eeprom_log_ok env mem lim (storage_setups st' ! i) \<and>
    appl_storage_setup sid (storage_setups st') = Some i"
  using write_read_newest [OF assms] .

theorem storage_write_read_newest_witness:
  "let st' = snd (appl_storage_write_bytes_item sim_env 5999 1 [0xab, 0xcd] sim_state)
   in appl_storage_read_bytes_item sim_env 1 0 (Some 2) st' = (2, 5000, [0xab, 0xcd])"
proof -
  have "appl_storage_setup 1 (storage_setups sim_state) = Some 0" by code_simp
  moreover have "fst (appl_storage_write_bytes_item sim_env 5999 1 [0xab, 0xcd] sim_state) = 0" by code_simp
  moreover have "item_time 5999 = 5" by code_simp
  ultimately show ?thesis
    using storage_write_read_newest [OF _ sim_state_ok, of 1 "[0xab, 0xcd]" 5999
        "snd (appl_storage_write_bytes_item sim_env 5999 1 [0xab, 0xcd] sim_state)" 2]
    by (simp add: prod_eq_iff sim_state_def sim_config_def)
qed

text \<open>C7. The older items of an EEPROM log: after a successful write, index \<open>k + 1\<close> reads exactly what
  index \<open>k\<close> read before (the same result code, time and value), for all but the two oldest positions
  of the ring: the one overwritten and the one whose first byte was erased to make room.\<close>

theorem storage_write_keeps_older:
  assumes "appl_storage_setup sid (storage_setups st) = Some i"
    and "eeprom_log_ok env mem lim (storage_setups st ! i)"
    and "length val = value_size (config (storage_setups st ! i))"
    and "appl_storage_write_bytes_item env now sid val st = (0, st')"
    and "k + 2 < slots (storage_setups st ! i)"
  shows "appl_storage_read_bytes_item env sid (Suc k) vsize st' = appl_storage_read_bytes_item env sid k vsize st"
proof -
  let ?s = "storage_setups st ! i"
  note live = eeprom_log_live [OF assms(2)]
  have ok: "ring_ok ?s" "\<not> is_flash_device (config ?s)" "erase_value ?s = 0xff" "end_offset ?s \<le> lim"
    using assms(2) by (simp_all add: eeprom_log_ok_def)
  obtain c s' w' where c: "c < slots ?s" "current_offset ?s = slot ?s c"
    and wr: "appl_storage_write_item env ?s now val (storage_world st) = (0, s', w')"
    and st': "storage_setups st' ! i = s'" "storage_world st' = w'"
      "appl_storage_setup sid (storage_setups st') = Some i"
    by (rule write_bytes_item_area [OF assms(1) refl assms(4) ok(1)])
  show ?thesis
    using storage_memory_live.read_at_older [OF live ok(1) c(2,1) refl ok(2) assms(3) ok(3,4) wr assms(5)] st' assms(1)
    by (simp add: read_bytes_item_at del: read_at.simps)
qed

theorem storage_write_keeps_older_witness:
  "let st' = snd (appl_storage_write_bytes_item sim_env 5999 1 [0xab, 0xcd] sim_state)
   in appl_storage_read_bytes_item sim_env 1 1 (Some 2) st' = appl_storage_read_bytes_item sim_env 1 0 (Some 2) sim_state"
proof -
  have "appl_storage_setup 1 (storage_setups sim_state) = Some 0" by code_simp
  moreover have "fst (appl_storage_write_bytes_item sim_env 5999 1 [0xab, 0xcd] sim_state) = 0" by code_simp
  moreover have "slots (storage_setups sim_state ! 0) = 14" by (simp add: slots_def sim_state_def)
  ultimately show ?thesis
    using storage_write_keeps_older [OF _ sim_state_ok, of 1 "[0xab, 0xcd]" 5999
        "snd (appl_storage_write_bytes_item sim_env 5999 1 [0xab, 0xcd] sim_state)" 0]
    by (simp add: prod_eq_iff sim_state_def sim_config_def)
qed

text \<open>A ring of three items on the simulated EEPROM, its start-up and a sequence of writes.\<close>

definition wide_config :: storage_config where
  "wide_config = sim_config\<lparr>value_size := 26\<rparr>"

definition sim_reboot :: "(nat \<Rightarrow> u8) storage_state \<Rightarrow> (nat \<Rightarrow> u8) storage_state" where
  "sim_reboot st = (case appl_storage_init sim_env [wide_config] (st\<lparr>storage_setups := []\<rparr>) of
     Some st' \<Rightarrow> st' | None \<Rightarrow> st)"

fun sim_writes :: "nat \<Rightarrow> (nat \<Rightarrow> u8) storage_state \<Rightarrow> (nat \<Rightarrow> u8) storage_state" where
  "sim_writes 0 st = st"
| "sim_writes (Suc n) st =
     sim_writes n (snd (appl_storage_write_bytes_item sim_env (1000 * int n) 1 (replicate 26 7) st))"

definition sim_blank :: "(nat \<Rightarrow> u8) storage_state" where
  "sim_blank = \<lparr>storage_setups = [], storage_world = (\<lambda>_. 0xff)\<rparr>"


end
