(* ===== verification/Coap_Client.thy ===== *)
theory Coap_Client
  imports Prelude
begin

text \<open>
  The CoAP helpers of \<open>src/src/coap_client.c\<close>: matching a received message to the request that is
  waiting for it, ETags and content formats, the acknowledgement of a separate response and the
  token of the next request.

  The CoAP codec is Zephyr's and not part of this repository: \<open>coap_env\<close> bundles its functions as
  parameters over an abstract type \<open>'p\<close> of packets. A function that fails returns a negative number
  and the packet it was working on.
\<close>

section \<open>Zephyr's CoAP codec\<close>

record coap_option =
  opt_value :: "u8 list"

record 'p coap_env =
  coap_packet_parse :: "u8 list \<Rightarrow> int \<times> 'p"
  coap_header_get_type :: "'p \<Rightarrow> u8"
  coap_header_get_code :: "'p \<Rightarrow> u8"
  coap_header_get_id :: "'p \<Rightarrow> u16"
  coap_header_get_token :: "'p \<Rightarrow> u8 list"
  coap_packet_get_payload :: "'p \<Rightarrow> u8 list"
  coap_find_options :: "'p \<Rightarrow> nat \<Rightarrow> int \<times> coap_option"
  coap_option_value_to_int :: "coap_option \<Rightarrow> int"
  coap_ack_init :: "'p \<Rightarrow> nat \<Rightarrow> int \<times> u8 list"
  coap_packet_init :: "nat \<Rightarrow> u8 \<Rightarrow> u8 list \<Rightarrow> u8 \<Rightarrow> u16 \<Rightarrow> int \<times> 'p"
  coap_packet_set_path :: "'p \<Rightarrow> string \<Rightarrow> int \<times> 'p"
  coap_append_option_int :: "'p \<Rightarrow> nat \<Rightarrow> int \<Rightarrow> int \<times> 'p"
  coap_packet_append_option :: "'p \<Rightarrow> nat \<Rightarrow> u8 list \<Rightarrow> int \<times> 'p"
  coap_packet_append_payload_marker :: "'p \<Rightarrow> int \<times> 'p"
  coap_packet_append_payload :: "'p \<Rightarrow> u8 list \<Rightarrow> int \<times> 'p"
  coap_packet_data :: "'p \<Rightarrow> u8 list"

abbreviation (input) COAP_TYPE_CON :: u8 where "COAP_TYPE_CON \<equiv> 0"
abbreviation (input) COAP_TYPE_NON_CON :: u8 where "COAP_TYPE_NON_CON \<equiv> 1"
abbreviation (input) COAP_TYPE_ACK :: u8 where "COAP_TYPE_ACK \<equiv> 2"
abbreviation (input) COAP_TYPE_RESET :: u8 where "COAP_TYPE_RESET \<equiv> 3"
abbreviation (input) COAP_CODE_EMPTY :: u8 where "COAP_CODE_EMPTY \<equiv> 0"
abbreviation (input) COAP_METHOD_GET :: u8 where "COAP_METHOD_GET \<equiv> 1"
abbreviation (input) COAP_METHOD_POST :: u8 where "COAP_METHOD_POST \<equiv> 2"
abbreviation (input) COAP_RESPONSE_CODE_CHANGED :: u8 where "COAP_RESPONSE_CODE_CHANGED \<equiv> 68"
abbreviation (input) COAP_RESPONSE_CODE_CONTENT :: u8 where "COAP_RESPONSE_CODE_CONTENT \<equiv> 69"
abbreviation (input) COAP_RESPONSE_CODE_BAD_REQUEST :: u8 where "COAP_RESPONSE_CODE_BAD_REQUEST \<equiv> 128"
abbreviation (input) COAP_TOKEN_MAX_LEN :: nat where "COAP_TOKEN_MAX_LEN \<equiv> 8"
abbreviation (input) COAP_OPTION_ETAG :: nat where "COAP_OPTION_ETAG \<equiv> 4"
abbreviation (input) COAP_OPTION_CONTENT_FORMAT :: nat where "COAP_OPTION_CONTENT_FORMAT \<equiv> 12"
abbreviation (input) COAP_OPTION_BLOCK2 :: nat where "COAP_OPTION_BLOCK2 \<equiv> 23"

abbreviation (input) COAP_CONTENT_FORMAT_TEXT_PLAIN :: int where "COAP_CONTENT_FORMAT_TEXT_PLAIN \<equiv> 0"
abbreviation (input) COAP_CONTENT_FORMAT_APP_LINK_FORMAT :: int where "COAP_CONTENT_FORMAT_APP_LINK_FORMAT \<equiv> 40"
abbreviation (input) COAP_CONTENT_FORMAT_APP_XML :: int where "COAP_CONTENT_FORMAT_APP_XML \<equiv> 41"
abbreviation (input) COAP_CONTENT_FORMAT_APP_OCTET_STREAM :: int where "COAP_CONTENT_FORMAT_APP_OCTET_STREAM \<equiv> 42"
abbreviation (input) COAP_CONTENT_FORMAT_APP_EXI :: int where "COAP_CONTENT_FORMAT_APP_EXI \<equiv> 47"
abbreviation (input) COAP_CONTENT_FORMAT_APP_JSON :: int where "COAP_CONTENT_FORMAT_APP_JSON \<equiv> 50"
abbreviation (input) COAP_CONTENT_FORMAT_APP_JSON_PATCH_JSON :: int where "COAP_CONTENT_FORMAT_APP_JSON_PATCH_JSON \<equiv> 51"
abbreviation (input) COAP_CONTENT_FORMAT_APP_MERGE_PATCH_JSON :: int where "COAP_CONTENT_FORMAT_APP_MERGE_PATCH_JSON \<equiv> 52"

section \<open>Results and contexts\<close>

datatype parse_result_t = PARSE_NONE | PARSE_IGN | PARSE_RST | PARSE_ACK | PARSE_RESPONSE | PARSE_CON_RESPONSE

fun parse_code :: "parse_result_t \<Rightarrow> nat" where
  "parse_code PARSE_NONE = 0"
| "parse_code PARSE_IGN = 1"
| "parse_code PARSE_RST = 2"
| "parse_code PARSE_ACK = 3"
| "parse_code PARSE_RESPONSE = 4"
| "parse_code PARSE_CON_RESPONSE = 5"

lemma parse_code_inj: "parse_code r = parse_code r' \<longleftrightarrow> r = r'"
  by (cases r; cases r') simp_all

text \<open>The results are compared by their number in the enumeration.\<close>

instantiation parse_result_t :: linorder
begin

definition less_eq_parse_result_t :: "parse_result_t \<Rightarrow> parse_result_t \<Rightarrow> bool" where
  "less_eq_parse_result_t r r' = (parse_code r \<le> parse_code r')"

definition less_parse_result_t :: "parse_result_t \<Rightarrow> parse_result_t \<Rightarrow> bool" where
  "less_parse_result_t r r' = (parse_code r < parse_code r')"

instance
  by standard (auto simp: less_eq_parse_result_t_def less_parse_result_t_def parse_code_inj [symmetric])

end

text \<open>A context: \<open>message\<close> is what the first \<open>message_len\<close> bytes of \<open>message_buf\<close> hold. Between two
  messages the buffer is also scratch space for a received payload, of which nothing stays.\<close>

record coap_context =
  ctx_token :: u32
  ctx_mid :: u16
  message :: "u8 list"

definition coap_context_init :: coap_context where
  "coap_context_init = \<lparr>ctx_token = 0, ctx_mid = 0, message = []\<rparr>"

record coap_client =
  token_factory :: u32
  ack_context :: coap_context

text \<open>A token as it lies in memory; the controller is little-endian.\<close>

definition token_bytes :: "u32 \<Rightarrow> u8 list" where
  "token_bytes t = rev (be_bytes 4 (uint t))"

section \<open>Operations\<close>

text \<open>An option of a message, if \<open>coap_find_options\<close> finds exactly one.\<close>

definition find_option :: "'p coap_env \<Rightarrow> 'p \<Rightarrow> nat \<Rightarrow> coap_option option" where
  "find_option env reply n = (let (err, opt) = coap_find_options env reply n in if err = 1 then Some opt else None)"

text \<open>The ETag buffer: its length in the first of \<open>COAP_TOKEN_MAX_LEN + 1\<close> bytes.\<close>

definition coap_client_decode_etag :: "coap_option \<Rightarrow> int \<times> u8 list" where
  "coap_client_decode_etag opt =
     (let len = length (opt_value opt)
      in if len = 0 then (0, replicate (COAP_TOKEN_MAX_LEN + 1) 0)
         else (let len = min len COAP_TOKEN_MAX_LEN
               in (int len, of_nat len # take len (opt_value opt) @ replicate (COAP_TOKEN_MAX_LEN - len) 0)))"

definition coap_client_decode_content_format :: "'p coap_env \<Rightarrow> coap_option \<Rightarrow> int" where
  "coap_client_decode_content_format env opt = coap_option_value_to_int env opt"

definition coap_client_printable_content_format :: "int \<Rightarrow> bool" where
  "coap_client_printable_content_format format \<longleftrightarrow>
     format = COAP_CONTENT_FORMAT_TEXT_PLAIN \<or> format = COAP_CONTENT_FORMAT_APP_LINK_FORMAT \<or>
     format = COAP_CONTENT_FORMAT_APP_XML \<or> format = COAP_CONTENT_FORMAT_APP_EXI \<or>
     format = COAP_CONTENT_FORMAT_APP_JSON \<or> format = COAP_CONTENT_FORMAT_APP_JSON_PATCH_JSON \<or>
     format = COAP_CONTENT_FORMAT_APP_MERGE_PATCH_JSON"

text \<open>The token check at the end of \<open>coap_client_match\<close>, reached by every message that is not empty
  (and by an empty one of an unknown type).\<close>

definition coap_match_token :: "'p coap_env \<Rightarrow> 'p \<Rightarrow> u32 \<Rightarrow> parse_result_t" where
  "coap_match_token env reply expected_token =
     (let token = coap_header_get_token env reply
      in if length token \<noteq> 4 \<or> token \<noteq> token_bytes expected_token then PARSE_NONE
         else if coap_header_get_type env reply = COAP_TYPE_CON then PARSE_CON_RESPONSE
         else PARSE_RESPONSE)"

definition coap_client_match :: "'p coap_env \<Rightarrow> 'p \<Rightarrow> u16 \<Rightarrow> u32 \<Rightarrow> parse_result_t" where
  "coap_client_match env reply expected_mid expected_token =
     (let type = coap_header_get_type env reply;
          code = coap_header_get_code env reply;
          mid = coap_header_get_id env reply
      in if code = COAP_CODE_EMPTY
         then (if type = COAP_TYPE_CON then PARSE_IGN
               else if expected_mid = mid
                    then (if type = COAP_TYPE_ACK then PARSE_ACK
                          else if type = COAP_TYPE_RESET then PARSE_RST
                          else if type = COAP_TYPE_NON_CON then PARSE_IGN
                          else coap_match_token env reply expected_token)
                    else PARSE_NONE)
         else coap_match_token env reply expected_token)"

text \<open>The payload that is copied to the buffer of \<open>sz\<close> bytes to be logged, with its terminator.\<close>

definition coap_client_dump_payload :: "nat \<Rightarrow> u8 list \<Rightarrow> u8 list" where
  "coap_client_dump_payload sz payload = take (min (length payload) (sz - 1)) payload @ [0]"

definition coap_client_prepare_ack :: "'p coap_env \<Rightarrow> 'p \<Rightarrow> coap_client \<Rightarrow> parse_result_t \<times> coap_client" where
  "coap_client_prepare_ack env reply cc =
     (let (err, msg) = coap_ack_init env reply 4
      in if err < 0 then (PARSE_RESPONSE, cc\<lparr>ack_context := (ack_context cc)\<lparr>message := []\<rparr>\<rparr>)
         else (PARSE_CON_RESPONSE, cc\<lparr>ack_context := (ack_context cc)\<lparr>message := msg\<rparr>\<rparr>))"

definition coap_client_next_token :: "coap_client \<Rightarrow> u32 \<times> coap_client" where
  "coap_client_next_token cc = (token_factory cc, cc\<lparr>token_factory := token_factory cc + 1\<rparr>)"

text \<open>What \<open>coap_client_message\<close>, \<open>coap_appl_client_message\<close> and their siblings hand out: the message
  and its length.\<close>

definition coap_context_message :: "coap_context \<Rightarrow> int \<times> u8 list" where
  "coap_context_message c = (int (length (message c)), message c)"

definition coap_client_message :: "coap_client \<Rightarrow> int \<times> u8 list" where
  "coap_client_message cc = coap_context_message (ack_context cc)"

definition coap_client_init :: "u32 \<Rightarrow> coap_client \<Rightarrow> coap_client" where
  "coap_client_init rnd cc = cc\<lparr>token_factory := rnd\<rparr>"

section \<open>Properties\<close>

lemma token_bytes_inj: "token_bytes t = token_bytes t' \<longleftrightarrow> t = t'"
proof
  assume "token_bytes t = token_bytes t'"
  then have "be_val (be_bytes 4 (uint t)) = be_val (be_bytes 4 (uint t'))"
    by (simp add: token_bytes_def)
  moreover have "uint x mod 256 ^ 4 = uint x" for x :: u32
    using uint_lt2p [of x] by (intro mod_pos_pos_trivial) auto
  ultimately have "uint t = uint t'" by (simp only: be_val_be_bytes)
  then show "t = t'" by (rule word_uint_eqI)
qed simp

lemma length_token_bytes [simp]: "length (token_bytes t) = 4"
  by (simp add: token_bytes_def)

text \<open>The token of the \<open>n\<close>-th request after the factory stands at \<open>t\<close>.\<close>

fun tokens :: "nat \<Rightarrow> coap_client \<Rightarrow> u32 list" where
  "tokens 0 cc = []"
| "tokens (Suc n) cc = (let (t, cc) = coap_client_next_token cc in t # tokens n cc)"

lemma tokens_nth: "i < n \<Longrightarrow> tokens n cc ! i = token_factory cc + of_nat i"
  by (induction n arbitrary: i cc) (auto simp: coap_client_next_token_def nth_Cons split: nat.split)

lemma length_tokens [simp]: "length (tokens n cc) = n"
  by (induction n arbitrary: cc) (auto simp: coap_client_next_token_def)

lemma of_nat_u32_inj:
  "i < 2 ^ 32 \<Longrightarrow> j < 2 ^ 32 \<Longrightarrow> (of_nat i :: u32) = of_nat j \<longleftrightarrow> i = j"
  by (simp add: word_of_nat_eq_iff take_bit_nat_eq_self)

lemma match_response_iff:
  assumes "coap_header_get_type env reply \<in> {COAP_TYPE_CON, COAP_TYPE_NON_CON, COAP_TYPE_ACK, COAP_TYPE_RESET}"
  shows "PARSE_RESPONSE \<le> coap_client_match env reply mid token \<longleftrightarrow>
    coap_header_get_code env reply \<noteq> 0 \<and> coap_header_get_token env reply = token_bytes token"
  using assms
  by (auto simp: coap_client_match_def coap_match_token_def Let_def less_eq_parse_result_t_def)

text \<open>A codec over packets that are already taken apart, to exercise the model.\<close>

record sim_packet =
  pk_type :: u8
  pk_code :: u8
  pk_id :: u16
  pk_token :: "u8 list"
  pk_options :: "(nat \<times> u8 list) list"
  pk_payload :: "u8 list"

definition sim_reply :: "u8 \<Rightarrow> u8 \<Rightarrow> u16 \<Rightarrow> u8 list \<Rightarrow> sim_packet" where
  "sim_reply type code mid token =
     \<lparr>pk_type = type, pk_code = code, pk_id = mid, pk_token = token, pk_options = [], pk_payload = []\<rparr>"

definition sim_coap :: "sim_packet coap_env" where
  "sim_coap = \<lparr>coap_packet_parse = (\<lambda>d. if length d < 4 then (- EINVAL, sim_reply 0 0 0 [])
        else (0, sim_reply (hd d) (d ! 1) (ucast (d ! 2)) (drop 4 d))),
     coap_header_get_type = pk_type, coap_header_get_code = pk_code, coap_header_get_id = pk_id,
     coap_header_get_token = pk_token, coap_packet_get_payload = pk_payload,
     coap_find_options = (\<lambda>p n. case map_of (pk_options p) n of None \<Rightarrow> (0, \<lparr>opt_value = []\<rparr>)
        | Some v \<Rightarrow> (1, \<lparr>opt_value = v\<rparr>)),
     coap_option_value_to_int = (\<lambda>opt. be_val (opt_value opt)),
     coap_ack_init = (\<lambda>p n. (0, [96, 0, 0, ucast (pk_id p)])),
     coap_packet_init = (\<lambda>n type token code mid. (0, sim_reply type code mid token)),
     coap_packet_set_path = (\<lambda>p s. (0, p)),
     coap_append_option_int = (\<lambda>p n v. (0, p\<lparr>pk_options := pk_options p @ [(n, be_bytes 4 v)]\<rparr>)),
     coap_packet_append_option = (\<lambda>p n v. (0, p\<lparr>pk_options := pk_options p @ [(n, v)]\<rparr>)),
     coap_packet_append_payload_marker = (\<lambda>p. (0, p)),
     coap_packet_append_payload = (\<lambda>p d. (0, p\<lparr>pk_payload := pk_payload p @ d\<rparr>)),
     coap_packet_data = pk_payload\<rparr>"



text \<open>C20. No late response is taken for the reply to a newer request: of any \<open>n \<le> 2^32\<close> requests that
  follow each other, a message that carries the token of the \<open>i\<close>-th is no response for the \<open>j\<close>-th.\<close>

theorem coap_stale_response_rejected:
  assumes "i < n" "j < n" "i \<noteq> j" "n \<le> 2 ^ 32"
    and "coap_header_get_type env reply \<in> {COAP_TYPE_CON, COAP_TYPE_NON_CON, COAP_TYPE_ACK, COAP_TYPE_RESET}"
    and "coap_header_get_token env reply = token_bytes (tokens n cc ! i)"
  shows "coap_client_match env reply mid (tokens n cc ! j) < PARSE_RESPONSE"
proof -
  have "tokens n cc ! i \<noteq> tokens n cc ! j"
    using assms(1-4) of_nat_u32_inj [of i j] by (simp add: tokens_nth)
  then have "\<not> PARSE_RESPONSE \<le> coap_client_match env reply mid (tokens n cc ! j)"
    using assms(6) by (simp add: match_response_iff [OF assms(5)] token_bytes_inj)
  then show ?thesis by simp
qed

definition sim_cc :: coap_client where
  "sim_cc = \<lparr>token_factory = 0xffffffff, ack_context = coap_context_init\<rparr>"

theorem coap_stale_response_rejected_witness:
  "tokens 2 sim_cc = [0xffffffff, 0] \<and>
   coap_client_match sim_coap (sim_reply 0 69 7 (token_bytes (tokens 2 sim_cc ! 0))) 7 (tokens 2 sim_cc ! 1) < PARSE_RESPONSE"
proof -
  have "tokens 2 sim_cc = [0xffffffff, 0]" by code_simp
  then show ?thesis
    using coap_stale_response_rejected [of 0 2 1 sim_coap "sim_reply 0 69 7 (token_bytes (tokens 2 sim_cc ! 0))" sim_cc 7]
    by (simp add: sim_coap_def sim_reply_def)
qed

section \<open>The interface of a client\<close>

text \<open>What the DTLS client uses of a CoAP client is its \<open>coap_handler_t\<close>: the message to (re)transmit
  and the handler of a received datagram. It relies on the message staying as it is until a response
  arrives, and on its being gone then.\<close>

fun receive_all :: "(u8 list \<Rightarrow> 's \<Rightarrow> (int + parse_result_t) \<times> 's) \<Rightarrow> u8 list list \<Rightarrow> 's \<Rightarrow> (int + parse_result_t) list \<times> 's" where
  "receive_all parse_data [] s = ([], s)"
| "receive_all parse_data (d # ds) s =
     (let (r, s) = parse_data d s; (rs, s) = receive_all parse_data ds s in (r # rs, s))"

definition is_response :: "int + parse_result_t \<Rightarrow> bool" where
  "is_response r = (case r of Inl _ \<Rightarrow> False | Inr p \<Rightarrow> PARSE_RESPONSE \<le> p)"

locale coap_handler =
  fixes get_message :: "'s \<Rightarrow> int \<times> u8 list"
    and parse_data :: "u8 list \<Rightarrow> 's \<Rightarrow> (int + parse_result_t) \<times> 's"
    and handler_inv :: "'s \<Rightarrow> bool"
  assumes no_response: "parse_data d s = (r, s') \<Longrightarrow> \<not> is_response r \<Longrightarrow> s' = s"
    and response: "handler_inv s \<Longrightarrow> parse_data d s = (r, s') \<Longrightarrow> is_response r \<Longrightarrow>
      handler_inv s' \<and> get_message s' = (0, [])"
begin

lemma receive_all_message:
  "handler_inv s \<Longrightarrow> receive_all parse_data ds s = (rs, s') \<Longrightarrow>
   handler_inv s' \<and> get_message s' = (if \<exists>r \<in> set rs. is_response r then (0, []) else get_message s)"
proof (induction ds arbitrary: s rs s')
  case (Cons d ds)
  obtain r s1 where p: "parse_data d s = (r, s1)" by fastforce
  obtain rs1 where rest: "receive_all parse_data ds s1 = (rs1, s')" "rs = r # rs1"
    using Cons.prems p by (auto split: prod.splits)
  have inv: "handler_inv s1" using Cons.prems(1) no_response [OF p] response [OF Cons.prems(1) p] by blast
  have "handler_inv s' \<and> get_message s' = (if \<exists>r \<in> set rs1. is_response r then (0, []) else get_message s1)"
    by (rule Cons.IH [OF inv rest(1)])
  then show ?case using no_response [OF p] response [OF Cons.prems(1) p] rest(2) by auto
qed simp

end

end
