(* ===== verification/Coap_Appl.thy ===== *)
theory Coap_Appl
  imports Coap_Client Parse Appl_Time
begin

text \<open>
  The application's CoAP exchange, \<open>src/src/coap_appl_client.c\<close>: the time option, the reply to a
  request and the commands in its text payload, the request, and the retry strategy; and the
  provisioning client \<open>src/src/coap_prov_client.c\<close>, which shares the frame of its reply handler.

  The report texts (\<open>prepare_modem_info\<close> and its siblings) are not modelled: the payload of a request
  is an argument.
\<close>

section \<open>The time option\<close>

text \<open>The index of the first byte that is not 0.\<close>

definition skip_zeros :: "u8 list \<Rightarrow> nat" where
  "skip_zeros data = length (takeWhile (\<lambda>b. b = 0) data)"

text \<open>The option value: the time without leading zeros, with one zero kept in front of a byte with
  the sign bit. \<open>None\<close> is the read of \<open>data[8]\<close>, past the array.\<close>

definition coap_appl_client_encode_time :: "u64 \<Rightarrow> u8 list option" where
  "coap_appl_client_encode_time time =
     (let data = be_bytes 8 (uint time); index = skip_zeros data
      in if index > 0
         then (if index \<ge> length data then None
               else if bit (data ! index) 7 then Some (drop (index - 1) data)
               else Some (drop index data))
         else Some (drop index data))"

definition decode_time_value :: "u8 list \<Rightarrow> u64" where
  "decode_time_value vs = foldl (\<lambda>time b. or (push_bit 8 time) (ucast b)) 0 vs"

definition coap_appl_client_decode_time :: "u64 \<Rightarrow> coap_option \<Rightarrow> appl_clock \<Rightarrow> appl_clock" where
  "coap_appl_client_decode_time uptime opt clk =
     (if opt_value opt = [] then clk else appl_set_now uptime (decode_time_value (opt_value opt)) clk)"

section \<open>The text payload of a reply\<close>

abbreviation (input) FIELD_ENDS :: cstring where
  "FIELD_ENDS \<equiv> [CHR '' '', CHR '':'', CHR ''='', CHR 0x0A, CHR 0x0D]"
abbreviation (input) VALUE_SEPS :: cstring where "VALUE_SEPS \<equiv> [CHR '' '', CHR '':'', CHR ''='']"
abbreviation (input) LINE_ENDS :: cstring where "LINE_ENDS \<equiv> [CHR 0x0A, CHR 0x0D]"

text \<open>One turn of the loop: the name and the value it finds, and the text it leaves. The text cut off
  in place is never looked at again, so the strings are values.\<close>

definition next_text_field :: "cstring \<Rightarrow> (cstring \<times> cstring) \<times> cstring" where
  "next_text_field payload =
     (let pos = strcspn payload FIELD_ENDS
      in if pos > 0
         then (case drop pos payload of
                 [] \<Rightarrow> ((take pos payload, []), [])
               | sep # r \<Rightarrow>
                   (let n = strcspn r LINE_ENDS;
                        (val, r) = (if strchr VALUE_SEPS sep \<noteq> None \<and> n > 0
                                    then (take n r, case drop n r of [] \<Rightarrow> [] | _ # r' \<Rightarrow> r')
                                    else ([], r))
                    in ((take pos payload, val), drop (strspn r LINE_ENDS) r)))
         else ((payload, []), []))"

lemma next_text_field_shorter:
  assumes "payload \<noteq> []"
  shows "length (snd (next_text_field payload)) < length payload"
proof -
  have "length r < length payload" if "drop pos payload = sep # r" for pos sep r
    using arg_cong [OF that, of length] by simp
  moreover have "length (case drop n r of [] \<Rightarrow> [] | _ # r' \<Rightarrow> r') \<le> length r" for n and r :: cstring
    using length_drop [of n r] by (cases "drop n r") auto
  ultimately show ?thesis using assms
    by (fastforce simp: next_text_field_def Let_def split: list.splits dest: le_less_trans)
qed

function text_fields :: "cstring \<Rightarrow> (cstring \<times> cstring) list" where
  "text_fields payload =
     (if payload = [] then [] else (let (kv, rest) = next_text_field payload in kv # text_fields rest))"
  by pat_completeness auto
termination
  by (relation "measure length") (metis next_text_field_shorter in_measure snd_conv wf_measure | simp)+

declare text_fields.simps [simp del]

text \<open>What a field makes the application do: append a command to the shell queue, with the delay in
  milliseconds, or hand a command to the firmware update; other fields are logged. The shell and
  the update are configured.\<close>

datatype text_action = SH_CMD_APPEND cstring int | APPL_UPDATE_COAP_CMD cstring | TEXT_LOG cstring cstring

definition text_field_action :: "cstring \<times> cstring \<Rightarrow> text_action" where
  "text_field_action kv =
     (let (cur, val) = kv
      in if stricmp cur ''cmd'' = 0
         then (let (cmd, delay) = parse_next_long val 10 (Some 1000);
                   cmd = drop (strspn cmd [CHR '' '', CHR 0x09]) cmd
               in SH_CMD_APPEND cmd (the delay))
         else if stricmp cur ''fw'' = 0 then APPL_UPDATE_COAP_CMD val
         else TEXT_LOG cur val)"

definition coap_appl_client_decode_text_payload :: "cstring \<Rightarrow> text_action list" where
  "coap_appl_client_decode_text_payload payload = map text_field_action (text_fields payload)"

section \<open>The reply to a request\<close>

abbreviation (input) CUSTOM_COAP_OPTION_TIME :: nat where "CUSTOM_COAP_OPTION_TIME \<equiv> 0xfde8"
abbreviation (input) CUSTOM_COAP_OPTION_READ_ETAG :: nat where "CUSTOM_COAP_OPTION_READ_ETAG \<equiv> 0xfdec"
abbreviation (input) CUSTOM_COAP_OPTION_READ_RESPONSE_CODE :: nat where
  "CUSTOM_COAP_OPTION_READ_RESPONSE_CODE \<equiv> 0xfdf0"
abbreviation (input) CUSTOM_COAP_OPTION_INTERVAL :: nat where "CUSTOM_COAP_OPTION_INTERVAL \<equiv> 0xfdf4"
abbreviation (input) CUSTOM_COAP_OPTION_RECV_INTERVAL :: nat where "CUSTOM_COAP_OPTION_RECV_INTERVAL \<equiv> 0xfdfc"
abbreviation (input) CUSTOM_COAP_OPTION_RECV_ADDRESS :: nat where "CUSTOM_COAP_OPTION_RECV_ADDRESS \<equiv> 0xfe00"
abbreviation (input) COAP_OPTION_NO_RESPONSE :: nat where "COAP_OPTION_NO_RESPONSE \<equiv> 0x102"
abbreviation (input) APPL_MESSAGE_BUF_SIZE :: nat where "APPL_MESSAGE_BUF_SIZE \<equiv> 1280"

record coap_appl_state =
  appl_context :: coap_context
  coap_read_etag :: "u8 list"
  clock :: appl_clock
  client :: coap_client

text \<open>A received payload as a C string: it ends at its first NUL byte.\<close>

definition payload_text :: "u8 list \<Rightarrow> cstring" where
  "payload_text payload = takeWhile (\<lambda>c. c \<noteq> NUL) (map (\<lambda>b. char_of (unat b)) payload)"

definition coap_appl_client_decode_response_code :: "'p coap_env \<Rightarrow> coap_option \<Rightarrow> u8" where
  "coap_appl_client_decode_response_code env opt = word_of_int (coap_option_value_to_int env opt)"

definition coap_appl_client_decode_read_etag :: "coap_option \<Rightarrow> coap_appl_state \<Rightarrow> coap_appl_state" where
  "coap_appl_client_decode_read_etag opt st = st\<lparr>coap_read_etag := snd (coap_client_decode_etag opt)\<rparr>"

definition coap_appl_client_parse_data ::
  "'p coap_env \<Rightarrow> u64 \<Rightarrow> u8 list \<Rightarrow> coap_appl_state \<Rightarrow> (int + parse_result_t) \<times> coap_appl_state \<times> text_action list" where
  "coap_appl_client_parse_data env uptime data st =
     (let (err, reply) = coap_packet_parse env data
      in if err < 0 then (Inl err, st, [])
         else (let res = coap_client_match env reply (ctx_mid (appl_context st)) (ctx_token (appl_context st))
               in if res < PARSE_RESPONSE then (Inr res, st, [])
                  else (let code = coap_header_get_code env reply;
                            st = st\<lparr>appl_context := (appl_context st)\<lparr>message := []\<rparr>\<rparr>;
                            st = (case find_option env reply CUSTOM_COAP_OPTION_TIME of None \<Rightarrow> st
                                  | Some opt \<Rightarrow> st\<lparr>clock := coap_appl_client_decode_time uptime opt (clock st)\<rparr>);
                            changed = (code = COAP_RESPONSE_CODE_CHANGED);
                            code = (case find_option env reply CUSTOM_COAP_OPTION_READ_RESPONSE_CODE of
                                      Some opt \<Rightarrow> if changed then coap_appl_client_decode_response_code env opt else code
                                    | None \<Rightarrow> code);
                            st = (case find_option env reply CUSTOM_COAP_OPTION_READ_ETAG of
                                    Some opt \<Rightarrow> if changed then coap_appl_client_decode_read_etag opt st else st
                                  | None \<Rightarrow> st);
                            format = (case find_option env reply COAP_OPTION_CONTENT_FORMAT of
                                        Some opt \<Rightarrow> coap_client_decode_content_format env opt | None \<Rightarrow> - 1);
                            payload = coap_packet_get_payload env reply;
                            acts = (if length payload > 0 \<and> code = COAP_RESPONSE_CODE_CONTENT \<and>
                                       format = COAP_CONTENT_FORMAT_TEXT_PLAIN \<and> length payload < APPL_MESSAGE_BUF_SIZE
                                    then coap_appl_client_decode_text_payload (payload_text payload) else [])
                        in if res = PARSE_CON_RESPONSE
                           then (let (res, cc) = coap_client_prepare_ack env reply (client st)
                                 in (Inr res, st\<lparr>client := cc\<rparr>, acts))
                           else (Inr res, st, acts))))"

abbreviation (input) DTLS_CLIENT_RETRY_STRATEGY_DTLS_HANDSHAKE :: int where
  "DTLS_CLIENT_RETRY_STRATEGY_DTLS_HANDSHAKE \<equiv> 1"
abbreviation (input) DTLS_CLIENT_RETRY_STRATEGY_OFF :: int where "DTLS_CLIENT_RETRY_STRATEGY_OFF \<equiv> 4"
abbreviation (input) DTLS_CLIENT_RETRY_STRATEGY_RESTARTS :: int where "DTLS_CLIENT_RETRY_STRATEGY_RESTARTS \<equiv> 8"

definition coap_appl_client_retry_strategy :: "int \<Rightarrow> bool \<Rightarrow> int" where
  "coap_appl_client_retry_strategy counter dtls =
     (if counter = 1 then 0
      else if counter = 2 then DTLS_CLIENT_RETRY_STRATEGY_OFF
      else if dtls \<and> counter = 3 then DTLS_CLIENT_RETRY_STRATEGY_DTLS_HANDSHAKE
      else DTLS_CLIENT_RETRY_STRATEGY_RESTARTS)"

definition coap_appl_client_message :: "coap_appl_state \<Rightarrow> int \<times> u8 list" where
  "coap_appl_client_message st = coap_context_message (appl_context st)"

section \<open>The request\<close>

text \<open>The rest of a request after a step of the codec that may fail with an error, \<open>Inl (Some err)\<close>.
  \<open>Inl None\<close> is an access outside an array.\<close>

definition coap_step :: "int \<times> 'p \<Rightarrow> ('p \<Rightarrow> int option + 'a) \<Rightarrow> int option + 'a" where
  "coap_step r f = (let (err, p) = r in if err < 0 then Inl (Some err) else f p)"

definition post_then :: "int option + 'a \<Rightarrow> ('a \<Rightarrow> int option + 'b) \<Rightarrow> int option + 'b" where
  "post_then r f = (case r of Inl err \<Rightarrow> Inl err | Inr x \<Rightarrow> f x)"

text \<open>\<open>strstr\<close>, as the index of the first occurrence.\<close>

fun strstr :: "cstring \<Rightarrow> cstring \<Rightarrow> nat option" where
  "strstr [] needle = (if needle = [] then Some 0 else None)"
| "strstr (c # s) needle =
     (if take (length needle) (c # s) = needle then Some 0 else map_option Suc (strstr s needle))"

lemma strstr_bound: "strstr s needle = Some i \<Longrightarrow> i + length needle \<le> length s"
proof (induction s arbitrary: i)
  case (Cons c s)
  then show ?case
  proof (cases "take (length needle) (c # s) = needle")
    case True
    have "length needle \<le> length (c # s)"
      using arg_cong [OF True, of length] by simp
    then show ?thesis using True Cons.prems by auto
  qed auto
qed (auto split: if_splits)

text \<open>A leading \<open>?\<close> is added if the buffer of 64 bytes has room.\<close>

definition query_value :: "cstring \<Rightarrow> cstring" where
  "query_value q = (if c_deref q \<noteq> CHR ''?'' \<and> length q + 1 < 64 then CHR ''?'' # q else q)"

text \<open>The loop that looks for the parameter \<open>read\<close>: its index, if there is one. The outer \<open>None\<close> is
  the look at the byte before the buffer.\<close>

function query_read :: "cstring \<Rightarrow> nat \<Rightarrow> nat option option" where
  "query_read v cur =
     (case strstr (drop cur v) ''read'' of
        None \<Rightarrow> Some None
      | Some d \<Rightarrow>
          (let r = cur + d
           in if r = 0 then None
              else if v ! (r - 1) \<in> {CHR ''?'', CHR ''&''} \<and> c_deref (drop (r + 4) v) \<in> {NUL, CHR ''&'', CHR ''=''}
              then Some (Some r)
              else query_read v (r + 4)))"
  by pat_completeness auto
termination
  by (relation "measure (\<lambda>(v, cur). length v - cur)") (auto dest: strstr_bound)

declare query_read.simps [simp del]

definition query_remove :: "cstring \<Rightarrow> nat \<Rightarrow> cstring" where
  "query_remove v r =
     (case strchr (drop r v) CHR ''&'' of Some rest \<Rightarrow> take r v @ tl rest | None \<Rightarrow> take (r - 1) v)"

text \<open>The query to send and whether it reads; \<open>None\<close> as above.\<close>

definition query_process :: "bool \<Rightarrow> cstring \<Rightarrow> (cstring \<times> bool) option" where
  "query_process no_response q =
     (let v = query_value q
      in case query_read v 0 of
           None \<Rightarrow> None
         | Some None \<Rightarrow> Some (v, False)
         | Some (Some r) \<Rightarrow> Some (if no_response then (query_remove v r, False) else (v, True)))"

text \<open>The settings and modem values a request takes up.\<close>

record post_settings =
  coap_path :: cstring
  coap_query :: cstring
  send_interval :: int
  receive_interval :: int
  local_address :: "u8 list"

definition post_query :: "'p coap_env \<Rightarrow> bool \<Rightarrow> cstring \<Rightarrow> 'p \<Rightarrow> int option + (bool \<times> 'p)" where
  "post_query env no_response q p =
     (if q = [] then Inr (False, p)
      else case query_process no_response q of
             None \<Rightarrow> Inl None
           | Some (v, read_etag) \<Rightarrow> coap_step (coap_packet_set_path env p v) (\<lambda>p. Inr (read_etag, p)))"

definition post_time :: "'p coap_env \<Rightarrow> u64 \<Rightarrow> 'p \<Rightarrow> int option + 'p" where
  "post_time env now p =
     (case coap_appl_client_encode_time now of
        None \<Rightarrow> Inl None
      | Some vs \<Rightarrow> coap_step (coap_packet_append_option env p CUSTOM_COAP_OPTION_TIME vs) Inr)"

definition post_time_and_etag :: "'p coap_env \<Rightarrow> bool \<Rightarrow> bool \<Rightarrow> u8 list \<Rightarrow> u64 \<Rightarrow> 'p \<Rightarrow> int option + 'p" where
  "post_time_and_etag env no_response read_etag etag now p =
     (if no_response
      then coap_step (coap_append_option_int env p COAP_OPTION_NO_RESPONSE 0x1a) Inr
      else post_then (post_time env now p) (\<lambda>p.
             if read_etag \<and> hd etag \<noteq> 0
             then coap_step (coap_packet_append_option env p CUSTOM_COAP_OPTION_READ_ETAG
                    (take (unat (hd etag)) (tl etag))) Inr
             else Inr p))"

definition post_intervals :: "'p coap_env \<Rightarrow> bool \<Rightarrow> post_settings \<Rightarrow> 'p \<Rightarrow> int option + 'p" where
  "post_intervals env no_response ps p =
     coap_step (if send_interval ps > 0
                then coap_append_option_int env p CUSTOM_COAP_OPTION_INTERVAL (send_interval ps) else (0, p)) (\<lambda>p.
       if \<not> no_response \<and> receive_interval ps > 0
       then coap_step (coap_append_option_int env p CUSTOM_COAP_OPTION_RECV_INTERVAL (receive_interval ps)) (\<lambda>p.
              if local_address ps \<noteq> []
              then coap_step (coap_packet_append_option env p CUSTOM_COAP_OPTION_RECV_ADDRESS (local_address ps)) Inr
              else Inr p)
       else Inr p)"

definition post_payload :: "'p coap_env \<Rightarrow> u8 list \<Rightarrow> 'p \<Rightarrow> int option + 'p" where
  "post_payload env payload p =
     (if payload \<noteq> []
      then coap_step (coap_packet_append_payload_marker env p) (\<lambda>p.
             coap_step (coap_packet_append_payload env p payload) Inr)
      else Inr p)"

text \<open>The request for \<open>payload\<close>; \<open>mid\<close> is the id Zephyr hands out. \<open>None\<close> is an access outside an
  array: by the time 0, or by a query that fills its buffer and starts with \<open>read\<close>.\<close>

definition coap_appl_client_prepare_post ::
  "'p coap_env \<Rightarrow> bool \<Rightarrow> u8 list \<Rightarrow> post_settings \<Rightarrow> u16 \<Rightarrow> u64 \<Rightarrow> coap_appl_state
   \<Rightarrow> (int \<times> coap_appl_state) option" where
  "coap_appl_client_prepare_post env no_response payload ps mid uptime st =
     (let (token, cc) = coap_client_next_token (client st);
          st = st\<lparr>appl_context := \<lparr>ctx_token = token, ctx_mid = mid, message = []\<rparr>, client := cc\<rparr>
      in case coap_step (coap_packet_init env APPL_MESSAGE_BUF_SIZE
                   (if no_response then COAP_TYPE_NON_CON else COAP_TYPE_CON) (token_bytes token)
                   COAP_METHOD_POST mid) (\<lambda>p.
                 coap_step (if coap_path ps \<noteq> [] then coap_packet_set_path env p (coap_path ps) else (0, p)) (\<lambda>p.
                 coap_step (coap_append_option_int env p COAP_OPTION_CONTENT_FORMAT COAP_CONTENT_FORMAT_TEXT_PLAIN) (\<lambda>p.
                 post_then (post_query env no_response (coap_query ps) p) (\<lambda>(read_etag, p).
                 post_then (post_time_and_etag env no_response read_etag (coap_read_etag st)
                              (appl_get_now uptime (clock st)) p) (\<lambda>p.
                 post_then (post_intervals env no_response ps p) (\<lambda>p. post_payload env payload p)))))) of
           Inl None \<Rightarrow> None
         | Inl (Some err) \<Rightarrow> Some (err, st)
         | Inr p \<Rightarrow> (let msg = coap_packet_data env p
                    in Some (int (length msg), st\<lparr>appl_context := (appl_context st)\<lparr>message := msg\<rparr>\<rparr>)))"

section \<open>The provisioning client\<close>

record coap_prov_state =
  prov_context :: coap_context
  prov_client :: coap_client

text \<open>The last component of the result tells whether \<open>appl_settings_provisioning_done\<close> is called.\<close>

definition coap_prov_client_parse_data ::
  "'p coap_env \<Rightarrow> u8 list \<Rightarrow> coap_prov_state \<Rightarrow> (int + parse_result_t) \<times> coap_prov_state \<times> bool" where
  "coap_prov_client_parse_data env data st =
     (let (err, reply) = coap_packet_parse env data
      in if err < 0 then (Inl err, st, False)
         else (let res = coap_client_match env reply (ctx_mid (prov_context st)) (ctx_token (prov_context st))
               in if res < PARSE_RESPONSE then (Inr res, st, False)
                  else (let code = coap_header_get_code env reply;
                            st = st\<lparr>prov_context := (prov_context st)\<lparr>message := []\<rparr>\<rparr>;
                            finished = (length (coap_packet_get_payload env reply) > 0 \<and>
                              (code = COAP_RESPONSE_CODE_CHANGED \<or> code = COAP_RESPONSE_CODE_CONTENT))
                        in if res = PARSE_CON_RESPONSE
                           then (let (res, cc) = coap_client_prepare_ack env reply (prov_client st)
                                 in (Inr res, st\<lparr>prov_client := cc\<rparr>, finished))
                           else (Inr res, st, finished))))"

definition coap_prov_client_prepare_post ::
  "'p coap_env \<Rightarrow> u8 list \<Rightarrow> u16 \<Rightarrow> coap_prov_state \<Rightarrow> int \<times> coap_prov_state" where
  "coap_prov_client_prepare_post env provisioning mid st =
     (let st = st\<lparr>prov_context := (prov_context st)\<lparr>message := []\<rparr>\<rparr>
      in if provisioning = [] then (0, st)
         else (let (token, cc) = coap_client_next_token (prov_client st);
                   st = st\<lparr>prov_context := \<lparr>ctx_token = token, ctx_mid = mid, message = []\<rparr>, prov_client := cc\<rparr>;
                   r = coap_step (coap_packet_init env 512 COAP_TYPE_CON (token_bytes token) COAP_METHOD_POST mid) (\<lambda>p.
                       coap_step (coap_packet_set_path env p ''prov'') (\<lambda>p.
                       coap_step (coap_append_option_int env p COAP_OPTION_CONTENT_FORMAT
                         COAP_CONTENT_FORMAT_TEXT_PLAIN) (\<lambda>p. post_payload env provisioning p)))
               in case r of
                    Inl (Some err) \<Rightarrow> (err, st)
                  | Inl None \<Rightarrow> (0, st)
                  | Inr p \<Rightarrow> (let msg = coap_packet_data env p
                             in (int (length msg), st\<lparr>prov_context := (prov_context st)\<lparr>message := msg\<rparr>\<rparr>))))"

definition coap_prov_client_message :: "coap_prov_state \<Rightarrow> int \<times> u8 list" where
  "coap_prov_client_message st = coap_context_message (prov_context st)"

section \<open>Properties of the time option\<close>

lemma decode_time_snoc:
  "decode_time_value (vs @ [b]) = decode_time_value vs * 256 + ucast b"
proof -
  have "or (push_bit 8 t) (ucast b) = push_bit 8 t + (ucast b :: u64)" for t :: u64
    by (rule disjunctive_add [symmetric]) (auto simp: bit_simps dest: bit_imp_le_length)
  then show ?thesis by (simp add: decode_time_value_def push_bit_eq_mult)
qed

lemma decode_time_be_val: "decode_time_value vs = word_of_int (be_val vs)"
proof (induction vs rule: rev_induct)
  case (snoc b vs)
  then show ?case by (simp add: decode_time_snoc)
qed (simp add: decode_time_value_def)

lemma be_val_Cons_0 [simp]: "be_val (0 # vs) = be_val vs"
  by (simp add: be_val_def)

lemma be_val_drop_zeros: "i \<le> skip_zeros vs \<Longrightarrow> be_val (drop i vs) = be_val vs"
proof (induction vs arbitrary: i)
  case (Cons v vs)
  then show ?case by (cases i) (auto simp: skip_zeros_def split: if_splits)
qed simp

lemma skip_zeros_less: "skip_zeros vs < length vs \<longleftrightarrow> (\<exists>b \<in> set vs. b \<noteq> 0)"
proof -
  have "skip_zeros vs \<le> length vs" by (simp add: skip_zeros_def length_takeWhile_le)
  moreover have "skip_zeros vs = length vs \<longleftrightarrow> (\<forall>b \<in> set vs. b = 0)"
    by (induction vs) (simp_all add: skip_zeros_def)
  ultimately show ?thesis by auto
qed

lemma be_val_all_0: "\<forall>b \<in> set vs. b = 0 \<Longrightarrow> be_val vs = 0"
  by (induction vs) auto

lemma be_val_time: "be_val (be_bytes 8 (uint (t :: u64))) = uint t"
  using uint_lt2p [of t] by (simp only: be_val_be_bytes) (intro mod_pos_pos_trivial, auto)

lemma skip_zeros_time: "t \<noteq> 0 \<Longrightarrow> skip_zeros (be_bytes 8 (uint t)) < 8" for t :: u64
  using skip_zeros_less [of "be_bytes 8 (uint t)"] be_val_all_0 [of "be_bytes 8 (uint t)"] be_val_time [of t]
  by (auto simp: uint_0_iff)

text \<open>The time option survives the round trip: every time but 0 is encoded, in one to eight bytes,
  and decoding those sets the clock to the same time. The time 0, which the clock shows until it is
  set for the first time, makes the encoder read past its array.\<close>

lemma coap_time_roundtrip:
  "(case coap_appl_client_encode_time time of
      None \<Rightarrow> time = 0
    | Some vs \<Rightarrow> time \<noteq> 0 \<and> 1 \<le> length vs \<and> length vs \<le> 8 \<and>
        coap_appl_client_decode_time uptime \<lparr>opt_value = vs\<rparr> clk = appl_set_now uptime time clk)"
proof (cases "time = 0")
  case True
  then show ?thesis by (simp add: coap_appl_client_encode_time_def Let_def skip_zeros_def numeral_eq_Suc)
next
  case False
  let ?d = "be_bytes 8 (uint time)"
  note i = skip_zeros_time [OF False]
  have dec: "decode_time_value (drop j ?d) = time" if "j \<le> skip_zeros ?d" for j
    using be_val_drop_zeros [OF that] by (simp add: decode_time_be_val be_val_time)
  obtain j where j: "j \<le> skip_zeros ?d" "coap_appl_client_encode_time time = Some (drop j ?d)"
  proof (cases "skip_zeros ?d > 0 \<and> bit (?d ! skip_zeros ?d) 7")
    case True
    then show ?thesis using i by (intro that [of "skip_zeros ?d - 1"]) (auto simp: coap_appl_client_encode_time_def Let_def)
  next
    case False
    then show ?thesis using i by (intro that [of "skip_zeros ?d"]) (auto simp: coap_appl_client_encode_time_def Let_def)
  qed
  then have "drop j ?d \<noteq> []" using i by (simp add: not_le)
  then show ?thesis
    using j i False dec [OF j(1)] by (simp add: coap_appl_client_decode_time_def)
qed

section \<open>Properties of the text payload\<close>

text \<open>A line of a text payload: a name without separators, one of the three separators, a value
  without line ends, and a line feed.\<close>

definition text_line :: "cstring \<times> char \<times> cstring \<Rightarrow> cstring" where
  "text_line l = (case l of (k, sep, v) \<Rightarrow> k @ sep # v @ [CHR 0x0A])"

definition text_line_ok :: "cstring \<times> char \<times> cstring \<Rightarrow> bool" where
  "text_line_ok l = (case l of (k, sep, v) \<Rightarrow>
     k \<noteq> [] \<and> v \<noteq> [] \<and> sep \<in> set VALUE_SEPS \<and>
     list_all (\<lambda>c. c \<notin> set FIELD_ENDS) k \<and> list_all (\<lambda>c. c \<notin> set LINE_ENDS) v)"

lemma strcspn_append: "list_all (\<lambda>c. c \<notin> set R) k \<Longrightarrow> c \<in> set R \<Longrightarrow> strcspn (k @ c # r) R = length k"
  by (simp add: strcspn_def list_all_iff takeWhile_append2)

lemma next_text_field_line:
  assumes "text_line_ok (k, sep, v)" and "c_deref rest \<notin> set LINE_ENDS"
  shows "next_text_field (text_line (k, sep, v) @ rest) = ((k, v), rest)"
proof -
  have "strcspn (k @ sep # v @ CHR 0x0A # rest) FIELD_ENDS = length k"
    using assms(1) by (intro strcspn_append) (auto simp: text_line_ok_def)
  moreover have "strcspn (v @ CHR 0x0A # rest) LINE_ENDS = length v"
    using assms(1) by (intro strcspn_append) (auto simp: text_line_ok_def)
  moreover have "strspn rest LINE_ENDS = 0"
    using assms(2) by (cases rest) (auto simp: strspn_def)
  moreover have "strchr VALUE_SEPS sep \<noteq> None"
    using assms(1) by (subst strchr_Some_iff) (auto simp: text_line_ok_def)
  ultimately show ?thesis using assms(1)
    by (simp add: next_text_field_def text_line_def text_line_ok_def)
qed

lemma text_line_first: "text_line_ok l \<Longrightarrow> c_deref (text_line l @ r) \<notin> set LINE_ENDS"
  by (cases "fst l"; cases l) (auto simp: text_line_ok_def text_line_def)

text \<open>The text payload of a reply: a text of lines, each a name, a separator (space, \<open>:\<close> or \<open>=\<close>)
  and a value, is taken apart into exactly its names and values, in order.\<close>

lemma text_fields_of_lines:
  assumes "\<forall>l \<in> set ls. text_line_ok l"
  shows "text_fields (concat (map text_line ls)) = map (\<lambda>(k, sep, v). (k, v)) ls"
  using assms
proof (induction ls)
  case (Cons l ls)
  obtain k sep v where l: "l = (k, sep, v)" by (cases l)
  have "c_deref (concat (map text_line ls)) \<notin> set LINE_ENDS"
    using Cons.prems by (cases ls) (auto dest: text_line_first)
  then have "next_text_field (text_line l @ concat (map text_line ls)) = ((k, v), concat (map text_line ls))"
    using Cons.prems l by (intro next_text_field_line [of k sep v, folded l]) auto
  moreover have "text_line l \<noteq> []" by (simp add: text_line_def l)
  ultimately show ?case using Cons l by (simp add: text_fields.simps [of "text_line _ @ _"])
qed (simp add: text_fields.simps)

section \<open>Properties of the exchange\<close>

lemma appl_parse_no_response:
  "coap_appl_client_parse_data env uptime d st = (r, st', acts) \<Longrightarrow> \<not> is_response r \<Longrightarrow> st' = st \<and> acts = []"
  by (auto simp: coap_appl_client_parse_data_def Let_def is_response_def not_le coap_client_prepare_ack_def
      less_eq_parse_result_t_def less_parse_result_t_def split: prod.splits if_splits)

lemma appl_parse_response:
  "coap_appl_client_parse_data env uptime d st = (r, st', acts) \<Longrightarrow> is_response r \<Longrightarrow>
   message (appl_context st') = []"
  by (auto simp: coap_appl_client_parse_data_def Let_def is_response_def coap_client_prepare_ack_def
      coap_appl_client_decode_read_etag_def split: prod.splits if_splits option.splits)

lemma prov_parse_no_response:
  "coap_prov_client_parse_data env d st = (r, st', b) \<Longrightarrow> \<not> is_response r \<Longrightarrow> st' = st \<and> \<not> b"
  by (auto simp: coap_prov_client_parse_data_def Let_def is_response_def not_le coap_client_prepare_ack_def
      less_eq_parse_result_t_def less_parse_result_t_def split: prod.splits if_splits)

lemma prov_parse_response:
  "coap_prov_client_parse_data env d st = (r, st', b) \<Longrightarrow> is_response r \<Longrightarrow> message (prov_context st') = []"
  by (auto simp: coap_prov_client_parse_data_def Let_def is_response_def coap_client_prepare_ack_def
      split: prod.splits if_splits)

text \<open>Both clients give the interface.\<close>

definition appl_handler :: "'p coap_env \<Rightarrow> u64 \<Rightarrow> u8 list \<Rightarrow> coap_appl_state \<Rightarrow> (int + parse_result_t) \<times> coap_appl_state" where
  "appl_handler env uptime d st = (let (r, st, _) = coap_appl_client_parse_data env uptime d st in (r, st))"

definition prov_handler :: "'p coap_env \<Rightarrow> u8 list \<Rightarrow> coap_prov_state \<Rightarrow> (int + parse_result_t) \<times> coap_prov_state" where
  "prov_handler env d st = (let (r, st, _) = coap_prov_client_parse_data env d st in (r, st))"

interpretation appl: coap_handler coap_appl_client_message "appl_handler env uptime" "\<lambda>_. True"
  by standard (auto simp: appl_handler_def coap_appl_client_message_def coap_context_message_def
      dest: appl_parse_no_response appl_parse_response split: prod.splits)

interpretation prov: coap_handler coap_prov_client_message "prov_handler env" "\<lambda>_. True"
  by standard (auto simp: prov_handler_def coap_prov_client_message_def coap_context_message_def
      dest: prov_parse_no_response prov_parse_response split: prod.splits)

text \<open>The message of the application's request is kept for retransmission through any number of
  datagrams that are no response (malformed, foreign, an ACK), and is gone after the first response,
  whatever arrives later.\<close>

lemma appl_message_lifetime:
  "let (rs, st') = receive_all (appl_handler env uptime) ds st
   in coap_appl_client_message st' =
        (if list_ex is_response rs then (0, []) else coap_appl_client_message st)"
proof -
  obtain rs st' where r: "receive_all (appl_handler env uptime) ds st = (rs, st')" by fastforce
  show ?thesis using appl.receive_all_message [OF TrueI r] r by (simp add: list_ex_iff)
qed

text \<open>The same for the provisioning client.\<close>

lemma prov_message_lifetime:
  "let (rs, st') = receive_all (prov_handler env) ds st
   in coap_prov_client_message st' =
        (if list_ex is_response rs then (0, []) else coap_prov_client_message st)"
proof -
  obtain rs st' where r: "receive_all (prov_handler env) ds st = (rs, st')" by fastforce
  show ?thesis using prov.receive_all_message [OF TrueI r] r by (simp add: list_ex_iff)
qed

lemma prepare_post_context:
  "coap_appl_client_prepare_post env nr payload ps mid uptime st = Some (rc, st') \<Longrightarrow>
   ctx_token (appl_context st') = token_factory (client st) \<and> ctx_mid (appl_context st') = mid \<and>
   token_factory (client st') = token_factory (client st) + 1"
  by (auto simp: coap_appl_client_prepare_post_def coap_client_next_token_def Let_def
      split: sum.splits option.splits)

text \<open>Request and reply belong together: after \<open>coap_appl_client_prepare_post\<close> the handler takes a
  well-formed datagram with a response code as the response exactly if it carries the token that the
  request was given, and then answers a confirmable response with the ACK the codec builds for it,
  or, if that fails, with none.\<close>

lemma coap_exchange:
  assumes "coap_appl_client_prepare_post env nr payload ps mid uptime st = Some (rc, st')"
    and "coap_packet_parse env d = (0, reply)"
    and "coap_header_get_type env reply \<in> {COAP_TYPE_CON, COAP_TYPE_NON_CON, COAP_TYPE_ACK, COAP_TYPE_RESET}"
    and "coap_header_get_code env reply \<noteq> COAP_CODE_EMPTY"
  shows "let (r, st'', acts) = coap_appl_client_parse_data env uptime' d st'; (err, ack) = coap_ack_init env reply 4
    in (is_response r \<longleftrightarrow> coap_header_get_token env reply = token_bytes (token_factory (client st))) \<and>
       (is_response r \<longrightarrow>
          (r = Inr PARSE_CON_RESPONSE \<longleftrightarrow> coap_header_get_type env reply = COAP_TYPE_CON \<and> 0 \<le> err) \<and>
          (r = Inr PARSE_CON_RESPONSE \<longrightarrow> coap_client_message (client st'') = (int (length ack), ack)))"
proof -
  have tk: "ctx_token (appl_context st') = token_factory (client st)"
    using prepare_post_context [OF assms(1)] by simp
  let ?m = "coap_client_match env reply (ctx_mid (appl_context st')) (ctx_token (appl_context st'))"
  have resp: "PARSE_RESPONSE \<le> ?m \<longleftrightarrow> coap_header_get_token env reply = token_bytes (token_factory (client st))"
    using match_response_iff [OF assms(3)] assms(4) tk by simp
  have con: "?m = PARSE_CON_RESPONSE \<longleftrightarrow> PARSE_RESPONSE \<le> ?m \<and> coap_header_get_type env reply = COAP_TYPE_CON"
    using assms(3,4) by (auto simp: coap_client_match_def coap_match_token_def Let_def less_eq_parse_result_t_def)
  show ?thesis
  proof (cases "PARSE_RESPONSE \<le> ?m")
    case False
    then have "?m < PARSE_RESPONSE" by simp
    then show ?thesis using resp False assms(2)
      by (simp add: coap_appl_client_parse_data_def is_response_def Let_def split: prod.splits)
  next
    case True
    then have "\<not> ?m < PARSE_RESPONSE" by simp
    then show ?thesis using resp con True assms(2)
      by (auto simp: coap_appl_client_parse_data_def is_response_def Let_def coap_client_prepare_ack_def
          coap_client_message_def coap_context_message_def split: prod.splits if_splits)
  qed
qed

definition sim_appl :: coap_appl_state where
  "sim_appl = \<lparr>appl_context = coap_context_init, coap_read_etag = replicate 9 0,
     clock = \<lparr>appl_time = 1700000000000, appl_uptime = 0\<rparr>, client = sim_cc\<rparr>"

definition sim_settings :: post_settings where
  "sim_settings = \<lparr>coap_path = ''echo'', coap_query = [], send_interval = 60, receive_interval = 0, local_address = []\<rparr>"

end
