(* ===== verification/Appl_Update.thy ===== *)
theory Appl_Update
  imports Parse
begin

text \<open>
  The firmware update of \<open>src/src/appl_update.c\<close>: the life cycle of the image that is written to the
  second bank, and the shell command \<open>update\<close>; with the pending reboot of \<open>src/src/appl_diagnose.c\<close>.

  Zephyr's flash image writer and MCUboot are parameters, \<open>dfu_env\<close>, over a writer context \<open>'c\<close> and a
  world \<open>'w\<close>. \<open>dfu_context\<close> is \<open>None\<close> when its flash area is NULL, as after a memset. \<open>uptime\<close> is what
  \<open>k_uptime_get()\<close> returns at the call. Logging and sleeping are left out.
\<close>

section \<open>Flash image writer and boot loader\<close>

record mcuboot_header =
  mcuboot_version :: nat
  hv_major :: nat
  hv_minor :: nat
  hv_revision :: nat
  hv_build_num :: nat

record ('c, 'w) dfu_env =
  flash_img_init :: "'w \<Rightarrow> int \<times> 'c option \<times> 'w"
  flash_img_buffered_write :: "'c option \<Rightarrow> u8 list \<Rightarrow> bool \<Rightarrow> 'w \<Rightarrow> int \<times> 'c option \<times> 'w"
  flash_img_bytes_written :: "'c option \<Rightarrow> nat"
  flash_area_fa_id :: "'c option \<Rightarrow> int"
  boot_read_bank_header :: "u8 \<Rightarrow> 'w \<Rightarrow> int \<times> mcuboot_header"
  boot_erase_img_bank :: "u8 \<Rightarrow> 'w \<Rightarrow> int \<times> 'w"
  boot_request_upgrade :: "'w \<Rightarrow> int \<times> 'w"
  mcuboot_swap_type :: "'w \<Rightarrow> int"
  boot_is_img_confirmed :: "'w \<Rightarrow> bool"
  boot_write_img_confirmed :: "'w \<Rightarrow> int \<times> 'w"

abbreviation (input) BOOT_SWAP_TYPE_TEST :: int where "BOOT_SWAP_TYPE_TEST \<equiv> 2"
abbreviation (input) BOOT_SWAP_TYPE_PERM :: int where "BOOT_SWAP_TYPE_PERM \<equiv> 3"
abbreviation (input) BOOT_SWAP_TYPE_REVERT :: int where "BOOT_SWAP_TYPE_REVERT \<equiv> 4"
abbreviation (input) UPDATE_CMD_OK :: int where "UPDATE_CMD_OK \<equiv> 0"
abbreviation (input) UPDATE_CMD_DOWNLOAD :: int where "UPDATE_CMD_DOWNLOAD \<equiv> 1"
abbreviation (input) UPDATE_CMD_UPDATE :: int where "UPDATE_CMD_UPDATE \<equiv> 2"
abbreviation (input) ERROR_CODE_UPDATE :: int where "ERROR_CODE_UPDATE \<equiv> 0x8000"

section \<open>State\<close>

text \<open>The flags and the cause of a pending reboot, of \<open>appl_diagnose.c\<close>.\<close>

record reboot_state =
  diagnose_reboots :: bool
  diagnose_shutdown_now :: bool
  shutdown_delay :: nat
  reboot_cause :: int

definition appl_reboot :: "int \<Rightarrow> nat \<Rightarrow> reboot_state \<Rightarrow> reboot_state" where
  "appl_reboot error delay_ms r =
     (let r = r\<lparr>diagnose_reboots := True, reboot_cause := error\<rparr>
      in if delay_ms > 0 then r\<lparr>shutdown_delay := delay_ms\<rparr> else r\<lparr>diagnose_shutdown_now := True\<rparr>)"

definition appl_reboots :: "reboot_state \<Rightarrow> bool" where
  "appl_reboots r = diagnose_reboots r"

record ('c, 'w) dfu_state =
  dfu_context :: "'c option"
  dfu_flash_area_id :: int
  dfu_time :: int
  dfu_reboot :: reboot_state
  dfu_world :: 'w

abbreviation dfu_reboots :: "('c, 'w) dfu_state \<Rightarrow> bool" where
  "dfu_reboots st \<equiv> appl_reboots (dfu_reboot st)"

section \<open>Operations\<close>

definition appl_update_init_context :: "('c, 'w) dfu_env \<Rightarrow> ('c, 'w) dfu_state \<Rightarrow> int \<times> ('c, 'w) dfu_state" where
  "appl_update_init_context env st =
     (let (rc, ctx, w) = flash_img_init env (dfu_world st);
          st = st\<lparr>dfu_flash_area_id := - 1, dfu_context := ctx, dfu_world := w\<rparr>
      in if rc = 0 then (rc, st\<lparr>dfu_flash_area_id := flash_area_fa_id env ctx\<rparr>) else (rc, st))"

text \<open>\<open>%d\<close> for a non-negative number, and the version of an image header.\<close>

fun print_nat :: "nat \<Rightarrow> cstring" where
  "print_nat n = (if n < 10 then [char_of (48 + n)] else print_nat (n div 10) @ [char_of (48 + n mod 10)])"

declare print_nat.simps [simp del]

definition print_version :: "mcuboot_header \<Rightarrow> cstring" where
  "print_version h = print_nat (hv_major h) @ ''.'' @ print_nat (hv_minor h) @ ''.'' @ print_nat (hv_revision h) @
     ''+'' @ print_nat (hv_build_num h)"

text \<open>\<open>appl_update_dump_header\<close> with a buffer of \<open>len\<close> bytes for the version, or with none.\<close>

definition appl_update_dump_header ::
  "('c, 'w) dfu_env \<Rightarrow> nat option \<Rightarrow> ('c, 'w) dfu_state \<Rightarrow> int \<times> cstring option" where
  "appl_update_dump_header env len st =
     (let (rc, h) = boot_read_bank_header env (word_of_int (dfu_flash_area_id st)) (dfu_world st)
      in if rc < 0 then (rc, None)
         else if mcuboot_version h = 1
              then (rc, case len of Some l \<Rightarrow> if l > 0 then Some (take (l - 1) (print_version h)) else None | None \<Rightarrow> None)
              else (- EINVAL, None))"

definition appl_update_reboot :: "('c, 'w) dfu_env \<Rightarrow> ('c, 'w) dfu_state \<Rightarrow> int \<times> ('c, 'w) dfu_state" where
  "appl_update_reboot env st =
     (let swap_type = mcuboot_swap_type env (dfu_world st)
      in if swap_type = BOOT_SWAP_TYPE_TEST \<or> swap_type = BOOT_SWAP_TYPE_PERM \<or> swap_type = BOOT_SWAP_TYPE_REVERT
         then (0, st\<lparr>dfu_reboot := appl_reboot ERROR_CODE_UPDATE 2000 (dfu_reboot st)\<rparr>)
         else (- EINVAL, st))"

definition appl_update_image_verify :: "('c, 'w) dfu_env \<Rightarrow> ('c, 'w) dfu_state \<Rightarrow> int \<times> ('c, 'w) dfu_state" where
  "appl_update_image_verify env st =
     (if dfu_reboots st then (- ESHUTDOWN, st)
      else if boot_is_img_confirmed env (dfu_world st) then (1, st)
      else (let (rc, w) = boot_write_img_confirmed env (dfu_world st) in (rc, st\<lparr>dfu_world := w\<rparr>)))"

text \<open>The branches of \<open>appl_update_cmd\<close> that work on the image.\<close>

definition appl_update_cmd_exec ::
  "('c, 'w) dfu_env \<Rightarrow> cstring \<Rightarrow> int \<Rightarrow> ('c, 'w) dfu_state \<Rightarrow> int \<times> ('c, 'w) dfu_state" where
  "appl_update_cmd_exec env v rc st =
     (if stricmp ''info'' v = 0 then (UPDATE_CMD_OK, st\<lparr>dfu_context := None\<rparr>)
      else if stricmp ''erase'' v = 0
      then (if dfu_flash_area_id st \<ge> 0
            then (let (rc, w) = boot_erase_img_bank env (word_of_int (dfu_flash_area_id st)) (dfu_world st)
                  in (rc, st\<lparr>dfu_world := w\<rparr>))
            else (rc, st))
      else if stricmp ''revert'' v = 0
      then (let (rc, w) = boot_request_upgrade env (dfu_world st) in (rc, st\<lparr>dfu_world := w\<rparr>))
      else if stricmp ''reboot'' v = 0
      then (let st = st\<lparr>dfu_context := None\<rparr>; rc = fst (appl_update_dump_header env None st)
            in if rc < 0 then (UPDATE_CMD_OK, st) else (rc, snd (appl_update_reboot env st)))
      else if stricmp ''verify'' v = 0 then appl_update_image_verify env st
      else (rc, st))"

definition appl_update_cmd ::
  "('c, 'w) dfu_env \<Rightarrow> cstring \<Rightarrow> ('c, 'w) dfu_state \<Rightarrow> int \<times> ('c, 'w) dfu_state" where
  "appl_update_cmd env config st =
     (if dfu_reboots st then (- ESHUTDOWN, st)
      else (let v = (case snd (parse_next_text config (CHR '' '') (Some 10)) of Some v \<Rightarrow> v | None \<Rightarrow> [])
            in if v = [] then (UPDATE_CMD_UPDATE, st)
               else if stricmp ''download'' v = 0 then (UPDATE_CMD_DOWNLOAD, st)
               else if stricmp ''info'' v \<noteq> 0 \<and> stricmp ''erase'' v \<noteq> 0 \<and> stricmp ''revert'' v \<noteq> 0 \<and>
                       stricmp ''reboot'' v \<noteq> 0 \<and> stricmp ''verify'' v \<noteq> 0
               then (- EINVAL, st)
               else (let close = (dfu_context st = None);
                         (rc, st) = (if close then appl_update_init_context env st else (0, st))
                     in if close \<and> rc < 0 then (rc, st)
                        else (let (rc, st) = appl_update_cmd_exec env v rc st
                              in if close then (rc, st\<lparr>dfu_context := None, dfu_flash_area_id := - 1\<rparr>)
                                 else (rc, st)))))"

definition appl_update_pending :: "('c, 'w) dfu_state \<Rightarrow> bool" where
  "appl_update_pending st = (dfu_flash_area_id st \<ge> 0)"

definition appl_update_start :: "('c, 'w) dfu_env \<Rightarrow> int \<Rightarrow> ('c, 'w) dfu_state \<Rightarrow> int \<times> ('c, 'w) dfu_state" where
  "appl_update_start env uptime st =
     (if dfu_reboots st then (- ESHUTDOWN, st)
      else if dfu_context st \<noteq> None then (- EINPROGRESS, st)
      else (let (rc, st) = appl_update_init_context env st
            in if rc = 0 then (rc, st\<lparr>dfu_time := uptime\<rparr>) else (rc, st)))"

text \<open>A \<open>size_t\<close>: \<open>- ESHUTDOWN\<close> wraps to a large number.\<close>

definition appl_update_written :: "('c, 'w) dfu_env \<Rightarrow> ('c, 'w) dfu_state \<Rightarrow> u32" where
  "appl_update_written env st =
     (if dfu_reboots st then word_of_int (- ESHUTDOWN)
      else if dfu_context st \<noteq> None then of_nat (flash_img_bytes_written env (dfu_context st))
      else 0)"

definition appl_update_erase :: "('c, 'w) dfu_env \<Rightarrow> ('c, 'w) dfu_state \<Rightarrow> int \<times> ('c, 'w) dfu_state" where
  "appl_update_erase env st =
     (if dfu_reboots st then (- ESHUTDOWN, st)
      else if dfu_flash_area_id st \<ge> 0
      then (let (rc, w) = boot_erase_img_bank env (word_of_int (dfu_flash_area_id st)) (dfu_world st)
            in (rc, st\<lparr>dfu_time := - 1, dfu_world := w\<rparr>))
      else (- EINVAL, st))"

definition appl_update_write ::
  "('c, 'w) dfu_env \<Rightarrow> u8 list \<Rightarrow> ('c, 'w) dfu_state \<Rightarrow> int \<times> ('c, 'w) dfu_state" where
  "appl_update_write env data st =
     (if dfu_reboots st then (- ESHUTDOWN, st)
      else (let (rc, ctx, w) = flash_img_buffered_write env (dfu_context st) data False (dfu_world st)
            in (rc, st\<lparr>dfu_context := ctx, dfu_world := w\<rparr>)))"

definition dfu_stop_time :: "int \<Rightarrow> ('c, 'w) dfu_state \<Rightarrow> ('c, 'w) dfu_state" where
  "dfu_stop_time uptime st = (if dfu_time st > - 1 then st\<lparr>dfu_time := uptime - dfu_time st\<rparr> else st)"

definition appl_update_finish ::
  "('c, 'w) dfu_env \<Rightarrow> int \<Rightarrow> ('c, 'w) dfu_state \<Rightarrow> int \<times> ('c, 'w) dfu_state" where
  "appl_update_finish env uptime st =
     (if dfu_reboots st then (- ESHUTDOWN, st)
      else (let (rc, ctx, w) = flash_img_buffered_write env (dfu_context st) [] True (dfu_world st);
                st = st\<lparr>dfu_context := ctx, dfu_world := w\<rparr>
            in if rc = 0 then (rc, dfu_stop_time uptime st) else (rc, st)))"

definition appl_update_cancel ::
  "('c, 'w) dfu_env \<Rightarrow> int \<Rightarrow> ('c, 'w) dfu_state \<Rightarrow> int \<times> ('c, 'w) dfu_state" where
  "appl_update_cancel env uptime st =
     (if dfu_reboots st then (- ESHUTDOWN, st)
      else (let (rc, ctx, w) = flash_img_buffered_write env (dfu_context st) [] True (dfu_world st);
                st = st\<lparr>dfu_context := ctx, dfu_world := w\<rparr>
            in if rc = 0 then (rc, (dfu_stop_time uptime st)\<lparr>dfu_flash_area_id := - 1\<rparr>) else (rc, st)))"

definition appl_update_time :: "int \<Rightarrow> ('c, 'w) dfu_state \<Rightarrow> int" where
  "appl_update_time uptime st =
     (if dfu_context st \<noteq> None \<and> dfu_time st > - 1 then uptime - dfu_time st else dfu_time st)"

definition appl_update_get_pending_version ::
  "('c, 'w) dfu_env \<Rightarrow> nat \<Rightarrow> ('c, 'w) dfu_state \<Rightarrow> int \<times> cstring option" where
  "appl_update_get_pending_version env len st =
     (if dfu_reboots st then (- ESHUTDOWN, None)
      else if dfu_flash_area_id st < 0 then (- EINVAL, None)
      else appl_update_dump_header env (Some len) st)"

definition appl_update_dump_pending_image :: "('c, 'w) dfu_env \<Rightarrow> ('c, 'w) dfu_state \<Rightarrow> int" where
  "appl_update_dump_pending_image env st =
     (if dfu_reboots st then - ESHUTDOWN
      else if dfu_flash_area_id st < 0 then - EINVAL
      else fst (appl_update_dump_header env None st))"

definition appl_update_request_upgrade ::
  "('c, 'w) dfu_env \<Rightarrow> ('c, 'w) dfu_state \<Rightarrow> int \<times> ('c, 'w) dfu_state" where
  "appl_update_request_upgrade env st =
     (if dfu_reboots st then (- ESHUTDOWN, st)
      else (let (rc, w) = boot_request_upgrade env (dfu_world st) in (rc, st\<lparr>dfu_world := w\<rparr>)))"

definition appl_update_image_unverified :: "('c, 'w) dfu_env \<Rightarrow> ('c, 'w) dfu_state \<Rightarrow> int" where
  "appl_update_image_unverified env st = (if boot_is_img_confirmed env (dfu_world st) then 0 else 1)"

definition appl_update_init :: "('c, 'w) dfu_state \<Rightarrow> ('c, 'w) dfu_state" where
  "appl_update_init st = st\<lparr>dfu_flash_area_id := - 1, dfu_time := - 1, dfu_context := None\<rparr>"

section \<open>The image\<close>

text \<open>What the update relies on in Zephyr's image writer, with \<open>img\<close> the bytes accepted so far: a
  write returns 0 or a negative error, a successful start begins an empty image, a successful write appends, and a successful flush ends the
  transfer and keeps the bytes.\<close>

definition flash_img_ok :: "('c, 'w) dfu_env \<Rightarrow> ('c option \<Rightarrow> 'w \<Rightarrow> u8 list) \<Rightarrow> bool" where
  "flash_img_ok env img \<longleftrightarrow>
     (\<forall>ctx d flush w. fst (flash_img_buffered_write env ctx d flush w) \<le> 0) \<and>
     (\<forall>w ctx w'. flash_img_init env w = (0, ctx, w') \<longrightarrow> ctx \<noteq> None \<and> flash_area_fa_id env ctx \<ge> 0 \<and> img ctx w' = []) \<and>
     (\<forall>c d w ctx' w'. flash_img_buffered_write env (Some c) d False w = (0, ctx', w') \<longrightarrow>
        ctx' \<noteq> None \<and> img ctx' w' = img (Some c) w @ d) \<and>
     (\<forall>c d w ctx' w'. flash_img_buffered_write env (Some c) d True w = (0, ctx', w') \<longrightarrow>
        ctx' = None \<and> img ctx' w' = img (Some c) w @ d)"

definition dfu_image :: "('c option \<Rightarrow> 'w \<Rightarrow> u8 list) \<Rightarrow> ('c, 'w) dfu_state \<Rightarrow> u8 list" where
  "dfu_image img st = img (dfu_context st) (dfu_world st)"

text \<open>What the transfers, over UART and over CoAP, rely on in the update: \<open>active\<close> is a transfer in
  progress and \<open>written\<close> the image so far.\<close>

locale update_api =
  fixes start :: "int \<Rightarrow> 's \<Rightarrow> int \<times> 's"
    and put :: "u8 list \<Rightarrow> 's \<Rightarrow> int \<times> 's"
    and finish :: "int \<Rightarrow> 's \<Rightarrow> int \<times> 's"
    and active :: "'s \<Rightarrow> bool"
    and written :: "'s \<Rightarrow> u8 list"
  assumes start_ok: "start t s = (0, s') \<Longrightarrow> active s' \<and> written s' = []"
    and start_busy: "active s \<Longrightarrow> start t s = (rc, s') \<Longrightarrow> rc < 0 \<and> s' = s"
    and write_ok: "active s \<Longrightarrow> put d s = (0, s') \<Longrightarrow> active s' \<and> written s' = written s @ d"
    and finish_ok: "active s \<Longrightarrow> finish t s = (0, s') \<Longrightarrow> \<not> active s' \<and> written s' = written s"

text \<open>Writing several pieces, stopping at the first error.\<close>

fun write_all :: "(u8 list \<Rightarrow> 's \<Rightarrow> int \<times> 's) \<Rightarrow> u8 list list \<Rightarrow> 's \<Rightarrow> int \<times> 's" where
  "write_all wr [] s = (0, s)"
| "write_all wr (d # ds) s = (let (rc, s) = wr d s in if rc = 0 then write_all wr ds s else (rc, s))"

context update_api
begin

lemma write_all_ok:
  "active s \<Longrightarrow> write_all put ds s = (0, s') \<Longrightarrow> active s' \<and> written s' = written s @ concat ds"
proof (induction ds arbitrary: s)
  case (Cons d ds)
  obtain s1 where w: "put d s = (0, s1)" "write_all put ds s1 = (0, s')"
    using Cons.prems(2) by (auto split: prod.splits if_splits)
  then show ?case using Cons.IH [of s1] write_ok [OF Cons.prems(1) w(1)] by auto
qed simp

lemma transfer_ok:
  assumes "start t s = (0, s1)" "write_all put ds s1 = (0, s2)" "finish t' s2 = (0, s3)"
  shows "written s3 = concat ds \<and> \<not> active s3"
  using start_ok [OF assms(1)] write_all_ok [OF _ assms(2)] finish_ok [OF _ assms(3)] by auto

end

lemma appl_update_write_rc:
  assumes "flash_img_ok env img"
  shows "fst (appl_update_write env d st) \<le> 0"
proof -
  have "fst (flash_img_buffered_write env (dfu_context st) d False (dfu_world st)) \<le> 0"
    using assms unfolding flash_img_ok_def by blast
  then show ?thesis by (simp add: appl_update_write_def case_prod_beta)
qed

lemma update_api_flash:
  assumes "flash_img_ok env img"
  shows "update_api (appl_update_start env) (appl_update_write env) (appl_update_finish env)
    (\<lambda>st. dfu_context st \<noteq> None) (dfu_image img)"
proof
  show "dfu_context s' \<noteq> None \<and> dfu_image img s' = []" if st: "appl_update_start env t s = (0, s')" for t s s'
  proof -
    obtain ctx w where "flash_img_init env (dfu_world s) = (0, ctx, w)" "dfu_context s' = ctx" "dfu_world s' = w"
      using st by (auto simp: appl_update_start_def appl_update_init_context_def Let_def split: prod.splits if_splits)
    then show ?thesis using assms unfolding flash_img_ok_def dfu_image_def by blast
  qed
  show "rc < 0 \<and> s' = s" if "dfu_context s \<noteq> None" "appl_update_start env t s = (rc, s')" for t s rc s'
    using that by (auto simp: appl_update_start_def split: if_splits)
  show "dfu_context s' \<noteq> None \<and> dfu_image img s' = dfu_image img s @ d"
    if st: "dfu_context s \<noteq> None" "appl_update_write env d s = (0, s')" for s d s'
  proof -
    obtain c where c: "dfu_context s = Some c" using st(1) by auto
    obtain ctx w where "flash_img_buffered_write env (Some c) d False (dfu_world s) = (0, ctx, w)"
        "dfu_context s' = ctx" "dfu_world s' = w"
      using st(2) c by (auto simp: appl_update_write_def split: prod.splits if_splits)
    then show ?thesis using assms c unfolding flash_img_ok_def dfu_image_def by simp
  qed
  show "\<not> dfu_context s' \<noteq> None \<and> dfu_image img s' = dfu_image img s"
    if st: "dfu_context s \<noteq> None" "appl_update_finish env t s = (0, s')" for s t s'
  proof -
    obtain c where c: "dfu_context s = Some c" using st(1) by auto
    obtain ctx w where "flash_img_buffered_write env (Some c) [] True (dfu_world s) = (0, ctx, w)"
        "dfu_context s' = ctx" "dfu_world s' = w"
      using st(2) c
      by (auto simp: appl_update_finish_def dfu_stop_time_def Let_def split: prod.splits if_splits)
    then show ?thesis using assms c unfolding flash_img_ok_def dfu_image_def by simp
  qed
qed

text \<open>A writer that keeps the bytes in memory, to exercise the model: the world is the bank.\<close>

definition sim_dfu :: "mcuboot_header \<Rightarrow> (u8 list, u8 list) dfu_env" where
  "sim_dfu h = \<lparr>flash_img_init = (\<lambda>w. (0, Some [], w)),
     flash_img_buffered_write = (\<lambda>ctx d flush w. case ctx of
         None \<Rightarrow> (- EFAULT, None, w)
       | Some b \<Rightarrow> if flush then (0, None, b @ d) else (0, Some (b @ d), w)),
     flash_img_bytes_written = (\<lambda>ctx. case ctx of None \<Rightarrow> 0 | Some b \<Rightarrow> length b),
     flash_area_fa_id = (\<lambda>_. 1),
     boot_read_bank_header = (\<lambda>_ w. if w = [] then (- EIO, h) else (0, h)),
     boot_erase_img_bank = (\<lambda>_ w. (0, [])), boot_request_upgrade = (\<lambda>w. (0, w)),
     mcuboot_swap_type = (\<lambda>w. if w = [] then 1 else 2),
     boot_is_img_confirmed = (\<lambda>_. True), boot_write_img_confirmed = (\<lambda>w. (0, w))\<rparr>"

definition sim_image :: "u8 list option \<Rightarrow> u8 list \<Rightarrow> u8 list" where
  "sim_image ctx w = (case ctx of None \<Rightarrow> w | Some b \<Rightarrow> b)"

lemma sim_dfu_ok: "flash_img_ok (sim_dfu h) sim_image"
  by (auto simp: flash_img_ok_def sim_dfu_def sim_image_def split: option.splits if_splits)

interpretation sim_update: update_api "appl_update_start (sim_dfu h)" "appl_update_write (sim_dfu h)"
  "appl_update_finish (sim_dfu h)" "\<lambda>st. dfu_context st \<noteq> None" "dfu_image sim_image"
  by (rule update_api_flash [OF sim_dfu_ok])

section \<open>Properties\<close>

definition sim_header :: mcuboot_header where
  "sim_header = \<lparr>mcuboot_version = 1, hv_major = 0, hv_minor = 9, hv_revision = 12, hv_build_num = 3\<rparr>"

definition sim_dfu_state :: "(u8 list, u8 list) dfu_state" where
  "sim_dfu_state = \<lparr>dfu_context = None, dfu_flash_area_id = - 1, dfu_time = - 1,
     dfu_reboot = \<lparr>diagnose_reboots = False, diagnose_shutdown_now = False, shutdown_delay = 0, reboot_cause = - 1\<rparr>,
     dfu_world = []\<rparr>"

text \<open>C24. A transfer: when the start, every write and the finish succeed, the image on the bank is
  exactly the pieces in their order, and no transfer is in progress any more.\<close>

theorem update_transfer_image:
  assumes "flash_img_ok env img"
    and "appl_update_start env t st = (0, st1)"
    and "write_all (appl_update_write env) ds st1 = (0, st2)"
    and "appl_update_finish env t' st2 = (0, st3)"
  shows "dfu_image img st3 = concat ds \<and> dfu_context st3 = None"
  using update_api.transfer_ok [OF update_api_flash [OF assms(1)] assms(2-4)] by simp

theorem update_transfer_image_witness:
  "let (_, st1) = appl_update_start (sim_dfu sim_header) 5 sim_dfu_state;
       (_, st2) = write_all (appl_update_write (sim_dfu sim_header)) [[1, 2], [3]] st1;
       (_, st3) = appl_update_finish (sim_dfu sim_header) 9 st2
   in dfu_image sim_image st3 = [1, 2, 3]"
proof -
  let ?e = "sim_dfu sim_header"
  let ?s1 = "appl_update_start ?e 5 sim_dfu_state"
  let ?s2 = "write_all (appl_update_write ?e) [[1, 2], [3]] (snd ?s1)"
  have rc: "fst ?s1 = 0" "fst ?s2 = 0" "fst (appl_update_finish ?e 9 (snd ?s2)) = 0"
    by code_simp+
  have "dfu_image sim_image (snd (appl_update_finish ?e 9 (snd ?s2))) = concat [[1, 2], [3]]"
    using update_transfer_image [OF sim_dfu_ok, of sim_header 5 sim_dfu_state "snd ?s1" "[[1, 2], [3]]" "snd ?s2" 9
        "snd (appl_update_finish ?e 9 (snd ?s2))"] rc
    by (simp add: prod_eq_iff del: write_all.simps)
  then show ?thesis by (simp add: case_prod_beta Let_def)
qed

text \<open>Once a reboot is pending, nothing touches the image any more: every operation of the update,
  and the command \<open>update\<close> with any argument, returns \<open>- ESHUTDOWN\<close> and leaves the state as it is.\<close>

lemma update_refused_before_reboot:
  assumes "appl_reboots (dfu_reboot st)"
  shows "appl_update_cmd env cmd st = (- ESHUTDOWN, st) \<and> appl_update_start env t st = (- ESHUTDOWN, st) \<and>
    appl_update_erase env st = (- ESHUTDOWN, st) \<and> appl_update_write env d st = (- ESHUTDOWN, st) \<and>
    appl_update_finish env t st = (- ESHUTDOWN, st) \<and> appl_update_cancel env t st = (- ESHUTDOWN, st) \<and>
    appl_update_request_upgrade env st = (- ESHUTDOWN, st) \<and> appl_update_image_verify env st = (- ESHUTDOWN, st)"
  using assms by (simp add: appl_update_cmd_def appl_update_start_def appl_update_erase_def appl_update_write_def
      appl_update_finish_def appl_update_cancel_def appl_update_request_upgrade_def appl_update_image_verify_def)

text \<open>The command \<open>update info\<close> during a transfer: it clears the writer's context, so the transfer
  in progress is lost, while the update still counts as pending.\<close>

lemma update_info_drops_transfer:
  assumes "\<not> appl_reboots (dfu_reboot st)" "dfu_context st = Some c"
  shows "appl_update_cmd env ''info'' st = (UPDATE_CMD_OK, st\<lparr>dfu_context := None\<rparr>) \<and>
    appl_update_pending (snd (appl_update_cmd env ''info'' st)) = appl_update_pending st"
proof -
  have "snd (parse_next_text ''info'' (CHR '' '') (Some 10)) = Some ''info''"
    "stricmp ''download'' ''info'' \<noteq> 0" "stricmp ''info'' ''info'' = 0"
    by code_simp+
  then show ?thesis using assms
    by (simp add: appl_update_cmd_def appl_update_cmd_exec_def appl_update_pending_def)
qed

end
