(* ===== verification/Xmodem.thy ===== *)
theory Xmodem
  imports Appl_Update
begin

text \<open>
  The XMODEM receiver of \<open>src/src/appl_update_xmodem.c\<close>, over which an image arrives on the UART:
  collecting a block from the pieces the driver delivers, checking it and writing it to the image.

  The CRC and the byte order are Zephyr's and are parameters, \<open>xmodem_env\<close>.
\<close>

record xmodem_env =
  crc16_itu_t :: "u16 \<Rightarrow> u8 list \<Rightarrow> u16"
  get_be16 :: "u8 list \<Rightarrow> u16"

record xmodem_rx =
  xmodem_crc :: bool
  xmodem_len :: nat
  xmodem_block :: u8
  xmodem_buffer :: "u8 list"

abbreviation (input) XMODEM_SOH :: u8 where "XMODEM_SOH \<equiv> 0x01"
abbreviation (input) XMODEM_STX :: u8 where "XMODEM_STX \<equiv> 0x02"
abbreviation (input) XMODEM_EOT :: u8 where "XMODEM_EOT \<equiv> 0x04"
abbreviation (input) XMODEM_HEADER_LEN :: nat where "XMODEM_HEADER_LEN \<equiv> 3"

datatype xmodem_state = XMODEM_NONE | XMODEM_NOT_OK | XMODEM_BLOCK_READY | XMODEM_READY | XMODEM_DUPLICATE

definition appl_update_xmodem_start :: "u8 list \<Rightarrow> bool \<Rightarrow> xmodem_rx \<Rightarrow> xmodem_rx" where
  "appl_update_xmodem_start buffer crc x =
     x\<lparr>xmodem_len := 0, xmodem_block := 1, xmodem_buffer := buffer, xmodem_crc := crc\<rparr>"

text \<open>Lengths of the trailer and of the data of a block.\<close>

definition crc_len :: "xmodem_rx \<Rightarrow> nat" where
  "crc_len x = (if xmodem_crc x then 2 else 1)"

definition block_len :: "u8 \<Rightarrow> nat" where
  "block_len s = (if s = XMODEM_SOH then 128 else 1024)"

definition appl_update_xmodem_append :: "u8 list \<Rightarrow> xmodem_rx \<Rightarrow> xmodem_state \<times> xmodem_rx" where
  "appl_update_xmodem_append data x =
     (if xmodem_len x + length data < length (xmodem_buffer x)
      then (let buf = take (xmodem_len x) (xmodem_buffer x) @ data @ drop (xmodem_len x + length data) (xmodem_buffer x);
                x = x\<lparr>xmodem_buffer := buf, xmodem_len := xmodem_len x + length data\<rparr>;
                s = buf ! 0
            in if s = XMODEM_SOH \<or> s = XMODEM_STX
               then (if xmodem_len x < XMODEM_HEADER_LEN then (XMODEM_NONE, x)
                     else (let b = buf ! 1; c = xor (buf ! 2) (not b)
                           in if c = 0
                              then (if xmodem_len x < XMODEM_HEADER_LEN + block_len s + crc_len x then (XMODEM_NONE, x)
                                    else (XMODEM_BLOCK_READY, x))
                              else (XMODEM_NOT_OK, x)))
               else if s = XMODEM_EOT \<and> xmodem_len x = 1 then (XMODEM_READY, x)
               else (XMODEM_NOT_OK, x))
      else (XMODEM_NOT_OK, x))"

definition appl_update_xmodem_retry :: "xmodem_rx \<Rightarrow> xmodem_rx" where
  "appl_update_xmodem_retry x = x\<lparr>xmodem_len := 0\<rparr>"

definition appl_update_xmodem_crc :: "xmodem_env \<Rightarrow> u8 list \<Rightarrow> nat \<Rightarrow> bool" where
  "appl_update_xmodem_crc env data blen =
     (crc16_itu_t env 0 (take blen (drop XMODEM_HEADER_LEN data)) =
      get_be16 env (take 2 (drop (blen + XMODEM_HEADER_LEN) data)))"

text \<open>The sum of the data, cut to eight bits, against the byte that follows.\<close>

definition xmodem_checksum :: "u8 list \<Rightarrow> nat \<Rightarrow> bool" where
  "xmodem_checksum data blen =
     (data ! (XMODEM_HEADER_LEN + blen) =
      word_of_int (sum_list (map uint (take blen (drop XMODEM_HEADER_LEN data)))))"

abbreviation (input) XMODEM_DUPLICATE_RC :: int where "XMODEM_DUPLICATE_RC \<equiv> 4"

definition appl_update_xmodem_write_block ::
  "xmodem_env \<Rightarrow> ('c, 'w) dfu_env \<Rightarrow> xmodem_rx \<Rightarrow> ('c, 'w) dfu_state \<Rightarrow> int \<times> xmodem_rx \<times> ('c, 'w) dfu_state" where
  "appl_update_xmodem_write_block env denv x st =
     (let s = xmodem_buffer x ! 0; b = xmodem_buffer x ! 1; blen = block_len s
      in if s \<noteq> XMODEM_SOH \<and> s \<noteq> XMODEM_STX then (- EINVAL, x, st)
         else if xmodem_len x < XMODEM_HEADER_LEN + blen + crc_len x then (- EINVAL, x, st)
         else if xmodem_crc x \<and> \<not> appl_update_xmodem_crc env (xmodem_buffer x) blen then (- EBADMSG, x, st)
         else if \<not> xmodem_crc x \<and> \<not> xmodem_checksum (xmodem_buffer x) blen then (- EBADMSG, x, st)
         else if xmodem_block x = b
         then (let (rc, st) = appl_update_write denv (take blen (drop XMODEM_HEADER_LEN (xmodem_buffer x))) st
               in (rc, x\<lparr>xmodem_block := xmodem_block x + 1, xmodem_len := 0\<rparr>, st))
         else if xmodem_block x = b + 1 then (XMODEM_DUPLICATE_RC, x\<lparr>xmodem_len := 0\<rparr>, st)
         else (- EBADMSG, x, st))"

section \<open>Frames\<close>

text \<open>A valid frame: its number and the complement, data of the length its type says, and a trailer
  that passes the check.\<close>

definition xmodem_frame :: "u8 \<Rightarrow> u8 \<Rightarrow> u8 list \<Rightarrow> u8 list \<Rightarrow> u8 list" where
  "xmodem_frame s b d trailer = [s, b, not b] @ d @ trailer"

definition xmodem_trailer_ok :: "xmodem_env \<Rightarrow> bool \<Rightarrow> u8 list \<Rightarrow> u8 list \<Rightarrow> bool" where
  "xmodem_trailer_ok env crc d trailer =
     (if crc then length trailer = 2 \<and> get_be16 env trailer = crc16_itu_t env 0 d
      else length trailer = 1 \<and> trailer ! 0 = word_of_int (sum_list (map uint d)))"

definition xmodem_frame_ok :: "xmodem_env \<Rightarrow> bool \<Rightarrow> u8 \<Rightarrow> u8 list \<Rightarrow> u8 list \<Rightarrow> bool" where
  "xmodem_frame_ok env crc s d trailer \<longleftrightarrow>
     s \<in> {XMODEM_SOH, XMODEM_STX} \<and> length d = block_len s \<and> xmodem_trailer_ok env crc d trailer"

text \<open>The receiver holds a frame: it lies at the front of the buffer.\<close>

definition xmodem_holds :: "u8 list \<Rightarrow> xmodem_rx \<Rightarrow> bool" where
  "xmodem_holds f x \<longleftrightarrow> xmodem_len x = length f \<and> length f < length (xmodem_buffer x) \<and> take (length f) (xmodem_buffer x) = f"

fun append_all :: "u8 list list \<Rightarrow> xmodem_rx \<Rightarrow> xmodem_state list \<times> xmodem_rx" where
  "append_all [] x = ([], x)"
| "append_all (d # ds) x = (let (r, x) = appl_update_xmodem_append d x; (rs, x) = append_all ds x in (r # rs, x))"

lemma append_holds:
  assumes "xmodem_holds f x" "length f + length d < length (xmodem_buffer x)"
  shows "xmodem_holds (f @ d) (snd (appl_update_xmodem_append d x))"
    "xmodem_crc (snd (appl_update_xmodem_append d x)) = xmodem_crc x"
    "length (xmodem_buffer (snd (appl_update_xmodem_append d x))) = length (xmodem_buffer x)"
  using assms by (auto simp: xmodem_holds_def appl_update_xmodem_append_def Let_def)

lemma holds_nth: "xmodem_holds f x \<Longrightarrow> i < length f \<Longrightarrow> xmodem_buffer x ! i = f ! i"
  by (metis nth_take xmodem_holds_def)

text \<open>What an append answers depends only on the frame collected so far.\<close>

definition frame_status :: "bool \<Rightarrow> u8 list \<Rightarrow> xmodem_state" where
  "frame_status crc f =
     (if f ! 0 = XMODEM_SOH \<or> f ! 0 = XMODEM_STX
      then (if length f < 3 then XMODEM_NONE
            else if xor (f ! 2) (not (f ! 1)) = 0
            then (if length f < 3 + block_len (f ! 0) + (if crc then 2 else 1) then XMODEM_NONE else XMODEM_BLOCK_READY)
            else XMODEM_NOT_OK)
      else if f ! 0 = XMODEM_EOT \<and> length f = 1 then XMODEM_READY else XMODEM_NOT_OK)"

lemma append_status:
  assumes "xmodem_holds f x" "length f + length d < length (xmodem_buffer x)" "f @ d \<noteq> []"
  shows "fst (appl_update_xmodem_append d x) = frame_status (xmodem_crc x) (f @ d)"
proof -
  let ?buf = "take (xmodem_len x) (xmodem_buffer x) @ d @ drop (xmodem_len x + length d) (xmodem_buffer x)"
  have buf: "?buf = (f @ d) @ drop (length f + length d) (xmodem_buffer x)"
    using assms(1) by (simp add: xmodem_holds_def)
  have nth: "?buf ! i = (f @ d) ! i" if "i < length (f @ d)" for i
    using that unfolding buf by (simp only: nth_append if_True)
  have len: "xmodem_len x = length f" using assms(1) by (simp add: xmodem_holds_def)
  show ?thesis
    using assms(2,3) nth [of 0] nth [of 1] nth [of 2]
    unfolding appl_update_xmodem_append_def frame_status_def Let_def len
    by (simp add: crc_len_def)
qed

lemma block_len_pos [simp]: "0 < block_len s"
  by (simp add: block_len_def)

lemma frame_length:
  "xmodem_frame_ok env crc s d trailer \<Longrightarrow>
   length (xmodem_frame s b d trailer) = 3 + block_len s + (if crc then 2 else 1)"
  by (auto simp: xmodem_frame_ok_def xmodem_frame_def xmodem_trailer_ok_def split: if_splits)

lemma frame_status_prefix:
  assumes "xmodem_frame_ok env crc s d trailer" "xmodem_frame s b d trailer = p @ q" "p \<noteq> []"
  shows "frame_status crc p = (if q = [] then XMODEM_BLOCK_READY else XMODEM_NONE)"
proof -
  let ?f = "xmodem_frame s b d trailer"
  have nth: "p ! i = ?f ! i" if "i < length p" for i
    using that assms(2) by (simp add: nth_append)
  have len: "length p + length q = 3 + block_len s + (if crc then 2 else 1)"
    using frame_length [OF assms(1), of b] assms(2) by simp
  have s: "s = XMODEM_SOH \<or> s = XMODEM_STX" using assms(1) by (auto simp: xmodem_frame_ok_def)
  have "?f ! 0 = s" "?f ! 1 = b" "?f ! 2 = not b" by (simp_all add: xmodem_frame_def)
  moreover have "q = [] \<longleftrightarrow> \<not> length p < 3 + block_len s + (if crc then 2 else 1)"
    using len by (cases q) auto
  ultimately show ?thesis
    using nth [of 0] nth [of 1] nth [of 2] s assms(3) len
    by (auto simp: frame_status_def)
qed

lemma append_all_frame:
  assumes "xmodem_frame_ok env (xmodem_crc x) s d trailer"
    and "xmodem_holds p x" "xmodem_frame s b d trailer = p @ concat ds" "\<forall>c \<in> set ds. c \<noteq> []"
    and "length (xmodem_frame s b d trailer) < length (xmodem_buffer x)"
  shows "xmodem_holds (xmodem_frame s b d trailer) (snd (append_all ds x)) \<and>
    xmodem_crc (snd (append_all ds x)) = xmodem_crc x \<and>
    xmodem_block (snd (append_all ds x)) = xmodem_block x \<and>
    fst (append_all ds x) = (if ds = [] then [] else replicate (length ds - 1) XMODEM_NONE @ [XMODEM_BLOCK_READY])"
  using assms
proof (induction ds arbitrary: p x)
  case (Cons c ds)
  let ?f = "xmodem_frame s b d trailer"
  obtain r x1 where ap: "appl_update_xmodem_append c x = (r, x1)" by fastforce
  have room: "length p + length c < length (xmodem_buffer x)" using Cons.prems(3,5) by simp
  note h = append_holds [OF Cons.prems(2) room]
  have r: "r = (if concat ds = [] then XMODEM_BLOCK_READY else XMODEM_NONE)"
    using append_status [OF Cons.prems(2) room] ap Cons.prems(4)
      frame_status_prefix [OF Cons.prems(1), of b "p @ c" "concat ds"] Cons.prems(3) by simp
  have block: "xmodem_block x1 = xmodem_block x"
    using ap by (auto simp: appl_update_xmodem_append_def Let_def split: if_splits)
  have "xmodem_holds ?f (snd (append_all ds x1)) \<and> xmodem_crc (snd (append_all ds x1)) = xmodem_crc x1 \<and>
      xmodem_block (snd (append_all ds x1)) = xmodem_block x1 \<and>
      fst (append_all ds x1) = (if ds = [] then [] else replicate (length ds - 1) XMODEM_NONE @ [XMODEM_BLOCK_READY])"
    using Cons.prems h ap by (intro Cons.IH [of x1 "p @ c"]) auto
  moreover have "concat ds = [] \<longleftrightarrow> ds = []" using Cons.prems(4) by (cases ds) auto
  ultimately show ?case
    using ap r h(2) block by (cases ds) (auto simp: Let_def case_prod_beta)
qed simp

text \<open>A complete frame in the buffer passes the check.\<close>

lemma write_block_frame:
  assumes "xmodem_frame_ok env (xmodem_crc x) s d trailer" "xmodem_holds (xmodem_frame s b d trailer) x"
  shows "appl_update_xmodem_write_block env denv x st =
    (if xmodem_block x = b
     then (let (rc, st) = appl_update_write denv d st
           in (rc, x\<lparr>xmodem_block := xmodem_block x + 1, xmodem_len := 0\<rparr>, st))
     else if xmodem_block x = b + 1 then (XMODEM_DUPLICATE_RC, x\<lparr>xmodem_len := 0\<rparr>, st)
     else (- EBADMSG, x, st))"
proof -
  let ?f = "xmodem_frame s b d trailer"
  obtain tail where buf: "xmodem_buffer x = ?f @ tail"
    using assms(2) by (metis append_take_drop_id xmodem_holds_def)
  have ld: "length d = block_len s" using assms(1) by (simp add: xmodem_frame_ok_def)
  have s: "s = XMODEM_SOH \<or> s = XMODEM_STX" using assms(1) by (auto simp: xmodem_frame_ok_def)
  have data: "take (block_len s) (drop 3 (xmodem_buffer x)) = d"
    using ld by (simp add: buf xmodem_frame_def)
  have trailer: "drop (block_len s + 3) (xmodem_buffer x) = trailer @ tail"
    using ld by (simp add: buf xmodem_frame_def numeral_3_eq_3)
  have head: "xmodem_buffer x ! 0 = s" "xmodem_buffer x ! 1 = b"
    by (simp_all add: buf xmodem_frame_def)
  have len: "\<not> xmodem_len x < 3 + block_len s + crc_len x"
    using assms frame_length [OF assms(1), of b] by (simp add: xmodem_holds_def crc_len_def)
  have crc: "appl_update_xmodem_crc env (xmodem_buffer x) (block_len s)" if "xmodem_crc x"
    using that assms(1) data trailer
    by (simp add: appl_update_xmodem_crc_def xmodem_frame_ok_def xmodem_trailer_ok_def)
  have sum: "xmodem_checksum (xmodem_buffer x) (block_len s)" if "\<not> xmodem_crc x"
  proof -
    have t: "length trailer = 1" "trailer ! 0 = word_of_int (sum_list (map uint d))"
      using that assms(1) by (simp_all add: xmodem_frame_ok_def xmodem_trailer_ok_def)
    have "xmodem_buffer x ! (3 + block_len s) = trailer ! 0"
      using t(1) ld by (simp add: buf xmodem_frame_def nth_append)
    then show ?thesis using t(2) data by (simp add: xmodem_checksum_def)
  qed
  show ?thesis using s head len crc sum data
    by (auto simp: appl_update_xmodem_write_block_def Let_def)
qed

section \<open>A transfer\<close>

text \<open>One frame: its pieces arrive, then it is checked and written.\<close>

definition xmodem_receive ::
  "xmodem_env \<Rightarrow> ('c, 'w) dfu_env \<Rightarrow> u8 list list \<Rightarrow> xmodem_rx \<Rightarrow> ('c, 'w) dfu_state
   \<Rightarrow> int \<times> xmodem_rx \<times> ('c, 'w) dfu_state" where
  "xmodem_receive env denv pieces x st = appl_update_xmodem_write_block env denv (snd (append_all pieces x)) st"

fun xmodem_receive_all ::
  "xmodem_env \<Rightarrow> ('c, 'w) dfu_env \<Rightarrow> u8 list list list \<Rightarrow> xmodem_rx \<Rightarrow> ('c, 'w) dfu_state
   \<Rightarrow> int list \<times> xmodem_rx \<times> ('c, 'w) dfu_state" where
  "xmodem_receive_all env denv [] x st = ([], x, st)"
| "xmodem_receive_all env denv (f # fs) x st =
     (let (rc, x, st) = xmodem_receive env denv f x st; (rcs, x, st) = xmodem_receive_all env denv fs x st
      in (rc # rcs, x, st))"

text \<open>What the sender does with the blocks \<open>ds\<close>: it sends valid frames, each in non-empty pieces, and
  each for the next block or, if it missed the acknowledgement, for the last one again.\<close>

definition sends_block :: "xmodem_env \<Rightarrow> bool \<Rightarrow> nat \<Rightarrow> u8 list list \<Rightarrow> nat \<Rightarrow> u8 list list \<Rightarrow> bool" where
  "sends_block env crc sz ds i pieces \<longleftrightarrow>
     i < length ds \<and> (\<forall>c \<in> set pieces. c \<noteq> []) \<and>
     (\<exists>s trailer. xmodem_frame_ok env crc s (ds ! i) trailer \<and>
        concat pieces = xmodem_frame s (of_nat (Suc i)) (ds ! i) trailer \<and> length (concat pieces) < sz)"

fun sender_ok :: "nat \<Rightarrow> nat list \<Rightarrow> bool" where
  "sender_ok k [] = True"
| "sender_ok k (i # is) = (if i = k then sender_ok (Suc k) is else Suc i = k \<and> sender_ok k is)"

fun sender_next :: "nat \<Rightarrow> nat list \<Rightarrow> nat" where
  "sender_next k [] = k"
| "sender_next k (i # is) = (if i = k then sender_next (Suc k) is else sender_next k is)"

text \<open>The receiver and the image after the first \<open>k\<close> blocks.\<close>

definition received ::
  "('c option \<Rightarrow> 'w \<Rightarrow> u8 list) \<Rightarrow> bool \<Rightarrow> nat \<Rightarrow> u8 list list \<Rightarrow> nat \<Rightarrow> xmodem_rx \<Rightarrow> ('c, 'w) dfu_state \<Rightarrow> bool" where
  "received img crc sz ds k x st \<longleftrightarrow>
     xmodem_len x = 0 \<and> xmodem_block x = of_nat (Suc k) \<and> xmodem_crc x = crc \<and> length (xmodem_buffer x) = sz \<and>
     dfu_context st \<noteq> None \<and> dfu_image img st = concat (take k ds)"

lemma append_all_size: "length (xmodem_buffer (snd (append_all ds x))) = length (xmodem_buffer x)"
proof (induction ds arbitrary: x)
  case (Cons d ds)
  have "length (xmodem_buffer (snd (appl_update_xmodem_append d x))) = length (xmodem_buffer x)"
    by (auto simp: appl_update_xmodem_append_def Let_def)
  then show ?case using Cons by (simp add: case_prod_beta Let_def)
qed simp

lemma receive_block:
  assumes "flash_img_ok denv img" "received img crc sz ds k x st" "sends_block env crc sz ds i pieces"
    and "i = k \<or> Suc i = k" "xmodem_receive env denv pieces x st = (rc, x', st')" "0 \<le> rc"
  shows "received img crc sz ds (if i = k then Suc k else k) x' st'"
proof -
  note api = update_api_flash [OF assms(1)]
  obtain s trailer where ok: "xmodem_frame_ok env (xmodem_crc x) s (ds ! i) trailer"
    and f: "concat pieces = xmodem_frame s (of_nat (Suc i)) (ds ! i) trailer" "length (concat pieces) < sz"
    using assms(2,3) by (auto simp: sends_block_def received_def)
  let ?x = "snd (append_all pieces x)"
  have x: "xmodem_holds (xmodem_frame s (of_nat (Suc i)) (ds ! i) trailer) ?x \<and> xmodem_crc ?x = xmodem_crc x \<and>
      xmodem_block ?x = xmodem_block x"
  proof -
    have "length (xmodem_buffer x) = sz" "xmodem_len x = 0" using assms(2) by (simp_all add: received_def)
    then have "xmodem_holds [] x" using f(2) by (auto simp: xmodem_holds_def)
    moreover have "\<forall>c \<in> set pieces. c \<noteq> []" using assms(3) by (simp add: sends_block_def)
    ultimately show ?thesis
      using append_all_frame [OF ok, of "[]" "of_nat (Suc i)" pieces] f \<open>length (xmodem_buffer x) = sz\<close>
      by (simp only: append_Nil simp_thms)
  qed
  have block: "xmodem_block ?x = of_nat (Suc k)" using x assms(2) by (simp add: received_def)
  have wb: "appl_update_xmodem_write_block env denv ?x st = (rc, x', st')"
    using assms(5) by (simp add: xmodem_receive_def)
  have frame: "length (xmodem_buffer ?x) = sz" "xmodem_crc ?x = crc"
    using append_all_size [of pieces x] x assms(2) by (simp_all add: received_def)
  show ?thesis
  proof (cases "i = k")
    case True
    have "fst (appl_update_write denv (ds ! k) st) \<le> 0"
      by (rule appl_update_write_rc [OF assms(1)])
    with True have wr: "appl_update_write denv (ds ! k) st = (0, st')" and x': "x' = ?x\<lparr>xmodem_block := xmodem_block ?x + 1, xmodem_len := 0\<rparr>"
      using wb write_block_frame [of env ?x s "ds ! i" trailer "of_nat (Suc i)" denv st] ok x block assms(6)
      by (auto split: prod.splits)
    have "k < length ds" using assms(3) True by (simp add: sends_block_def)
    moreover have "dfu_context st \<noteq> None" "dfu_image img st = concat (take k ds)"
      using assms(2) by (simp_all add: received_def)
    ultimately show ?thesis
      using update_api.write_ok [OF api _ wr] True block frame x'
      by (simp add: received_def take_Suc_conv_app_nth)
  next
    case False
    then have k: "k = Suc i" using assms(4) by simp
    have "of_nat (Suc k) \<noteq> (of_nat (Suc i) :: u8)" unfolding k by (simp add: add.commute)
    then have "st' = st" "x' = ?x\<lparr>xmodem_len := 0\<rparr>"
      using wb write_block_frame [of env ?x s "ds ! i" trailer "of_nat (Suc i)" denv st] ok x block k by (auto split: if_splits)
    then show ?thesis using assms(2) False block frame by (simp add: received_def)
  qed
qed

lemma receive_all_blocks:
  assumes "flash_img_ok denv img" "received img crc sz ds k x st" "sender_ok k is"
    and "list_all2 (sends_block env crc sz ds) is fs"
    and "xmodem_receive_all env denv fs x st = (rcs, x', st')" "\<forall>rc \<in> set rcs. 0 \<le> rc"
  shows "received img crc sz ds (sender_next k is) x' st'"
  using assms(2-6)
proof (induction "is" arbitrary: k x st fs rcs)
  case (Cons i "is")
  obtain f fs' where fs: "fs = f # fs'" "sends_block env crc sz ds i f" "list_all2 (sends_block env crc sz ds) is fs'"
    using Cons.prems(3) by (cases fs) auto
  obtain rc x1 st1 where r: "xmodem_receive env denv f x st = (rc, x1, st1)" by (rule prod_cases3)
  obtain rcs' where rest: "xmodem_receive_all env denv fs' x1 st1 = (rcs', x', st')" "rcs = rc # rcs'"
    using Cons.prems(4) fs r by (auto split: prod.splits)
  have "received img crc sz ds (if i = k then Suc k else k) x1 st1"
    using receive_block [OF assms(1) Cons.prems(1) fs(2) _ r] Cons.prems(2,5) rest(2) by (auto split: if_splits)
  then show ?case using Cons.IH [OF _ _ fs(3) rest(1)] Cons.prems(2,5) rest(2) by (auto split: if_splits)
qed simp

text \<open>Two blocks and their frames, to exercise the receiver.\<close>

definition sim_xmodem :: xmodem_env where
  "sim_xmodem = \<lparr>crc16_itu_t = (\<lambda>crc d. crc + of_nat (length d)), get_be16 = (\<lambda>d. word_of_int (be_val d))\<rparr>"

definition sim_rx :: xmodem_rx where
  "sim_rx = \<lparr>xmodem_crc = False, xmodem_len = 0, xmodem_block = 1, xmodem_buffer = replicate 200 0\<rparr>"

definition sim_frame0 :: "u8 list list" where
  "sim_frame0 = [[1, 1], [not 1] @ replicate 128 0 @ [0]]"

definition sim_frame1 :: "u8 list list" where
  "sim_frame1 = [[1, 2, not 2] @ replicate 128 7, [128]]"

lemma sim_sum7: "sum_list (map uint (replicate n (7 :: u8))) = 7 * int n"
  by (induction n) simp_all

lemma sim_frames_ok:
  "xmodem_frame_ok sim_xmodem False XMODEM_SOH (replicate 128 0) [0]"
  "xmodem_frame_ok sim_xmodem False XMODEM_SOH (replicate 128 7) [128]"
  "concat sim_frame0 = xmodem_frame XMODEM_SOH 1 (replicate 128 0) [0]"
  "concat sim_frame1 = xmodem_frame XMODEM_SOH 2 (replicate 128 7) [128]"
proof -
  have "sum_list (map uint (replicate n (0 :: u8))) = 0" for n by (induction n) simp_all
  then show "xmodem_frame_ok sim_xmodem False XMODEM_SOH (replicate 128 0) [0]"
    by (simp add: xmodem_frame_ok_def block_len_def xmodem_trailer_ok_def del: map_replicate)
  show "xmodem_frame_ok sim_xmodem False XMODEM_SOH (replicate 128 7) [128]"
    using sim_sum7 [of 128]
    by (simp add: xmodem_frame_ok_def block_len_def xmodem_trailer_ok_def del: map_replicate)
qed (simp_all add: sim_frame0_def sim_frame1_def xmodem_frame_def)

lemma sim_frame_sizes:
  "length (xmodem_frame XMODEM_SOH b (replicate 128 v) [c]) = 132"
  "[] \<notin> set sim_frame0" "[] \<notin> set sim_frame1"
  by (auto simp: xmodem_frame_def sim_frame0_def sim_frame1_def)

lemma sends_blockI:
  assumes "i < length ds" "\<And>c. c \<in> set pieces \<Longrightarrow> c \<noteq> []" "xmodem_frame_ok env crc s (ds ! i) trailer"
    and "concat pieces = xmodem_frame s (of_nat (Suc i)) (ds ! i) trailer" "length (concat pieces) < sz"
  shows "sends_block env crc sz ds i pieces"
  using assms unfolding sends_block_def by blast

text \<open>A frame that arrives in pieces: for a valid frame cut into any non-empty pieces, every piece
  but the last is answered with \<open>XMODEM_NONE\<close> and the last with \<open>XMODEM_BLOCK_READY\<close>; and the frame
  then lies complete in the buffer.\<close>

lemma xmodem_frame_in_pieces:
  assumes "xmodem_len x = 0" "xmodem_frame_ok env (xmodem_crc x) s d trailer"
    and "concat pieces = xmodem_frame s b d trailer" "\<forall>c \<in> set pieces. c \<noteq> []"
    and "length (concat pieces) < length (xmodem_buffer x)"
  shows "let (rs, x') = append_all pieces x
    in rs = replicate (length pieces - 1) XMODEM_NONE @ [XMODEM_BLOCK_READY] \<and>
       take (xmodem_len x') (xmodem_buffer x') = concat pieces"
proof -
  have "pieces \<noteq> []" using assms(3) by (auto simp: xmodem_frame_def)
  moreover have "xmodem_holds [] x" using assms(1,5) by (auto simp: xmodem_holds_def)
  moreover have "length (xmodem_frame s b d trailer) < length (xmodem_buffer x)" using assms(3,5) by simp
  ultimately show ?thesis
    using append_all_frame [OF assms(2), of "[]" b pieces] assms(3,4)
    by (simp add: xmodem_holds_def case_prod_beta Let_def)
qed

text \<open>C17. A transfer over XMODEM: when the sender sends the blocks \<open>ds\<close> in order, any of them again when
  it missed the acknowledgement, and no frame is refused, the image is the blocks sent so far, each
  once and in order, over any number of wraps of the block number.\<close>

theorem xmodem_transfer:
  assumes "flash_img_ok denv img"
    and "dfu_context st \<noteq> None" "dfu_image img st = []"
    and "sender_ok 0 is" "list_all2 (sends_block env crc (length buffer) ds) is fs"
    and "xmodem_receive_all env denv fs (appl_update_xmodem_start buffer crc x) st = (rcs, x', st')"
    and "\<forall>rc \<in> set rcs. 0 \<le> rc"
  shows "dfu_image img st' = concat (take (sender_next 0 is) ds)"
proof -
  have "received img crc (length buffer) ds 0 (appl_update_xmodem_start buffer crc x) st"
    using assms(2,3) by (simp add: received_def appl_update_xmodem_start_def)
  from receive_all_blocks [OF assms(1) this assms(4-7)] show ?thesis by (simp add: received_def)
qed

theorem xmodem_transfer_witness:
  "let st = snd (appl_update_start (sim_dfu sim_header) 5 sim_dfu_state);
       (rcs, _, st') = xmodem_receive_all sim_xmodem (sim_dfu sim_header) [sim_frame0, sim_frame0, sim_frame1]
          (appl_update_xmodem_start (replicate 200 0) False sim_rx) st
   in rcs = [0, 4, 0] \<and> dfu_image sim_image st' = replicate 128 0 @ replicate 128 7"
proof -
  let ?st = "snd (appl_update_start (sim_dfu sim_header) 5 sim_dfu_state)"
  let ?ds = "[replicate 128 0, replicate 128 7] :: u8 list list"
  let ?buf = "replicate 200 0 :: u8 list"
  let ?fs = "[sim_frame0, sim_frame0, sim_frame1]"
  obtain rcs x' st' where r: "xmodem_receive_all sim_xmodem (sim_dfu sim_header) ?fs
      (appl_update_xmodem_start ?buf False sim_rx) ?st = (rcs, x', st')" by (rule prod_cases3)
  have "fst (xmodem_receive_all sim_xmodem (sim_dfu sim_header) ?fs
      (appl_update_xmodem_start ?buf False sim_rx) ?st) = [0, 4, 0]" by code_simp
  then have rcs: "rcs = [0, 4, 0]" using r by simp
  have st: "dfu_context ?st \<noteq> None" "dfu_image sim_image ?st = []" by code_simp+
  have b: "sends_block sim_xmodem False 200 ?ds 0 sim_frame0" "sends_block sim_xmodem False 200 ?ds 1 sim_frame1"
    using sim_frames_ok by (auto intro!: sends_blockI simp: sim_frame_sizes)
  have "list_all2 (sends_block sim_xmodem False (length ?buf) ?ds) [0, 0, 1] ?fs" using b by simp
  from xmodem_transfer [OF sim_dfu_ok st _ this r] rcs
  have "dfu_image sim_image st' = concat (take 2 ?ds)" by simp
  then show ?thesis using r rcs by simp
qed

text \<open>A block whose write fails: the receiver moves on to the next number nevertheless, so the
  same frame sent again is taken for a duplicate, acknowledged and never written.\<close>

lemma xmodem_failed_write_lost:
  assumes "xmodem_frame_ok env (xmodem_crc x) s d trailer"
    and "xmodem_holds (xmodem_frame s (xmodem_block x) d trailer) x"
    and "appl_update_write denv d st = (rc, st')" "rc < 0"
    and "xmodem_holds (xmodem_frame s (xmodem_block x) d trailer) x2" "xmodem_crc x2 = xmodem_crc x"
    and "xmodem_block x2 = xmodem_block (fst (snd (appl_update_xmodem_write_block env denv x st)))"
  shows "fst (appl_update_xmodem_write_block env denv x st) = rc \<and>
    appl_update_xmodem_write_block env denv x2 st' = (XMODEM_DUPLICATE_RC, x2\<lparr>xmodem_len := 0\<rparr>, st')"
proof -
  have first: "appl_update_xmodem_write_block env denv x st =
      (rc, x\<lparr>xmodem_block := xmodem_block x + 1, xmodem_len := 0\<rparr>, st')"
    using write_block_frame [OF assms(1,2), of denv st] assms(3) by (simp split: prod.splits)
  then have "xmodem_block x2 = xmodem_block x + 1" using assms(7) by simp
  moreover have "xmodem_frame_ok env (xmodem_crc x2) s d trailer" using assms(1,6) by simp
  ultimately show ?thesis using write_block_frame [OF _ assms(5)] first by simp
qed

definition sim_dfu_fails :: "(u8 list, u8 list) dfu_env" where
  "sim_dfu_fails = (sim_dfu sim_header)\<lparr>flash_img_buffered_write := (\<lambda>ctx d flush w. (- EIO, ctx, w))\<rparr>"

lemma sim_frame0_holds:
  assumes "xmodem_len x = 0" "\<not> xmodem_crc x" "length (xmodem_buffer x) = 200"
  shows "xmodem_holds (xmodem_frame XMODEM_SOH 1 (replicate 128 0) [0]) (snd (append_all sim_frame0 x)) \<and>
    \<not> xmodem_crc (snd (append_all sim_frame0 x)) \<and> xmodem_block (snd (append_all sim_frame0 x)) = xmodem_block x"
proof -
  have "xmodem_holds [] x" using assms by (auto simp: xmodem_holds_def)
  then show ?thesis
    using append_all_frame [of sim_xmodem x XMODEM_SOH "replicate 128 0" "[0]" "[]" 1 sim_frame0] assms
      sim_frames_ok(1,3) sim_frame_sizes by auto
qed

end
