(* ===== verification/Update_Coap.thy ===== *)
theory Update_Coap
  imports Appl_Update Coap_Client "HOL-Library.Code_Target_Nat"
begin

text \<open>
  The firmware download over CoAP, \<open>src/src/appl_update_coap.c\<close>: the commands \<open>fota ...\<close>, the
  block-wise transfer, and the state machine between them.

  The state is the file's static variables, with the contexts of the update and of the CoAP client.
  \<open>erase_work\<close> tells whether the delayable work that erases the flash is scheduled, \<open>sh_appended\<close>
  counts the \<open>send\<close> commands appended to the shell queue. The mutex is held around each piece of
  state that is read or changed, and the operations run on one queue, so an operation is one step.

  Zephyr's block-wise helpers are parameters, \<open>coap_block_env\<close>; \<open>IMAGE_VERSION\<close> and the time scale of
  the modem are arguments.
\<close>

section \<open>State\<close>

record coap_block_context =
  total_size :: nat
  current :: nat
  block_size :: nat

record 'p coap_block_env =
  coap_get_option_int :: "'p \<Rightarrow> nat \<Rightarrow> int"
  get_more :: "int \<Rightarrow> bool"
  get_block_num :: "int \<Rightarrow> nat"
  coap_update_from_block :: "'p \<Rightarrow> coap_block_context \<Rightarrow> int \<times> coap_block_context"
  coap_block_size_to_bytes :: "nat \<Rightarrow> nat"
  coap_block_transfer_init :: "nat \<Rightarrow> nat \<Rightarrow> coap_block_context"
  coap_append_block2_option :: "'p \<Rightarrow> coap_block_context \<Rightarrow> int \<times> 'p"

abbreviation (input) COAP_BLOCK_256 :: nat where "COAP_BLOCK_256 \<equiv> 4"
abbreviation (input) COAP_BLOCK_512 :: nat where "COAP_BLOCK_512 \<equiv> 5"
abbreviation (input) COAP_BLOCK_1024 :: nat where "COAP_BLOCK_1024 \<equiv> 6"
abbreviation (input) COAP_OPTION_URI_PATH :: nat where "COAP_OPTION_URI_PATH \<equiv> 11"
abbreviation (input) APP_COAP_MAX_RES_PATH_LEN :: nat where "APP_COAP_MAX_RES_PATH_LEN \<equiv> 64"
abbreviation (input) APP_COAP_MAX_UPDATE_SIZE :: nat where "APP_COAP_MAX_UPDATE_SIZE \<equiv> 0x70000"

datatype cancel_reason = REASON_NOT_AVAILABLE | REASON_CMD | REASON_CHANGED | REASON_BLOCK_OPTION
  | REASON_BLOCK_NO | REASON_NO_CONTENT

record ('c, 'w) update_state =
  update_context :: coap_context
  coap_resource_path :: cstring
  coap_etag :: "u8 list"
  coap_content_format :: int
  coap_download :: bool
  coap_download_request :: bool
  coap_download_canceled :: bool
  coap_download_ready :: bool
  coap_apply_update :: bool
  coap_block_ctx :: coap_block_context
  coap_current_block :: nat
  coap_download_cancel_reason :: cancel_reason
  erase_work :: bool
  sh_appended :: nat
  upd_client :: coap_client
  upd_dfu :: "('c, 'w) dfu_state"

abbreviation upd_reboots :: "('c, 'w) update_state \<Rightarrow> bool" where
  "upd_reboots st \<equiv> appl_reboots (dfu_reboot (upd_dfu st))"

definition no_etag :: "u8 list" where
  "no_etag = replicate (COAP_TOKEN_MAX_LEN + 1) 0"

section \<open>Commands\<close>

definition appl_update_coap_cancel_download ::
  "('c, 'w) dfu_env \<Rightarrow> int \<Rightarrow> bool \<Rightarrow> cancel_reason \<Rightarrow> ('c, 'w) update_state \<Rightarrow> int \<times> ('c, 'w) update_state" where
  "appl_update_coap_cancel_download env uptime cancel reason st =
     (let canceled = coap_download st;
          st = st\<lparr>erase_work := False, coap_download := False, coap_download_request := False,
             coap_download_canceled := cancel, coap_download_ready := \<not> cancel, coap_etag := no_etag\<rparr>
      in if canceled \<and> cancel
         then (let st = st\<lparr>coap_download_cancel_reason := reason, update_context := (update_context st)\<lparr>message := []\<rparr>\<rparr>;
                   (res, dfu) = appl_update_cancel env uptime (upd_dfu st)
               in (res, st\<lparr>upd_dfu := dfu\<rparr>))
         else (0, st))"

text \<open>The work that erases the flash and requests the first block.\<close>

definition appl_update_coap_erase_fn ::
  "'p coap_block_env \<Rightarrow> ('c, 'w) dfu_env \<Rightarrow> int \<Rightarrow> int \<Rightarrow> ('c, 'w) update_state \<Rightarrow> ('c, 'w) update_state" where
  "appl_update_coap_erase_fn benv env uptime scale st =
     (let (rc, dfu) = appl_update_erase env (upd_dfu st);
          st = st\<lparr>erase_work := False, upd_dfu := dfu\<rparr>
      in if rc = 0
         then (let bsize = (if scale \<ge> 350 then COAP_BLOCK_256 else if scale \<ge> 250 then COAP_BLOCK_512 else COAP_BLOCK_1024);
                   st = (if coap_download st
                         then st\<lparr>coap_block_ctx := coap_block_transfer_init benv bsize 0,
                                 coap_download_request := True, coap_current_block := 0\<rparr>
                         else st)
               in st\<lparr>sh_appended := Suc (sh_appended st)\<rparr>)
         else (let (_, st) = appl_update_coap_cancel_download env uptime True REASON_NOT_AVAILABLE st;
                   (_, dfu) = appl_update_cmd env ''erase'' (upd_dfu st)
               in st\<lparr>upd_dfu := dfu\<rparr>))"

text \<open>The resource name: what is copied to the buffer of \<open>len\<close> bytes, without quotes. A name of \<open>len\<close>
  characters fills the buffer and leaves no terminator.\<close>

definition appl_update_coap_normalize :: "cstring \<Rightarrow> nat \<Rightarrow> int \<times> cstring" where
  "appl_update_coap_normalize resource len =
     (let cur = dropWhile (\<lambda>c. c = CHR '' '') resource;
          quoted = (c_deref cur \<in> {CHR 0x22, CHR 0x27});
          term = (if quoted then c_deref cur else CHR '' '');
          name = takeWhile (\<lambda>c. c \<noteq> term) (if quoted then tl cur else cur)
      in if length name > len then (- ENOMEM, take len name) else (0, name))"

definition appl_update_coap_verify_version :: "('c, 'w) dfu_env \<Rightarrow> ('c, 'w) update_state \<Rightarrow> int" where
  "appl_update_coap_verify_version env st =
     (let (err, version) = appl_update_get_pending_version env 32 (upd_dfu st)
      in if err = 0
         then (if stricmp (coap_resource_path st) (case version of Some v \<Rightarrow> v | None \<Rightarrow> []) \<noteq> 0 then - EINVAL else 0)
         else err)"

definition appl_update_coap_pending :: "('c, 'w) update_state \<Rightarrow> bool" where
  "appl_update_coap_pending st = coap_download st"

definition appl_update_coap_reboot :: "('c, 'w) dfu_env \<Rightarrow> ('c, 'w) update_state \<Rightarrow> bool \<times> ('c, 'w) update_state" where
  "appl_update_coap_reboot env st =
     (if coap_download_ready st \<and> coap_apply_update st
      then (True, st\<lparr>upd_dfu := snd (appl_update_reboot env (upd_dfu st))\<rparr>)
      else (False, st))"

definition appl_update_coap_set_resource ::
  "cstring \<Rightarrow> cstring \<Rightarrow> ('c, 'w) update_state \<Rightarrow> int \<times> ('c, 'w) update_state" where
  "appl_update_coap_set_resource image_version resource st =
     (if coap_download st then (- EBUSY, st)
      else if stricmp resource image_version = 0 then (- EEXIST, st)
      else (0, st\<lparr>coap_resource_path := take (APP_COAP_MAX_RES_PATH_LEN - 1) resource, coap_download := True,
              coap_download_request := False, coap_download_canceled := False, coap_download_ready := False\<rparr>))"

definition appl_update_coap_start ::
  "('c, 'w) dfu_env \<Rightarrow> int \<Rightarrow> cstring \<Rightarrow> cstring \<Rightarrow> ('c, 'w) update_state \<Rightarrow> int \<times> ('c, 'w) update_state" where
  "appl_update_coap_start env uptime image_version resource st =
     (let (rc, st) = appl_update_coap_set_resource image_version resource st
      in if rc \<noteq> 0 then (rc, st)
         else (let (rc, dfu) = appl_update_start env uptime (upd_dfu st);
                   st = st\<lparr>coap_etag := no_etag, upd_dfu := dfu\<rparr>
               in if rc = 0 then (rc, st\<lparr>erase_work := True\<rparr>) else (rc, st)))"

definition appl_update_coap_cancel ::
  "('c, 'w) dfu_env \<Rightarrow> int \<Rightarrow> ('c, 'w) update_state \<Rightarrow> int \<times> ('c, 'w) update_state" where
  "appl_update_coap_cancel env uptime st =
     (if upd_reboots st then (- ESHUTDOWN, st)
      else appl_update_coap_cancel_download env uptime True REASON_NOT_AVAILABLE st)"

text \<open>The command \<open>fota\<close>. \<open>None\<close> is the use of a name that fills its buffer of 32 bytes, which has no
  terminator.\<close>

definition appl_update_coap_cmd ::
  "('c, 'w) dfu_env \<Rightarrow> int \<Rightarrow> cstring \<Rightarrow> cstring \<Rightarrow> ('c, 'w) update_state \<Rightarrow> (int \<times> ('c, 'w) update_state) option" where
  "appl_update_coap_cmd env uptime image_version config st =
     (if upd_reboots st then Some (- ESHUTDOWN, st)
      else (let (cur, c) = parse_next_text config (CHR '' '') (Some 10);
                cmd = (case c of Some v \<Rightarrow> v | None \<Rightarrow> []);
                (rc, version) = appl_update_coap_normalize cur 32
            in if rc < 0 then Some (rc, st)
               else if stricmp cmd ''download'' = 0 \<or> stricmp cmd ''update'' = 0
               then (if length version \<ge> 32 then None
                     else Some (appl_update_coap_start env uptime image_version version
                            (st\<lparr>coap_apply_update := (stricmp cmd ''download'' \<noteq> 0)\<rparr>)))
               else if stricmp cmd ''apply'' = 0
               then (if coap_resource_path st = [] then Some (- EINVAL, st)
                     else if length version \<ge> 32 then None
                     else if stricmp version (coap_resource_path st) \<noteq> 0 then Some (- EINVAL, st)
                     else if \<not> coap_download_ready st then Some (- EINVAL, st)
                     else if appl_update_coap_verify_version env st = 0 then Some (- EINVAL, st)
                     else Some (rc, st\<lparr>upd_dfu := snd (appl_update_cmd env ''reboot'' (upd_dfu st))\<rparr>))
               else if stricmp cmd ''cancel'' = 0
               then (if coap_resource_path st = [] then Some (- EINVAL, st)
                     else if length version \<ge> 32 then None
                     else if stricmp version (coap_resource_path st) \<noteq> 0 then Some (- EINVAL, st)
                     else Some (rc, (snd (appl_update_coap_cancel_download env uptime True REASON_CMD st))\<lparr>erase_work := True\<rparr>))
               else Some (- EINVAL, st)))"

definition sh_cmd_fota :: "int \<Rightarrow> int" where
  "sh_cmd_fota res = (if res = - EEXIST then 0 else res)"

section \<open>The block-wise transfer\<close>

text \<open>The content format must stay what the first reply said; the result tells whether it does.\<close>

definition response_format :: "'p coap_env \<Rightarrow> 'p \<Rightarrow> ('c, 'w) update_state \<Rightarrow> bool \<times> ('c, 'w) update_state" where
  "response_format cenv reply st =
     (case find_option cenv reply COAP_OPTION_CONTENT_FORMAT of
        None \<Rightarrow> (True, st)
      | Some opt \<Rightarrow>
          (let format = coap_client_decode_content_format cenv opt
           in if 0 \<le> coap_content_format st then (coap_content_format st = format, st)
              else (True, st\<lparr>coap_content_format := format\<rparr>)))"

text \<open>And the ETag, from the second block on.\<close>

definition response_etag :: "'p coap_env \<Rightarrow> 'p \<Rightarrow> nat \<Rightarrow> ('c, 'w) update_state \<Rightarrow> bool \<times> ('c, 'w) update_state" where
  "response_etag cenv reply cur st =
     (case find_option cenv reply COAP_OPTION_ETAG of
        None \<Rightarrow> (True, st)
      | Some opt \<Rightarrow>
          (let etag = snd (coap_client_decode_etag opt)
           in if cur \<noteq> 0 then (coap_etag st = etag, st) else (True, st\<lparr>coap_etag := etag\<rparr>)))"

text \<open>The block option: a reason to cancel with the error, or whether this is the last block, the
  context updated from the reply, the size of a block and the result of the update.\<close>

definition response_block ::
  "'p coap_block_env \<Rightarrow> 'p \<Rightarrow> coap_block_context \<Rightarrow> nat \<Rightarrow> nat
   \<Rightarrow> (cancel_reason \<times> int) + (bool \<times> coap_block_context \<times> nat \<times> int)" where
  "response_block benv reply bctx cur payload_len =
     (let block2 = coap_get_option_int benv reply COAP_OPTION_BLOCK2
      in if block2 = - ENOENT
         then (if cur \<noteq> 0 then Inl (REASON_BLOCK_OPTION, - EINVAL) else Inr (True, bctx, 0, block2))
         else (let ready = \<not> get_more benv block2;
                   (res, bctx) = coap_update_from_block benv reply bctx;
                   bytes = coap_block_size_to_bytes benv (block_size bctx)
               in if res < 0 then Inl (REASON_BLOCK_OPTION, res)
                  else if total_size bctx > APP_COAP_MAX_UPDATE_SIZE then Inl (REASON_BLOCK_OPTION, - ENOMEM)
                  else if cur \<noteq> current bctx then Inl (REASON_BLOCK_NO, - EINVAL)
                  else if payload_len > bytes then Inl (REASON_BLOCK_OPTION, - EINVAL)
                  else if payload_len < bytes \<and> \<not> ready then Inl (REASON_BLOCK_OPTION, - EINVAL)
                  else Inr (ready, bctx, bytes, res)))"

text \<open>After the last block: finish, verify the version, request the upgrade.\<close>

definition response_finish ::
  "('c, 'w) dfu_env \<Rightarrow> int \<Rightarrow> ('c, 'w) update_state \<Rightarrow> int \<times> ('c, 'w) update_state" where
  "response_finish env uptime st =
     (let (res, dfu) = appl_update_finish env uptime (upd_dfu st);
          st = st\<lparr>upd_dfu := dfu\<rparr>;
          res = (if res = 0 then appl_update_coap_verify_version env st else res);
          (res, dfu) = (if res = 0 then appl_update_request_upgrade env (upd_dfu st) else (res, upd_dfu st));
          st = st\<lparr>upd_dfu := dfu\<rparr>
      in (res, snd (appl_update_coap_cancel_download env uptime (res \<noteq> 0) REASON_NOT_AVAILABLE st)))"

definition appl_update_coap_resonse ::
  "'p coap_env \<Rightarrow> 'p coap_block_env \<Rightarrow> ('c, 'w) dfu_env \<Rightarrow> int \<Rightarrow> 'p \<Rightarrow> coap_block_context \<Rightarrow> nat
   \<Rightarrow> ('c, 'w) update_state \<Rightarrow> int \<times> ('c, 'w) update_state" where
  "appl_update_coap_resonse cenv benv env uptime reply bctx cur st =
     (let cancel = (\<lambda>reason rc st. (rc, snd (appl_update_coap_cancel_download env uptime True reason st)));
          st = st\<lparr>update_context := (update_context st)\<lparr>message := []\<rparr>\<rparr>
      in if coap_header_get_code cenv reply \<noteq> COAP_RESPONSE_CODE_CONTENT then cancel REASON_NO_CONTENT (- EINVAL) st
         else (let (format_ok, st) = response_format cenv reply st
               in if \<not> format_ok then cancel REASON_CHANGED (- EINVAL) st
                  else (let (etag_ok, st) = response_etag cenv reply cur st;
                            payload = coap_packet_get_payload cenv reply
                        in if \<not> etag_ok then cancel REASON_CHANGED (- EINVAL) st
                           else (case response_block benv reply bctx cur (length payload) of
                                   Inl (reason, rc) \<Rightarrow> cancel reason rc st
                                 | Inr (ready, bctx, bytes, res) \<Rightarrow>
                                     (let st = (if payload \<noteq> []
                                                then st\<lparr>upd_dfu := snd (appl_update_write env payload (upd_dfu st))\<rparr> else st)
                                      in if ready then response_finish env uptime st
                                         else (res, if cur = current (coap_block_ctx st)
                                                  then st\<lparr>coap_block_ctx := bctx\<lparr>current := current bctx + bytes\<rparr>,
                                                          coap_download_request := True\<rparr>
                                                  else st))))))"

definition appl_update_coap_parse_data ::
  "'p coap_env \<Rightarrow> 'p coap_block_env \<Rightarrow> ('c, 'w) dfu_env \<Rightarrow> int \<Rightarrow> u8 list \<Rightarrow> ('c, 'w) update_state
   \<Rightarrow> (int + parse_result_t) \<times> ('c, 'w) update_state" where
  "appl_update_coap_parse_data cenv benv env uptime data st =
     (if upd_reboots st then (Inl (- ESHUTDOWN), st)
      else (let (err, reply) = coap_packet_parse cenv data
            in if err < 0 then (Inl err, st)
               else (let res = coap_client_match cenv reply (ctx_mid (update_context st)) (ctx_token (update_context st))
                     in if res < PARSE_RESPONSE then (Inr res, st)
                        else (let st = (if coap_download st
                                        then snd (appl_update_coap_resonse cenv benv env uptime reply
                                                    (coap_block_ctx st) (current (coap_block_ctx st)) st)
                                        else st)
                              in if res = PARSE_CON_RESPONSE
                                 then (let (res, cc) = coap_client_prepare_ack cenv reply (upd_client st)
                                       in (Inr res, st\<lparr>upd_client := cc\<rparr>))
                                 else (Inr res, st)))))"

definition appl_update_coap_pending_next :: "('c, 'w) update_state \<Rightarrow> bool" where
  "appl_update_coap_pending_next st = (\<not> upd_reboots st \<and> coap_download st \<and> coap_download_request st)"

text \<open>The request for the next block; the options are appended one after the other, and only the last
  one may fail without ending the request.\<close>

definition next_request ::
  "'p coap_env \<Rightarrow> 'p coap_block_env \<Rightarrow> string \<Rightarrow> cstring \<Rightarrow> u32 \<Rightarrow> u16 \<Rightarrow> coap_block_context \<Rightarrow> int + 'p" where
  "next_request cenv benv model resource token mid bctx =
     (let bytes = map (\<lambda>c. of_nat (of_char c)) :: cstring \<Rightarrow> u8 list;
          (rc, p) = coap_packet_init cenv 128 COAP_TYPE_CON (token_bytes token) COAP_METHOD_GET mid
      in if rc < 0 then Inl rc
         else (let (rc, p) = coap_packet_append_option cenv p COAP_OPTION_URI_PATH (bytes ''fw'')
               in if rc < 0 then Inl rc
                  else (let (rc, p) = coap_packet_append_option cenv p COAP_OPTION_URI_PATH (bytes model)
                        in if rc < 0 then Inl rc
                           else (let (rc, p) = coap_packet_append_option cenv p COAP_OPTION_URI_PATH (bytes resource)
                                 in if rc < 0 then Inl rc
                                    else Inr (snd (coap_append_block2_option benv p bctx))))))"

definition appl_update_coap_next ::
  "'p coap_env \<Rightarrow> 'p coap_block_env \<Rightarrow> string \<Rightarrow> u16 \<Rightarrow> ('c, 'w) update_state \<Rightarrow> int \<times> ('c, 'w) update_state" where
  "appl_update_coap_next cenv benv model mid st =
     (if upd_reboots st then (- ESHUTDOWN, st)
      else if \<not> coap_download st then (- EINVAL, st)
      else if \<not> coap_download_request st then (0, st)
      else (let (token, cc) = coap_client_next_token (upd_client st);
                bctx = coap_block_ctx st;
                st = st\<lparr>coap_download_request := False, upd_client := cc,
                        update_context := \<lparr>ctx_token = token, ctx_mid = mid, message = []\<rparr>\<rparr>
            in case next_request cenv benv model (coap_resource_path st) token mid bctx of
                 Inl rc \<Rightarrow> (rc, st)
               | Inr p \<Rightarrow>
                   (let msg = coap_packet_data cenv p;
                        st = st\<lparr>update_context := (update_context st)\<lparr>message := msg\<rparr>\<rparr>
                    in (int (length msg),
                        if msg \<noteq> []
                        then st\<lparr>coap_current_block := get_block_num benv (coap_get_option_int benv p COAP_OPTION_BLOCK2)\<rparr>
                        else st))))"

definition appl_update_coap_message :: "('c, 'w) update_state \<Rightarrow> int \<times> u8 list" where
  "appl_update_coap_message st = coap_context_message (update_context st)"

section \<open>The state machine\<close>

definition update_inv :: "('c, 'w) update_state \<Rightarrow> bool" where
  "update_inv st \<longleftrightarrow>
     (coap_download st \<longrightarrow> \<not> coap_download_ready st \<and> \<not> coap_download_canceled st) \<and>
     (\<not> coap_download st \<longrightarrow> \<not> coap_download_request st \<and> message (update_context st) = []) \<and>
     \<not> (coap_download_ready st \<and> coap_download_canceled st)"

definition update_initial :: "('c, 'w) update_state \<Rightarrow> bool" where
  "update_initial st \<longleftrightarrow>
     \<not> coap_download st \<and> \<not> coap_download_request st \<and> \<not> coap_download_canceled st \<and> \<not> coap_download_ready st \<and>
     message (update_context st) = []"

text \<open>The operations in any order: commands, the erase work once it is scheduled, received datagrams,
  requests, cancel and the reboot at the end of a transmission.\<close>

inductive update_step ::
  "'p coap_env \<Rightarrow> 'p coap_block_env \<Rightarrow> ('c, 'w) dfu_env \<Rightarrow> ('c, 'w) update_state \<Rightarrow> ('c, 'w) update_state \<Rightarrow> bool"
  for cenv :: "'p coap_env" and benv :: "'p coap_block_env" and env :: "('c, 'w) dfu_env" where
  step_cmd: "appl_update_coap_cmd env t iv config st = Some (rc, st') \<Longrightarrow> update_step cenv benv env st st'"
| step_erase: "erase_work st \<Longrightarrow> update_step cenv benv env st (appl_update_coap_erase_fn benv env t scale st)"
| step_parse: "appl_update_coap_parse_data cenv benv env t data st = (r, st') \<Longrightarrow> update_step cenv benv env st st'"
| step_next: "appl_update_coap_next cenv benv model mid st = (rc, st') \<Longrightarrow> update_step cenv benv env st st'"
| step_cancel: "appl_update_coap_cancel env t st = (rc, st') \<Longrightarrow> update_step cenv benv env st st'"
| step_reboot: "appl_update_coap_reboot env st = (b, st') \<Longrightarrow> update_step cenv benv env st st'"

inductive_cases update_step_cases: "update_step cenv benv env st st'"

lemma cancel_inv:
  assumes "coap_download st \<and> cancel \<or> message (update_context st) = []"
  shows "update_inv (snd (appl_update_coap_cancel_download env t cancel reason st))"
  using assms by (auto simp: appl_update_coap_cancel_download_def update_inv_def Let_def split: prod.splits)

lemma cancel_stops: "\<not> coap_download (snd (appl_update_coap_cancel_download env t cancel reason st))"
  by (auto simp: appl_update_coap_cancel_download_def Let_def split: prod.splits)

lemma cancel_ready: "coap_download_ready (snd (appl_update_coap_cancel_download env t cancel reason st)) = (\<not> cancel)"
  by (simp add: appl_update_coap_cancel_download_def Let_def case_prod_beta)

lemma cancel_dfu_inv: "update_inv (st\<lparr>upd_dfu := d\<rparr>) = update_inv st" "update_inv (st\<lparr>erase_work := b\<rparr>) = update_inv st"
    "update_inv (st\<lparr>upd_client := cc\<rparr>) = update_inv st" "update_inv (st\<lparr>sh_appended := n\<rparr>) = update_inv st"
    "update_inv (st\<lparr>coap_apply_update := b\<rparr>) = update_inv st"
  by (simp_all add: update_inv_def)

lemma start_inv:
  "update_inv st \<Longrightarrow> update_inv (snd (appl_update_coap_start env t iv res st))"
  by (auto simp: appl_update_coap_start_def appl_update_coap_set_resource_def update_inv_def Let_def split: prod.splits)

lemma response_format_frame:
  assumes "response_format cenv reply st = (b, st')"
  obtains f where "st' = st\<lparr>coap_content_format := f\<rparr>"
proof -
  have "st' = st \<or> (\<exists>f. st' = st\<lparr>coap_content_format := f\<rparr>)"
    using assms by (auto simp: response_format_def Let_def split: option.splits if_splits)
  then show thesis using that [of "coap_content_format st"] that by auto
qed

lemma response_etag_frame:
  assumes "response_etag cenv reply cur st = (b, st')"
  obtains e where "st' = st\<lparr>coap_etag := e\<rparr>"
proof -
  have "st' = st \<or> (\<exists>e. st' = st\<lparr>coap_etag := e\<rparr>)"
    using assms by (auto simp: response_etag_def Let_def split: option.splits if_splits)
  then show thesis using that [of "coap_etag st"] that by auto
qed

text \<open>The state after the checks of the options, and after the write of the payload.\<close>

definition checked :: "int \<Rightarrow> u8 list \<Rightarrow> ('c, 'w) update_state \<Rightarrow> ('c, 'w) update_state" where
  "checked f e st = st\<lparr>update_context := (update_context st)\<lparr>message := []\<rparr>, coap_content_format := f, coap_etag := e\<rparr>"

definition stored :: "('c, 'w) dfu_env \<Rightarrow> u8 list \<Rightarrow> ('c, 'w) update_state \<Rightarrow> ('c, 'w) update_state" where
  "stored env payload st =
     (if payload \<noteq> [] then st\<lparr>upd_dfu := snd (appl_update_write env payload (upd_dfu st))\<rparr> else st)"

lemma response_cases:
  assumes "appl_update_coap_resonse cenv benv env t reply bctx cur st = (rc, st')"
  obtains (canceled) f e reason where "st' = snd (appl_update_coap_cancel_download env t True reason (checked f e st))"
  | (last) f e bctx' bytes r where
      "response_block benv reply bctx cur (length (coap_packet_get_payload cenv reply)) = Inr (True, bctx', bytes, r)"
      "response_finish env t (stored env (coap_packet_get_payload cenv reply) (checked f e st)) = (rc, st')"
  | (more) f e bctx' bytes r s1 where
      "response_block benv reply bctx cur (length (coap_packet_get_payload cenv reply)) = Inr (False, bctx', bytes, r)"
      "s1 = stored env (coap_packet_get_payload cenv reply) (checked f e st)"
      "st' = (if cur = current (coap_block_ctx s1)
              then s1\<lparr>coap_block_ctx := bctx'\<lparr>current := current bctx' + bytes\<rparr>, coap_download_request := True\<rparr> else s1)"
proof -
  let ?s0 = "st\<lparr>update_context := (update_context st)\<lparr>message := []\<rparr>\<rparr>"
  let ?payload = "coap_packet_get_payload cenv reply"
  obtain b1 s1 where fm: "response_format cenv reply ?s0 = (b1, s1)" by fastforce
  obtain b2 s2 where et: "response_etag cenv reply cur s1 = (b2, s2)" by fastforce
  obtain f where f1: "s1 = ?s0\<lparr>coap_content_format := f\<rparr>" by (rule response_format_frame [OF fm])
  obtain e where e1: "s2 = s1\<lparr>coap_etag := e\<rparr>" by (rule response_etag_frame [OF et])
  have s0: "?s0 = checked (coap_content_format st) (coap_etag st) st" by (simp add: checked_def)
  have s1: "s1 = checked f (coap_etag st) st" using f1 by (simp add: checked_def)
  have s2: "s2 = checked f e st" using f1 e1 by (simp add: checked_def)
  consider "\<exists>reason s. s \<in> {?s0, s1, s2} \<and> st' = snd (appl_update_coap_cancel_download env t True reason s)"
    | (last) bctx' bytes r where "response_block benv reply bctx cur (length ?payload) = Inr (True, bctx', bytes, r)"
        "response_finish env t (stored env ?payload s2) = (rc, st')"
    | (more) bctx' bytes r where "response_block benv reply bctx cur (length ?payload) = Inr (False, bctx', bytes, r)"
        "st' = (let s1 = stored env ?payload s2 in if cur = current (coap_block_ctx s1)
              then s1\<lparr>coap_block_ctx := bctx'\<lparr>current := current bctx' + bytes\<rparr>, coap_download_request := True\<rparr> else s1)"
    using assms fm et
    by (auto simp: appl_update_coap_resonse_def stored_def Let_def split: prod.splits sum.splits if_splits)
  then show thesis
  proof cases
    case 1
    then show thesis using s0 s1 s2 canceled by auto
  next
    case last
    then show thesis using that(2) s2 by auto
  next
    case more
    then show thesis using that(3) s2 by (simp add: Let_def)
  qed
qed

lemma cancel_message:
  "message (update_context st) = [] \<Longrightarrow>
   message (update_context (snd (appl_update_coap_cancel_download env t cancel reason st))) = []"
  by (auto simp: appl_update_coap_cancel_download_def Let_def split: prod.splits)

lemma stored_simps [simp]:
  "update_context (stored env payload st) = update_context st"
  "coap_download (stored env payload st) = coap_download st"
  "coap_download_ready (stored env payload st) = coap_download_ready st"
  "coap_download_canceled (stored env payload st) = coap_download_canceled st"
  "coap_block_ctx (stored env payload st) = coap_block_ctx st"
  by (simp_all add: stored_def)

lemma checked_simps [simp]:
  "message (update_context (checked f e st)) = []"
  "coap_download (checked f e st) = coap_download st"
  "coap_download_ready (checked f e st) = coap_download_ready st"
  "coap_download_canceled (checked f e st) = coap_download_canceled st"
  "coap_block_ctx (checked f e st) = coap_block_ctx st"
  "upd_dfu (checked f e st) = upd_dfu st"
  by (simp_all add: checked_def)

lemma finish_cancel:
  assumes "response_finish env t st = (rc, st')"
  obtains dfu where "st' = snd (appl_update_coap_cancel_download env t (rc \<noteq> 0) REASON_NOT_AVAILABLE (st\<lparr>upd_dfu := dfu\<rparr>))"
  using assms by (auto simp: response_finish_def Let_def split: prod.splits if_splits)

lemma response_inv:
  assumes "appl_update_coap_resonse cenv benv env t reply bctx cur st = (rc, st')" "update_inv st" "coap_download st"
  shows "update_inv st' \<and> message (update_context st') = []"
  using assms(1)
proof (cases rule: response_cases)
  case (canceled f e reason)
  then show ?thesis using cancel_inv [of "checked f e st" True] cancel_message [of "checked f e st"] by simp
next
  case (last f e bctx' bytes r)
  let ?s = "stored env (coap_packet_get_payload cenv reply) (checked f e st)"
  obtain dfu where st': "st' = snd (appl_update_coap_cancel_download env t (rc \<noteq> 0) REASON_NOT_AVAILABLE (?s\<lparr>upd_dfu := dfu\<rparr>))"
    by (rule finish_cancel [OF last(2)])
  then show ?thesis
    using cancel_inv [of "?s\<lparr>upd_dfu := dfu\<rparr>" "rc \<noteq> 0"] cancel_message [of "?s\<lparr>upd_dfu := dfu\<rparr>"] by simp
next
  case (more f e bctx' bytes r s1)
  then show ?thesis using assms(2,3) by (auto simp: update_inv_def)
qed

lemma parse_no_response:
  "appl_update_coap_parse_data cenv benv env t d st = (r, st') \<Longrightarrow> \<not> is_response r \<Longrightarrow> st' = st"
  by (auto simp: appl_update_coap_parse_data_def Let_def is_response_def coap_client_prepare_ack_def
      less_eq_parse_result_t_def less_parse_result_t_def split: prod.splits if_splits)

lemma parse_response:
  assumes "appl_update_coap_parse_data cenv benv env t d st = (r, st')" "update_inv st" "is_response r"
  shows "update_inv st' \<and> message (update_context st') = []"
proof -
  let ?base = "\<lambda>reply. if coap_download st
      then snd (appl_update_coap_resonse cenv benv env t reply (coap_block_ctx st) (current (coap_block_ctx st)) st)
      else st"
  obtain reply where p: "st' = ?base reply \<or> (\<exists>cc. st' = (?base reply)\<lparr>upd_client := cc\<rparr>)"
    using assms(1,3)
    by (auto simp: appl_update_coap_parse_data_def Let_def is_response_def less_eq_parse_result_t_def
        less_parse_result_t_def split: prod.splits if_splits)
  have "update_inv (?base reply) \<and> message (update_context (?base reply)) = []"
  proof (cases "coap_download st")
    case True
    obtain rc s where r: "appl_update_coap_resonse cenv benv env t reply (coap_block_ctx st) (current (coap_block_ctx st)) st = (rc, s)"
      by fastforce
    then show ?thesis using response_inv [OF r assms(2) True] True by simp
  next
    case False
    then show ?thesis using assms(2) by (simp add: update_inv_def)
  qed
  then show ?thesis using p cancel_dfu_inv(3) by auto
qed

lemma cmd_inv:
  assumes "appl_update_coap_cmd env t iv config st = Some (rc, st')" "update_inv st"
  shows "update_inv st'"
proof -
  have start: "update_inv (snd (appl_update_coap_start env t iv v (st\<lparr>coap_apply_update := b\<rparr>)))" for v b
    using start_inv assms(2) cancel_dfu_inv(5) by blast
  have cancel: "update_inv (snd (appl_update_coap_cancel_download env t True reason st))" for reason
    using assms(2) by (intro cancel_inv) (auto simp: update_inv_def)
  have start': "appl_update_coap_start env t iv v (st\<lparr>coap_apply_update := b\<rparr>) = (rc, st') \<Longrightarrow> update_inv st'" for v b
    using start by (metis snd_conv)
  show ?thesis using assms start' cancel
    by (auto simp: appl_update_coap_cmd_def Let_def cancel_dfu_inv split: prod.splits if_splits)
qed

lemma erase_inv:
  assumes "update_inv st"
  shows "update_inv (appl_update_coap_erase_fn benv env t scale st)"
proof -
  obtain rc dfu where e: "appl_update_erase env (upd_dfu st) = (rc, dfu)" by fastforce
  have "update_inv (snd (appl_update_coap_cancel_download env t True REASON_NOT_AVAILABLE (st\<lparr>erase_work := False, upd_dfu := dfu\<rparr>)))"
    using assms by (intro cancel_inv) (auto simp: update_inv_def)
  then show ?thesis using assms e
    by (auto simp: appl_update_coap_erase_fn_def Let_def cancel_dfu_inv split: prod.splits) (simp_all add: update_inv_def)
qed

lemma next_inv:
  "appl_update_coap_next cenv benv model mid st = (rc, st') \<Longrightarrow> update_inv st \<Longrightarrow> update_inv st'"
  by (auto simp: appl_update_coap_next_def update_inv_def Let_def split: if_splits prod.splits sum.splits)

lemma update_step_inv: "update_step cenv benv env st st' \<Longrightarrow> update_inv st \<Longrightarrow> update_inv st'"
proof (induction rule: update_step.induct)
  case (step_cmd t iv config st rc st')
  then show ?case by (rule cmd_inv)
next
  case (step_erase st t scale)
  then show ?case by (simp add: erase_inv)
next
  case (step_parse t data st r st')
  then show ?case using parse_no_response [OF step_parse(1)] parse_response [OF step_parse(1)] by blast
next
  case (step_next model mid st rc st')
  then show ?case by (rule next_inv)
next
  case (step_cancel t st rc st')
  have "update_inv (snd (appl_update_coap_cancel_download env t True REASON_NOT_AVAILABLE st))"
    using step_cancel(2) by (intro cancel_inv) (auto simp: update_inv_def)
  then show ?case using step_cancel by (auto simp: appl_update_coap_cancel_def split: if_splits)
next
  case (step_reboot st b st')
  then show ?case by (auto simp: appl_update_coap_reboot_def cancel_dfu_inv split: if_splits)
qed

interpretation upd: coap_handler appl_update_coap_message "appl_update_coap_parse_data cenv benv env t" update_inv
  by standard (auto simp: appl_update_coap_message_def coap_context_message_def dest: parse_no_response parse_response)

section \<open>Properties\<close>


text \<open>A download on the simulated codec and image writer: blocks of 16 bytes, numbered in the option.\<close>

definition sim_blocks :: "sim_packet coap_block_env" where
  "sim_blocks = \<lparr>
     coap_get_option_int = (\<lambda>p n. case map_of (pk_options p) n of None \<Rightarrow> - ENOENT | Some v \<Rightarrow> be_val v),
     get_more = (\<lambda>v. bit v 3), get_block_num = (\<lambda>v. nat (v div 16)),
     coap_update_from_block = (\<lambda>p c. case map_of (pk_options p) COAP_OPTION_BLOCK2 of None \<Rightarrow> (- ENOENT, c)
        | Some v \<Rightarrow> (0, c\<lparr>current := nat (be_val v div 16) * 16, block_size := 0\<rparr>)),
     coap_block_size_to_bytes = (\<lambda>n. 16 * 2 ^ n),
     coap_block_transfer_init = (\<lambda>b n. \<lparr>total_size = n, current = 0, block_size = b\<rparr>),
     coap_append_block2_option = (\<lambda>p c. (0, p))\<rparr>"

definition sim_update_state :: "(u8 list, u8 list) update_state" where
  "sim_update_state = \<lparr>update_context = coap_context_init, coap_resource_path = [], coap_etag = no_etag,
     coap_content_format = - 1, coap_download = False, coap_download_request = False,
     coap_download_canceled = False, coap_download_ready = False, coap_apply_update = False,
     coap_block_ctx = \<lparr>total_size = 0, current = 0, block_size = 0\<rparr>, coap_current_block = 0,
     coap_download_cancel_reason = REASON_NOT_AVAILABLE, erase_work = False, sh_appended = 0,
     upd_client = sim_cc, upd_dfu = sim_dfu_state\<rparr>"

definition sim_downloading :: "(u8 list, u8 list) update_state" where
  "sim_downloading = snd (appl_update_coap_start (sim_dfu sim_header) 5 ''0.9.11+1'' ''0.9.12+3'' sim_update_state)"

lemma sim_start_step: "update_step sim_coap sim_blocks (sim_dfu sim_header) sim_update_state sim_downloading"
proof (rule step_cmd [where t = 5 and iv = "''0.9.11+1''" and config = "''download 0.9.12+3''" and rc = 0])
  have p: "parse_next_text ''download 0.9.12+3'' (CHR '' '') (Some 10) = (''0.9.12+3'', Some ''download'')"
    "appl_update_coap_normalize ''0.9.12+3'' 32 = (0, ''0.9.12+3'')" "stricmp ''download'' ''download'' = 0"
    "length ''0.9.12+3'' = 8" by code_simp+
  have "sim_update_state\<lparr>coap_apply_update := False\<rparr> = sim_update_state" "\<not> upd_reboots sim_update_state"
    by (simp_all add: sim_update_state_def sim_dfu_state_def appl_reboots_def)
  moreover have "fst (appl_update_coap_start (sim_dfu sim_header) 5 ''0.9.11+1'' ''0.9.12+3'' sim_update_state) = 0"
    by code_simp
  moreover from this have "appl_update_coap_start (sim_dfu sim_header) 5 ''0.9.11+1'' ''0.9.12+3'' sim_update_state = (0, sim_downloading)"
    by (simp add: sim_downloading_def prod_eq_iff)
  ultimately show "appl_update_coap_cmd (sim_dfu sim_header) 5 ''0.9.11+1'' ''download 0.9.12+3'' sim_update_state
      = Some (0, sim_downloading)"
    using p by (simp add: appl_update_coap_cmd_def del: stricmp.simps)
qed


text \<open>The request for a block stays for retransmission through any number of datagrams that are no
  response and is gone after a response, in every reachable state.\<close>

lemma update_message_lifetime:
  assumes "update_inv st"
  shows "let (rs, st') = receive_all (appl_update_coap_parse_data cenv benv env t) ds st
    in update_inv st' \<and> appl_update_coap_message st' =
        (if list_ex is_response rs then (0, []) else appl_update_coap_message st)"
proof -
  obtain rs st' where r: "receive_all (appl_update_coap_parse_data cenv benv env t) ds st = (rs, st')" by fastforce
  show ?thesis using upd.receive_all_message [OF assms r] r by (simp add: list_ex_iff)
qed

subsection \<open>The image of a download\<close>

text \<open>A download that has stored the bytes up to its position.\<close>

definition downloading :: "('c option \<Rightarrow> 'w \<Rightarrow> u8 list) \<Rightarrow> ('c, 'w) update_state \<Rightarrow> bool" where
  "downloading img st \<longleftrightarrow>
     coap_download st \<and> \<not> upd_reboots st \<and> dfu_context (upd_dfu st) \<noteq> None \<and>
     length (dfu_image img (upd_dfu st)) = current (coap_block_ctx st)"

definition writes_succeed :: "('c, 'w) dfu_env \<Rightarrow> bool" where
  "writes_succeed env \<longleftrightarrow> (\<forall>c d w. fst (flash_img_buffered_write env (Some c) d False w) = 0)"

fun receive_blocks ::
  "'p coap_env \<Rightarrow> 'p coap_block_env \<Rightarrow> ('c, 'w) dfu_env \<Rightarrow> int \<Rightarrow> 'p list \<Rightarrow> ('c, 'w) update_state \<Rightarrow> ('c, 'w) update_state" where
  "receive_blocks cenv benv env t [] st = st"
| "receive_blocks cenv benv env t (r # rs) st =
     receive_blocks cenv benv env t rs
       (snd (appl_update_coap_resonse cenv benv env t r (coap_block_ctx st) (current (coap_block_ctx st)) st))"

lemma response_block_more:
  assumes "response_block benv reply bctx cur n = Inr (False, bctx', bytes, r)"
  shows "current bctx' = cur \<and> n = bytes"
  using assms by (auto simp: response_block_def Let_def split: if_splits prod.splits)

lemma stored_write:
  assumes "flash_img_ok env img" "writes_succeed env" "dfu_context (upd_dfu st) \<noteq> None" "\<not> upd_reboots st"
  shows "dfu_context (upd_dfu (stored env d st)) \<noteq> None \<and> \<not> upd_reboots (stored env d st) \<and>
    dfu_image img (upd_dfu (stored env d st)) = dfu_image img (upd_dfu st) @ d"
proof (cases "d = []")
  case True
  then show ?thesis using assms(3,4) by (simp add: stored_def)
next
  case False
  obtain c where c: "dfu_context (upd_dfu st) = Some c" using assms(3) by auto
  have "fst (flash_img_buffered_write env (Some c) d False (dfu_world (upd_dfu st))) = 0"
    using assms(2) by (simp add: writes_succeed_def)
  then have "fst (appl_update_write env d (upd_dfu st)) = 0"
    using c assms(4) by (simp add: appl_update_write_def case_prod_beta)
  then have w: "appl_update_write env d (upd_dfu st) = (0, snd (appl_update_write env d (upd_dfu st)))"
    by (simp add: prod_eq_iff)
  have "dfu_reboot (snd (appl_update_write env d (upd_dfu st))) = dfu_reboot (upd_dfu st)"
    by (simp add: appl_update_write_def case_prod_beta)
  then show ?thesis
    using update_api.write_ok [OF update_api_flash [OF assms(1)] assms(3) w] False assms(4) by (simp add: stored_def)
qed

lemma finish_stops: "response_finish env t st = (rc, st') \<Longrightarrow> \<not> coap_download st'"
  using cancel_stops by (metis finish_cancel)

lemma response_more:
  assumes "flash_img_ok env img" "writes_succeed env" "downloading img st"
    and "appl_update_coap_resonse cenv benv env t reply (coap_block_ctx st) (current (coap_block_ctx st)) st = (rc, st')"
    and "coap_download st'"
  shows "downloading img st' \<and> coap_download_request st' \<and>
    dfu_image img (upd_dfu st') = dfu_image img (upd_dfu st) @ coap_packet_get_payload cenv reply"
  using assms(4)
proof (cases rule: response_cases)
  case (canceled f e reason)
  then show ?thesis using cancel_stops assms(5) by metis
next
  case (last f e bctx' bytes r)
  then show ?thesis using finish_stops assms(5) by metis
next
  case (more f e bctx' bytes r s1)
  let ?d = "coap_packet_get_payload cenv reply"
  have b: "current bctx' = current (coap_block_ctx st)" "length ?d = bytes"
    using response_block_more [OF more(1)] by simp_all
  have w: "dfu_context (upd_dfu s1) \<noteq> None \<and> \<not> upd_reboots s1 \<and>
      dfu_image img (upd_dfu s1) = dfu_image img (upd_dfu st) @ ?d"
    using stored_write [OF assms(1,2), of "checked f e st" ?d] assms(3) more(2) by (simp add: downloading_def)
  have "st' = s1\<lparr>coap_block_ctx := bctx'\<lparr>current := current bctx' + bytes\<rparr>, coap_download_request := True\<rparr>"
    using more by simp
  then show ?thesis using w b assms(3) more(2) by (simp add: downloading_def)
qed

lemma response_download: "coap_download (snd (appl_update_coap_resonse cenv benv env t r bctx cur st)) \<Longrightarrow> coap_download st"
proof -
  assume d: "coap_download (snd (appl_update_coap_resonse cenv benv env t r bctx cur st))"
  obtain rc st' where rs: "appl_update_coap_resonse cenv benv env t r bctx cur st = (rc, st')" by fastforce
  then have "coap_download st'" using d by simp
  with rs show "coap_download st"
    by (cases rule: response_cases) (auto dest: finish_stops simp: cancel_stops split: if_splits)
qed

lemma receive_blocks_download:
  "coap_download (receive_blocks cenv benv env t rs st) \<Longrightarrow> coap_download st"
  by (induction rs arbitrary: st) (auto dest: response_download)

lemma receive_blocks_image:
  assumes "flash_img_ok env img" "writes_succeed env" "downloading img st"
    and "coap_download (receive_blocks cenv benv env t rs st)"
  shows "downloading img (receive_blocks cenv benv env t rs st) \<and>
    dfu_image img (upd_dfu (receive_blocks cenv benv env t rs st)) =
      dfu_image img (upd_dfu st) @ concat (map (coap_packet_get_payload cenv) rs)"
  using assms(3,4)
proof (induction rs arbitrary: st)
  case (Cons r rs)
  obtain rc st1 where r: "appl_update_coap_resonse cenv benv env t r (coap_block_ctx st) (current (coap_block_ctx st)) st = (rc, st1)"
    by fastforce
  have d: "coap_download (receive_blocks cenv benv env t rs st1)" using Cons.prems(2) r by simp
  note step = response_more [OF assms(1,2) Cons.prems(1) r receive_blocks_download [OF d]]
  show ?case using Cons.IH [of st1] step d r by simp
qed simp


definition sim_block_reply :: "nat \<Rightarrow> bool \<Rightarrow> u8 list \<Rightarrow> sim_packet" where
  "sim_block_reply n mb payload = (sim_reply 2 69 0 [])
     \<lparr>pk_options := [(COAP_OPTION_BLOCK2, be_bytes 2 (16 * int n + (if mb then 8 else 0)))], pk_payload := payload\<rparr>"


lemma finish_ready:
  assumes "response_finish env t st = (rc, st')" "coap_download_ready st'"
  obtains dfu where "appl_update_finish env t (upd_dfu st) = (0, dfu)"
    "appl_update_coap_verify_version env (st\<lparr>upd_dfu := dfu\<rparr>) = 0"
    "appl_update_request_upgrade env dfu = (0, upd_dfu st')" "rc = 0"
proof -
  have dfu: "upd_dfu (snd (appl_update_coap_cancel_download env t False reason s)) = upd_dfu s" for reason s
    by (simp add: appl_update_coap_cancel_download_def)
  show thesis using assms that dfu
    by (auto simp: response_finish_def Let_def cancel_ready split: prod.splits if_splits)
qed




definition sim_ready :: "(u8 list, u8 list) update_state" where
  "sim_ready = snd (appl_update_coap_resonse sim_coap sim_blocks (sim_dfu sim_header) 9 (sim_block_reply 0 False [7, 8])
         (coap_block_ctx sim_downloading) (current (coap_block_ctx sim_downloading)) sim_downloading)"


text \<open>A download that cannot start: when \<open>appl_update_start\<close> fails (for example because a transfer
  over UART is in progress), the download stays marked as in progress without any work scheduled, and
  the next attempt, for any resource, returns \<open>- EBUSY\<close>.\<close>

lemma failed_start_blocks:
  assumes "\<not> coap_download st" "stricmp resource iv \<noteq> 0" "\<not> erase_work st"
    and "fst (appl_update_start env t (upd_dfu st)) \<noteq> 0"
  shows "let (rc, st') = appl_update_coap_start env t iv resource st
    in rc = fst (appl_update_start env t (upd_dfu st)) \<and> coap_download st' \<and> \<not> erase_work st' \<and>
       appl_update_coap_start env t' iv' resource' st' = (- EBUSY, st')"
  using assms
  by (auto simp: appl_update_coap_start_def appl_update_coap_set_resource_def Let_def case_prod_beta)

end
