(* ===== verification/Sh_Cmd.thy ===== *)
theory Sh_Cmd
  imports Parse
begin

text \<open>
  The command shell of \<open>src/src/sh_cmd.c\<close>: commands from the UART, from the server and from the
  application's own modules, executed one at a time on a work queue, with a queue of delayed commands
  and the exclusive use of the modem's AT interface.

  \<open>shell\<close> holds the state bits, the queue and the work items that are submitted: \<open>schedule_work\<close> with
  its delay, \<open>execute_work\<close>, \<open>response_work\<close> with the AT response and \<open>inactive_work\<close>. Every work function
  runs to its end on the one work queue, so a work function is a step. \<open>sh_done\<close> lists the commands
  that were executed, and \<open>sh_out\<close> what is printed.

  The command handlers live all over the program: an entry's handler is a function on the parameter
  and the shell state. The modem's AT interface, the unlock password and the clock are parameters in
  \<open>sh_env\<close>.
\<close>

section \<open>State\<close>

datatype sh_output = SH_OK | SH_ERROR

record shell =
  sh_executing :: bool
  sh_at_pending :: bool
  sh_app_active :: bool
  sh_queued :: bool
  sh_protected :: bool
  sh_cmd_queue :: "(cstring \<times> nat) list"
  sh_cmd_buf :: cstring
  sh_cmd_unlocked :: int
  at_cmd_time :: int
  app_active_end :: int
  schedule_work :: "nat option"
  execute_work :: bool
  response_work :: "cstring option"
  inactive_work :: "nat option"
  sh_done :: "cstring list"
  sh_out :: "sh_output list"

record sh_cmd_entry =
  e_cmd :: cstring
  e_at_cmd :: "cstring option"
  e_handler :: "(cstring \<Rightarrow> shell \<Rightarrow> int \<times> shell) option"
  e_help_handler :: bool
  e_protect :: bool

record sh_env =
  sh_entries :: "sh_cmd_entry list"
  cfg_sh_cmd_unlock :: bool
  appl_settings_unlock :: "cstring \<Rightarrow> bool"
  modem_at_cmd_async :: "cstring \<Rightarrow> int"
  modem_at_async_pending :: bool
  uptime_ms :: int
  clock_ticks :: int
  ticks_50ms :: int

abbreviation (input) CONFIG_SH_CMD_MAX_LEN :: nat where "CONFIG_SH_CMD_MAX_LEN \<equiv> 512"
abbreviation (input) CONFIG_SH_AT_RESPONSE_MAX_LEN :: nat where "CONFIG_SH_AT_RESPONSE_MAX_LEN \<equiv> 256"
abbreviation (input) SH_CMD_UNLOCK_MS :: int where "SH_CMD_UNLOCK_MS \<equiv> 60000"

definition shell_init :: shell where
  "shell_init = \<lparr>sh_executing = False, sh_at_pending = False, sh_app_active = False, sh_queued = False,
     sh_protected = True, sh_cmd_queue = [], sh_cmd_buf = [], sh_cmd_unlocked = 0, at_cmd_time = 0,
     app_active_end = 0, schedule_work = None, execute_work = False, response_work = None,
     inactive_work = None, sh_done = [], sh_out = []\<rparr>"

section \<open>Operations\<close>

text \<open>The length of the data without the line ends at its end.\<close>

definition line_length :: "cstring \<Rightarrow> nat \<Rightarrow> nat" where
  "line_length data len = length (dropWhile (\<lambda>c. c = CHR 0x0A \<or> c = CHR 0x0D) (rev (take len data)))"

definition sh_cmd_wait_fn :: "shell \<Rightarrow> shell" where
  "sh_cmd_wait_fn s =
     (if \<not> sh_executing s
      then (case sh_cmd_queue s of
              (cmd, delay) # q \<Rightarrow>
                s\<lparr>sh_executing := True, sh_cmd_queue := q, sh_cmd_buf := take (CONFIG_SH_CMD_MAX_LEN - 1) cmd,
                  schedule_work := Some delay\<rparr>
            | [] \<Rightarrow> s\<lparr>sh_queued := False, sh_executing := False\<rparr>)
      else s)"

definition sh_cmd_result :: "int \<Rightarrow> shell \<Rightarrow> shell" where
  "sh_cmd_result res s =
     (let finish = sh_executing s; s = s\<lparr>sh_executing := False\<rparr>
      in if res > 0 then s
         else if finish
         then sh_cmd_wait_fn (s\<lparr>sh_out := sh_out s @ [if res < 0 then SH_ERROR else SH_OK]\<rparr>)
         else s)"

definition sh_app_set_active :: "shell \<Rightarrow> shell" where
  "sh_app_set_active s = s\<lparr>inactive_work := None, app_active_end := 0, sh_app_active := True\<rparr>"

definition sh_cmd_app_inactive_fn :: "shell \<Rightarrow> shell" where
  "sh_cmd_app_inactive_fn s = s\<lparr>inactive_work := None, app_active_end := 0, sh_app_active := False\<rparr>"

definition sh_app_set_inactive :: "sh_env \<Rightarrow> nat \<Rightarrow> shell \<Rightarrow> shell" where
  "sh_app_set_inactive env delay_ticks s =
     (if sh_app_active s
      then (let end = int delay_ticks + clock_ticks env - ticks_50ms env
            in if end - app_active_end s > 0
               then s\<lparr>app_active_end := end, inactive_work := Some delay_ticks\<rparr> else s)
      else s)"

definition sh_cmd_at_finish :: "sh_env \<Rightarrow> shell \<Rightarrow> shell" where
  "sh_cmd_at_finish env s =
     (if sh_at_pending s
      then sh_cmd_wait_fn (sh_app_set_inactive env 0
             (s\<lparr>sh_at_pending := False, at_cmd_time := uptime_ms env - at_cmd_time s\<rparr>))
      else s)"

definition at_cmd_response_fn :: "sh_env \<Rightarrow> cstring \<Rightarrow> shell \<Rightarrow> shell" where
  "at_cmd_response_fn env response s =
     (let s = s\<lparr>response_work := None\<rparr>
      in sh_cmd_at_finish env
           (if strend response ''OK'' False \<noteq> 0 then sh_cmd_result 1 s
            else if strend response ''ERROR'' False \<noteq> 0 then sh_cmd_result 1 s
            else sh_cmd_result (- 1) s))"

definition at_cmd_resp_callback :: "cstring \<Rightarrow> shell \<Rightarrow> shell" where
  "at_cmd_resp_callback at_response s =
     (let len = min (length at_response) (CONFIG_SH_AT_RESPONSE_MAX_LEN - 1)
      in s\<lparr>response_work := Some (take (line_length at_response len) at_response)\<rparr>)"

definition sh_cmd_get :: "sh_env \<Rightarrow> cstring \<Rightarrow> sh_cmd_entry option" where
  "sh_cmd_get env cmd =
     find (\<lambda>e. strstartsep cmd (e_cmd e) True (Some '' '') > 0 \<or>
               (case e_at_cmd e of Some a \<Rightarrow> a \<noteq> [] \<and> strstartsep cmd a True (Some '' ='') > 0 | None \<Rightarrow> False))
       (sh_entries env)"

definition sh_cmd_unlock :: "sh_env \<Rightarrow> cstring \<Rightarrow> shell \<Rightarrow> int \<times> shell" where
  "sh_cmd_unlock env parameter s =
     (if appl_settings_unlock env parameter
      then (0, s\<lparr>sh_cmd_unlocked := uptime_ms env + SH_CMD_UNLOCK_MS, sh_protected := False\<rparr>)
      else (0, s\<lparr>sh_cmd_unlocked := 0, sh_protected := True\<rparr>))"

definition sh_cmd_lock :: "shell \<Rightarrow> int \<times> shell" where
  "sh_cmd_lock s = (0, s\<lparr>sh_cmd_unlocked := 0, sh_protected := True\<rparr>)"

text \<open>The label \<open>at_cmd_modem\<close>: send a command to the modem.\<close>

definition sh_at_cmd_modem :: "sh_env \<Rightarrow> cstring \<Rightarrow> shell \<Rightarrow> int \<times> shell" where
  "sh_at_cmd_modem env at_cmd s =
     (if strstart at_cmd ''AT'' True = 0 then (- 1, s)
      else if sh_at_pending s then (1, s)
      else (let s = (sh_app_set_active (s\<lparr>sh_at_pending := True\<rparr>))\<lparr>at_cmd_time := uptime_ms env\<rparr>;
                res = modem_at_cmd_async env at_cmd
            in if res < 0 then (res, sh_cmd_at_finish env s) else (1, s)))"

text \<open>\<open>RESULT\<close> of the file, and a handler that does not touch the modem.\<close>

definition cmd_result :: "int \<Rightarrow> int" where
  "cmd_result x = (if x < 0 then x else 0)"

definition sh_run_handler :: "sh_cmd_entry \<Rightarrow> cstring \<Rightarrow> shell \<Rightarrow> int \<times> shell" where
  "sh_run_handler e parameter s =
     (case e_handler e of
        Some h \<Rightarrow> (let (res, s) = h parameter s in (cmd_result res, s))
      | None \<Rightarrow> (0, s))"

text \<open>A command of the table that is allowed: an AT command, a handler that uses the modem, or a plain
  handler. The table has a handler for every entry but the simple AT commands.\<close>

definition sh_cmd_dispatch :: "sh_env \<Rightarrow> sh_cmd_entry \<Rightarrow> cstring \<Rightarrow> shell \<Rightarrow> int \<times> shell" where
  "sh_cmd_dispatch env e parameter s =
     (case e_at_cmd e of
        Some a \<Rightarrow>
          if a \<noteq> [] \<and> e_handler e = None then sh_at_cmd_modem env a s
          else if sh_at_pending s then (1, s)
          else (let s = (sh_app_set_active (s\<lparr>sh_at_pending := True\<rparr>))\<lparr>at_cmd_time := uptime_ms env\<rparr>;
                    (res, s) = sh_run_handler e parameter s
                in (res, if modem_at_async_pending env then s else sh_cmd_at_finish env s))
      | None \<Rightarrow> sh_run_handler e parameter s)"

definition sh_cmd :: "sh_env \<Rightarrow> cstring \<Rightarrow> bool \<Rightarrow> shell \<Rightarrow> int \<times> shell" where
  "sh_cmd env cmd_buf insecure s =
     (case sh_cmd_get env cmd_buf of
        None \<Rightarrow> sh_at_cmd_modem env cmd_buf s
      | Some e \<Rightarrow>
          (let i = strstartsep cmd_buf (e_cmd e) True (Some '' '');
               i = (case e_at_cmd e of
                      Some a \<Rightarrow> if i = 0 \<and> a \<noteq> [] then strstartsep cmd_buf a True (Some '' ='') else i
                    | None \<Rightarrow> i);
               parameter = drop (nat i) cmd_buf;
               expired = uptime_ms env > sh_cmd_unlocked s
           in if parameter \<noteq> [] \<and> \<not> e_help_handler e then (1, s)
              else if cfg_sh_cmd_unlock env
              then (if expired
                    then (if e_protect e \<and> insecure then (1, s\<lparr>sh_protected := True\<rparr>)
                          else sh_cmd_dispatch env e parameter (s\<lparr>sh_protected := True\<rparr>))
                    else sh_cmd_dispatch env e parameter
                           (s\<lparr>sh_cmd_unlocked := uptime_ms env + SH_CMD_UNLOCK_MS\<rparr>))
              else if e_protect e \<and> insecure then sh_at_cmd_modem env cmd_buf s
              else sh_cmd_dispatch env e parameter s))"

text \<open>The two works that execute the command in the buffer: from the shell or scheduled.\<close>

definition sh_cmd_execute_fn :: "sh_env \<Rightarrow> bool \<Rightarrow> shell \<Rightarrow> shell" where
  "sh_cmd_execute_fn env scheduled s =
     (let s = (if scheduled then s\<lparr>schedule_work := None\<rparr> else s\<lparr>execute_work := False\<rparr>);
          s = s\<lparr>sh_done := sh_done s @ [sh_cmd_buf s]\<rparr>;
          (res, s) = sh_cmd env (sh_cmd_buf s) (\<not> scheduled) s
      in sh_cmd_result res s)"

definition sh_cmd_execute :: "cstring \<Rightarrow> shell \<Rightarrow> int \<times> shell" where
  "sh_cmd_execute cmd s =
     (if length cmd \<ge> CONFIG_SH_CMD_MAX_LEN then (- EINVAL, s)
      else if \<not> sh_executing s
      then (0, s\<lparr>sh_executing := True, sh_cmd_buf := take (CONFIG_SH_CMD_MAX_LEN - 1) cmd, execute_work := True\<rparr>)
      else (- EBUSY, s))"

definition sh_cmd_schedule :: "cstring \<Rightarrow> nat \<Rightarrow> shell \<Rightarrow> int \<times> shell" where
  "sh_cmd_schedule cmd delay s =
     (if length cmd \<ge> CONFIG_SH_CMD_MAX_LEN then (- EINVAL, s)
      else if \<not> sh_executing s
      then (0, s\<lparr>sh_executing := True, sh_cmd_buf := take (CONFIG_SH_CMD_MAX_LEN - 1) cmd, schedule_work := Some delay\<rparr>)
      else (- EBUSY, s))"

text \<open>\<open>alloc\<close> tells whether the heap has room for the item.\<close>

definition sh_cmd_put :: "bool \<Rightarrow> bool \<Rightarrow> cstring \<Rightarrow> nat \<Rightarrow> shell \<Rightarrow> int \<times> shell" where
  "sh_cmd_put alloc head cmd delay s =
     (if alloc
      then (0, sh_cmd_wait_fn
             (s\<lparr>sh_cmd_queue := (if head then (cmd, delay) # sh_cmd_queue s else sh_cmd_queue s @ [(cmd, delay)]),
                sh_queued := True\<rparr>))
      else (- EBUSY, s))"

definition sh_cmd_prepend :: "bool \<Rightarrow> cstring \<Rightarrow> nat \<Rightarrow> shell \<Rightarrow> int \<times> shell" where
  "sh_cmd_prepend alloc cmd delay s = sh_cmd_put alloc True cmd delay s"

definition sh_cmd_append :: "bool \<Rightarrow> cstring \<Rightarrow> nat \<Rightarrow> shell \<Rightarrow> int \<times> shell" where
  "sh_cmd_append alloc cmd delay s = sh_cmd_put alloc False cmd delay s"

text \<open>The mask of the bits \<open>SH_CMD_EXECUTING\<close>, \<open>SH_CMD_AT_PENDING\<close> and \<open>SH_CMD_QUEUED\<close>.\<close>

definition sh_busy :: "shell \<Rightarrow> nat" where
  "sh_busy s = (if sh_executing s then 1 else 0) + (if sh_at_pending s then 2 else 0) + (if sh_queued s then 8 else 0)"

section \<open>Draining the queue\<close>

text \<open>The work queue runs the scheduled work, up to \<open>n\<close> times.\<close>

fun sh_run :: "sh_env \<Rightarrow> nat \<Rightarrow> shell \<Rightarrow> shell" where
  "sh_run env 0 s = s"
| "sh_run env (Suc n) s = (if schedule_work s = None then s else sh_run env n (sh_cmd_execute_fn env True s))"

fun sh_append_all :: "(cstring \<times> nat) list \<Rightarrow> shell \<Rightarrow> shell" where
  "sh_append_all [] s = s"
| "sh_append_all ((c, d) # cs) s = sh_append_all cs (snd (sh_cmd_append True c d s))"

text \<open>A command with a plain handler: one that leaves the shell alone.\<close>

definition plain_entry :: "sh_cmd_entry \<Rightarrow> bool" where
  "plain_entry e \<longleftrightarrow> e_at_cmd e = None \<and> e_help_handler e \<and>
     (\<exists>h. e_handler e = Some h \<and> (\<forall>p s. snd (h p s) = s))"

definition plain_cmd :: "sh_env \<Rightarrow> cstring \<Rightarrow> bool" where
  "plain_cmd env c \<longleftrightarrow> length c < CONFIG_SH_CMD_MAX_LEN \<and> (\<exists>e. sh_cmd_get env c = Some e \<and> plain_entry e)"

text \<open>What the queue depends on.\<close>

definition same_queue :: "shell \<Rightarrow> shell \<Rightarrow> bool" where
  "same_queue s s' \<longleftrightarrow> sh_executing s' = sh_executing s \<and> sh_cmd_queue s' = sh_cmd_queue s \<and>
     schedule_work s' = schedule_work s \<and> sh_cmd_buf s' = sh_cmd_buf s \<and> sh_done s' = sh_done s \<and> sh_out s' = sh_out s"

lemma plain_cmd_runs:
  assumes "plain_cmd env c"
  shows "fst (sh_cmd env c False s) \<le> 0 \<and> same_queue s (snd (sh_cmd env c False s))"
proof -
  obtain e h where e: "sh_cmd_get env c = Some e" "e_at_cmd e = None" "e_help_handler e" "e_handler e = Some h"
    "\<forall>p s. snd (h p s) = s"
    using assms by (auto simp: plain_cmd_def plain_entry_def)
  have "fst (sh_cmd_dispatch env e p t) \<le> 0 \<and> snd (sh_cmd_dispatch env e p t) = t" for p t
    using e(2,4,5) by (auto simp: sh_cmd_dispatch_def sh_run_handler_def cmd_result_def case_prod_beta)
  then show ?thesis using e(1,2,3)
    by (auto simp: sh_cmd_def Let_def same_queue_def)
qed

definition sh_running :: "cstring \<Rightarrow> (cstring \<times> nat) list \<Rightarrow> shell \<Rightarrow> bool" where
  "sh_running c q s \<longleftrightarrow> sh_executing s \<and> schedule_work s \<noteq> None \<and> sh_cmd_buf s = c \<and> sh_cmd_queue s = q"

definition sh_idle :: "shell \<Rightarrow> bool" where
  "sh_idle s \<longleftrightarrow> \<not> sh_executing s \<and> sh_cmd_queue s = [] \<and> schedule_work s = None"

lemma execute_plain:
  assumes "sh_running c q s" "plain_cmd env c" "\<forall>(c', d) \<in> set q. length c' < CONFIG_SH_CMD_MAX_LEN"
  shows "sh_done (sh_cmd_execute_fn env True s) = sh_done s @ [c] \<and>
    length (sh_out (sh_cmd_execute_fn env True s)) = Suc (length (sh_out s)) \<and>
    (case q of [] \<Rightarrow> sh_idle (sh_cmd_execute_fn env True s) \<and> \<not> sh_queued (sh_cmd_execute_fn env True s)
     | (c', d) # q' \<Rightarrow> sh_running c' q' (sh_cmd_execute_fn env True s))"
proof -
  let ?s = "s\<lparr>schedule_work := None, sh_done := sh_done s @ [c]\<rparr>"
  obtain res s1 where r: "sh_cmd env c False ?s = (res, s1)" by fastforce
  have s1: "res \<le> 0" "same_queue ?s s1" using plain_cmd_runs [OF assms(2), of ?s] r by simp_all
  have ex: "sh_cmd_execute_fn env True s = sh_cmd_result res s1"
    using assms(1) r by (simp add: sh_cmd_execute_fn_def sh_running_def)
  show ?thesis
    using s1 assms(1,3) unfolding ex
    by (auto simp: sh_cmd_result_def sh_cmd_wait_fn_def same_queue_def sh_running_def sh_idle_def Let_def split: list.splits)
qed

lemma run_queue:
  assumes "sh_running c q s" "plain_cmd env c" "\<forall>(c', d) \<in> set q. plain_cmd env c'"
  shows "sh_idle (sh_run env (Suc (length q)) s) \<and> \<not> sh_queued (sh_run env (Suc (length q)) s) \<and>
    sh_done (sh_run env (Suc (length q)) s) = sh_done s @ c # map fst q \<and>
    length (sh_out (sh_run env (Suc (length q)) s)) = length (sh_out s) + Suc (length q)"
  using assms
proof (induction q arbitrary: c s)
  case Nil
  have "schedule_work s \<noteq> None" using Nil.prems(1) by (simp add: sh_running_def)
  then show ?case using execute_plain [OF Nil.prems(1,2)] by simp
next
  case (Cons cd q)
  obtain c' d where cd: "cd = (c', d)" by (cases cd)
  have w: "schedule_work s \<noteq> None" using Cons.prems(1) by (simp add: sh_running_def)
  have "\<forall>(c', d) \<in> set (cd # q). length c' < 512" using Cons.prems(3) by (auto simp: plain_cmd_def)
  note step = execute_plain [OF Cons.prems(1,2) this]
  have "sh_running c' q (sh_cmd_execute_fn env True s)" using step cd by simp
  from Cons.IH [OF this] Cons.prems(3) step w cd show ?case by simp
qed

lemma append_running: "sh_running c q s \<Longrightarrow> sh_running c (q @ cs) (sh_append_all cs s) \<and>
    sh_done (sh_append_all cs s) = sh_done s \<and> sh_out (sh_append_all cs s) = sh_out s"
proof (induction cs arbitrary: q s)
  case (Cons cd cs)
  obtain c' d where cd: "cd = (c', d)" by (cases cd)
  let ?s = "snd (sh_cmd_append True c' d s)"
  have "sh_running c (q @ [cd]) ?s" "sh_done ?s = sh_done s" "sh_out ?s = sh_out s"
    using Cons.prems cd by (auto simp: sh_cmd_append_def sh_cmd_put_def sh_cmd_wait_fn_def sh_running_def)
  then show ?case using Cons.IH [of "q @ [cd]" ?s] cd by simp
qed simp

section \<open>Properties\<close>

text \<open>C19. The command queue: plain commands appended to an idle shell are executed once each, in the
  order they were appended, each answered with OK or ERROR; after as many runs of the work as there
  are commands the shell is idle again and nothing is queued.\<close>

theorem sh_queue_drained:
  assumes "sh_idle s" "\<forall>(c, d) \<in> set cs. plain_cmd env c" "cs \<noteq> []"
  shows "let s' = sh_run env (length cs) (sh_append_all cs s)
    in sh_done s' = sh_done s @ map fst cs \<and> length (sh_out s') = length (sh_out s) + length cs \<and>
       sh_idle s' \<and> \<not> sh_queued s'"
proof -
  obtain c d q where cs: "cs = (c, d) # q" using assms(3) by (cases cs) auto
  let ?s = "snd (sh_cmd_append True c d s)"
  have c: "plain_cmd env c" using assms(2) cs by simp
  then have r: "sh_running c [] ?s" "sh_done ?s = sh_done s" "sh_out ?s = sh_out s"
    using assms(1) by (auto simp: sh_cmd_append_def sh_cmd_put_def sh_cmd_wait_fn_def sh_running_def sh_idle_def plain_cmd_def)
  have "sh_running c q (sh_append_all q ?s) \<and> sh_done (sh_append_all q ?s) = sh_done s \<and> sh_out (sh_append_all q ?s) = sh_out s"
    using append_running [OF r(1), of q] r by simp
  then show ?thesis using run_queue [of c q "sh_append_all q ?s" env] c assms(2) cs by (simp add: Let_def)
qed

text \<open>A small table: two plain commands, a protected one and a simple AT command.\<close>

definition sim_entry :: "cstring \<Rightarrow> bool \<Rightarrow> sh_cmd_entry" where
  "sim_entry c protect = \<lparr>e_cmd = c, e_at_cmd = None, e_handler = Some (\<lambda>p s. (0, s)), e_help_handler = True,
     e_protect = protect\<rparr>"

definition sim_sh :: sh_env where
  "sim_sh = \<lparr>sh_entries = [sim_entry ''send'' False, sim_entry ''dev'' False, sim_entry ''set'' True,
       \<lparr>e_cmd = ''off'', e_at_cmd = Some ''AT+CFUN=0'', e_handler = None, e_help_handler = False, e_protect = False\<rparr>],
     cfg_sh_cmd_unlock = True, appl_settings_unlock = (\<lambda>p. p = ''secret''), modem_at_cmd_async = (\<lambda>_. 0),
     modem_at_async_pending = False, uptime_ms = 100000, clock_ticks = 0, ticks_50ms = 0\<rparr>"

lemma sh_words:
  "strstartsep ''send'' ''send'' True (Some '' '') = 4" "strstartsep ''dev'' ''send'' True (Some '' '') = 0"
  "strstartsep ''dev'' ''dev'' True (Some '' '') = 3" "strstartsep ''set x'' ''send'' True (Some '' '') = 0"
  "strstartsep ''set x'' ''dev'' True (Some '' '') = 0" "strstartsep ''set x'' ''set'' True (Some '' '') = 4"
  by code_simp+

theorem sh_queue_drained_witness:
  "sh_done (sh_run sim_sh 2 (sh_append_all [(''send'', 1000), (''dev'', 0)] shell_init)) = [''send'', ''dev'']"
proof -
  have "sh_cmd_get sim_sh ''send'' = Some (sim_entry ''send'' False)" "sh_cmd_get sim_sh ''dev'' = Some (sim_entry ''dev'' False)"
    by (simp_all add: sh_cmd_get_def sim_sh_def sim_entry_def sh_words)
  moreover have "plain_entry (sim_entry c b)" for c b by (simp add: plain_entry_def sim_entry_def)
  ultimately have "\<forall>(c, d) \<in> set [(''send'', 1000), (''dev'', 0)]. plain_cmd sim_sh c"
    by (simp add: plain_cmd_def)
  moreover have "sh_idle shell_init" "sh_done shell_init = []" by (simp_all add: sh_idle_def shell_init_def)
  ultimately show ?thesis
    using sh_queue_drained [of shell_init "[(''send'', 1000), (''dev'', 0)]" sim_sh]
    by (simp add: Let_def numeral_2_eq_2 del: sh_run.simps sh_append_all.simps)
qed



text \<open>An AT command is executed from the shell, two commands are queued, and the modem answers.\<close>

definition sh_at_overlap :: shell where
  "sh_at_overlap =
     (let s = sh_cmd_execute_fn sim_sh False (snd (sh_cmd_execute ''off'' shell_init));
          s = sh_append_all [(''send'', 1000), (''dev'', 0)] s;
          s = at_cmd_response_fn sim_sh ''OK'' s
      in sh_run sim_sh 5 s)"


end
