(* ===== verification/Modem_Sim.thy ===== *)
theory Modem_Sim
  imports Parse
begin

text \<open>
  The codecs of \<open>src/src/modem_sim.c\<close> and the tables of \<open>src/src/modem_desc.c\<close>: network ids (PLMN) as
  the SIM card stores them, the lists of networks and the service table, and the LTE band of a
  channel number.
\<close>

section \<open>Identifiers in a list\<close>

text \<open>\<open>strstr\<close> as the suffix found.\<close>

fun strstr_suffix :: "cstring \<Rightarrow> cstring \<Rightarrow> cstring option" where
  "strstr_suffix [] needle = (if needle = [] then Some [] else None)"
| "strstr_suffix (c # s) needle =
     (if take (length needle) (c # s) = needle then Some (c # s) else strstr_suffix s needle)"

lemma strstr_suffix_length: "strstr_suffix s needle = Some r \<Longrightarrow> length r \<le> length s"
  by (induction s) (auto split: if_splits)

text \<open>The loop of \<open>find_id\<close>; \<open>start\<close> tells whether the position is the begin of the buffer, and \<open>prev\<close> is
  the character before the text that is searched.\<close>

function find_id_loop :: "char \<Rightarrow> cstring \<Rightarrow> cstring \<Rightarrow> cstring option" where
  "find_id_loop prev hay ident =
     (case strstr_suffix hay ident of
        None \<Rightarrow> None
      | Some pos \<Rightarrow>
          (let before = (if length pos = length hay then prev else hay ! (length hay - length pos - 1))
           in if before = CHR '','' \<and> c_deref (drop (length ident) pos) \<in> {CHR '','', NUL} then Some pos
              else if pos = [] then None
              else find_id_loop (hd pos) (tl pos) ident))"
  by pat_completeness auto
termination
proof (relation "measure (\<lambda>(p, t, i). length t)", goal_cases)
  case (2 prev hay ident pos before)
  then have "length pos \<le> length hay" by (simp add: strstr_suffix_length)
  then show ?case using 2 by (cases pos) auto
qed simp

declare find_id_loop.simps [simp del]

definition find_id :: "cstring \<Rightarrow> cstring \<Rightarrow> cstring option" where
  "find_id buf ident = find_id_loop (CHR '','') buf ident"

text \<open>The first \<open>len\<close> characters of the array, in pairs, swapped; the result counts the characters.\<close>

function flip_loop :: "char list \<Rightarrow> nat \<Rightarrow> nat \<Rightarrow> nat \<times> char list" where
  "flip_loop buf res len =
     (if res + 1 < length buf \<and> buf ! res \<noteq> NUL \<and> res \<le> len
      then flip_loop (buf[res := buf ! (res + 1), res + 1 := buf ! res]) (res + 2) len
      else (res, buf))"
  by pat_completeness auto
termination
  by (relation "measure (\<lambda>(buf, res, len). length buf - res)") auto

declare flip_loop.simps [simp del]

definition flip_digits :: "char list \<Rightarrow> nat \<Rightarrow> nat \<times> char list" where
  "flip_digits buf len = (if 2 \<le> len then flip_loop buf 0 (len - 2) else (0, buf))"

section \<open>Network ids\<close>

text \<open>What \<open>copy_plmn\<close> leaves in a buffer of \<open>len > 0\<close> bytes, and the number of characters.\<close>

definition copy_plmn :: "cstring \<Rightarrow> nat \<Rightarrow> cstring option \<Rightarrow> nat \<times> cstring option" where
  "copy_plmn buf len mcc =
     (case (case mcc of Some m \<Rightarrow> find_id buf m | None \<Rightarrow> Some buf) of
        None \<Rightarrow> (0, None)
      | Some b \<Rightarrow>
          (let plmn = takeWhile (\<lambda>c. c \<noteq> CHR '','') b
           in if len = 0 then (0, None)
              else (length (take (len - 1) plmn), Some (take (len - 1) plmn))))"

abbreviation (input) MODEM_PLMN_SIZE :: nat where "MODEM_PLMN_SIZE \<equiv> 7"

definition append_plmn :: "char \<Rightarrow> cstring" where
  "append_plmn digit = (if digit \<noteq> CHR ''F'' then [digit] else [])"

text \<open>The network id of six hexadecimal digits as the SIM card stores them; empty if there is none.\<close>

definition get_plmn :: "cstring \<Rightarrow> nat \<Rightarrow> cstring" where
  "get_plmn buf len =
     (if c_deref buf \<noteq> NUL \<and> c_deref buf \<noteq> CHR 0x22 \<and> len \<ge> 6 \<and> take 6 buf \<noteq> ''FFFFFF''
      then append_plmn (buf ! 1) @ append_plmn (buf ! 0) @ append_plmn (buf ! 3) @ append_plmn (buf ! 2) @
           append_plmn (buf ! 5) @ append_plmn (buf ! 4)
      else [])"

definition encode_plmn :: "cstring \<Rightarrow> nat \<Rightarrow> cstring option" where
  "encode_plmn buf len =
     (let l = strspn buf ''0123456789ABCDEF''
      in if (l = 5 \<or> l = 6) \<and> len > 6
         then Some (if l = 6 then [buf ! 1, buf ! 0, buf ! 3, buf ! 2, buf ! 5, buf ! 4]
                    else [buf ! 1, buf ! 0, CHR ''F'', buf ! 2, buf ! 4, buf ! 3])
         else None)"

section \<open>The service table\<close>

text \<open>The entry of a service: two hexadecimal digits of the table; the character after the table may be
  read as the second.\<close>

definition has_service :: "cstring \<Rightarrow> nat \<Rightarrow> nat \<Rightarrow> bool" where
  "has_service table len service =
     (let index = (service div 8) * 2
      in if index + 1 > len then False
         else (let digit = takeWhile (\<lambda>c. c \<noteq> NUL) [c_deref (drop index table), c_deref (drop (index + 1) table)]
               in bit (fst (strtol digit 16)) ((service - 1) mod 8)))"

definition check_service :: "u8 \<Rightarrow> nat \<Rightarrow> cstring \<Rightarrow> nat \<Rightarrow> nat \<Rightarrow> u8" where
  "check_service service_mask n table len service =
     (if bit service_mask n \<and> \<not> has_service table len service then unset_bit n service_mask else service_mask)"

section \<open>Lists of network ids\<close>

abbreviation (input) CRSM_SUCCESS :: cstring where "CRSM_SUCCESS \<equiv> ''144,0,'' @ [CHR 0x22]"

text \<open>The loop of \<open>get_plmns\<close>: the ids found, as long as the buffer has room for one more. The ids are
  joined with commas at the end.\<close>

function plmns_loop :: "nat \<Rightarrow> (cstring \<Rightarrow> bool) \<Rightarrow> cstring \<Rightarrow> nat \<Rightarrow> nat \<Rightarrow> cstring list" where
  "plmns_loop step accept list len plmn_size =
     (if c_deref list \<noteq> NUL \<and> c_deref list \<noteq> CHR 0x22 \<and> len \<ge> step \<and> plmn_size \<ge> MODEM_PLMN_SIZE \<and> 0 < step
      then (let plmn = (if accept list then get_plmn list (MODEM_PLMN_SIZE - 1) else [])
            in if plmn \<noteq> []
               then plmn # plmns_loop step accept (drop step list) (len - step) (plmn_size - Suc (length plmn))
               else plmns_loop step accept (drop step list) (len - step) plmn_size)
      else [])"
  by pat_completeness auto
termination
  by (relation "measure (\<lambda>(step, accept, list, len, n). len)") auto

declare plmns_loop.simps [simp del]

definition join_plmns :: "cstring list \<Rightarrow> cstring" where
  "join_plmns ps = concat (map (\<lambda>p. p @ [CHR '','']) ps)"

text \<open>The result counts the trailing comma, which is cut off in the buffer.\<close>

definition get_plmns :: "cstring \<Rightarrow> nat \<Rightarrow> nat \<Rightarrow> nat \<times> cstring" where
  "get_plmns list len plmn_size =
     (let success = nat (strstart list CRSM_SUCCESS False)
      in if success = 0 then (0, [])
         else (let ps = plmns_loop (MODEM_PLMN_SIZE - 1) (\<lambda>l. take 6 l \<noteq> ''FFFFFF'') (drop success list) (len - success) plmn_size
               in (length (join_plmns ps), butlast (join_plmns ps))))"

text \<open>A selector: a network id and four digits of access technologies; \<open>0\<close> or LTE are of interest.\<close>

definition prio_accept :: "cstring \<Rightarrow> bool" where
  "prio_accept l =
     (let access = take 10 l; select = fst (strtol (drop 6 access) 16)
      in (select = 0 \<or> bit select 14) \<and> take 6 access \<noteq> ''FFFFFF'')"

definition get_prio_plmns :: "cstring \<Rightarrow> nat \<Rightarrow> nat \<Rightarrow> nat \<times> cstring" where
  "get_prio_plmns list len plmn_size =
     (let success = nat (strstart list CRSM_SUCCESS False)
      in if success = 0 then (0, [])
         else (let ps = plmns_loop 10 prio_accept (drop success list) (len - success) plmn_size
               in (length (join_plmns ps), butlast (join_plmns ps))))"

section \<open>Bands\<close>

definition earfcn_to_band :: "int list" where
  "earfcn_to_band = [0, 600, 1200, 1950, 2400, 2650, 2750, 3450, 3800, 4150, 4750,
     5010, 5180, 5280, 5380, 5480, 5730, 5850, 6000, 6150, 6450,
     6600, 7500, 7700, 8040, 8690, 9040, 9210, 9660, - 1]"

text \<open>The loop of \<open>modem_get_band\<close> over the rest of the table.\<close>

fun band_loop :: "int list \<Rightarrow> nat \<Rightarrow> int \<Rightarrow> nat" where
  "band_loop (x # y # ts) band earfcn =
     (if x \<le> earfcn then (if y < 0 then 0 else band_loop (y # ts) (Suc band) earfcn) else band)"
| "band_loop ts band earfcn = band"

definition modem_get_band :: "int \<Rightarrow> nat" where
  "modem_get_band earfcn = band_loop earfcn_to_band 0 earfcn"

lemma band_loop_spec:
  assumes "sorted_wrt (<) xs" "\<forall>x \<in> set xs. 0 \<le> x" "xs \<noteq> []"
  shows "band_loop (xs @ [- 1]) n e =
    (if last xs \<le> e then 0 else n + length (takeWhile (\<lambda>x. x \<le> e) xs))"
  using assms
proof (induction xs arbitrary: n)
  case (Cons x xs)
  show ?case
  proof (cases xs)
    case Nil
    then show ?thesis using Cons.prems by simp
  next
    case (Cons y ys)
    have IH: "band_loop (xs @ [- 1]) m e = (if last xs \<le> e then 0 else m + length (takeWhile (\<lambda>x. x \<le> e) xs))" for m
      using Cons.IH [of m] Cons.prems Cons by simp
    have "x < last xs" using Cons.prems(1) Cons by (auto dest: last_in_set)
    then show ?thesis using IH [of "Suc n"] Cons Cons.prems(2) by auto
  qed
qed simp

definition band_starts :: "int list" where
  "band_starts = butlast earfcn_to_band"

lemma band_table: "earfcn_to_band = band_starts @ [- 1]" "length band_starts = 29" "last band_starts = 9660"
    "hd band_starts = 0" "sorted_wrt (<) band_starts" "\<forall>x \<in> set band_starts. 0 \<le> x" "band_starts \<noteq> []"
  by (simp_all add: band_starts_def earfcn_to_band_def)

text \<open>The band of a channel: for every channel of the table, and only for those, the band is positive,
  and it is the one whose range in the table the channel lies in.\<close>

lemma modem_get_band_spec:
  "(0 < modem_get_band earfcn \<longleftrightarrow> 0 \<le> earfcn \<and> earfcn < 9660) \<and>
   (0 < modem_get_band earfcn \<longrightarrow> modem_get_band earfcn < length earfcn_to_band - 1 \<and>
      earfcn_to_band ! (modem_get_band earfcn - 1) \<le> earfcn \<and> earfcn < earfcn_to_band ! modem_get_band earfcn)"
proof -
  let ?b = "length (takeWhile (\<lambda>x. x \<le> earfcn) band_starts)"
  have band: "modem_get_band earfcn = (if 9660 \<le> earfcn then 0 else ?b)"
    unfolding modem_get_band_def band_table(1) band_loop_spec [OF band_table(5-7)] by (simp add: band_table)
  have pos: "0 < ?b \<longleftrightarrow> 0 \<le> earfcn"
  proof -
    obtain r where "band_starts = 0 # r" using band_table(4,7) by (metis list.collapse)
    then show ?thesis by (metis length_greater_0_conv list.discI takeWhile.simps(2))
  qed
  have less: "?b < length band_starts" if "earfcn < 9660"
  proof (rule ccontr)
    assume "\<not> ?thesis"
    then have "takeWhile (\<lambda>x. x \<le> earfcn) band_starts = band_starts"
      by (metis length_takeWhile_le linorder_neqE_nat not_less takeWhile_eq_take take_all)
    then have "last band_starts \<le> earfcn" using band_table(7) by (metis last_in_set takeWhile_eq_all_conv)
    with that show False by (simp add: band_table(3))
  qed
  have tab: "earfcn_to_band ! i = band_starts ! i" if "i < length band_starts" for i
    using that by (simp add: band_table(1) nth_append)
  have in_range: "earfcn_to_band ! (?b - 1) \<le> earfcn \<and> earfcn < earfcn_to_band ! ?b" if "earfcn < 9660" "0 < ?b"
  proof -
    have "takeWhile (\<lambda>x. x \<le> earfcn) band_starts ! (?b - 1) \<in> set (takeWhile (\<lambda>x. x \<le> earfcn) band_starts)"
      using that(2) by (intro nth_mem) simp
    then have "takeWhile (\<lambda>x. x \<le> earfcn) band_starts ! (?b - 1) \<le> earfcn"
      by (metis set_takeWhileD)
    moreover have "takeWhile (\<lambda>x. x \<le> earfcn) band_starts ! (?b - 1) = band_starts ! (?b - 1)"
      using that(2) by (intro takeWhile_nth) simp
    ultimately show ?thesis
      using nth_length_takeWhile [OF less [OF that(1)]] less [OF that(1)] tab [of ?b] tab [of "?b - 1"] by simp
  qed
  have size: "length earfcn_to_band - 1 = length band_starts"
    by (simp add: band_starts_def earfcn_to_band_def)
  show ?thesis unfolding size using band pos less in_range by auto
qed

definition dec_digit :: "char \<Rightarrow> bool" where
  "dec_digit c \<longleftrightarrow> c \<in> set ''0123456789''"

lemma dec_digit_hex: "dec_digit c \<Longrightarrow> c \<in> set ''0123456789ABCDEF''"
  by (auto simp: dec_digit_def)

lemma dec_digit_not: "dec_digit c \<Longrightarrow> c \<noteq> NUL \<and> c \<noteq> CHR 0x22 \<and> c \<noteq> CHR ''F''"
  by (auto simp: dec_digit_def)

lemma decimal_hex: "list_all dec_digit s \<Longrightarrow> strspn s ''0123456789ABCDEF'' = length s"
proof -
  assume "list_all dec_digit s"
  then have "\<forall>c \<in> set s. c \<in> set ''0123456789ABCDEF''" using dec_digit_hex by (simp only: list_all_iff) blast
  then have "takeWhile (\<lambda>c. c \<in> set ''0123456789ABCDEF'') s = s" by (simp only: takeWhile_eq_all_conv)
  then show ?thesis by (simp only: strspn_def)
qed

lemma append_decimal: "dec_digit c \<Longrightarrow> append_plmn c = [c]"
  by (simp add: append_plmn_def dec_digit_not)

text \<open>A network id of five or six decimal digits survives being stored on the SIM card: what
  \<open>encode_plmn\<close> writes is read back by \<open>get_plmn\<close> as the same digits.\<close>

lemma plmn_roundtrip:
  assumes "length plmn = 5 \<or> length plmn = 6" "list_all dec_digit plmn" "6 < len"
  shows "\<exists>enc. encode_plmn plmn len = Some enc \<and> length enc = 6 \<and> get_plmn enc 6 = plmn"
proof -
  note l = decimal_hex [OF assms(2)]
  show ?thesis
  proof (cases "length plmn = 5")
    case True
    then obtain a b c d e where p: "plmn = [a, b, c, d, e]"
      by (auto simp: numeral_eq_Suc length_Suc_conv)
    then have dec: "dec_digit a" "dec_digit b" "dec_digit c" "dec_digit d" "dec_digit e" using assms(2) by simp_all
    have "encode_plmn plmn len = Some [b, a, CHR ''F'', c, e, d]" using l True assms(3) p by (simp add: encode_plmn_def)
    moreover have "get_plmn [b, a, CHR ''F'', c, e, d] 6 = plmn"
      using dec [THEN append_decimal] dec_digit_not [OF dec(2)] p by (simp add: get_plmn_def append_plmn_def)
    ultimately show ?thesis by simp
  next
    case False
    then have six: "length plmn = 6" using assms(1) by simp
    then obtain a b c d e f where p: "plmn = [a, b, c, d, e, f]"
      by (auto simp: numeral_eq_Suc length_Suc_conv)
    then have dec: "dec_digit a" "dec_digit b" "dec_digit c" "dec_digit d" "dec_digit e" "dec_digit f"
      using assms(2) by simp_all
    have "encode_plmn plmn len = Some [b, a, d, c, f, e]" using l six assms(3) p by (simp add: encode_plmn_def)
    moreover have "get_plmn [b, a, d, c, f, e] 6 = plmn"
      using dec [THEN append_decimal] dec_digit_not [OF dec(2)] p by (simp add: get_plmn_def)
    ultimately show ?thesis by simp
  qed
qed

section \<open>The service table\<close>

text \<open>A table as the SIM card delivers it: two hexadecimal digits for each byte.\<close>

definition hex_byte :: "nat \<Rightarrow> cstring" where
  "hex_byte n = [''0123456789ABCDEF'' ! (n div 16), ''0123456789ABCDEF'' ! (n mod 16)]"

lemma hex_digit_all:
  "list_all (\<lambda>d. let c = ''0123456789ABCDEF'' ! d
     in digit_val c = Some d \<and> is_digit_in 16 c \<and> \<not> isspace c \<and> c \<noteq> CHR ''-'' \<and> c \<noteq> CHR ''+'' \<and> c \<noteq> NUL) [0..<16]"
  by code_simp

lemma hex_digit:
  assumes "d < 16"
  shows "digit_val (''0123456789ABCDEF'' ! d) = Some d" "is_digit_in 16 (''0123456789ABCDEF'' ! d)"
    "\<not> isspace (''0123456789ABCDEF'' ! d)" "''0123456789ABCDEF'' ! d \<noteq> CHR ''-''"
    "''0123456789ABCDEF'' ! d \<noteq> CHR ''+''" "''0123456789ABCDEF'' ! d \<noteq> NUL"
  using hex_digit_all assms by (auto simp: list_all_iff Let_def)

lemma hex_byte_strtol:
  assumes "n < 256"
  shows "strtol (hex_byte n) 16 = (int n, 2)" "list_all (\<lambda>c. c \<noteq> NUL) (hex_byte n)"
proof -
  have d: "n div 16 < 16" "n mod 16 < 16" using assms by auto
  note h = hex_digit [OF d(1)] hex_digit [OF d(2)]
  have "long_clamp (int (n div 16) * 16 + int (n mod 16)) = int n"
    using assms by (simp add: long_clamp_def) presburger
  then show "strtol (hex_byte n) 16 = (int n, 2)"
    using h by (simp add: strtol_def hex_byte_def hex_prefix_def Let_def)
  show "list_all (\<lambda>c. c \<noteq> NUL) (hex_byte n)" using h by (simp add: hex_byte_def)
qed

lemma hex_table_drop:
  "i < length bs \<Longrightarrow> drop (i * 2) (concat (map hex_byte bs)) = hex_byte (bs ! i) @ drop (i * 2 + 2) (concat (map hex_byte bs))"
proof (induction bs arbitrary: i)
  case (Cons b bs)
  then show ?case by (cases i) (simp_all add: hex_byte_def)
qed simp

text \<open>The service table: a service is looked up at its bit in the byte the table has for it, unless
  its number is a multiple of 8: then the bit is taken from the byte that follows, so that the answer
  is the one for the service eight further on.\<close>

lemma has_service_lookup:
  assumes "list_all (\<lambda>b. b < 256) bs" "1 \<le> service"
  shows "has_service (concat (map hex_byte bs)) (2 * length bs) service =
    (let byte = (if service mod 8 = 0 then (service - 1) div 8 + 1 else (service - 1) div 8)
     in byte < length bs \<and> bit (int (bs ! byte)) ((service - 1) mod 8))"
proof -
  have byte: "(if service mod 8 = 0 then (service - 1) div 8 + 1 else (service - 1) div 8) = service div 8"
    using assms(2) div_Suc [of "service - 1" 8] by (simp del: div_Suc_eq_div_add3)
  show ?thesis
  proof (cases "service div 8 < length bs")
    case True
    let ?n = "bs ! (service div 8)"
    have n: "?n < 256" using assms(1) True by (simp add: list_all_length)
    have "drop (service div 8 * 2) (concat (map hex_byte bs)) =
        hex_byte ?n @ drop (service div 8 * 2 + 2) (concat (map hex_byte bs))"
      by (rule hex_table_drop [OF True])
    then obtain r where d: "drop (service div 8 * 2) (concat (map hex_byte bs)) = hex_byte ?n @ r" by blast
    then have "drop (service div 8 * 2 + 1) (concat (map hex_byte bs)) = drop 1 (hex_byte ?n @ r)"
      by (metis add.commute drop_drop)
    then have digits: "[c_deref (drop (service div 8 * 2) (concat (map hex_byte bs))),
        c_deref (drop (service div 8 * 2 + 1) (concat (map hex_byte bs)))] = hex_byte ?n"
      using d by (simp add: hex_byte_def)
    have tw: "takeWhile (\<lambda>c. c \<noteq> NUL) (hex_byte ?n) = hex_byte ?n"
      using hex_byte_strtol(2) [OF n] by (simp add: list_all_iff takeWhile_eq_all_conv)
    show ?thesis
      unfolding has_service_def Let_def digits byte tw using True hex_byte_strtol(1) [OF n] by simp
  next
    case False
    then show ?thesis using byte by (simp add: has_service_def Let_def)
  qed
qed

end
