(* ===== verification/Dtls_Client.thy ===== *)
theory Dtls_Client
  imports Coap_Appl Update_Coap
begin

text \<open>
  The client itself, \<open>src/src/dtls_client.c\<close>: the state of a request, its transmission and
  retransmission over UDP or DTLS, the triggers and timers that start the next one, the reaction to the
  modem's state, and the rounds of the main loop \<open>dtls_loop\<close> that drive them.

  \<^item> \<open>dtls_app\<close> is \<open>dtls_app_data_t\<close> and \<open>dtls_client\<close> holds the other static variables of the file; the
    bits of \<open>general_states\<close> are a set of flags. \<open>loops\<close> is the counter of \<open>dtls_loop\<close>.
  \<^item> The CoAP clients are reached through \<open>clients\<close>: their \<open>coap_handler_t\<close> and the functions of
    \<open>coap_appl_client.c\<close>, \<open>coap_prov_client.c\<close>, \<open>appl_update_coap.c\<close> and \<open>appl_diagnose.c\<close> that the file
    calls, over their common state \<open>'s\<close>. The theory \<open>Device\<close> puts the modelled clients there.
  \<^item> tinydtls is a parameter, \<open>tinydtls\<close>: each call gives the callbacks it makes, in order, and its result
    once these have returned.
  \<^item> What modem, socket and kernel answer is in \<open>net_env\<close>. What the file does to modem, power manager and
    shell is recorded in \<open>out\<close>, as are the datagrams sent. LEDs and log messages are left out, also the name of
    the cipher suite that only a command shows.
  \<^item> The configuration is the one without location, scale and wakeup port.
\<close>

section \<open>State\<close>

datatype request_state_t = NONE | SEND | RECEIVE | WAIT_RESPONSE | SEND_ACK | WAIT_SUSPEND | INCOMING_DATA

datatype general_state = LTE_ON | LTE_REGISTERED | LTE_READY | LTE_CONNECTED | LTE_SLEEPING | LTE_READY_1S
  | LTE_PSM_ACTIVE | LTE_LOW_VOLTAGE | LTE_SEND | LTE_CONNECTED_TO_SEND | LTE_INCOMING_DATA
  | LTE_INCOMING_CONNECT | LTE_SOCKET_ERROR | PM_PREVENT_SUSPEND | PM_SUSPENDED | APN_RATE_LIMIT
  | APN_RATE_LIMIT_RESTART | SETUP_MODE | APPL_INITIAL_SUCCESS | TRIGGER_SEND | TRIGGER_DURATION

datatype search_trigger_t = NO_SEARCH | MANUAL_SEARCH | CMD_SEARCH | EVENT_SEARCH | READY_SEARCH

abbreviation (input) COAP_MAX_RETRANSMISSION :: u8 where "COAP_MAX_RETRANSMISSION \<equiv> 3"
abbreviation (input) ADD_ACK_TIMEOUT :: int where "ADD_ACK_TIMEOUT \<equiv> 3"
abbreviation (input) MAX_DTLS_BUF :: nat where "MAX_DTLS_BUF \<equiv> 512"
abbreviation (input) MAX_SEND_BUF :: nat where "MAX_SEND_BUF \<equiv> 1024"
abbreviation (input) PROTOCOL_COAP_DTLS :: int where "PROTOCOL_COAP_DTLS \<equiv> 0"
abbreviation (input) PROTOCOL_COAP_UDP :: int where "PROTOCOL_COAP_UDP \<equiv> 1"
abbreviation (input) DOWNLOAD_PROGRESS_STATUS_MESSAGE :: u8 where "DOWNLOAD_PROGRESS_STATUS_MESSAGE \<equiv> 32"
abbreviation (input) DOWNLOAD_PROGRESS_LAST_STATUS_MESSAGE :: u8 where "DOWNLOAD_PROGRESS_LAST_STATUS_MESSAGE \<equiv> 33"
abbreviation (input) DOWNLOAD_PROGRESS_REBOOT :: u8 where "DOWNLOAD_PROGRESS_REBOOT \<equiv> 34"
abbreviation (input) COAP_SEND_FLAG_NO_RESPONSE :: u32 where "COAP_SEND_FLAG_NO_RESPONSE \<equiv> 1"
abbreviation (input) COAP_SEND_FLAG_INITIAL :: u32 where "COAP_SEND_FLAG_INITIAL \<equiv> 2"
abbreviation (input) COAP_SEND_FLAG_SET_PAYLOAD :: u32 where "COAP_SEND_FLAG_SET_PAYLOAD \<equiv> 0x10000"
abbreviation (input) ERROR_CODE_TOO_MANY_FAILURES :: int where "ERROR_CODE_TOO_MANY_FAILURES \<equiv> 0x4000"
abbreviation (input) ERROR_CODE_OPEN_SOCKET :: int where "ERROR_CODE_OPEN_SOCKET \<equiv> 0x3000"
abbreviation (input) DTLS_CLIENT_RETRY_STRATEGY_OFFLINE :: int where "DTLS_CLIENT_RETRY_STRATEGY_OFFLINE \<equiv> 2"
abbreviation (input) EAGAIN :: int where "EAGAIN \<equiv> 11"
abbreviation (input) ECANCELED :: int where "ECANCELED \<equiv> 140"
abbreviation (input) RTT_SLOTS :: nat where "RTT_SLOTS \<equiv> 9"

record 's coap_handler_t =
  h_get_message :: "'s \<Rightarrow> int \<times> u8 list"
  h_parse_data :: "u8 list \<Rightarrow> 's \<Rightarrow> (int + parse_result_t) \<times> 's"

text \<open>The result handlers of the file: \<open>dtls_app_coap_result_handler\<close>, \<open>dtls_app_prov_result_handler\<close> and
  \<open>dtls_app_download_result_handler\<close>.\<close>

datatype dtls_app_result_handler = Coap_Result | Prov_Result | Download_Result

record 's dtls_app =
  coap_handler :: "'s coap_handler_t"
  result_handler :: dtls_app_result_handler
  fd :: int
  protocol :: int
  keep_connection :: bool
  send_request_pending :: bool
  dtls_pend :: bool
  dtls_next_flight :: bool
  no_response :: bool
  rai :: bool
  dtls_flight :: u8
  download_progress :: u8
  retransmission :: u8
  request_state :: request_state_t
  timeout :: u16
  start_time :: int
  response_time :: int

datatype rai_mode = RAI_MODE_OFF | RAI_MODE_NOW | RAI_MODE_LAST | RAI_MODE_ONE_RESPONSE

datatype dtls_out = Sent "u8 list" | Set_Psm int int | Set_Psm_For_Connect | Set_Rai rai_mode | Modem_Power_Off
  | Power_Suspend bool | Sh_Inactive | Sh_Active | Read_Battery | Interrupt_Wait | Modem_Start | Sim_Ready
  | Transmission_Time | Socket_Closed int | Socket_Opened int | Modem_Off_For_Restart bool | Modem_Lte_Offline

record ('s, 'd) dtls_client =
  app :: "'s dtls_app"
  general_states :: "general_state set"
  lte_connections :: nat
  not_ready_time :: int
  connected_time :: int
  current_failures :: u32
  handled_failures :: u32
  trigger_search :: search_trigger_t
  lte_power_off :: bool
  lte_power_on_off :: bool
  dtls_buffer :: "u8 list"
  send_buffer :: "u8 list"
  send_trigger :: "string option"
  rtts :: "u32 list"
  transmissions :: "u32 list"
  connect_time_ms :: u32
  coap_rtt_ms :: u32
  retransmissions :: u32
  failures :: u32
  sockets :: u32
  dtls_handshakes :: u32
  send_ival :: u32
  wakeup_on_incoming_connect_timeout :: u16
  coap_timeout :: u16
  coap_send_flags :: u32
  coap_send_flags_next :: u32
  trigger_msg_sem :: bool
  trigger_search_sem :: bool
  timer_work :: "int option"
  suspend_work :: "int option"
  power_work :: bool
  loops :: int
  clients_state :: 's
  dtls_context :: "'d option"
  out :: "dtls_out list"

text \<open>What the file calls of the CoAP clients, of the update and of the reboot.\<close>

record 's clients =
  appl_client_handler :: "'s coap_handler_t"
  prov_client_handler :: "'s coap_handler_t"
  update_client_handler :: "'s coap_handler_t"
  ack_message :: "'s \<Rightarrow> int \<times> u8 list"
  cl_prepare_post :: "u32 \<Rightarrow> u8 list + string \<Rightarrow> 's \<Rightarrow> int \<times> 's"
  cl_prepare_prov :: "'s \<Rightarrow> int \<times> 's"
  cl_is_provisioning :: "'s \<Rightarrow> bool"
  cl_update_pending :: "'s \<Rightarrow> bool"
  cl_update_pending_next :: "'s \<Rightarrow> bool"
  cl_update_next :: "'s \<Rightarrow> 's"
  cl_update_cancel :: "'s \<Rightarrow> 's"
  cl_update_reboot :: "'s \<Rightarrow> 's"
  cl_image_verify :: "'s \<Rightarrow> 's"
  cl_reboots :: "'s \<Rightarrow> bool"
  cl_reboot :: "int \<Rightarrow> nat \<Rightarrow> 's \<Rightarrow> 's"

text \<open>The events of tinydtls: an alert (a warning or a fatal one), the start and the end of a handshake.\<close>

datatype dtls_event = Ev_Warning | Ev_Fatal | Ev_Connect | Ev_Connected | Ev_Unknown

datatype dtls_callback = Cb_Write "u8 list" | Cb_Read "u8 list" | Cb_Event dtls_event

record 'd tinydtls =
  tls_connect :: "'d \<Rightarrow> dtls_callback list \<times> (int list \<Rightarrow> int \<times> 'd)"
  tls_reset_peer :: "'d \<Rightarrow> dtls_callback list \<times> (int list \<Rightarrow> int \<times> 'd)"
  tls_write :: "'d \<Rightarrow> u8 list \<Rightarrow> dtls_callback list \<times> (int list \<Rightarrow> int \<times> 'd)"
  tls_handle_message :: "'d \<Rightarrow> u8 list \<Rightarrow> dtls_callback list \<times> (int list \<Rightarrow> int \<times> 'd)"
  tls_check_retransmit :: "'d \<Rightarrow> dtls_callback list \<times> (int list \<Rightarrow> int \<times> 'd)"

text \<open>What \<open>poll\<close> answers: an error, nothing within a second, a datagram (\<open>None\<close> if receiving it fails), or an
  error of the socket.\<close>

datatype poll_result = Poll_Error | Poll_Timeout | Poll_In "u8 list option" | Poll_Fault | Poll_Other

record ('s, 'd) net_env =
  ne_clients :: "'s clients"
  ne_dtls :: "'d tinydtls"
  ne_uptime :: int
  ne_modem_on :: bool
  ne_sendto :: "nat \<Rightarrow> int \<times> int"
  ne_errno :: int
  ne_socket_error :: int
  ne_socket :: int
  ne_time_scale :: int
  ne_edrx :: "int option"
  ne_led_red :: bool
  ne_sh_app_active :: bool
  ne_modem_lock :: bool
  ne_trigger_wait :: bool
  ne_rate_limit :: "int \<times> nat"
  ne_download_wait :: "nat \<Rightarrow> 's \<Rightarrow> bool \<times> 's"
  ne_poll :: poll_result
  cfg_failure_send_interval :: int
  cfg_psm_retrans_rat :: int
  cfg_udp_wakeup :: bool
  cfg_coap_update :: bool
  cfg_provisioning :: bool
  cfg_update :: bool

text \<open>Shorthands: a change of the application data, of the flags, of the clients' state, and an output.\<close>

definition on_app :: "('s dtls_app \<Rightarrow> 's dtls_app) \<Rightarrow> ('s, 'd) dtls_client \<Rightarrow> ('s, 'd) dtls_client" where
  "on_app f c = c\<lparr>app := f (app c)\<rparr>"

definition set_flag :: "general_state \<Rightarrow> ('s, 'd) dtls_client \<Rightarrow> ('s, 'd) dtls_client" where
  "set_flag g c = c\<lparr>general_states := insert g (general_states c)\<rparr>"

definition clear_flags :: "general_state set \<Rightarrow> ('s, 'd) dtls_client \<Rightarrow> ('s, 'd) dtls_client" where
  "clear_flags gs c = c\<lparr>general_states := general_states c - gs\<rparr>"

definition emit :: "dtls_out list \<Rightarrow> ('s, 'd) dtls_client \<Rightarrow> ('s, 'd) dtls_client" where
  "emit os c = c\<lparr>out := out c @ os\<rparr>"

definition on_clients :: "('s \<Rightarrow> 's) \<Rightarrow> ('s, 'd) dtls_client \<Rightarrow> ('s, 'd) dtls_client" where
  "on_clients f c = c\<lparr>clients_state := f (clients_state c)\<rparr>"

lemmas client_defs = on_app_def set_flag_def clear_flags_def emit_def on_clients_def

text \<open>\<open>(int)\<close> of a difference of uptimes, of which one may have been cut to 32 bits before.\<close>

definition ms_between :: "int \<Rightarrow> int \<Rightarrow> int" where
  "ms_between later earlier = signed_take_bit 31 (later - earlier)"

section \<open>Send interval, power management and socket\<close>

definition get_send_interval :: "('s, 'd) dtls_client \<Rightarrow> int" where
  "get_send_interval c = uint (send_ival c AND 0xffffff)"

definition set_next_send_interval :: "int \<Rightarrow> ('s, 'd) dtls_client \<Rightarrow> bool \<times> ('s, 'd) dtls_client" where
  "set_next_send_interval new_interval c =
     (let v = send_ival c AND 0xffffff
      in if uint v = new_interval then (False, c\<lparr>send_ival := v\<rparr>)
         else (True, c\<lparr>send_ival := v OR push_bit 24 (word_of_int new_interval)\<rparr>))"

definition set_send_interval :: "int \<Rightarrow> ('s, 'd) dtls_client \<Rightarrow> ('s, 'd) dtls_client" where
  "set_send_interval interval c = c\<lparr>send_ival := word_of_int interval AND 0xffffff\<rparr>"

definition dtls_power_management :: "('s, 'd) net_env \<Rightarrow> ('s, 'd) dtls_client \<Rightarrow> ('s, 'd) dtls_client" where
  "dtls_power_management env c =
     (let suspend = (\<not> cl_reboots (ne_clients env) (clients_state c) \<and> LTE_SLEEPING \<in> general_states c \<and>
            PM_PREVENT_SUSPEND \<notin> general_states c \<and> SETUP_MODE \<notin> general_states c \<and> request_state (app c) = NONE);
          previous = (PM_SUSPENDED \<in> general_states c);
          c = (if suspend then set_flag PM_SUSPENDED c else clear_flags {PM_SUSPENDED} c)
      in if previous \<noteq> suspend
         then emit ((if suspend then [Sh_Inactive] else []) @ [Power_Suspend suspend]) c
         else c)"

definition dtls_power_management_fn :: "('s, 'd) net_env \<Rightarrow> bool \<Rightarrow> ('s, 'd) dtls_client \<Rightarrow> ('s, 'd) dtls_client" where
  "dtls_power_management_fn env suspend_work_item c =
     dtls_power_management env (if suspend_work_item then clear_flags {PM_PREVENT_SUSPEND} c else c)"

definition get_socket_error :: "('s, 'd) net_env \<Rightarrow> ('s, 'd) dtls_client \<Rightarrow> int" where
  "get_socket_error env c = (if fd (app c) \<ge> 0 then ne_socket_error env else - ENOTCONN)"

definition close_socket :: "('s, 'd) dtls_client \<Rightarrow> ('s, 'd) dtls_client" where
  "close_socket c =
     (if fd (app c) \<ge> 0
      then on_app (\<lambda>a. a\<lparr>fd := - 1\<rparr>) (emit [Set_Rai RAI_MODE_OFF, Socket_Closed (fd (app c))] c)
      else c)"

definition check_socket :: "('s, 'd) net_env \<Rightarrow> ('s, 'd) dtls_client \<Rightarrow> int \<times> ('s, 'd) dtls_client" where
  "check_socket env c =
     (if fd (app c) \<ge> 0
      then (let error = get_socket_error env c in (error, if error \<noteq> 0 then close_socket c else c))
      else (- 1, c))"

text \<open>The restart of the device: the reboot is announced, the modem switched off if it is not busy, and
  the reboot then requested at once.\<close>

definition restart :: "('s, 'd) net_env \<Rightarrow> int \<Rightarrow> bool \<Rightarrow> ('s, 'd) dtls_client \<Rightarrow> ('s, 'd) dtls_client" where
  "restart env error factoryReset c =
     (let c = on_clients (cl_reboot (ne_clients env) error 120000) c;
          c = dtls_power_management env (set_flag PM_PREVENT_SUSPEND c);
          c = (if ne_modem_lock env then emit [Modem_Off_For_Restart factoryReset] c else c)
      in on_clients (cl_reboot (ne_clients env) error 0) c)"

definition error_code :: "int \<Rightarrow> int \<Rightarrow> int" where
  "error_code base err = (base AND 0xf000) OR (err AND 0xfff)"

text \<open>A socket that cannot be opened restarts the device.\<close>

definition reopen_socket :: "('s, 'd) net_env \<Rightarrow> ('s, 'd) dtls_client \<Rightarrow> bool \<times> ('s, 'd) dtls_client" where
  "reopen_socket env c =
     (let ready = (LTE_READY \<in> general_states c); c = close_socket c
      in if \<not> ready then (False, c)
         else (let c = on_app (\<lambda>a. a\<lparr>fd := ne_socket env\<rparr>) (emit [Set_Psm_For_Connect] c);
                   c = (if ne_socket env < 0
                        then restart env (error_code ERROR_CODE_OPEN_SOCKET (ne_errno env)) False c else c)
               in (True, emit [Socket_Opened (ne_socket env), Set_Rai RAI_MODE_OFF] (c\<lparr>sockets := sockets c + 1\<rparr>))))"

section \<open>Triggers\<close>

definition dtls_pending_request :: "request_state_t \<Rightarrow> bool" where
  "dtls_pending_request s \<longleftrightarrow> s \<noteq> NONE \<and> s \<noteq> WAIT_SUSPEND \<and> s \<noteq> INCOMING_DATA"

definition dtls_trigger :: "('s, 'd) net_env \<Rightarrow> string \<Rightarrow> bool \<Rightarrow> ('s, 'd) dtls_client \<Rightarrow> ('s, 'd) dtls_client" where
  "dtls_trigger env cause send c =
     (if cl_reboots (ne_clients env) (clients_state c) then c
      else (let c = (if TRIGGER_DURATION \<in> general_states c then emit [Interrupt_Wait] c else c)
            in if dtls_pending_request (request_state (app c)) then c
               else (let c = (if LTE_CONNECTED \<notin> general_states c then emit [Read_Battery] c else c);
                         c = (if send then set_flag TRIGGER_SEND (c\<lparr>send_trigger := Some cause\<rparr>)
                              else clear_flags {TRIGGER_SEND} c)
                     in c\<lparr>trigger_msg_sem := True\<rparr>)))"

definition dtls_manual_trigger :: "('s, 'd) net_env \<Rightarrow> int \<Rightarrow> ('s, 'd) dtls_client \<Rightarrow> ('s, 'd) dtls_client" where
  "dtls_manual_trigger env duration c =
     (if SETUP_MODE \<in> general_states c then c
      else (let c = (if duration \<noteq> 0 then set_flag TRIGGER_DURATION c else clear_flags {TRIGGER_DURATION} c)
            in if duration = 0 \<and> \<not> lte_power_off c \<and> \<not> ne_modem_on env then c
               else (let c = dtls_trigger env ''button'' (duration = 0) c
                     in if LTE_READY \<notin> general_states c
                        then c\<lparr>trigger_search := MANUAL_SEARCH, trigger_search_sem := True\<rparr> else c)))"

text \<open>\<open>mode\<close> of the source: bit 0 sends a message, bit 1 also starts a search for a network.\<close>

definition dtls_cmd_trigger ::
  "('s, 'd) net_env \<Rightarrow> string \<Rightarrow> bool \<Rightarrow> bool \<Rightarrow> ('s, 'd) dtls_client \<Rightarrow> ('s, 'd) dtls_client" where
  "dtls_cmd_trigger env source send search c =
     (let ready = (LTE_READY \<in> general_states c)
      in if \<not> lte_power_off c \<and> \<not> ne_modem_on env then c
         else (let c = (if send \<and> \<not> dtls_pending_request (request_state (app c)) then dtls_trigger env source True c else c)
               in if \<not> ready \<and> search then c\<lparr>trigger_search := CMD_SEARCH, trigger_search_sem := True\<rparr> else c))"

definition schedule_timer :: "int \<Rightarrow> ('s, 'd) dtls_client \<Rightarrow> ('s, 'd) dtls_client" where
  "schedule_timer s c = (if timer_work c = None then c\<lparr>timer_work := Some s\<rparr> else c)"

definition reschedule_timer :: "int \<Rightarrow> ('s, 'd) dtls_client \<Rightarrow> ('s, 'd) dtls_client" where
  "reschedule_timer s c = c\<lparr>timer_work := Some s\<rparr>"

text \<open>The work of the timer: it is no longer scheduled when it runs. \<open>long\<close> has 32 bits; the shift to the
  right is the one of a signed number.\<close>

definition dtls_timer_trigger_fn :: "('s, 'd) net_env \<Rightarrow> ('s, 'd) dtls_client \<Rightarrow> ('s, 'd) dtls_client" where
  "dtls_timer_trigger_fn env c =
     (let interval = send_ival c; c = c\<lparr>timer_work := None\<rparr>;
          c = (if (lte_power_off c \<or> ne_modem_on env) \<and> \<not> dtls_pending_request (request_state (app c))
               then dtls_trigger env ''timer'' True c
               else (let next = (if drop_bit 24 (sint interval) \<noteq> 0 then drop_bit 24 (sint interval) else sint interval)
                     in if next > 0 then schedule_timer next c else c))
      in c\<lparr>send_ival := interval AND 0xffffff\<rparr>)"

section \<open>Failures\<close>

definition dtls_coap_inc_failures :: "('s, 'd) dtls_client \<Rightarrow> u32 \<times> ('s, 'd) dtls_client" where
  "dtls_coap_inc_failures c =
     (let c = (if current_failures c = handled_failures c then c\<lparr>current_failures := current_failures c + 1\<rparr> else c)
      in (current_failures c, c))"

definition dtls_coap_next_failures :: "('s, 'd) dtls_client \<Rightarrow> int \<times> ('s, 'd) dtls_client" where
  "dtls_coap_next_failures c =
     (if current_failures c = handled_failures c then (- 1, c)
      else (sint (current_failures c), c\<lparr>handled_failures := current_failures c\<rparr>))"

definition dtls_coap_clear_failures :: "('s, 'd) dtls_client \<Rightarrow> ('s, 'd) dtls_client" where
  "dtls_coap_clear_failures c = c\<lparr>current_failures := 0, handled_failures := 0\<rparr>"

definition dtls_pending :: "('s, 'd) dtls_client \<Rightarrow> bool \<times> ('s, 'd) dtls_client" where
  "dtls_pending c =
     (let c = (if protocol (app c) = PROTOCOL_COAP_DTLS then on_app (\<lambda>a. a\<lparr>dtls_pend := True\<rparr>) c else c)
      in (dtls_pend (app c), c))"

section \<open>The end of a request\<close>

text \<open>The three result handlers; the result is the time to the next request in seconds, or 0.\<close>

definition dtls_app_coap_result_handler :: "bool \<Rightarrow> ('s, 'd) dtls_client \<Rightarrow> int \<times> ('s, 'd) dtls_client" where
  "dtls_app_coap_result_handler success c =
     (0, if success
         then (let flags = coap_send_flags c AND NOT COAP_SEND_FLAG_INITIAL
               in c\<lparr>coap_send_flags := flags, coap_send_flags_next := flags\<rparr>)
         else c)"

definition dtls_app_prov_result_handler :: "('s, 'd) net_env \<Rightarrow> bool \<Rightarrow> ('s, 'd) dtls_client \<Rightarrow> int \<times> ('s, 'd) dtls_client" where
  "dtls_app_prov_result_handler env success c =
     (if success \<and> \<not> cl_is_provisioning (ne_clients env) (clients_state c) then (5, snd (dtls_pending c)) else (0, c))"

definition dtls_app_download_result_handler ::
  "('s, 'd) net_env \<Rightarrow> bool \<Rightarrow> ('s, 'd) dtls_client \<Rightarrow> int \<times> ('s, 'd) dtls_client" where
  "dtls_app_download_result_handler env success c =
     (if success
      then (if \<not> cl_update_pending (ne_clients env) (clients_state c)
            then (2, on_app (\<lambda>a. a\<lparr>download_progress := DOWNLOAD_PROGRESS_LAST_STATUS_MESSAGE\<rparr>) c) else (0, c))
      else (2, on_clients (cl_update_cancel (ne_clients env)) (on_app (\<lambda>a. a\<lparr>download_progress := 0\<rparr>) c)))"

definition call_result_handler :: "('s, 'd) net_env \<Rightarrow> bool \<Rightarrow> ('s, 'd) dtls_client \<Rightarrow> int \<times> ('s, 'd) dtls_client" where
  "call_result_handler env success c =
     (case result_handler (app c) of
        Coap_Result \<Rightarrow> dtls_app_coap_result_handler success c
      | Prov_Result \<Rightarrow> dtls_app_prov_result_handler env success c
      | Download_Result \<Rightarrow> dtls_app_download_result_handler env success c)"

text \<open>A change of the request state to any state but \<open>RECEIVE\<close>.\<close>

definition change_request_state :: "request_state_t \<Rightarrow> ('s, 'd) dtls_client \<Rightarrow> ('s, 'd) dtls_client" where
  "change_request_state s c = on_app (\<lambda>a. a\<lparr>request_state := s\<rparr>) c"

definition next_schedule :: "int \<Rightarrow> ('s, 'd) dtls_client \<Rightarrow> ('s, 'd) dtls_client" where
  "next_schedule interval c =
     (let (special, c) = (if interval > 0 then set_next_send_interval interval c else (False, c))
      in if special then reschedule_timer interval c
         else if get_send_interval c > 0 then schedule_timer (get_send_interval c) c else c)"

definition dtls_coap_next :: "('s, 'd) net_env \<Rightarrow> int \<Rightarrow> ('s, 'd) dtls_client \<Rightarrow> ('s, 'd) dtls_client" where
  "dtls_coap_next env interval c =
     (let c = (if lte_power_on_off c then emit [Modem_Power_Off] (c\<lparr>lte_power_off := True\<rparr>) else c);
          c = (if cfg_coap_update env \<and> download_progress (app c) = DOWNLOAD_PROGRESS_REBOOT
               then on_clients (cl_update_reboot (ne_clients env)) c else c);
          c = change_request_state (if lte_power_off c then NONE else WAIT_SUSPEND) c
      in if send_buffer c \<noteq> [] then (set_flag TRIGGER_SEND c)\<lparr>trigger_msg_sem := True\<rparr>
         else next_schedule interval (c\<lparr>trigger_msg_sem := False\<rparr>))"

text \<open>The statistics of a success: time to connect, round trip time and retransmissions.\<close>

definition count_rtt :: "int \<Rightarrow> u32 list \<Rightarrow> u32 list" where
  "count_rtt t rs =
     (let index = nat (t div 2000)
      in if index < RTT_SLOTS then rs[index := rs ! index + 1]
         else (let rs = rs[RTT_SLOTS := rs ! RTT_SLOTS + 1]
               in if t div 1000 > uint (rs ! (RTT_SLOTS + 1)) then rs[RTT_SLOTS + 1 := word_of_int (t div 1000)] else rs))"

definition success_statistics :: "('s, 'd) dtls_client \<Rightarrow> ('s, 'd) dtls_client" where
  "success_statistics c =
     (let a = app c;
          time1 = max (- 1) (ms_between (connected_time c) (start_time a));
          time2 = max (- 1) (ms_between (response_time a) (start_time a));
          c = c\<lparr>connect_time_ms := word_of_int (if time1 > 0 then time1 else 0),
                coap_rtt_ms := word_of_int (if time2 < 0 then 0 else if time1 > 0 then time2 - time1 else time2)\<rparr>;
          c = (if retransmission a \<le> COAP_MAX_RETRANSMISSION
               then (let r = unat (retransmission a) in c\<lparr>transmissions := (transmissions c)[r := transmissions c ! r + 1]\<rparr>)
               else c)
      in if time2 \<ge> 0
         then (let c = c\<lparr>retransmissions := ucast (retransmission a), rtts := count_rtt time2 (rtts c)\<rparr>
               in if retransmission a = 0 then emit [Set_Psm 0 0] c else c)
         else c)"

definition dtls_coap_success :: "('s, 'd) net_env \<Rightarrow> ('s, 'd) dtls_client \<Rightarrow> ('s, 'd) dtls_client" where
  "dtls_coap_success env c =
     (let c = dtls_coap_clear_failures (success_statistics c);
          initial = (APPL_INITIAL_SUCCESS \<notin> general_states c);
          c = set_flag APPL_INITIAL_SUCCESS c;
          c = (if initial \<and> cfg_update env then on_clients (cl_image_verify (ne_clients env)) c else c);
          (interval, c) = call_result_handler env True c
      in dtls_coap_next env interval (clear_flags {APN_RATE_LIMIT, APN_RATE_LIMIT_RESTART} c))"

definition dtls_coap_failure :: "('s, 'd) net_env \<Rightarrow> ('s, 'd) dtls_client \<Rightarrow> ('s, 'd) dtls_client" where
  "dtls_coap_failure env c =
     (let c = (if ne_led_red env then (set_flag PM_PREVENT_SUSPEND c)\<lparr>suspend_work := Some 10\<rparr> else c);
          c = c\<lparr>failures := failures c + 1\<rparr>;
          c = (if APPL_INITIAL_SUCCESS \<in> general_states c then snd (dtls_coap_inc_failures c) else c);
          (interval, c) = call_result_handler env False c;
          c = (if dtls_pend (app c) then on_app (\<lambda>a. a\<lparr>dtls_next_flight := False, dtls_flight := 0\<rparr>) c else c);
          interval = (if cfg_failure_send_interval env > 0 \<and> interval = 0 then cfg_failure_send_interval env else interval)
      in dtls_coap_next env interval c)"

definition dtls_coap_set_request_state ::
  "('s, 'd) net_env \<Rightarrow> request_state_t \<Rightarrow> ('s, 'd) dtls_client \<Rightarrow> ('s, 'd) dtls_client" where
  "dtls_coap_set_request_state env s c =
     (if request_state (app c) = s then c
      else if s = RECEIVE \<and> no_response (app c) \<and> dtls_flight (app c) = 0 then dtls_coap_success env c
      else change_request_state s c)"

section \<open>Timeouts\<close>

definition network_timeout_scale :: "('s, 'd) net_env \<Rightarrow> u16 \<Rightarrow> u16" where
  "network_timeout_scale env t =
     (if ne_time_scale env > 100 then word_of_int ((uint t * ne_time_scale env) div 100) else t)"

definition network_additional_timeout :: "('s, 'd) net_env \<Rightarrow> ('s, 'd) dtls_client \<Rightarrow> int" where
  "network_additional_timeout env c =
     (case ne_edrx env of
        Some t \<Rightarrow> if LTE_CONNECTED \<notin> general_states c then t else ADD_ACK_TIMEOUT
      | None \<Rightarrow> ADD_ACK_TIMEOUT)"

definition network_adjust_initial_timeout ::
  "('s, 'd) net_env \<Rightarrow> bool \<Rightarrow> ('s, 'd) dtls_client \<Rightarrow> bool \<times> ('s, 'd) dtls_client" where
  "network_adjust_initial_timeout env force c =
     (let t = network_timeout_scale env (coap_timeout c); res = (force \<or> t > timeout (app c))
      in (res, if res then on_app (\<lambda>a. a\<lparr>timeout := t\<rparr>) c else c))"

section \<open>Receiving and sending\<close>

definition check_wakeup :: "('s, 'd) net_env \<Rightarrow> u8 list \<Rightarrow> ('s, 'd) dtls_client \<Rightarrow> ('s, 'd) dtls_client" where
  "check_wakeup env buffer c =
     (if length buffer \<in> {2, 3} \<and> take 2 buffer = [0x75, 0x70]
      then dtls_cmd_trigger env ''wakeup'' True False (clear_flags {LTE_INCOMING_CONNECT} c) else c)"

definition set_response_time :: "('s, 'd) net_env \<Rightarrow> ('s, 'd) dtls_client \<Rightarrow> ('s, 'd) dtls_client" where
  "set_response_time env c = on_app (\<lambda>a. a\<lparr>response_time := ne_uptime env\<rparr>) c"

definition read_from_peer :: "('s, 'd) net_env \<Rightarrow> u8 list \<Rightarrow> ('s, 'd) dtls_client \<Rightarrow> int \<times> ('s, 'd) dtls_client" where
  "read_from_peer env data c =
     (let (r, s) = h_parse_data (coap_handler (app c)) data (clients_state c);
          c = c\<lparr>clients_state := s\<rparr>; rs = request_state (app c)
      in case r of
           Inl err \<Rightarrow> (err, if rs = INCOMING_DATA \<and> cfg_udp_wakeup env then check_wakeup env data c else c)
         | Inr PARSE_RST \<Rightarrow> (0, if dtls_pending_request rs then dtls_coap_failure env (set_response_time env c) else c)
         | Inr PARSE_ACK \<Rightarrow> (0, if rs \<in> {SEND, RECEIVE} then dtls_coap_set_request_state env WAIT_RESPONSE c else c)
         | Inr PARSE_RESPONSE \<Rightarrow> (0, if dtls_pending_request rs then dtls_coap_success env (set_response_time env c) else c)
         | Inr PARSE_CON_RESPONSE \<Rightarrow>
             (0, if rs \<noteq> NONE then dtls_coap_set_request_state env SEND_ACK (set_response_time env c) else c)
         | Inr _ \<Rightarrow> (0, c))"

definition send_to_peer :: "('s, 'd) net_env \<Rightarrow> u8 list \<Rightarrow> ('s, 'd) dtls_client \<Rightarrow> int \<times> ('s, 'd) dtls_client" where
  "send_to_peer env data c =
     (let a = app c; first = (retransmission a = 0 \<and> (dtls_flight a = 0 \<or> dtls_next_flight a));
          mode = (if \<not> lte_power_on_off c \<and> rai a then (if no_response a then RAI_MODE_LAST else RAI_MODE_ONE_RESPONSE)
                  else RAI_MODE_OFF);
          c = set_flag LTE_SEND (clear_flags {LTE_CONNECTED_TO_SEND} (emit [Set_Rai mode] c));
          (result, errno) = ne_sendto env (length data)
      in if result < 0
         then (if errno = EAGAIN \<or> errno = ECANCELED then (0, set_flag APN_RATE_LIMIT c) else (result, c))
         else (let c = emit [Sent data] c;
                   c = (if LTE_CONNECTED \<in> general_states c
                        then clear_flags {LTE_SEND} (emit [Transmission_Time] c) else c);
                   c = (if dtls_next_flight (app c)
                        then on_app (\<lambda>a. a\<lparr>dtls_next_flight := False, dtls_flight := dtls_flight a + 2\<rparr>) c else c);
                   c = (if first then snd (network_adjust_initial_timeout env True c) else c)
               in (result, c)))"

text \<open>The callbacks of tinydtls. The messages of a handshake's flight are collected in \<open>dtls_buffer\<close>, to be
  sent as one datagram; a buffer of more than \<open>MAX_DTLS_BUF\<close> bytes is a write past its end.\<close>

definition dtls_send_to_peer :: "('s, 'd) net_env \<Rightarrow> u8 list \<Rightarrow> ('s, 'd) dtls_client \<Rightarrow> int \<times> ('s, 'd) dtls_client" where
  "dtls_send_to_peer env data c =
     (let (result, c) =
            (if dtls_flight (app c) > 1
             then (let c = (if length (dtls_buffer c) + length data > MAX_DTLS_BUF
                            then (snd (send_to_peer env (dtls_buffer c) c))\<lparr>dtls_buffer := []\<rparr> else c)
                   in (int (length data), c\<lparr>dtls_buffer := dtls_buffer c @ data\<rparr>))
             else (0, c))
      in if result \<noteq> 0 then (result, c)
         else (let (result, c) = send_to_peer env data c
               in (if dtls_flight (app c) \<noteq> 0 \<and> result < 0 then int (length data) else result, c)))"

definition dtls_handle_event :: "('s, 'd) net_env \<Rightarrow> dtls_event \<Rightarrow> ('s, 'd) dtls_client \<Rightarrow> ('s, 'd) dtls_client" where
  "dtls_handle_event env ev c =
     (if cl_reboots (ne_clients env) (clients_state c) then c
      else case ev of
             Ev_Connected \<Rightarrow>
               (let c = dtls_coap_set_request_state env NONE c
                in (on_app (\<lambda>a. a\<lparr>dtls_pend := False, dtls_next_flight := False, dtls_flight := 0\<rparr>) c)\<lparr>dtls_buffer := []\<rparr>)
           | Ev_Connect \<Rightarrow> on_app (\<lambda>a. a\<lparr>dtls_pend := True\<rparr>) c
           | Ev_Unknown \<Rightarrow> c
           | _ \<Rightarrow> dtls_coap_failure env c)"

fun run_callbacks :: "('s, 'd) net_env \<Rightarrow> dtls_callback list \<Rightarrow> ('s, 'd) dtls_client \<Rightarrow> int list \<times> ('s, 'd) dtls_client" where
  "run_callbacks env [] c = ([], c)"
| "run_callbacks env (cb # cbs) c =
     (let (r, c) = (case cb of
            Cb_Write data \<Rightarrow> dtls_send_to_peer env data c
          | Cb_Read data \<Rightarrow> read_from_peer env data c
          | Cb_Event ev \<Rightarrow> (0, dtls_handle_event env ev c));
          (rs, c) = run_callbacks env cbs c
      in (r # rs, c))"

definition tls_call ::
  "('s, 'd) net_env \<Rightarrow> ('d \<Rightarrow> dtls_callback list \<times> (int list \<Rightarrow> int \<times> 'd)) \<Rightarrow> ('s, 'd) dtls_client \<Rightarrow> int \<times> ('s, 'd) dtls_client" where
  "tls_call env f c =
     (case dtls_context c of
        None \<Rightarrow> (0, c)
      | Some d \<Rightarrow> (let (cbs, finish) = f d; (rs, c) = run_callbacks env cbs c; (r, d) = finish rs
                  in (r, c\<lparr>dtls_context := Some d\<rparr>)))"

text \<open>The collected messages of a flight are sent, if there are any.\<close>

definition send_flight :: "('s, 'd) net_env \<Rightarrow> int \<Rightarrow> ('s, 'd) dtls_client \<Rightarrow> int \<times> ('s, 'd) dtls_client" where
  "send_flight env result c =
     (if dtls_buffer c = [] then (result, c)
      else (let c = dtls_coap_set_request_state env SEND c; (result, c) = send_to_peer env (dtls_buffer c) c
            in (result, c\<lparr>dtls_buffer := []\<rparr>)))"

definition recvfrom_peer :: "('s, 'd) net_env \<Rightarrow> u8 list \<Rightarrow> ('s, 'd) dtls_client \<Rightarrow> int \<times> ('s, 'd) dtls_client" where
  "recvfrom_peer env data c =
     (let c = emit [Transmission_Time] c
      in if dtls_context c = None then read_from_peer env data c
         else (let c = (if dtls_flight (app c) \<noteq> 0 then on_app (\<lambda>a. a\<lparr>dtls_next_flight := True\<rparr>) c else c);
                   (result, c) = tls_call env (\<lambda>d. tls_handle_message (ne_dtls env) d data) c
               in if dtls_flight (app c) \<noteq> 0
                  then (let (result, c) = send_flight env result c in (result, dtls_coap_set_request_state env RECEIVE c))
                  else (result, c)))"

text \<open>The handshake of a pending DTLS session: it is started, or its last flight sent again.\<close>

definition send_handshake :: "('s, 'd) net_env \<Rightarrow> ('s, 'd) dtls_client \<Rightarrow> int \<times> ('s, 'd) dtls_client" where
  "send_handshake env c =
     (let c = on_app (\<lambda>a. a\<lparr>rai := False\<rparr>) c
      in if dtls_flight (app c) \<noteq> 0
         then (let (_, c) = tls_call env (tls_check_retransmit (ne_dtls env)) (on_app (\<lambda>a. a\<lparr>dtls_next_flight := False\<rparr>) c)
               in send_flight env 0 c)
         else (let (_, c) = tls_call env (tls_reset_peer (ne_dtls env)) c;
                   c = c\<lparr>dtls_handshakes := dtls_handshakes c + 1\<rparr>;
                   c = on_app (\<lambda>a. a\<lparr>send_request_pending := True, retransmission := 0, dtls_next_flight := True,
                                     dtls_flight := 1\<rparr>) c
               in tls_call env (tls_connect (ne_dtls env)) (dtls_coap_set_request_state env SEND c)))"

definition send_message :: "('s, 'd) net_env \<Rightarrow> ('s, 'd) dtls_client \<Rightarrow> int \<times> ('s, 'd) dtls_client" where
  "send_message env c =
     (let (len, msg) = h_get_message (coap_handler (app c)) (clients_state c)
      in if len = 0 then (0, dtls_coap_set_request_state env WAIT_SUSPEND c)
         else if dtls_context c \<noteq> None then tls_call env (\<lambda>d. tls_write (ne_dtls env) d msg) c
         else send_to_peer env msg c)"

definition sendto_peer :: "('s, 'd) net_env \<Rightarrow> ('s, 'd) dtls_client \<Rightarrow> int \<times> ('s, 'd) dtls_client" where
  "sendto_peer env c =
     (let (result, c) = (if dtls_pend (app c) then send_handshake env c else send_message env c)
      in if result < 0
         then (let (error, c) = check_socket env c in (result, if error = 0 then dtls_coap_failure env c else c))
         else (result, if LTE_CONNECTED \<in> general_states c \<and> (\<not> dtls_pend (app c) \<or> dtls_flight (app c) \<noteq> 0)
                       then dtls_coap_set_request_state env RECEIVE c else c))"

section \<open>The modem's states\<close>

datatype lte_state_type = LTE_STATE_ON | LTE_STATE_REGISTRATION | LTE_STATE_READY | LTE_STATE_CONNECTED
  | LTE_STATE_READY_1S | LTE_STATE_SLEEPING | LTE_STATE_LOW_VOLTAGE | LTE_STATE_PSM_ACTIVE | LTE_STATE_OTHER

definition lte_state_bit :: "lte_state_type \<Rightarrow> general_state option" where
  "lte_state_bit t =
     (case t of
        LTE_STATE_ON \<Rightarrow> Some LTE_ON | LTE_STATE_REGISTRATION \<Rightarrow> Some LTE_REGISTERED
      | LTE_STATE_READY \<Rightarrow> Some LTE_READY | LTE_STATE_CONNECTED \<Rightarrow> Some LTE_CONNECTED
      | LTE_STATE_READY_1S \<Rightarrow> Some LTE_READY_1S | LTE_STATE_SLEEPING \<Rightarrow> Some LTE_SLEEPING
      | LTE_STATE_LOW_VOLTAGE \<Rightarrow> Some LTE_LOW_VOLTAGE | LTE_STATE_PSM_ACTIVE \<Rightarrow> Some LTE_PSM_ACTIVE
      | LTE_STATE_OTHER \<Rightarrow> None)"

definition search_event :: "search_trigger_t \<Rightarrow> ('s, 'd) dtls_client \<Rightarrow> ('s, 'd) dtls_client" where
  "search_event t c = c\<lparr>trigger_search := t, trigger_search_sem := True\<rparr>"

definition lte_registration :: "bool \<Rightarrow> ('s, 'd) dtls_client \<Rightarrow> ('s, 'd) dtls_client" where
  "lte_registration active c =
     (if active then c
      else (let c = clear_flags {LTE_READY, LTE_READY_1S, LTE_CONNECTED} c
            in if lte_power_off c \<or> LTE_SLEEPING \<in> general_states c \<or> LTE_LOW_VOLTAGE \<in> general_states c then c
               else search_event EVENT_SEARCH c))"

definition lte_connected :: "('s, 'd) net_env \<Rightarrow> ('s, 'd) dtls_client \<Rightarrow> ('s, 'd) dtls_client" where
  "lte_connected env c =
     (let c = clear_flags {LTE_CONNECTED_TO_SEND, LTE_INCOMING_DATA, LTE_INCOMING_CONNECT}
                (c\<lparr>connected_time := ne_uptime env, lte_connections := lte_connections c + 1\<rparr>);
          sending = (LTE_SEND \<in> general_states c);
          c = clear_flags {LTE_SEND} c
      in if sending \<and> request_state (app c) = SEND then set_flag LTE_CONNECTED_TO_SEND c
         else if LTE_READY_1S \<notin> general_states c \<or> request_state (app c) \<noteq> NONE then c
         else if ne_sh_app_active env \<or> wakeup_on_incoming_connect_timeout c = 0
         then dtls_trigger env ''internal connect'' False (set_flag LTE_INCOMING_DATA c)
         else dtls_trigger env ''incoming connect'' False (set_flag LTE_INCOMING_CONNECT (set_flag LTE_INCOMING_DATA c)))"

definition dtls_lte_state_handler ::
  "('s, 'd) net_env \<Rightarrow> lte_state_type \<Rightarrow> bool \<Rightarrow> ('s, 'd) dtls_client \<Rightarrow> ('s, 'd) dtls_client" where
  "dtls_lte_state_handler env t active c =
     (if cl_reboots (ne_clients env) (clients_state c) then c
      else (let changed = (case lte_state_bit t of None \<Rightarrow> False | Some b \<Rightarrow> (b \<in> general_states c) \<noteq> active);
                c = (case lte_state_bit t of
                       None \<Rightarrow> c | Some b \<Rightarrow> if active then set_flag b c else clear_flags {b} c)
            in case t of
                 LTE_STATE_REGISTRATION \<Rightarrow> lte_registration active c
               | LTE_STATE_READY \<Rightarrow>
                   if \<not> changed then c
                   else if active then search_event READY_SEARCH c
                   else clear_flags {LTE_READY_1S, LTE_CONNECTED} (c\<lparr>not_ready_time := ne_uptime env\<rparr>)
               | LTE_STATE_READY_1S \<Rightarrow> if active then emit [Sim_Ready] c else c
               | LTE_STATE_CONNECTED \<Rightarrow> if changed \<and> active then lte_connected env c else c
               | LTE_STATE_SLEEPING \<Rightarrow>
                   if active
                   then (let c = set_flag PM_PREVENT_SUSPEND c
                         in if suspend_work c = None then c\<lparr>suspend_work := Some 2\<rparr> else c)
                   else (search_event EVENT_SEARCH c)\<lparr>power_work := True\<rparr>
               | LTE_STATE_LOW_VOLTAGE \<Rightarrow>
                   if active \<and> suspend_work c = None then c\<lparr>suspend_work := Some 0\<rparr> else c
               | LTE_STATE_ON \<Rightarrow>
                   if \<not> active
                   then clear_flags {LTE_CONNECTED_TO_SEND, LTE_INCOMING_DATA, LTE_INCOMING_CONNECT, LTE_SEND} c else c
               | _ \<Rightarrow> c))"

end
