(* ===== verification/Dtls_Loop.thy ===== *)
theory Dtls_Loop
  imports Dtls_Client
begin

text \<open>
  The rounds of the main loop \<open>dtls_loop\<close> of \<open>src/src/dtls_client.c\<close>.

  Each part of the loop's body is a definition; \<open>loop_round\<close> puts those from the check of the socket on
  together. Waiting for a semaphore is an input: \<open>ne_trigger_wait\<close> tells whether a trigger arrives while
  the loop waits, \<open>ne_download_wait\<close> what the other threads do while it waits for a download. Searching
  for a network and restarting the modem, which precede them in the body, are in \<open>Dtls_Search\<close>.
\<close>

section \<open>The parts of a round\<close>

text \<open>The limit of the mobile network: the first time it is hit the modem is restarted, later the loop waits.
  The result tells whether the round ends here, and whether the modem is to be restarted.\<close>

definition loop_rate_limit :: "('s, 'd) net_env \<Rightarrow> ('s, 'd) dtls_client \<Rightarrow> bool \<times> bool \<times> ('s, 'd) dtls_client" where
  "loop_rate_limit env c =
     (if APN_RATE_LIMIT \<notin> general_states c then (False, False, c)
      else if APN_RATE_LIMIT_RESTART \<in> general_states c
      then (let (err, time) = ne_rate_limit env
            in if err < 0 then (False, False, c)
               else (let c = (if time = 0 then clear_flags {APN_RATE_LIMIT} c else c)
                     in if ne_trigger_wait env then (False, False, c\<lparr>trigger_msg_sem := True\<rparr>)
                        else (True, False, c\<lparr>trigger_msg_sem := False\<rparr>)))
      else (False, True, clear_flags {APN_RATE_LIMIT} (set_flag APN_RATE_LIMIT_RESTART c)))"

text \<open>The reaction to a failure that has not been handled yet. The result tells whether the modem is to be
  restarted and whether it is to be switched off for that.\<close>

definition loop_failures ::
  "('s, 'd) net_env \<Rightarrow> bool \<Rightarrow> ('s, 'd) dtls_client \<Rightarrow> bool \<times> bool \<times> ('s, 'd) dtls_client" where
  "loop_failures env network_not_found c =
     (let (f, c) = dtls_coap_next_failures c
      in if f \<le> 0 then (False, False, c)
         else (let strategy = coap_appl_client_retry_strategy f (protocol (app c) = PROTOCOL_COAP_DTLS);
                   c = (if strategy AND DTLS_CLIENT_RETRY_STRATEGY_RESTARTS \<noteq> 0
                        then restart env ERROR_CODE_TOO_MANY_FAILURES False c else c);
                   c = (if strategy AND DTLS_CLIENT_RETRY_STRATEGY_DTLS_HANDSHAKE \<noteq> 0
                        then dtls_trigger env ''retry handshake'' True (snd (dtls_pending c)) else c);
                   off = (strategy AND DTLS_CLIENT_RETRY_STRATEGY_OFF \<noteq> 0)
               in (off \<or> strategy AND DTLS_CLIENT_RETRY_STRATEGY_OFFLINE \<noteq> 0 \<or> network_not_found,
                   off \<or> network_not_found, c)))"

text \<open>The check of the socket; a request in progress is sent again over the new one.\<close>

definition loop_check_socket :: "('s, 'd) net_env \<Rightarrow> ('s, 'd) dtls_client \<Rightarrow> ('s, 'd) dtls_client" where
  "loop_check_socket env c =
     (if lte_power_off c then c
      else (let (error, c) = check_socket env c
            in if error = 0 then c
               else (let (opened, c) = reopen_socket env c
                     in if opened \<and> request_state (app c) \<in> {SEND, RECEIVE}
                        then (let c = on_app (\<lambda>a. a\<lparr>retransmission := 0, start_time := ne_uptime env\<rparr>) (c\<lparr>loops := 0\<rparr>)
                              in snd (sendto_peer env (dtls_coap_set_request_state env SEND c)))
                        else c)))"

text \<open>Waiting for the next block of a download, for at most half a minute.\<close>

function wait_for_download :: "('s, 'd) net_env \<Rightarrow> nat \<Rightarrow> ('s, 'd) dtls_client \<Rightarrow> ('s, 'd) dtls_client" where
  "wait_for_download env i c =
     (if cl_update_pending (ne_clients env) (clients_state c) \<and>
         \<not> cl_update_pending_next (ne_clients env) (clients_state c) \<and> \<not> trigger_msg_sem c
      then (let (trigger, s) = ne_download_wait env i (clients_state c);
                c = c\<lparr>loops := int i + 1, clients_state := s, trigger_msg_sem := trigger\<rparr>
            in if i + 1 > 30 then on_clients (cl_update_cancel (ne_clients env)) c
               else wait_for_download env (i + 1) c)
      else c)"
  by pat_completeness auto
termination
  by (relation "measure (\<lambda>(env, i, c). 31 - i)") auto

declare wait_for_download.simps [simp del]

text \<open>A round of a download: every 32nd request is a status message. The result tells whether the round ends
  with a request sent.\<close>

definition cancel_progress :: "('s, 'd) net_env \<Rightarrow> ('s, 'd) dtls_client \<Rightarrow> ('s, 'd) dtls_client" where
  "cancel_progress env c =
     (if download_progress (app c) \<noteq> 0 \<and> download_progress (app c) < DOWNLOAD_PROGRESS_STATUS_MESSAGE
      then dtls_coap_set_request_state env WAIT_SUSPEND (on_app (\<lambda>a. a\<lparr>download_progress := 0\<rparr>) c)
      else c)"

definition loop_download :: "('s, 'd) net_env \<Rightarrow> ('s, 'd) dtls_client \<Rightarrow> bool \<times> ('s, 'd) dtls_client" where
  "loop_download env c =
     (if \<not> cfg_coap_update env \<or> dtls_pending_request (request_state (app c)) then (False, c)
      else (let cl = ne_clients env;
                c = (if cl_update_pending cl (clients_state c) \<and> \<not> cl_update_pending_next cl (clients_state c) \<and>
                        \<not> trigger_msg_sem c
                     then wait_for_download env 0 (on_app (\<lambda>a. a\<lparr>download_progress := 1\<rparr>) (c\<lparr>loops := 0\<rparr>))
                     else c)
            in if \<not> cl_update_pending cl (clients_state c) then (False, cancel_progress env c)
               else if trigger_msg_sem c then (False, c)
               else (let download = (download_progress (app c) > 1);
                         progress = download_progress (app c) + 1;
                         c = on_app (\<lambda>a. a\<lparr>download_progress :=
                               (if progress \<ge> DOWNLOAD_PROGRESS_STATUS_MESSAGE then 1 else progress)\<rparr>) c
                     in if download
                        then (let c = dtls_coap_set_request_state env SEND (c\<lparr>loops := 0\<rparr>);
                                  c = on_clients (cl_update_next cl) (on_app (\<lambda>a. a\<lparr>retransmission := 0\<rparr>) c);
                                  c = on_app (\<lambda>a. a\<lparr>coap_handler := update_client_handler cl, result_handler := Download_Result,
                                                    rai := False, start_time := ne_uptime env\<rparr>) c
                              in (True, snd (sendto_peer env c)))
                        else (False, dtls_trigger env ''download status'' True c))))"

definition loop_incoming :: "('s, 'd) net_env \<Rightarrow> ('s, 'd) dtls_client \<Rightarrow> ('s, 'd) dtls_client" where
  "loop_incoming env c =
     (if LTE_INCOMING_DATA \<in> general_states c
      then (let c = clear_flags {LTE_INCOMING_DATA} c
            in if request_state (app c) \<in> {NONE, WAIT_SUSPEND} then dtls_coap_set_request_state env INCOMING_DATA c else c)
      else c)"

text \<open>The request for a trigger: the provisioning, the text of the command \<open>send\<close>, or the status of the device.\<close>

definition prepare_request :: "('s, 'd) net_env \<Rightarrow> ('s, 'd) dtls_client \<Rightarrow> int \<times> ('s, 'd) dtls_client" where
  "prepare_request env c =
     (let cl = ne_clients env
      in if cfg_provisioning env \<and> cl_is_provisioning cl (clients_state c)
         then (let (res, s) = cl_prepare_prov cl (clients_state c)
               in (res, on_app (\<lambda>a. a\<lparr>coap_handler := prov_client_handler cl, result_handler := Prov_Result, rai := False\<rparr>)
                          (c\<lparr>clients_state := s\<rparr>)))
         else (let flags = coap_send_flags_next c;
                   c = on_app (\<lambda>a. a\<lparr>no_response := (flags AND COAP_SEND_FLAG_NO_RESPONSE \<noteq> 0)\<rparr>) c;
                   (res, s) = (if send_buffer c \<noteq> []
                               then cl_prepare_post cl (flags OR COAP_SEND_FLAG_SET_PAYLOAD) (Inl (send_buffer c)) (clients_state c)
                               else cl_prepare_post cl flags (Inr (case send_trigger c of None \<Rightarrow> [] | Some t \<Rightarrow> t))
                                      (clients_state c));
                   c = (if send_buffer c \<noteq> [] then c\<lparr>send_buffer := [], clients_state := s\<rparr>
                        else c\<lparr>send_trigger := None, clients_state := s\<rparr>);
                   progress = download_progress (app c)
               in (res, on_app (\<lambda>a. a\<lparr>coap_handler := appl_client_handler cl, result_handler := Coap_Result,
                     rai := (if cfg_coap_update env then progress = 0 else True),
                     download_progress := (if cfg_coap_update env \<and> progress = DOWNLOAD_PROGRESS_LAST_STATUS_MESSAGE
                                           then DOWNLOAD_PROGRESS_REBOOT else progress)\<rparr>) c)))"

definition loop_send :: "('s, 'd) net_env \<Rightarrow> ('s, 'd) dtls_client \<Rightarrow> ('s, 'd) dtls_client" where
  "loop_send env c =
     (let interval = get_send_interval c;
          c = dtls_power_management env (dtls_coap_set_request_state env SEND (emit [Sh_Active] c));
          c = (if interval > 0 then reschedule_timer interval c else c);
          c = (if lte_power_off c
               then snd (reopen_socket env (emit [Modem_Start]
                      (on_app (\<lambda>a. a\<lparr>start_time := ne_uptime env\<rparr>) (c\<lparr>lte_power_off := False\<rparr>))))
               else c);
          (res, c) = prepare_request env (on_app (\<lambda>a. a\<lparr>retransmission := 0, timeout := coap_timeout c\<rparr>) c)
      in if res < 0 then dtls_coap_failure env c
         else if res > 0
         then snd (sendto_peer env (if lte_power_off c then c else on_app (\<lambda>a. a\<lparr>start_time := ne_uptime env\<rparr>) c))
         else dtls_coap_set_request_state env NONE c)"

text \<open>Waiting for a trigger.\<close>

definition loop_trigger :: "('s, 'd) net_env \<Rightarrow> ('s, 'd) dtls_client \<Rightarrow> ('s, 'd) dtls_client" where
  "loop_trigger env c =
     (let c = dtls_power_management env c
      in if \<not> trigger_msg_sem c \<and> \<not> ne_trigger_wait env then c
         else (let c = c\<lparr>trigger_msg_sem := False\<rparr>
               in if TRIGGER_SEND \<notin> general_states c then c
                  else (let c = (clear_flags {TRIGGER_SEND} c)\<lparr>loops := 0\<rparr>
                        in if \<not> lte_power_off c \<and> \<not> ne_modem_on env then set_flag TRIGGER_SEND c
                           else loop_send env c)))"

text \<open>The request is sent again, with twice the timeout.\<close>

definition loop_resend :: "('s, 'd) net_env \<Rightarrow> ('s, 'd) dtls_client \<Rightarrow> ('s, 'd) dtls_client" where
  "loop_resend env c =
     (let first = (retransmission (app c) = 0);
          c = c\<lparr>loops := 0\<rparr>;
          c = (if first then snd (network_adjust_initial_timeout env False c) else c);
          c = on_app (\<lambda>a. a\<lparr>timeout := push_bit 1 (timeout a)\<rparr>) c;
          c = (if first then emit [Set_Psm (max (cfg_psm_retrans_rat env) (uint (timeout (app c)) + 4)) 5] c else c);
          c = on_app (\<lambda>a. a\<lparr>retransmission := retransmission a + 1\<rparr>) c;
          c = on_app (\<lambda>a. a\<lparr>rai := False\<rparr>) (dtls_coap_set_request_state env SEND c)
      in snd (sendto_peer env c))"

definition timeout_send :: "('s, 'd) net_env \<Rightarrow> ('s, 'd) dtls_client \<Rightarrow> ('s, 'd) dtls_client" where
  "timeout_send env c =
     (if LTE_CONNECTED_TO_SEND \<in> general_states c
      then (let c = (clear_flags {LTE_CONNECTED_TO_SEND} c)\<lparr>loops := 0\<rparr>;
                c = (if retransmission (app c) > 0 then c else snd (network_adjust_initial_timeout env True c))
            in dtls_coap_set_request_state env RECEIVE c)
      else if loops c > 60 then dtls_coap_failure env c
      else c)"

definition timeout_receive :: "('s, 'd) net_env \<Rightarrow> ('s, 'd) dtls_client \<Rightarrow> ('s, 'd) dtls_client" where
  "timeout_receive env c =
     (let a = app c;
          temp = (if LTE_CONNECTED \<in> general_states c then uint (timeout a)
                  else if retransmission a \<ge> COAP_MAX_RETRANSMISSION then loops c - 1
                  else uint (timeout a) + network_additional_timeout env c)
      in if loops c \<le> temp then c
         else if retransmission a < COAP_MAX_RETRANSMISSION then loop_resend env c
         else dtls_coap_failure env c)"

definition timeout_suspend :: "('s, 'd) net_env \<Rightarrow> ('s, 'd) dtls_client \<Rightarrow> ('s, 'd) dtls_client" where
  "timeout_suspend env c =
     (if LTE_SLEEPING \<in> general_states c \<or> LTE_CONNECTED \<notin> general_states c \<and> LTE_PSM_ACTIVE \<notin> general_states c
      then dtls_coap_set_request_state env NONE c else c)"

definition timeout_incoming :: "('s, 'd) net_env \<Rightarrow> ('s, 'd) dtls_client \<Rightarrow> ('s, 'd) dtls_client" where
  "timeout_incoming env c =
     (let seconds = c_div (ms_between (ne_uptime env) (connected_time c)) MSEC_PER_SEC;
          limit = uint (wakeup_on_incoming_connect_timeout c)
      in if cfg_udp_wakeup env \<and> limit \<noteq> 0 \<and> seconds \<ge> limit \<and> LTE_INCOMING_CONNECT \<in> general_states c
         then dtls_cmd_trigger env ''incoming connect'' True False (clear_flags {LTE_INCOMING_CONNECT} c)
         else if LTE_CONNECTED \<notin> general_states c
         then dtls_coap_set_request_state env NONE (clear_flags {LTE_INCOMING_CONNECT} c)
         else c)"

text \<open>A second without a datagram.\<close>

definition loop_timeout :: "('s, 'd) net_env \<Rightarrow> ('s, 'd) dtls_client \<Rightarrow> ('s, 'd) dtls_client" where
  "loop_timeout env c =
     (let c = c\<lparr>loops := loops c + 1\<rparr>
      in case request_state (app c) of
           SEND \<Rightarrow> timeout_send env c
         | RECEIVE \<Rightarrow> timeout_receive env c
         | WAIT_RESPONSE \<Rightarrow> if loops c > 60 then dtls_coap_failure env c else c
         | WAIT_SUSPEND \<Rightarrow> timeout_suspend env c
         | INCOMING_DATA \<Rightarrow> timeout_incoming env c
         | _ \<Rightarrow> c)"

definition loop_receive :: "('s, 'd) net_env \<Rightarrow> u8 list option \<Rightarrow> ('s, 'd) dtls_client \<Rightarrow> ('s, 'd) dtls_client" where
  "loop_receive env data c =
     (let flight = dtls_flight (app c);
          c = (case data of None \<Rightarrow> c | Some d \<Rightarrow> snd (recvfrom_peer env d c));
          c = (if flight \<noteq> 0 \<and> flight < dtls_flight (app c) then c\<lparr>loops := 0\<rparr> else c);
          c = (if request_state (app c) = SEND_ACK
               then (let c = on_app (\<lambda>a. a\<lparr>coap_handler := (coap_handler a)\<lparr>h_get_message := ack_message (ne_clients env)\<rparr>\<rparr>) c
                     in dtls_coap_success env (snd (sendto_peer env c)))
               else if \<not> dtls_pend (app c) \<and> send_request_pending (app c)
               then (let c = on_app (\<lambda>a. a\<lparr>send_request_pending := False, retransmission := 0,
                                           start_time := ne_uptime env\<rparr>) (c\<lparr>loops := 0\<rparr>)
                     in snd (sendto_peer env c))
               else c);
          c = (if \<not> lte_power_on_off c \<and> rai (app c) \<and> \<not> dtls_pending_request (request_state (app c))
               then emit [Set_Rai RAI_MODE_NOW] c else c)
      in if request_state (app c) = NONE \<and> protocol (app c) = PROTOCOL_COAP_DTLS \<and> \<not> keep_connection (app c) \<and>
            \<not> dtls_pend (app c)
         then snd (dtls_pending c) else c)"

text \<open>The part of the loop's body from the check of the socket on.\<close>

definition loop_round :: "('s, 'd) net_env \<Rightarrow> ('s, 'd) dtls_client \<Rightarrow> ('s, 'd) dtls_client" where
  "loop_round env c =
     (if \<not> lte_power_off c \<and> LTE_READY \<notin> general_states c then c
      else (let c = loop_check_socket env c; (sent, c) = loop_download env c
            in if sent then c
               else (let c = loop_incoming env c;
                         poll = (if trigger_msg_sem c then dtls_pending_request (request_state (app c))
                                 else request_state (app c) \<noteq> NONE)
                     in if \<not> poll then loop_trigger env c
                        else case ne_poll env of
                               Poll_Timeout \<Rightarrow> loop_timeout env c
                             | Poll_In data \<Rightarrow> loop_receive env data c
                             | Poll_Fault \<Rightarrow> snd (check_socket env c)
                             | _ \<Rightarrow> c)))"

section \<open>A client to exercise the model\<close>

text \<open>A handler with a fixed message that takes every datagram as the response, clients without state, a tinydtls
  that passes the data on, and a network that takes everything.\<close>

definition sim_handler :: "unit coap_handler_t" where
  "sim_handler = \<lparr>h_get_message = (\<lambda>_. (3, [1, 2, 3])), h_parse_data = (\<lambda>_ s. (Inr PARSE_RESPONSE, s))\<rparr>"

definition sim_clients :: "unit clients" where
  "sim_clients = \<lparr>appl_client_handler = sim_handler, prov_client_handler = sim_handler, update_client_handler = sim_handler,
     ack_message = (\<lambda>_. (0, [])), cl_prepare_post = (\<lambda>_ _ s. (3, s)), cl_prepare_prov = (\<lambda>s. (3, s)),
     cl_is_provisioning = (\<lambda>_. False), cl_update_pending = (\<lambda>_. False), cl_update_pending_next = (\<lambda>_. False),
     cl_update_next = id, cl_update_cancel = id, cl_update_reboot = id, cl_image_verify = id,
     cl_reboots = (\<lambda>_. False), cl_reboot = (\<lambda>_ _. id)\<rparr>"

definition sim_tls :: "unit tinydtls" where
  "sim_tls = \<lparr>tls_connect = (\<lambda>d. ([], \<lambda>_. (0, d))), tls_reset_peer = (\<lambda>d. ([], \<lambda>_. (0, d))),
     tls_write = (\<lambda>d data. ([Cb_Write data], \<lambda>rs. (hd rs, d))), tls_handle_message = (\<lambda>d data. ([Cb_Read data], \<lambda>_. (0, d))),
     tls_check_retransmit = (\<lambda>d. ([], \<lambda>_. (0, d)))\<rparr>"

definition sim_net :: "'s clients \<Rightarrow> ('s, unit) net_env" where
  "sim_net cl = \<lparr>ne_clients = cl, ne_dtls = sim_tls, ne_uptime = 100000, ne_modem_on = True,
     ne_sendto = (\<lambda>n. (int n, 0)), ne_errno = 0, ne_socket_error = 0, ne_socket = 1, ne_time_scale = 100, ne_edrx = None,
     ne_led_red = False, ne_sh_app_active = False, ne_modem_lock = True, ne_trigger_wait = True, ne_rate_limit = (0, 0),
     ne_download_wait = (\<lambda>_ s. (True, s)), ne_poll = Poll_Timeout, cfg_failure_send_interval = 0,
     cfg_psm_retrans_rat = 8, cfg_udp_wakeup = False, cfg_coap_update = True, cfg_provisioning = True, cfg_update = True\<rparr>"

definition sim_app :: "'s coap_handler_t \<Rightarrow> request_state_t \<Rightarrow> 's dtls_app" where
  "sim_app h s = \<lparr>coap_handler = h, result_handler = Coap_Result, fd = 1, protocol = PROTOCOL_COAP_UDP,
     keep_connection = True, send_request_pending = False, dtls_pend = False, dtls_next_flight = False,
     no_response = False, rai = False, dtls_flight = 0, download_progress = 0, retransmission = 0,
     request_state = s, timeout = 3, start_time = 0, response_time = 0\<rparr>"

definition sim_client :: "'s coap_handler_t \<Rightarrow> request_state_t \<Rightarrow> 's \<Rightarrow> ('s, unit) dtls_client" where
  "sim_client h s st = \<lparr>app = sim_app h s,
     general_states = {LTE_ON, LTE_REGISTERED, LTE_READY, LTE_CONNECTED, APPL_INITIAL_SUCCESS},
     lte_connections = 1, not_ready_time = 0, connected_time = 0, current_failures = 0, handled_failures = 0,
     trigger_search = NO_SEARCH, lte_power_off = False, lte_power_on_off = False, dtls_buffer = [], send_buffer = [],
     send_trigger = None, rtts = replicate (RTT_SLOTS + 2) 0, transmissions = replicate 4 0, connect_time_ms = 0, coap_rtt_ms = 0,
     retransmissions = 0, failures = 0, sockets = 1, dtls_handshakes = 0, send_ival = 60,
     wakeup_on_incoming_connect_timeout = 0, coap_timeout = 3, coap_send_flags = 0, coap_send_flags_next = 0,
     trigger_msg_sem = False, trigger_search_sem = False, timer_work = None, suspend_work = None, power_work = False,
     loops = 0, clients_state = st, dtls_context = None, out = []\<rparr>"

lemmas sim_defs = sim_handler_def sim_clients_def sim_tls_def sim_net_def sim_app_def sim_client_def

end
