(* ===== verification/Dtls_Cmd.thy ===== *)
theory Dtls_Cmd
  imports Dtls_Loop
begin

text \<open>
  The shell commands of \<open>src/src/dtls_client.c\<close>: sending a text, the send interval, the initial timeout, the
  flags that select what a message tells, the on/off mode, the restart and a new DTLS session; and the lookup
  of the destination.

  A command gets the rest of its line as parameter. The commands it puts in front of the shell's queue are part
  of the result, with their delay in milliseconds. What a command only logs is left out. \<open>sscanf\<close> of the
  C library is modelled as far as the formats \<open>%u%c\<close> and \<open>%hu\<close> go: with at most nine characters no
  number exceeds 32 bits.
\<close>

section \<open>Commands\<close>

abbreviation (input) COAP_SEND_FLAG_NET_SCAN_INFO :: u32 where "COAP_SEND_FLAG_NET_SCAN_INFO \<equiv> 2048"
abbreviation (input) ERROR_CODE_REBOOT_CMD :: int where "ERROR_CODE_REBOOT_CMD \<equiv> 0x6000"

definition sscanf_unsigned :: "cstring \<Rightarrow> (u32 \<times> cstring) option" where
  "sscanf_unsigned v =
     (let s = dropWhile isspace v;
          neg = (c_deref s = CHR ''-'');
          s = (if neg \<or> c_deref s = CHR ''+'' then tl s else s);
          ds = takeWhile (is_digit_in 10) s; n = digits_val 10 0 ds
      in if ds = [] then None else Some (word_of_int (if neg then - n else n), drop (length ds) s))"

definition sh_cmd_send :: "('s, 'd) net_env \<Rightarrow> cstring \<Rightarrow> ('s, 'd) dtls_client \<Rightarrow> int \<times> ('s, 'd) dtls_client" where
  "sh_cmd_send env parameter c =
     (if dtls_pending_request (request_state (app c)) then (- EBUSY, c)
      else if parameter \<noteq> [] \<and> send_buffer c \<noteq> [] then (- EBUSY, c)
      else (let c = (if parameter \<noteq> []
                     then c\<lparr>send_buffer := map (\<lambda>ch. of_nat (of_char ch)) (take MAX_SEND_BUF parameter)\<rparr> else c)
            in (0, dtls_cmd_trigger env ''cmd'' True True c)))"

definition sh_cmd_send_result :: "('s, 'd) net_env \<Rightarrow> ('s, 'd) dtls_client \<Rightarrow> int \<times> ('s, 'd) dtls_client" where
  "sh_cmd_send_result env c =
     (0, dtls_cmd_trigger env ''result'' True True (c\<lparr>coap_send_flags_next := COAP_SEND_FLAG_NET_SCAN_INFO\<rparr>))"

definition sh_cmd_send_alert :: "('s, 'd) net_env \<Rightarrow> ('s, 'd) dtls_client \<Rightarrow> int \<times> ('s, 'd) dtls_client" where
  "sh_cmd_send_alert env c = (0, dtls_cmd_trigger env ''alert'' True True c)"

text \<open>The first word of the parameter, in a buffer of ten bytes.\<close>

definition cmd_value :: "cstring \<Rightarrow> cstring" where
  "cmd_value parameter = the (snd (parse_next_text parameter (CHR '' '') (Some 10)))"

text \<open>\<open>None\<close> is the overflow of the interval in seconds.\<close>

definition sh_cmd_send_interval ::
  "cstring \<Rightarrow> ('s, 'd) dtls_client \<Rightarrow> (int \<times> (cstring \<times> int) list \<times> ('s, 'd) dtls_client) option" where
  "sh_cmd_send_interval parameter c =
     (let interval = get_send_interval c; v = cmd_value parameter
      in if v = [] then Some (0, [], c)
         else case sscanf_unsigned v of
                None \<Rightarrow> Some (- EINVAL, [], c)
              | Some (n, rest) \<Rightarrow>
                  (let unit = (if rest = [] then CHR ''s'' else hd rest)
                   in if unit \<notin> {CHR ''s'', CHR ''h'', CHR ''m''} then Some (- EINVAL, [], c)
                      else case i32 (sint n * (if unit = CHR ''h'' then 3600 else if unit = CHR ''m'' then 60 else 1)) of
                             None \<Rightarrow> None
                           | Some interval_s \<Rightarrow>
                               if interval \<noteq> interval_s then Some (0, [(''send'', 2000)], set_send_interval interval_s c)
                               else Some (0, [], c)))"

definition sh_cmd_coap_timeout :: "cstring \<Rightarrow> ('s, 'd) dtls_client \<Rightarrow> int \<times> ('s, 'd) dtls_client" where
  "sh_cmd_coap_timeout parameter c =
     (let v = cmd_value parameter
      in if v = [] then (0, c)
         else case sscanf_unsigned v of
                None \<Rightarrow> (- EINVAL, c)
              | Some (n, _) \<Rightarrow> (let t = ucast n in (0, c\<lparr>coap_timeout := (if t \<noteq> 0 then t else 1)\<rparr>)))"

definition sh_cmd_wakeup_on_incoming_connect_timeout :: "cstring \<Rightarrow> ('s, 'd) dtls_client \<Rightarrow> int \<times> ('s, 'd) dtls_client" where
  "sh_cmd_wakeup_on_incoming_connect_timeout parameter c =
     (let v = cmd_value parameter
      in if v = [] then (0, c)
         else case sscanf_unsigned v of
                None \<Rightarrow> (- EINVAL, c)
              | Some (n, _) \<Rightarrow> (0, c\<lparr>wakeup_on_incoming_connect_timeout := ucast n\<rparr>))"

text \<open>The names of the flags; scale and location are not configured.\<close>

definition coap_send_flags_definitions :: "(cstring \<times> int) list" where
  "coap_send_flags_definitions =
     [(''nores'', 1), (''init'', 2), (''min'', 4), (''dev'', 16), (''sim'', 32), (''net'', 64), (''stat'', 128),
      (''env'', 512), (''scan'', 2048), (''scale'', 0), (''loc'', 0)]"

fun get_sendflag_loop :: "cstring \<Rightarrow> (cstring \<times> int) list \<Rightarrow> int" where
  "get_sendflag_loop v [] = - EINVAL"
| "get_sendflag_loop v ((name, flag) # defs) = (if stricmp v name = 0 then flag else get_sendflag_loop v defs)"

definition sh_cmd_get_coap_sendflag :: "cstring \<Rightarrow> int" where
  "sh_cmd_get_coap_sendflag v = get_sendflag_loop v coap_send_flags_definitions"

text \<open>The loop over the names: \<open>snprintf\<close> writes at \<open>idx\<close> what fits and returns the full length.\<close>

fun dump_sendflags_loop :: "nat \<Rightarrow> int \<Rightarrow> (cstring \<times> int) list \<Rightarrow> cstring \<Rightarrow> nat \<Rightarrow> cstring \<times> nat" where
  "dump_sendflags_loop len flags [] buf idx = (buf, idx)"
| "dump_sendflags_loop len flags ((name, flag) # defs) buf idx =
     (if flags AND flag \<noteq> 0
      then (let buf = take idx buf @ take (len - idx - 1) (name @ '' ''); idx = idx + length name + 1
            in if idx \<ge> len then (buf, idx) else dump_sendflags_loop len flags defs buf idx)
      else dump_sendflags_loop len flags defs buf idx)"

text \<open>The text and its length; \<open>None\<close> is a write behind the buffer, when the names do not fit.\<close>

definition sh_cmd_dump_coap_sendflags :: "nat \<Rightarrow> int \<Rightarrow> (cstring \<times> nat) option" where
  "sh_cmd_dump_coap_sendflags len flags =
     (let (buf, idx) = dump_sendflags_loop len flags coap_send_flags_definitions [] 0
      in if idx = 0 then Some (buf, 0)
         else if idx > len then None
         else Some (take (idx - 1) buf, idx - 1))"

lemma next_text_shorter:
  assumes "parse_next_text s (CHR '' '') (Some 10) = (s', Some v)" "v \<noteq> []"
  shows "length s' < length s"
  using assms parse_next_text_spec [of "CHR '' ''" s 10]
  by (cases s) (auto simp: Let_def c_deref_def split: if_splits)

function sendflags_names :: "cstring \<Rightarrow> int \<Rightarrow> int + int" where
  "sendflags_names s flags =
     (case parse_next_text s (CHR '' '') (Some 10) of
        (s', Some v) \<Rightarrow>
          if v = [] then Inr flags
          else (let flag = sh_cmd_get_coap_sendflag v in if flag \<ge> 0 then sendflags_names s' (flags OR flag) else Inl flag)
      | (_, None) \<Rightarrow> Inr flags)"
  by pat_completeness auto
termination
  by (relation "measure (length \<circ> fst)") (auto dest: next_text_shorter [OF sym])

declare sendflags_names.simps [simp del]

definition sh_cmd_coap_sendflags :: "cstring \<Rightarrow> ('s, 'd) dtls_client \<Rightarrow> int \<times> ('s, 'd) dtls_client" where
  "sh_cmd_coap_sendflags parameter c =
     (let set_flags = (\<lambda>flags c. c\<lparr>coap_send_flags := word_of_int flags, coap_send_flags_next := word_of_int flags\<rparr>)
      in if parameter = [] then (0, c)
         else (let (cur, flags) = parse_next_long_text parameter (CHR '' '') 0 (Some 0)
               in if cur \<noteq> parameter then (0, set_flags (the flags) c)
                  else case sendflags_names cur 0 of Inl err \<Rightarrow> (err, c) | Inr flags \<Rightarrow> (0, set_flags flags c)))"

text \<open>The result is 0 also for a value that is not supported.\<close>

definition sh_cmd_onoff :: "cstring \<Rightarrow> ('s, 'd) dtls_client \<Rightarrow> int \<times> ('s, 'd) dtls_client" where
  "sh_cmd_onoff parameter c =
     (if parameter = [] then (0, c)
      else (let (cur, v) = parse_next_long_text parameter (CHR '' '') 0 (Some (if lte_power_on_off c then 1 else 0))
            in (0, if cur \<noteq> parameter then c\<lparr>lte_power_on_off := (the v \<noteq> 0)\<rparr> else c)))"

definition sh_cmd_restart :: "('s, 'd) net_env \<Rightarrow> ('s, 'd) dtls_client \<Rightarrow> int \<times> ('s, 'd) dtls_client" where
  "sh_cmd_restart env c = (0, restart env ERROR_CODE_REBOOT_CMD True c)"

definition sh_cmd_dtls :: "cstring \<Rightarrow> ('s, 'd) dtls_client \<Rightarrow> int \<times> ('s, 'd) dtls_client" where
  "sh_cmd_dtls parameter c = (0, if cmd_value parameter = ''reset'' then snd (dtls_pending c) else c)"

section \<open>The names of the flags\<close>

lemma flag_bit:
  fixes flags :: int
  assumes "flags AND 2 ^ k \<noteq> 0"
  shows "flags AND 2 ^ k = 2 ^ k"
proof -
  have "flags AND 2 ^ k = (if bit flags k then 2 ^ k else 0)"
    by (rule bit_eqI) (auto simp: bit_and_iff bit_exp_iff)
  then show ?thesis using assms by (auto split: if_splits)
qed

text \<open>The flags that are set, with their names; the text that shows them, before its last character is cut.\<close>

definition set_flags :: "int \<Rightarrow> (cstring \<times> int) list \<Rightarrow> (cstring \<times> int) list" where
  "set_flags flags defs = filter (\<lambda>(name, flag). flags AND flag \<noteq> 0) defs"

definition flag_names :: "(cstring \<times> int) list \<Rightarrow> cstring" where
  "flag_names defs = concat (map (\<lambda>(name, flag). name @ '' '') defs)"

lemma dump_loop:
  assumes "length buf + length (flag_names defs) < len"
  shows "dump_sendflags_loop len flags defs buf (length buf) =
    (buf @ flag_names (set_flags flags defs), length (buf @ flag_names (set_flags flags defs)))"
  using assms
proof (induction defs arbitrary: buf)
  case (Cons d defs)
  obtain n f where d: "d = (n, f)" by (cases d)
  have len: "length buf + length n + 1 < len" "length (buf @ n @ '' '') + length (flag_names defs) < len"
    using Cons.prems by (simp_all add: flag_names_def d)
  then have "take (len - length buf - 1) (n @ '' '') = n @ '' ''" by simp
  then show ?case
    using Cons.IH [OF len(2)] Cons.IH [of buf] len by (simp add: d set_flags_def flag_names_def Let_def)
qed (simp add: set_flags_def flag_names_def)

definition flag_name_ok :: "cstring \<times> int \<Rightarrow> bool" where
  "flag_name_ok d = (case d of (name, flag) \<Rightarrow> name \<noteq> [] \<and> CHR '' '' \<notin> set name \<and> length name \<le> 9 \<and>
     digit_val (hd name) \<noteq> None \<and> \<not> is_digit_in 10 (hd name) \<and> sh_cmd_get_coap_sendflag name = flag \<and> 0 \<le> flag)"

lemma flag_names_last: "ds \<noteq> [] \<Longrightarrow> \<exists>t. flag_names ds = t @ '' ''"
  by (induction ds rule: rev_induct) (auto simp: flag_names_def)

lemma next_flag_name:
  assumes "flag_name_ok (n, f)"
  shows "parse_next_text (butlast (flag_names ((n, f) # ds))) (CHR '' '') (Some 10) = (butlast (flag_names ds), Some n)"
proof -
  have n: "n \<noteq> []" "CHR '' '' \<notin> set n" "length n \<le> 9" "c_deref n \<noteq> CHR '' ''"
    using assms by (auto simp: flag_name_ok_def c_deref_def split: list.splits)
  have hd: "c_deref (n @ t) \<noteq> CHR '' ''" for t using n(1,4) by (cases n) (auto simp: c_deref_def)
  have tw: "takeWhile (\<lambda>c. c \<noteq> CHR '' '') (n @ CHR '' '' # t) = n" for t
    using n(2) by (auto simp: takeWhile_eq_all_conv takeWhile_append)
  show ?thesis
  proof (cases "ds = []")
    case True
    then show ?thesis
      using hd [of "[]"] n(3) by (simp add: parse_next_text_spec flag_names_def butlast_append Let_def field_last [OF n(2)])
  next
    case False
    then obtain t where t: "flag_names ds = t @ '' ''" using flag_names_last by blast
    then have "butlast (flag_names ((n, f) # ds)) = n @ CHR '' '' # t" by (simp add: flag_names_def butlast_append)
    then show ?thesis using hd tw n(3) t by (simp add: parse_next_text_spec Let_def)
  qed
qed

lemma sendflags_names_fold:
  "list_all flag_name_ok ds \<Longrightarrow>
   sendflags_names (butlast (flag_names ds)) flags = Inr (fold (\<lambda>(n, f) a. a OR f) ds flags)"
proof (induction ds arbitrary: flags)
  case Nil
  have "parse_next_text [] (CHR '' '') (Some 10) = ([], Some [])" by (simp add: parse_next_text_spec c_deref_def)
  then show ?case by (simp add: sendflags_names.simps flag_names_def)
next
  case (Cons d ds)
  obtain n f where d: "d = (n, f)" by (cases d)
  then show ?case
    using Cons next_flag_name [of n f ds] by (simp add: sendflags_names.simps [of "butlast (flag_names _)"] flag_name_ok_def)
qed

lemma flag_definitions_ok: "list_all (\<lambda>d. snd d = 0 \<or> flag_name_ok d) coap_send_flags_definitions"
  by code_simp

lemma set_flags_fold:
  "list_all (\<lambda>(n, f). f = 0 \<or> (\<exists>k. f = 2 ^ k)) ds \<Longrightarrow>
   fold (\<lambda>(n, f) a. a OR f) (set_flags flags ds) (flags AND m) = flags AND fold (\<lambda>(n, f) a. a OR f) ds m"
proof (induction ds arbitrary: m)
  case (Cons d ds)
  obtain n f where d: "d = (n, f)" by (cases d)
  have "flags AND f = (if flags AND f \<noteq> 0 then f else 0)"
    using Cons.prems flag_bit [of flags] by (auto simp: d split: if_splits)
  then have "(if flags AND f \<noteq> 0 then (flags AND m) OR f else flags AND m) = flags AND (m OR f)"
    by (auto simp: bit.conj_disj_distrib)
  then show ?case using Cons.IH [of "m OR f"] Cons.prems by (auto simp: d set_flags_def split: if_splits)
qed (simp add: set_flags_def)

lemma flags_mask: "fold (\<lambda>(n, f) a. a OR f) (set_flags flags coap_send_flags_definitions) 0 = flags AND 0xaf7"
proof -
  have "list_all (\<lambda>(n :: cstring, f :: int). f = 0 \<or> f \<in> (\<lambda>k. 2 ^ k) ` {0..<12}) coap_send_flags_definitions" by code_simp
  then have "list_all (\<lambda>(n, f). f = 0 \<or> (\<exists>k. f = 2 ^ k)) coap_send_flags_definitions"
    by (auto simp: list_all_iff)
  moreover have "fold (\<lambda>(n :: cstring, f) a. a OR f) coap_send_flags_definitions 0 = (0xaf7 :: int)" by code_simp
  ultimately show ?thesis using set_flags_fold [of coap_send_flags_definitions flags 0] by simp
qed

lemma flag_names_filter: "length (flag_names (filter P ds)) \<le> length (flag_names ds)"
  by (induction ds) (auto simp: flag_names_def)

lemma no_number:
  assumes "digit_val ch \<noteq> None" "\<not> is_digit_in 10 ch"
  shows "parse_next_long_text (ch # t) (CHR '' '') 0 (Some 0) = (ch # t, Some 0)"
proof -
  have ch: "ch \<noteq> CHR '' ''" "\<not> isspace ch" "ch \<noteq> CHR ''-''" "ch \<noteq> CHR ''+''" "ch \<noteq> CHR ''0''"
    using assms by (auto simp: digit_val_def isspace_def is_digit_in_def)
  then have "strtol (ch # t) 0 = (0, 0)"
    using assms(2) by (auto simp: strtol_def hex_prefix_def c_deref_def Let_def split: list.splits)
  then show ?thesis using ch by (simp add: parse_next_long_text_def c_deref_def)
qed

text \<open>The names that the command \<open>sendflags\<close> shows for the flags, entered as its parameter, set exactly these
  flags again, as far as they have a name; unknown names change nothing.\<close>

lemma sendflags_roundtrip:
  assumes "sh_cmd_dump_coap_sendflags 96 flags = Some (line, n)" "0 < n"
  shows "n = length line \<and> sh_cmd_coap_sendflags line c =
    (0, c\<lparr>coap_send_flags := word_of_int (flags AND 0xaf7), coap_send_flags_next := word_of_int (flags AND 0xaf7)\<rparr>)"
proof -
  define ds where "ds = set_flags flags coap_send_flags_definitions"
  have len: "length (flag_names coap_send_flags_definitions) < 96" by code_simp
  then have "dump_sendflags_loop 96 flags coap_send_flags_definitions [] 0 = (flag_names ds, length (flag_names ds))"
      "length (flag_names ds) < 96"
    using dump_loop [of "[]" coap_send_flags_definitions 96 flags] le_less_trans [OF flag_names_filter len]
    by (simp_all add: ds_def set_flags_def)
  then have l: "line = butlast (flag_names ds)" "n = length (flag_names ds) - 1" "ds \<noteq> []"
    using assms by (auto simp: sh_cmd_dump_coap_sendflags_def butlast_conv_take flag_names_def split: if_splits)
  have ok: "list_all flag_name_ok ds"
    using flag_definitions_ok by (auto simp: ds_def set_flags_def list_all_iff)
  obtain d ds' where d: "ds = d # ds'" using l(3) by (cases ds) auto
  then have "\<exists>ch t. line = ch # t \<and> digit_val ch \<noteq> None \<and> \<not> is_digit_in 10 ch"
    using ok l(1) by (cases "fst d"; cases d) (auto simp: flag_names_def flag_name_ok_def butlast_append)
  then have "line \<noteq> []" "parse_next_long_text line (CHR '' '') 0 (Some 0) = (line, Some 0)"
    using no_number by fastforce+
  moreover have "sendflags_names line 0 = Inr (flags AND 0xaf7)"
    using sendflags_names_fold [OF ok, of 0] flags_mask [of flags] by (simp add: l(1) ds_def)
  ultimately show ?thesis using l(1,2) by (simp add: sh_cmd_coap_sendflags_def)
qed

end
