(* ===== verification/Dtls_Search.thy ===== *)
theory Dtls_Search
  imports Dtls_Loop
begin

text \<open>
  What \<open>src/src/dtls_client.c\<close> does before it can send: waiting for the battery to recover, searching for a
  network, restarting the modem, rebooting when there is no first success, and looking up the destination.

  The loops that wait are functions over the list of what they observe, one element per turn; the result
  \<open>None\<close> means that the observations end before the loop does. What is done to the modem is part of the
  result. The trigger of a search is taken together with its semaphore, and is an input.
\<close>

section \<open>Low voltage\<close>

record lv_input =
  lv_duration :: bool
  lv_voltage :: "u16 option"
  lv_charging :: bool
  lv_uptime :: int

text \<open>The result tells whether the voltage is still low. \<open>lv_charging\<close> is the test of the battery status against
  \<open>CHARGING_I\<close>; \<open>lv_voltage\<close> is \<open>None\<close> when reading it fails.\<close>

fun dtls_low_voltage ::
  "int \<Rightarrow> int \<Rightarrow> lv_input list \<Rightarrow> ('s, 'd) dtls_client \<Rightarrow> (bool \<times> bool \<times> ('s, 'd) dtls_client) option" where
  "dtls_low_voltage start timeout_ms [] c = None"
| "dtls_low_voltage start timeout_ms (i # is) c =
     (if lv_duration i \<or> LTE_LOW_VOLTAGE \<notin> general_states c then Some (LTE_LOW_VOLTAGE \<in> general_states c, False, c)
      else case lv_voltage i of
             Some v \<Rightarrow>
               if v > 3300 \<or> lv_charging i \<and> v > 3100 then Some (False, True, clear_flags {LTE_LOW_VOLTAGE} c)
               else if lv_uptime i - start > timeout_ms then Some (True, False, c)
               else dtls_low_voltage start timeout_ms is (c\<lparr>trigger_search_sem := False\<rparr>)
           | None \<Rightarrow>
               if lv_uptime i - start > timeout_ms then Some (True, False, c)
               else dtls_low_voltage start timeout_ms is (c\<lparr>trigger_search_sem := False\<rparr>))"

section \<open>Searching for a network\<close>

abbreviation (input) MAX_MULTI_IMSI_SEARCH_TIME_S :: int where "MAX_MULTI_IMSI_SEARCH_TIME_S \<equiv> 1800"

datatype search_action = At_Set_Normal | Start_Search | Wait_Ready | Swap_Preference | At_Set_Offline

record search_input =
  si_duration :: bool
  si_now :: int
  si_not_ready :: int
  si_registered :: bool
  si_low_voltage :: bool
  si_ready :: bool
  si_imsi_interval :: "int option"
  si_preference :: bool
  si_trigger :: "search_trigger_t option"

record search_state =
  ss_off :: bool
  ss_last_not_ready :: int
  ss_trigger :: search_trigger_t
  ss_swap :: nat
  ss_actions :: "search_action list"

text \<open>The order of the constants of \<open>search_trigger_t\<close>.\<close>

definition search_trigger_code :: "search_trigger_t \<Rightarrow> int" where
  "search_trigger_code t =
     (case t of NO_SEARCH \<Rightarrow> 0 | MANUAL_SEARCH \<Rightarrow> 1 | CMD_SEARCH \<Rightarrow> 2 | EVENT_SEARCH \<Rightarrow> 3 | READY_SEARCH \<Rightarrow> 4)"

text \<open>The search with the modem: the trigger has been cleared before it is compared with \<open>READY_SEARCH\<close>, so the
  search is started for every trigger. The result tells whether the network was found.\<close>

definition search_modem :: "search_input \<Rightarrow> search_state \<Rightarrow> bool \<times> search_state" where
  "search_modem i s =
     (if ss_trigger s = NO_SEARCH then (False, s)
      else (let s = s\<lparr>ss_trigger := NO_SEARCH\<rparr>;
                s = (if ss_off s then s\<lparr>ss_actions := ss_actions s @ [At_Set_Normal], ss_off := False\<rparr> else s);
                s = (if ss_trigger s \<noteq> READY_SEARCH then s\<lparr>ss_actions := ss_actions s @ [Start_Search]\<rparr> else s)
            in (si_ready i, s\<lparr>ss_actions := ss_actions s @ [Wait_Ready]\<rparr>)))"

text \<open>SIM cards with several identities: with a preference it is swapped after a while, else the modem is switched
  off. \<open>int\<close> has 32 bits; an interval that overflows when it is doubled is not looked at any further (\<open>None\<close>).\<close>

definition search_multi_imsi :: "int \<Rightarrow> search_input \<Rightarrow> search_state \<Rightarrow> search_state option" where
  "search_multi_imsi start i s =
     (case si_imsi_interval i of
        None \<Rightarrow> Some s
      | Some interval \<Rightarrow>
          if interval \<le> 0 then Some s
          else if si_preference i
          then (case i32 (interval * 2 ^ ss_swap s) of
                  None \<Rightarrow> None
                | Some timeout_s \<Rightarrow>
                    Some (if c_div (si_now i - start) MSEC_PER_SEC > timeout_s
                          then s\<lparr>ss_actions := ss_actions s @ [Swap_Preference], ss_swap := ss_swap s + 1, ss_trigger := EVENT_SEARCH\<rparr>
                          else s))
          else (let timeout_s = max interval MAX_MULTI_IMSI_SEARCH_TIME_S
                in Some (if signed_take_bit 31 (si_now i) - ss_last_not_ready s > MSEC_PER_SEC * timeout_s
                         then s\<lparr>ss_actions := ss_actions s @ [At_Set_Offline], ss_off := True\<rparr> else s)))"

text \<open>Waiting for a trigger; \<open>si_registered\<close> is what the modem tells about the network. The result tells whether the
  network was found.\<close>

definition search_wait :: "search_input \<Rightarrow> search_state \<Rightarrow> bool \<times> search_state" where
  "search_wait i s =
     (if ss_trigger s \<noteq> NO_SEARCH then (False, s)
      else (let s = (case si_trigger i of None \<Rightarrow> s | Some t \<Rightarrow> s\<lparr>ss_trigger := t\<rparr>)
            in (search_trigger_code EVENT_SEARCH < search_trigger_code (ss_trigger s) \<and> si_registered i, s)))"

text \<open>The search; the result tells whether no network was found, with the value that \<open>not_ready_time\<close> is set to,
  if it is.\<close>

fun search_loop ::
  "int \<Rightarrow> int \<Rightarrow> search_input list \<Rightarrow> search_state \<Rightarrow> (bool \<times> int option \<times> search_state) option" where
  "search_loop start timeout_ms [] s = None"
| "search_loop start timeout_ms (i # is) s =
     (if si_duration i then Some (True, None, s)
      else (let s = (if si_not_ready i \<noteq> ss_last_not_ready s
                     then s\<lparr>ss_last_not_ready := si_not_ready i, ss_trigger := READY_SEARCH\<rparr> else s);
                time = (if si_not_ready i \<noteq> 0 then ms_between (si_now i) (si_not_ready i) else ms_between (si_now i) start)
            in if time > timeout_ms
               then (if si_registered i then Some (False, Some 0, s)
                     else Some (True, Some (signed_take_bit 31 (si_now i)), s))
               else (let s = (if si_low_voltage i then s\<lparr>ss_trigger := NO_SEARCH\<rparr> else s); (found, s) = search_modem i s
                     in if found then Some (False, None, s)
                        else case search_multi_imsi start i s of
                               None \<Rightarrow> None
                             | Some s \<Rightarrow> (let (found, s) = search_wait i s
                                        in if found then Some (False, None, s) else search_loop start timeout_ms is s))))"

definition dtls_network_searching ::
  "int \<Rightarrow> int \<Rightarrow> search_input list \<Rightarrow> ('s, 'd) dtls_client \<Rightarrow> (bool \<times> search_action list \<times> ('s, 'd) dtls_client) option" where
  "dtls_network_searching start timeout_ms is c =
     (case search_loop start timeout_ms is
             \<lparr>ss_off = False, ss_last_not_ready = not_ready_time c, ss_trigger = MANUAL_SEARCH, ss_swap = 1, ss_actions = []\<rparr> of
        None \<Rightarrow> None
      | Some (not_found, t, s) \<Rightarrow>
          Some (not_found, ss_actions s, case t of None \<Rightarrow> c | Some t \<Rightarrow> c\<lparr>not_ready_time := t\<rparr>))"

section \<open>Restarts\<close>

abbreviation (input) ERROR_CODE_REBOOT_MANUAL :: int where "ERROR_CODE_REBOOT_MANUAL \<equiv> 0x7000"
abbreviation (input) ERROR_CODE_LOW_VOLTAGE :: int where "ERROR_CODE_LOW_VOLTAGE \<equiv> 0x9000"
abbreviation (input) ERROR_CODE_INIT_NO_SUCCESS :: int where "ERROR_CODE_INIT_NO_SUCCESS \<equiv> 0x2000"

text \<open>A long press of the button; \<open>ui\<close> is the state of the switches, negative if there are none.\<close>

definition check_restart :: "('s, 'd) net_env \<Rightarrow> int \<Rightarrow> ('s, 'd) dtls_client \<Rightarrow> ('s, 'd) dtls_client" where
  "check_restart env ui c =
     (if TRIGGER_DURATION \<in> general_states c
      then clear_flags {TRIGGER_DURATION}
             (if ui < 0 then restart env ERROR_CODE_REBOOT_MANUAL True c
              else if ui AND 2 \<noteq> 0 then restart env ERROR_CODE_REBOOT_MANUAL False c
              else c)
      else c)"

text \<open>The restart of the modem; \<open>low\<close> is the result of \<open>dtls_low_voltage\<close>, and \<open>started\<close> the flags after
  \<open>modem_start\<close> has run.\<close>

definition restart_modem ::
  "('s, 'd) net_env \<Rightarrow> int \<Rightarrow> bool \<Rightarrow> (general_state set \<Rightarrow> general_state set) \<Rightarrow> bool \<Rightarrow> ('s, 'd) dtls_client
   \<Rightarrow> bool \<times> ('s, 'd) dtls_client" where
  "restart_modem env ui low started power_off c =
     (let c = dtls_power_management env (set_flag PM_PREVENT_SUSPEND (check_restart env ui c));
          c = emit [if power_off then Modem_Power_Off else Modem_Lte_Offline] c;
          c = (if low then restart env ERROR_CODE_LOW_VOLTAGE False c else c);
          c = emit [Set_Psm_For_Connect, Modem_Start] c;
          c = c\<lparr>general_states := started (general_states c)\<rparr>;
          c = dtls_power_management env (clear_flags {PM_PREVENT_SUSPEND} c)
      in (LTE_READY \<in> general_states c, c))"

definition dtls_calculate_reboot_timeout :: "bool \<Rightarrow> int \<Rightarrow> int" where
  "dtls_calculate_reboot_timeout unverified reboot =
     (if unverified then 3600000 else if reboot = 1 then 4 * 3600000 else 24 * 3600000)"

text \<open>The reboot when there has not been a first success; the result is the new number of such reboots.\<close>

definition loop_no_success :: "('s, 'd) net_env \<Rightarrow> int \<Rightarrow> int \<Rightarrow> ('s, 'd) dtls_client \<Rightarrow> int \<times> ('s, 'd) dtls_client" where
  "loop_no_success env reboot_timeout reboot c =
     (if APPL_INITIAL_SUCCESS \<notin> general_states c \<and> ne_uptime env > reboot_timeout
      then (reboot + 1, restart env (error_code ERROR_CODE_INIT_NO_SUCCESS (reboot + 1)) True c)
      else (reboot, c))"

section \<open>The destination\<close>

abbreviation (input) AF_INET6 :: int where "AF_INET6 \<equiv> 2"

record addrinfo =
  ai_family :: int
  ai_addr :: "u8 list"

record destination =
  dst_size :: nat
  dst_addr :: "u8 list"

text \<open>\<open>getaddrinfo\<close> is a parameter: the number of the attempt, the host, and the port if one is given. It is tried
  again up to ten times, then without the port.\<close>

function lookup_retry ::
  "(nat \<Rightarrow> cstring \<Rightarrow> cstring option \<Rightarrow> int \<times> addrinfo option) \<Rightarrow> cstring \<Rightarrow> nat \<Rightarrow> int \<times> addrinfo option \<Rightarrow> int \<times> addrinfo option" where
  "lookup_retry gai host count r =
     (if fst r = - EAGAIN \<and> count < 10 then lookup_retry gai host (count + 1) (gai (count + 1) host None) else r)"
  by pat_completeness auto
termination
  by (relation "measure (\<lambda>(gai, host, count, r). 10 - count)") auto

declare lookup_retry.simps [simp del]

text \<open>The address is moved over the one that is there; of an IPv6 address with garbage at its end three bytes less.\<close>

definition set_address :: "addrinfo \<Rightarrow> destination \<Rightarrow> destination" where
  "set_address ai d =
     (let n = length (ai_addr ai);
          garbage = (ai_family ai = AF_INET6 \<and> n = 24 \<and> (ai_addr ai ! 21 \<noteq> 0 \<or> ai_addr ai ! 22 \<noteq> 0 \<or> ai_addr ai ! 23 \<noteq> 0));
          len = (if garbage then n - 3 else n)
      in d\<lparr>dst_size := n, dst_addr := take len (ai_addr ai) @ drop len (dst_addr d)\<rparr>)"

definition init_destination ::
  "(nat \<Rightarrow> cstring \<Rightarrow> cstring option \<Rightarrow> int \<times> addrinfo option) \<Rightarrow> cstring \<Rightarrow> cstring \<Rightarrow> destination \<Rightarrow> int \<times> destination" where
  "init_destination gai host port d =
     (if host = [] then (- ENOENT, d)
      else case lookup_retry gai host 0 (gai 0 host (Some port)) of
             (rc, r) \<Rightarrow>
               if rc < 0 then (rc, d)
               else case r of None \<Rightarrow> (- ENOENT, d) | Some ai \<Rightarrow> (rc, set_address ai d))"

section \<open>The search ends\<close>

text \<open>The time of a turn, as the loop compares it with its timeout.\<close>

definition search_time :: "int \<Rightarrow> search_input \<Rightarrow> int" where
  "search_time start i = (if si_not_ready i \<noteq> 0 then ms_between (si_now i) (si_not_ready i) else ms_between (si_now i) start)"

text \<open>A SIM card with the interval \<open>k\<close> for all its identities, or with one identity only, and a search of less than
  34 years.\<close>

definition search_input_ok :: "int \<Rightarrow> int \<Rightarrow> search_input \<Rightarrow> bool" where
  "search_input_ok start k i \<longleftrightarrow> si_imsi_interval i \<in> {None, Some k} \<and> 0 \<le> si_now i - start \<and> si_now i - start < 2 ^ 30 * 1000"

lemma search_modem_swap [simp]: "ss_swap (snd (search_modem i s)) = ss_swap s"
  by (simp add: search_modem_def Let_def)

lemma search_wait_swap [simp]: "ss_swap (snd (search_wait i s)) = ss_swap s"
  by (simp add: search_wait_def Let_def split: option.split)

text \<open>The swap timeout never overflows: it is doubled only after the search has taken longer than that.\<close>

lemma search_multi_imsi_ok:
  assumes "search_input_ok start k i" "0 < k" "k * 2 ^ ss_swap s < 2 ^ 31"
  shows "\<exists>s'. search_multi_imsi start i s = Some s' \<and> k * 2 ^ ss_swap s' < 2 ^ 31"
proof (cases "si_imsi_interval i = Some k \<and> si_preference i")
  case True
  have "0 < k * 2 ^ ss_swap s" using assms(2) by simp
  then have r: "in_i32 (k * 2 ^ ss_swap s)" using assms(3) by (simp add: in_i32_def)
  have "c_div (si_now i - start) 1000 < 2 ^ 30"
    using assms(1) unfolding search_input_ok_def by (simp only: c_div_nonneg) linarith
  then have "c_div (si_now i - start) 1000 > k * 2 ^ ss_swap s \<Longrightarrow> k * 2 ^ (ss_swap s + 1) < 2 ^ 31" by simp
  then show ?thesis using True assms(2,3) r by (simp add: search_multi_imsi_def)
next
  case False
  then show ?thesis
    using assms by (auto simp: search_multi_imsi_def search_input_ok_def Let_def)
qed

text \<open>C16. The search for a network ends: whatever the modem, the SIM card and the battery do, it returns at the latest
  with the first turn in which its time is over or the button is pressed for long, and the timeout for swapping
  the preference of a SIM card with several identities never overflows.\<close>

theorem search_ends:
  assumes "\<forall>i \<in> set is. search_input_ok start k i" "0 < k" "k < 2 ^ 30"
    and "\<exists>i \<in> set is. si_duration i \<or> timeout_ms < search_time start i"
  shows "\<exists>r. dtls_network_searching start timeout_ms is c = Some r"
proof -
  have "search_loop start timeout_ms is s \<noteq> None" if "k * 2 ^ ss_swap s < 2 ^ 31" for s
    using assms(1,4) that
  proof (induction "is" arbitrary: s)
    case (Cons i "is")
    define s1 where "s1 = (if si_not_ready i \<noteq> ss_last_not_ready s
        then s\<lparr>ss_last_not_ready := si_not_ready i, ss_trigger := READY_SEARCH\<rparr> else s)"
    define s2 where "s2 = (if si_low_voltage i then s1\<lparr>ss_trigger := NO_SEARCH\<rparr> else s1)"
    define s3 where "s3 = snd (search_modem i s2)"
    have "k * 2 ^ ss_swap s3 < 2 ^ 31" using Cons.prems(3) by (simp add: s3_def s2_def s1_def)
    moreover have "search_input_ok start k i" using Cons.prems(1) by simp
    ultimately obtain s4 where s4: "search_multi_imsi start i s3 = Some s4" "k * 2 ^ ss_swap s4 < 2 ^ 31"
      using search_multi_imsi_ok [OF _ assms(2)] by blast
    define s5 where "s5 = snd (search_wait i s4)"
    have s5: "k * 2 ^ ss_swap s5 < 2 ^ 31" using s4(2) by (simp add: s5_def)
    show ?case
    proof (cases "si_duration i \<or> timeout_ms < search_time start i")
      case True
      then show ?thesis by (auto simp: Let_def search_time_def)
    next
      case False
      then have IH: "search_loop start timeout_ms is s5 \<noteq> None" using Cons.IH [OF _ _ s5] Cons.prems(1,2) by auto
      have "search_loop start timeout_ms (i # is) s =
          (if fst (search_modem i s2) then Some (False, None, s3)
           else if fst (search_wait i s4) then Some (False, None, s5) else search_loop start timeout_ms is s5)"
        using False s4(1)
        by (simp add: search_time_def Let_def case_prod_beta flip: s1_def s2_def s3_def s5_def)
      then show ?thesis using IH by auto
    qed
  qed simp
  then have "search_loop start timeout_ms is \<lparr>ss_off = False, ss_last_not_ready = not_ready_time c, ss_trigger = MANUAL_SEARCH,
      ss_swap = 1, ss_actions = []\<rparr> \<noteq> None"
    using assms(3) by simp
  then show ?thesis by (auto simp: dtls_network_searching_def split: option.split)
qed

theorem search_ends_witness:
  "\<exists>r. dtls_network_searching 1000 60000
     [\<lparr>si_duration = False, si_now = 1000, si_not_ready = 0, si_registered = False, si_low_voltage = False, si_ready = False,
        si_imsi_interval = Some 300, si_preference = True, si_trigger = None\<rparr>,
      \<lparr>si_duration = False, si_now = 62000, si_not_ready = 0, si_registered = False, si_low_voltage = False, si_ready = False,
        si_imsi_interval = Some 300, si_preference = True, si_trigger = None\<rparr>] (sim_client sim_handler NONE ()) = Some r"
  by (rule search_ends [where k = 300]) (simp_all add: search_input_ok_def search_time_def ms_between_def signed_take_bit_int_eq_self)

text \<open>Every trigger starts a search, also the one that tells that the network is ready.\<close>

lemma search_ready_starts:
  "ss_trigger s = READY_SEARCH \<Longrightarrow> Start_Search \<in> set (ss_actions (snd (search_modem i s)))"
  by (simp add: search_modem_def Let_def)

text \<open>When the first lookup of the destination has to be tried again, the address is the one of a lookup without the
  port.\<close>

lemma retried_lookup_without_port:
  assumes "host \<noteq> []" "fst (gai 0 host (Some port)) = - EAGAIN" "gai 1 host None = (0, Some ai)"
  shows "init_destination gai host port d = (0, set_address ai d)"
  using assms by (simp add: init_destination_def lookup_retry.simps [of gai host 0] lookup_retry.simps [of gai host "Suc 0"])

end
