(* ===== verification/Request_Machine.thy ===== *)
theory Request_Machine
  imports Dtls_Loop
begin

text \<open>
  Properties of the request machine of \<open>src/src/dtls_client.c\<close> in time: every request ends, and the schedule
  of its retransmissions. The simplification rules on the state of the client that the later theories share
  are here, too.
\<close>

section \<open>What the end of a request leaves\<close>

abbreviation pending_request :: "('s, 'd) dtls_client \<Rightarrow> bool" where
  "pending_request c \<equiv> dtls_pending_request (request_state (app c))"

lemma pending_states [simp]:
  "\<not> dtls_pending_request NONE" "\<not> dtls_pending_request WAIT_SUSPEND" "\<not> dtls_pending_request INCOMING_DATA"
  "dtls_pending_request SEND" "dtls_pending_request RECEIVE" "dtls_pending_request WAIT_RESPONSE"
  "dtls_pending_request SEND_ACK"
  by (simp_all add: dtls_pending_request_def)

lemma on_app_simps [simp]:
  "app (on_app f c) = f (app c)" "general_states (on_app f c) = general_states c" "out (on_app f c) = out c"
  "clients_state (on_app f c) = clients_state c" "dtls_context (on_app f c) = dtls_context c"
  "loops (on_app f c) = loops c" "failures (on_app f c) = failures c" "coap_timeout (on_app f c) = coap_timeout c"
  "dtls_buffer (on_app f c) = dtls_buffer c" "lte_power_on_off (on_app f c) = lte_power_on_off c"
  by (simp_all add: on_app_def)

lemma flag_simps [simp]:
  "app (set_flag g c) = app c" "general_states (set_flag g c) = insert g (general_states c)" "out (set_flag g c) = out c"
  "clients_state (set_flag g c) = clients_state c" "dtls_context (set_flag g c) = dtls_context c"
  "loops (set_flag g c) = loops c" "failures (set_flag g c) = failures c" "coap_timeout (set_flag g c) = coap_timeout c"
  "dtls_buffer (set_flag g c) = dtls_buffer c" "lte_power_on_off (set_flag g c) = lte_power_on_off c"
  "app (clear_flags gs c) = app c" "general_states (clear_flags gs c) = general_states c - gs" "out (clear_flags gs c) = out c"
  "clients_state (clear_flags gs c) = clients_state c" "dtls_context (clear_flags gs c) = dtls_context c"
  "loops (clear_flags gs c) = loops c" "failures (clear_flags gs c) = failures c"
  "coap_timeout (clear_flags gs c) = coap_timeout c" "dtls_buffer (clear_flags gs c) = dtls_buffer c"
  "lte_power_on_off (clear_flags gs c) = lte_power_on_off c"
  by (simp_all add: set_flag_def clear_flags_def)

lemma emit_simps [simp]:
  "app (emit os c) = app c" "general_states (emit os c) = general_states c" "out (emit os c) = out c @ os"
  "clients_state (emit os c) = clients_state c" "dtls_context (emit os c) = dtls_context c"
  "loops (emit os c) = loops c" "failures (emit os c) = failures c" "coap_timeout (emit os c) = coap_timeout c"
  "dtls_buffer (emit os c) = dtls_buffer c" "lte_power_on_off (emit os c) = lte_power_on_off c"
  by (simp_all add: emit_def)

lemma on_clients_simps [simp]:
  "app (on_clients f c) = app c" "general_states (on_clients f c) = general_states c" "out (on_clients f c) = out c"
  "clients_state (on_clients f c) = f (clients_state c)" "dtls_context (on_clients f c) = dtls_context c"
  "loops (on_clients f c) = loops c" "failures (on_clients f c) = failures c" "coap_timeout (on_clients f c) = coap_timeout c"
  "dtls_buffer (on_clients f c) = dtls_buffer c" "lte_power_on_off (on_clients f c) = lte_power_on_off c"
  by (simp_all add: on_clients_def)

lemma next_schedule_simps [simp]:
  "app (next_schedule i c) = app c" "general_states (next_schedule i c) = general_states c" "out (next_schedule i c) = out c"
  "clients_state (next_schedule i c) = clients_state c" "dtls_context (next_schedule i c) = dtls_context c"
  "failures (next_schedule i c) = failures c" "trigger_msg_sem (next_schedule i c) = trigger_msg_sem c"
  "send_buffer (next_schedule i c) = send_buffer c"
  by (simp_all add: next_schedule_def set_next_send_interval_def schedule_timer_def reschedule_timer_def Let_def)

lemma request_state_next:
  "request_state (app (dtls_coap_next env i c)) = (if lte_power_off c \<or> lte_power_on_off c then NONE else WAIT_SUSPEND)"
  by (simp add: dtls_coap_next_def change_request_state_def Let_def client_defs)

lemma next_not_pending: "\<not> pending_request (dtls_coap_next env i c)"
  by (simp add: request_state_next dtls_pending_request_def)

lemma success_not_pending: "\<not> pending_request (dtls_coap_success env c)"
  by (simp add: dtls_coap_success_def Let_def next_not_pending split: prod.split)

lemma failure_not_pending: "\<not> pending_request (dtls_coap_failure env c)"
  by (simp add: dtls_coap_failure_def Let_def next_not_pending split: prod.split)

text \<open>A client that speaks plain CoAP: no DTLS context, and nothing of a handshake.\<close>

definition plain_coap :: "('s, 'd) dtls_client \<Rightarrow> bool" where
  "plain_coap c \<longleftrightarrow> dtls_context c = None \<and> protocol (app c) \<noteq> PROTOCOL_COAP_DTLS \<and> \<not> dtls_pend (app c) \<and>
     dtls_flight (app c) = 0 \<and> \<not> dtls_next_flight (app c)"

lemma plain_coap_cong:
  assumes "dtls_context c' = dtls_context c" "protocol (app c') = protocol (app c)" "dtls_pend (app c') = dtls_pend (app c)"
    "dtls_flight (app c') = dtls_flight (app c)" "dtls_next_flight (app c') = dtls_next_flight (app c)"
  shows "plain_coap c' \<longleftrightarrow> plain_coap c"
  using assms by (simp add: plain_coap_def)

lemma plain_next: "plain_coap (dtls_coap_next env i c) \<longleftrightarrow> plain_coap c"
  by (rule plain_coap_cong) (simp_all add: dtls_coap_next_def change_request_state_def Let_def client_defs)

lemma plain_result: "plain_coap c \<Longrightarrow> plain_coap (snd (call_result_handler env b c))"
  by (auto simp: call_result_handler_def dtls_app_coap_result_handler_def dtls_app_prov_result_handler_def
      dtls_app_download_result_handler_def dtls_pending_def plain_coap_def client_defs Let_def split: dtls_app_result_handler.split)

lemma plain_statistics: "plain_coap (success_statistics c) \<longleftrightarrow> plain_coap c"
  by (rule plain_coap_cong) (simp_all add: success_statistics_def Let_def client_defs)

lemma plain_simps [simp]:
  "plain_coap (set_flag g c) = plain_coap c" "plain_coap (clear_flags gs c) = plain_coap c"
  "plain_coap (on_clients f c) = plain_coap c" "plain_coap (emit os c) = plain_coap c"
  "plain_coap (dtls_coap_clear_failures c) = plain_coap c" "plain_coap (change_request_state s c) = plain_coap c"
  "plain_coap (c\<lparr>loops := l\<rparr>) = plain_coap c" "plain_coap (c\<lparr>general_states := gs\<rparr>) = plain_coap c"
  "plain_coap (c\<lparr>clients_state := st\<rparr>) = plain_coap c"
  by (simp_all add: plain_coap_def dtls_coap_clear_failures_def change_request_state_def)

lemma plain_success: "plain_coap c \<Longrightarrow> plain_coap (dtls_coap_success env c)"
  by (simp add: dtls_coap_success_def Let_def case_prod_beta plain_next plain_result plain_statistics)

lemma plain_failure: "plain_coap c \<Longrightarrow> plain_coap (dtls_coap_failure env c)"
proof -
  assume p: "plain_coap c"
  define c1 where "c1 = (if ne_led_red env then (set_flag PM_PREVENT_SUSPEND c)\<lparr>suspend_work := Some 10\<rparr> else c)"
  define c2 where "c2 = c1\<lparr>failures := failures c1 + 1\<rparr>"
  define c3 where "c3 = (if APPL_INITIAL_SUCCESS \<in> general_states c2 then snd (dtls_coap_inc_failures c2) else c2)"
  have "plain_coap c3"
    using p by (simp add: c3_def c2_def c1_def plain_coap_def dtls_coap_inc_failures_def Let_def)
  then have "plain_coap (snd (call_result_handler env False c3))" by (rule plain_result)
  then show ?thesis
    unfolding dtls_coap_failure_def Let_def case_prod_beta plain_next c1_def [symmetric] c2_def [symmetric] c3_def [symmetric]
    by (simp add: plain_coap_def)
qed

lemma plain_set_state: "plain_coap c \<Longrightarrow> plain_coap (dtls_coap_set_request_state env s c)"
  by (auto simp: dtls_coap_set_request_state_def plain_success)

lemma set_state_pending:
  "pending_request (dtls_coap_set_request_state env s c) \<Longrightarrow>
   request_state (app (dtls_coap_set_request_state env s c)) = s \<and>
   retransmission (app (dtls_coap_set_request_state env s c)) = retransmission (app c) \<and>
   loops (dtls_coap_set_request_state env s c) = loops c"
  by (auto simp: dtls_coap_set_request_state_def change_request_state_def success_not_pending split: if_splits)

text \<open>Sending leaves the request as it is, but for its timeout.\<close>

lemma send_to_peer_plain:
  assumes "plain_coap c"
  shows "plain_coap (snd (send_to_peer env data c))"
    and "request_state (app (snd (send_to_peer env data c))) = request_state (app c)"
    and "retransmission (app (snd (send_to_peer env data c))) = retransmission (app c)"
    and "loops (snd (send_to_peer env data c)) = loops c"
  using assms
  by (auto simp: send_to_peer_def plain_coap_def network_adjust_initial_timeout_def Let_def split: prod.split)

lemma send_message_plain:
  assumes "plain_coap c"
  shows "plain_coap (snd (send_message env c))"
    and "request_state (app (snd (send_message env c))) \<in> {request_state (app c), WAIT_SUSPEND}"
    and "retransmission (app (snd (send_message env c))) = retransmission (app c)"
    and "loops (snd (send_message env c)) = loops c"
proof -
  have "dtls_context c = None" using assms by (simp add: plain_coap_def)
  note s = send_message_def [of env c] this Let_def
  show "plain_coap (snd (send_message env c))"
    using assms by (auto simp: s send_to_peer_plain plain_set_state split: prod.split)
  show "request_state (app (snd (send_message env c))) \<in> {request_state (app c), WAIT_SUSPEND}"
    "retransmission (app (snd (send_message env c))) = retransmission (app c)"
    "loops (snd (send_message env c)) = loops c"
    using assms by (auto simp: s send_to_peer_plain dtls_coap_set_request_state_def change_request_state_def split: prod.split)
qed

lemma check_socket_simps [simp]:
  "request_state (app (snd (check_socket env c))) = request_state (app c)"
  "retransmission (app (snd (check_socket env c))) = retransmission (app c)"
  "loops (snd (check_socket env c)) = loops c" "plain_coap (snd (check_socket env c)) = plain_coap c"
  by (simp_all add: check_socket_def close_socket_def plain_coap_def Let_def)

lemma sendto_peer_plain:
  assumes "plain_coap c"
  shows "plain_coap (snd (sendto_peer env c))"
    and "pending_request (snd (sendto_peer env c)) \<Longrightarrow>
      request_state (app (snd (sendto_peer env c))) \<in> {request_state (app c), RECEIVE} \<and>
      retransmission (app (snd (sendto_peer env c))) = retransmission (app c) \<and> loops (snd (sendto_peer env c)) = loops c"
proof -
  obtain r c1 where m: "send_message env c = (r, c1)" by fastforce
  obtain e c2 where k: "check_socket env c1 = (e, c2)" by fastforce
  have c1: "plain_coap c1" "request_state (app c1) \<in> {request_state (app c), WAIT_SUSPEND}"
      "retransmission (app c1) = retransmission (app c)" "loops c1 = loops c"
    using send_message_plain [OF assms, of env] m by simp_all
  have c2: "plain_coap c2" "request_state (app c2) = request_state (app c1)"
      "retransmission (app c2) = retransmission (app c1)" "loops c2 = loops c1"
    using check_socket_simps [of env c1] c1(1) k by simp_all
  have np: "\<not> dtls_pend (app c)" using assms by (simp add: plain_coap_def)
  note s = sendto_peer_def [of env c] Let_def m k
  show "plain_coap (snd (sendto_peer env c))"
    using np c1(1) c2(1) by (simp add: s plain_failure plain_set_state)
  assume q: "pending_request (snd (sendto_peer env c))"
  then show "request_state (app (snd (sendto_peer env c))) \<in> {request_state (app c), RECEIVE} \<and>
      retransmission (app (snd (sendto_peer env c))) = retransmission (app c) \<and> loops (snd (sendto_peer env c)) = loops c"
    using np c1 c2 set_state_pending [of env RECEIVE c1]
    by (auto simp: s failure_not_pending split: if_splits)
qed

section \<open>Every request ends\<close>

text \<open>Seconds without a datagram, in each of which modem and environment are in any state; the run stops
  when the request has ended.\<close>

fun run_timeouts :: "(('s, 'd) net_env \<times> general_state set) list \<Rightarrow> ('s, 'd) dtls_client \<Rightarrow> ('s, 'd) dtls_client" where
  "run_timeouts [] c = c"
| "run_timeouts ((env, gs) # es) c =
     (if pending_request c then run_timeouts es (loop_timeout env (c\<lparr>general_states := gs\<rparr>)) else c)"

text \<open>A bound of the seconds a request still takes; \<open>E\<close> bounds the time added for a modem that listens only from
  time to time (eDRX).\<close>

definition ticks_left :: "nat \<Rightarrow> ('s, 'd) dtls_client \<Rightarrow> nat" where
  "ticks_left E c =
     (let attempts = (3 - unat (retransmission (app c))) * (65600 + E)
      in case request_state (app c) of
           SEND \<Rightarrow> attempts + (65538 + E) + nat (61 - loops c)
         | RECEIVE \<Rightarrow> attempts + nat (65536 + int E - loops c) + 1
         | _ \<Rightarrow> nat (61 - loops c))"

definition edrx_ok :: "nat \<Rightarrow> ('s, 'd) net_env \<Rightarrow> bool" where
  "edrx_ok E env \<longleftrightarrow> (case ne_edrx env of None \<Rightarrow> True | Some t \<Rightarrow> t \<le> int E)"

abbreviation (input) timed_states :: "request_state_t set" where
  "timed_states \<equiv> {SEND, RECEIVE, WAIT_RESPONSE}"

lemma timeout_send_left:
  assumes "plain_coap c" "request_state (app c) = SEND" "0 \<le> loops c" "pending_request (timeout_send env (c\<lparr>loops := loops c + 1\<rparr>))"
  defines "c' \<equiv> timeout_send env (c\<lparr>loops := loops c + 1\<rparr>)"
  shows "plain_coap c' \<and> request_state (app c') \<in> timed_states \<and> 0 \<le> loops c' \<and> ticks_left E c' < ticks_left E c"
proof (cases "LTE_CONNECTED_TO_SEND \<in> general_states c")
  case True
  define c1 where "c1 = (clear_flags {LTE_CONNECTED_TO_SEND} (c\<lparr>loops := loops c + 1\<rparr>))\<lparr>loops := 0\<rparr>"
  define c2 where "c2 = (if retransmission (app c1) > 0 then c1 else snd (network_adjust_initial_timeout env True c1))"
  have c': "c' = dtls_coap_set_request_state env RECEIVE c2"
    using True by (simp add: c'_def timeout_send_def Let_def c2_def c1_def)
  have c2: "plain_coap c2" "loops c2 = 0" "retransmission (app c2) = retransmission (app c)"
    using assms(1) by (simp_all add: c2_def c1_def network_adjust_initial_timeout_def plain_coap_def Let_def)
  have "request_state (app c') = RECEIVE \<and> retransmission (app c') = retransmission (app c) \<and> loops c' = 0"
    using set_state_pending [of env RECEIVE c2] assms(4) c2 c' c'_def by simp
  moreover have "plain_coap c'" using plain_set_state [OF c2(1)] c' by simp
  ultimately show ?thesis using assms(2) by (simp add: ticks_left_def Let_def)
next
  case False
  then show ?thesis
    using assms by (auto simp: timeout_send_def failure_not_pending ticks_left_def Let_def split: if_splits)
qed

lemma resend_left:
  assumes "plain_coap c" "retransmission (app c) < COAP_MAX_RETRANSMISSION" "pending_request (loop_resend env c)"
  shows "plain_coap (loop_resend env c) \<and> request_state (app (loop_resend env c)) \<in> {SEND, RECEIVE} \<and>
    loops (loop_resend env c) = 0 \<and> retransmission (app (loop_resend env c)) = retransmission (app c) + 1"
proof -
  define c1 where "c1 = c\<lparr>loops := 0\<rparr>"
  define c2 where "c2 = (if retransmission (app c) = 0 then snd (network_adjust_initial_timeout env False c1) else c1)"
  define c3 where "c3 = on_app (\<lambda>a. a\<lparr>timeout := push_bit 1 (timeout a)\<rparr>) c2"
  define c4 where "c4 = (if retransmission (app c) = 0
      then emit [Set_Psm (max (cfg_psm_retrans_rat env) (uint (timeout (app c3)) + 4)) 5] c3 else c3)"
  define c5 where "c5 = on_app (\<lambda>a. a\<lparr>retransmission := retransmission a + 1\<rparr>) c4"
  define c6 where "c6 = on_app (\<lambda>a. a\<lparr>rai := False\<rparr>) (dtls_coap_set_request_state env SEND c5)"
  have r: "loop_resend env c = snd (sendto_peer env c6)"
    unfolding loop_resend_def Let_def c6_def c5_def c4_def c3_def c2_def c1_def ..
  have c6: "plain_coap c6" "request_state (app c6) = SEND" "retransmission (app c6) = retransmission (app c) + 1" "loops c6 = 0"
    using assms(1)
    by (auto simp: c6_def c5_def c4_def c3_def c2_def c1_def network_adjust_initial_timeout_def plain_coap_def Let_def
        dtls_coap_set_request_state_def change_request_state_def)
  show ?thesis using sendto_peer_plain [OF c6(1), of env] assms(3) c6 r by auto
qed

lemma u8_attempts:
  assumes "(r :: u8) < 3"
  shows "3 - unat r = Suc (3 - unat (r + 1))"
proof -
  have "unat r < 3" using assms by (simp add: word_less_nat_alt)
  then have "unat (r + 1) = unat r + 1" by (simp add: unat_plus_if')
  with \<open>unat r < 3\<close> show ?thesis by simp
qed

lemma timeout_receive_left:
  assumes "plain_coap c" "request_state (app c) = RECEIVE" "0 \<le> loops c" "edrx_ok E env" "3 \<le> E"
    and "pending_request (timeout_receive env (c\<lparr>loops := loops c + 1\<rparr>))"
  defines "c' \<equiv> timeout_receive env (c\<lparr>loops := loops c + 1\<rparr>)"
  shows "plain_coap c' \<and> request_state (app c') \<in> timed_states \<and> 0 \<le> loops c' \<and> ticks_left E c' < ticks_left E c"
proof -
  let ?c1 = "c\<lparr>loops := loops c + 1\<rparr>"
  define temp where "temp = (if LTE_CONNECTED \<in> general_states c then uint (timeout (app c))
      else if retransmission (app c) \<ge> COAP_MAX_RETRANSMISSION then loops c
      else uint (timeout (app c)) + network_additional_timeout env ?c1)"
  have c': "c' = (if loops c + 1 \<le> temp then ?c1
      else if retransmission (app c) < COAP_MAX_RETRANSMISSION then loop_resend env ?c1 else dtls_coap_failure env ?c1)"
    by (simp add: c'_def timeout_receive_def temp_def Let_def)
  have "uint (timeout (app c)) \<le> 65535" using uint_lt2p [of "timeout (app c)"] by simp
  moreover have "network_additional_timeout env ?c1 \<le> int E"
    using assms(4,5) by (auto simp: network_additional_timeout_def edrx_ok_def split: option.splits)
  ultimately have temp: "loops c + 1 \<le> 65535 + int E" if "loops c + 1 \<le> temp" using that by (auto simp: temp_def split: if_splits)
  consider "loops c + 1 \<le> temp" | "\<not> loops c + 1 \<le> temp" "retransmission (app c) < COAP_MAX_RETRANSMISSION"
    using assms(6) c' c'_def failure_not_pending [of env ?c1] by (auto split: if_splits)
  then show ?thesis
  proof cases
    case 1
    then show ?thesis using assms(1-3) temp c' by (auto simp: ticks_left_def Let_def)
  next
    case 2
    then have "pending_request (loop_resend env ?c1)" "c' = loop_resend env ?c1" using assms(6) c' c'_def by simp_all
    then have "plain_coap c' \<and> request_state (app c') \<in> {SEND, RECEIVE} \<and> loops c' = 0 \<and>
        retransmission (app c') = retransmission (app c) + 1"
      using resend_left [of ?c1 env] assms(1) 2(2) by simp
    then show ?thesis using assms(2,3) u8_attempts [OF 2(2)] by (auto simp: ticks_left_def Let_def algebra_simps)
  qed
qed

lemma timeout_left:
  assumes "plain_coap c" "request_state (app c) \<in> timed_states" "0 \<le> loops c" "edrx_ok E env" "3 \<le> E"
    and "pending_request (loop_timeout env (c\<lparr>general_states := gs\<rparr>))"
  defines "c' \<equiv> loop_timeout env (c\<lparr>general_states := gs\<rparr>)"
  shows "plain_coap c' \<and> request_state (app c') \<in> timed_states \<and> 0 \<le> loops c' \<and> ticks_left E c' < ticks_left E c"
proof -
  let ?c = "c\<lparr>general_states := gs\<rparr>"
  have t: "ticks_left E ?c = ticks_left E c" by (simp add: ticks_left_def Let_def split: request_state_t.split)
  consider "request_state (app c) = SEND" | "request_state (app c) = RECEIVE" | "request_state (app c) = WAIT_RESPONSE"
    using assms(2) by blast
  then show ?thesis
  proof cases
    case 1
    then have "c' = timeout_send env (?c\<lparr>loops := loops ?c + 1\<rparr>)" by (simp add: c'_def loop_timeout_def Let_def)
    then show ?thesis using timeout_send_left [of ?c env E] assms 1 t by simp
  next
    case 2
    then have "c' = timeout_receive env (?c\<lparr>loops := loops ?c + 1\<rparr>)" by (simp add: c'_def loop_timeout_def Let_def)
    then show ?thesis using timeout_receive_left [of ?c E env] assms 2 t by simp
  next
    case 3
    then show ?thesis
      using assms by (auto simp: loop_timeout_def failure_not_pending ticks_left_def Let_def split: if_splits)
  qed
qed

lemma run_timeouts_ends:
  assumes "plain_coap c" "request_state (app c) \<in> timed_states" "0 \<le> loops c" "3 \<le> E"
    and "\<forall>(env, gs) \<in> set es. edrx_ok E env" "ticks_left E c < length es"
  shows "\<not> pending_request (run_timeouts es c)"
  using assms
proof (induction es arbitrary: c)
  case (Cons e es)
  obtain env gs where e: "e = (env, gs)" by (cases e)
  let ?c' = "loop_timeout env (c\<lparr>general_states := gs\<rparr>)"
  have p: "pending_request c" using Cons.prems(2) by auto
  show ?case
  proof (cases "pending_request ?c'")
    case True
    have "plain_coap ?c' \<and> request_state (app ?c') \<in> timed_states \<and> 0 \<le> loops ?c' \<and> ticks_left E ?c' < ticks_left E c"
      using timeout_left [OF Cons.prems(1-3) _ Cons.prems(4) True] Cons.prems(5) e by simp
    then show ?thesis using Cons.IH [of ?c'] Cons.prems(4-6) p e by simp
  next
    case False
    then have "run_timeouts es ?c' = ?c'" by (cases es) auto
    then show ?thesis using p e False by simp
  qed
qed simp



section \<open>The schedule of the retransmissions\<close>

text \<open>The datagrams a client has sent.\<close>

fun sent_data :: "dtls_out \<Rightarrow> u8 list list" where
  "sent_data (Sent d) = [d]"
| "sent_data _ = []"

definition sent :: "('s, 'd) dtls_client \<Rightarrow> u8 list list" where
  "sent c = concat (map sent_data (out c))"

lemma sent_simps [simp]:
  "sent (on_app f c) = sent c" "sent (set_flag g c) = sent c" "sent (clear_flags gs c) = sent c"
  "sent (on_clients h c) = sent c" "sent (emit os c) = sent c @ concat (map sent_data os)"
  "sent (c\<lparr>loops := l\<rparr>) = sent c" "sent (c\<lparr>general_states := gs\<rparr>) = sent c"
  by (simp_all add: sent_def)

text \<open>A network that stays connected and takes every datagram, and a clear reception.\<close>

definition good_network :: "('s, 'd) net_env \<Rightarrow> bool" where
  "good_network env \<longleftrightarrow> (\<forall>n. 0 \<le> fst (ne_sendto env n)) \<and> ne_time_scale env \<le> 100"

text \<open>The request with message \<open>m\<close> has just been sent for the \<open>r\<close>-th time again and is waiting for \<open>t\<close> seconds.\<close>

definition waiting :: "u8 list \<Rightarrow> u8 \<Rightarrow> u16 \<Rightarrow> ('s, 'd) dtls_client \<Rightarrow> bool" where
  "waiting m r t c \<longleftrightarrow> plain_coap c \<and> request_state (app c) = RECEIVE \<and> retransmission (app c) = r \<and> timeout (app c) = t \<and>
     loops c = 0 \<and> LTE_CONNECTED \<in> general_states c \<and> \<not> no_response (app c) \<and> coap_timeout c \<le> t \<and>
     (\<exists>l. l \<noteq> 0 \<and> h_get_message (coap_handler (app c)) (clients_state c) = (l, m))"

lemma receive_tick:
  "request_state (app c) = RECEIVE \<Longrightarrow> LTE_CONNECTED \<in> general_states c \<Longrightarrow>
   loop_timeout env c =
     (if loops c + 1 \<le> uint (timeout (app c)) then c\<lparr>loops := loops c + 1\<rparr>
      else if retransmission (app c) < COAP_MAX_RETRANSMISSION then loop_resend env (c\<lparr>loops := loops c + 1\<rparr>)
      else dtls_coap_failure env (c\<lparr>loops := loops c + 1\<rparr>))"
  by (simp add: loop_timeout_def timeout_receive_def Let_def)

lemma waiting_ticks:
  assumes "waiting m r t c"
  shows "int k \<le> uint t \<Longrightarrow> (loop_timeout env ^^ k) c = c\<lparr>loops := int k\<rparr>"
proof (induction k)
  case 0
  then show ?case using assms by (simp add: waiting_def)
next
  case (Suc k)
  then have "(loop_timeout env ^^ k) c = c\<lparr>loops := int k\<rparr>" by simp
  then show ?case
    using assms Suc.prems receive_tick [of "c\<lparr>loops := int k\<rparr>" env] by (simp add: waiting_def)
qed

lemma resend_sends:
  assumes "plain_coap c" "\<not> no_response (app c)" "good_network env" "LTE_CONNECTED \<in> general_states c"
    and "request_state (app c) = RECEIVE" "retransmission (app c) + 1 \<noteq> 0" "coap_timeout c \<le> timeout (app c)"
    and "h_get_message (coap_handler (app c)) (clients_state c) = (l, m)" "l \<noteq> 0"
  defines "c' \<equiv> loop_resend env c"
  shows "plain_coap c'" "request_state (app c') = RECEIVE" "retransmission (app c') = retransmission (app c) + 1"
    "timeout (app c') = push_bit 1 (timeout (app c))" "loops c' = 0" "LTE_CONNECTED \<in> general_states c'"
    "\<not> no_response (app c')" "coap_timeout c' = coap_timeout c" "coap_handler (app c') = coap_handler (app c)"
    "clients_state c' = clients_state c" "sent c' = sent c @ [m]" "failures c' = failures c"
proof -
  obtain n e where n: "ne_sendto env (length m) = (n, e)" by fastforce
  then have n0: "\<not> n < 0" using assms(3) by (metis fst_conv good_network_def not_less)
  have scale: "\<not> network_timeout_scale env (coap_timeout c) > timeout (app c)"
    using assms(3,7) by (auto simp: network_timeout_scale_def good_network_def)
  define c1 where "c1 = on_app (\<lambda>a. a\<lparr>timeout := push_bit 1 (timeout a), retransmission := retransmission a + 1,
      request_state := SEND, rai := False\<rparr>)
    (if retransmission (app c) = 0
     then emit [Set_Psm (max (cfg_psm_retrans_rat env) (uint (push_bit 1 (timeout (app c))) + 4)) 5] (c\<lparr>loops := 0\<rparr>)
     else c\<lparr>loops := 0\<rparr>)"
  have c': "c' = snd (sendto_peer env c1)"
    using scale assms(5)
    by (simp add: c'_def loop_resend_def network_adjust_initial_timeout_def dtls_coap_set_request_state_def
        change_request_state_def Let_def c1_def on_app_def emit_def)
  have m: "send_message env c1 = send_to_peer env m c1"
    using assms(1,8,9) by (simp add: send_message_def plain_coap_def c1_def Let_def)
  have c1: "plain_coap c1" "LTE_CONNECTED \<in> general_states c1" "retransmission (app c1) = retransmission (app c) + 1"
      "\<not> rai (app c1)" "request_state (app c1) = SEND" "timeout (app c1) = push_bit 1 (timeout (app c))" "loops c1 = 0"
      "no_response (app c1) = no_response (app c)" "coap_timeout c1 = coap_timeout c" "coap_handler (app c1) = coap_handler (app c)"
      "clients_state c1 = clients_state c" "sent c1 = sent c" "failures c1 = failures c"
    using assms(1,4) by (simp_all add: c1_def plain_coap_def)
  define c2 where "c2 = clear_flags {LTE_SEND} (emit [Transmission_Time] (emit [Sent m]
      (set_flag LTE_SEND (clear_flags {LTE_CONNECTED_TO_SEND} (emit [Set_Rai RAI_MODE_OFF] c1)))))"
  have p: "send_to_peer env m c1 = (n, c2)"
    using c1(1-4) assms(6) n n0 by (simp add: send_to_peer_def plain_coap_def Let_def c2_def)
  have c'': "c' = change_request_state RECEIVE c2"
    using c1 assms(2) n0 m p
    by (simp add: c' sendto_peer_def plain_coap_def Let_def c2_def dtls_coap_set_request_state_def)
  show "plain_coap c'" "request_state (app c') = RECEIVE" "retransmission (app c') = retransmission (app c) + 1"
    "timeout (app c') = push_bit 1 (timeout (app c))" "loops c' = 0" "LTE_CONNECTED \<in> general_states c'"
    "\<not> no_response (app c')" "coap_timeout c' = coap_timeout c" "coap_handler (app c') = coap_handler (app c)"
    "clients_state c' = clients_state c" "sent c' = sent c @ [m]" "failures c' = failures c"
    using c1 assms(2) by (simp_all add: c'' c2_def change_request_state_def plain_coap_def)
qed

lemma waiting_resend:
  assumes "waiting m r t c" "good_network env" "r < COAP_MAX_RETRANSMISSION" "2 * uint t < 65536"
  defines "c' \<equiv> (loop_timeout env ^^ Suc (unat t)) c"
  shows "waiting m (r + 1) (push_bit 1 t) c'" "sent c' = sent c @ [m]" "failures c' = failures c"
proof -
  let ?c = "c\<lparr>loops := uint t\<rparr>" and ?c1 = "c\<lparr>loops := uint t + 1\<rparr>"
  have "c' = loop_timeout env ?c" using waiting_ticks [OF assms(1), of "unat t" env] by (simp add: c'_def)
  then have c': "c' = loop_resend env ?c1" using receive_tick [of ?c env] assms(1,3) by (simp add: waiting_def)
  have "uint (push_bit 1 t) = 2 * uint t" using assms(4) by (simp add: push_bit_eq_mult uint_word_ariths)
  then have t: "t \<le> push_bit 1 t" by (simp add: word_le_def)
  have "unat r < 3" using assms(3) by (simp add: word_less_nat_alt)
  then have "unat (r + 1) = unat r + 1" by (simp add: unat_plus_if')
  then have r: "r + 1 \<noteq> 0" by (metis add_is_0 one_neq_zero unat_0)
  obtain l where l: "l \<noteq> 0" "h_get_message (coap_handler (app c)) (clients_state c) = (l, m)"
    using assms(1) by (auto simp: waiting_def)
  have "waiting m (r + 1) (push_bit 1 t) c' \<and> sent c' = sent c @ [m] \<and> failures c' = failures c"
    using resend_sends [of ?c1 env l m] assms(1,2) l r t unfolding c' waiting_def by auto
  then show "waiting m (r + 1) (push_bit 1 t) c'" "sent c' = sent c @ [m]" "failures c' = failures c" by simp_all
qed

lemma trigger_simps [simp]:
  "app (dtls_trigger env cause b c) = app c" "app (dtls_cmd_trigger env cause b b' c) = app c"
  by (simp_all add: dtls_trigger_def dtls_cmd_trigger_def Let_def)

lemma timeout_keeps_ended: "\<not> pending_request c \<Longrightarrow> \<not> pending_request (loop_timeout env c)"
  by (cases "request_state (app c)")
    (auto simp: loop_timeout_def timeout_suspend_def timeout_incoming_def dtls_coap_set_request_state_def
      change_request_state_def Let_def)

lemma timeouts_keep_ended: "\<not> pending_request c \<Longrightarrow> \<not> pending_request ((loop_timeout env ^^ n) c)"
  by (induction n) (simp_all add: timeout_keeps_ended)

lemma pending_before:
  assumes "pending_request ((loop_timeout env ^^ n) c)" "k \<le> n"
  shows "pending_request ((loop_timeout env ^^ k) c)"
proof (rule ccontr)
  assume "\<not> ?thesis"
  then have "\<not> pending_request ((loop_timeout env ^^ (n - k)) ((loop_timeout env ^^ k) c))" by (rule timeouts_keep_ended)
  moreover have "(loop_timeout env ^^ (n - k)) ((loop_timeout env ^^ k) c) = (loop_timeout env ^^ n) c"
    using assms(2) funpow_add [of "n - k" k "loop_timeout env"] by (simp add: comp_def)
  ultimately show False using assms(1) by simp
qed

lemma result_simps [simp]:
  "out (snd (call_result_handler env b c)) = out c" "failures (snd (call_result_handler env b c)) = failures c"
  "general_states (snd (call_result_handler env b c)) = general_states c"
  "send_buffer (snd (call_result_handler env b c)) = send_buffer c"
  "send_ival (snd (call_result_handler env b c)) = send_ival c"
  "current_failures (snd (call_result_handler env b c)) = current_failures c"
  "handled_failures (snd (call_result_handler env b c)) = handled_failures c"
  by (cases "result_handler (app c)"; simp add: call_result_handler_def dtls_app_coap_result_handler_def
      dtls_app_prov_result_handler_def dtls_app_download_result_handler_def dtls_pending_def Let_def on_app_def on_clients_def)+

lemma next_simps [simp]:
  "sent (dtls_coap_next env i c) = sent c" "failures (dtls_coap_next env i c) = failures c"
  by (simp_all add: dtls_coap_next_def change_request_state_def Let_def sent_def)

text \<open>A failure in terms of \<open>dtls_coap_next\<close>.\<close>

lemma failure_next:
  "\<exists>i c'. dtls_coap_failure env c = dtls_coap_next env i c' \<and> out c' = out c \<and> failures c' = failures c + 1 \<and>
     send_buffer c' = send_buffer c \<and> send_ival c' = send_ival c \<and>
     (APPL_INITIAL_SUCCESS \<in> general_states c \<longrightarrow> APPL_INITIAL_SUCCESS \<in> general_states c') \<and>
     handled_failures c' = handled_failures c \<and>
     current_failures c' = (if APPL_INITIAL_SUCCESS \<in> general_states c \<and> current_failures c = handled_failures c
       then current_failures c + 1 else current_failures c) \<and>
     protocol (app c') = protocol (app c) \<and>
     (clients_state c' = clients_state c \<or> clients_state c' = cl_update_cancel (ne_clients env) (clients_state c))"
proof -
  define c1 where "c1 = (if ne_led_red env then (set_flag PM_PREVENT_SUSPEND c)\<lparr>suspend_work := Some 10\<rparr> else c)"
  define c2 where "c2 = c1\<lparr>failures := failures c1 + 1\<rparr>"
  define c3 where "c3 = (if APPL_INITIAL_SUCCESS \<in> general_states c2 then snd (dtls_coap_inc_failures c2) else c2)"
  define c4 where "c4 = snd (call_result_handler env False c3)"
  define c5 where "c5 = (if dtls_pend (app c4) then on_app (\<lambda>a. a\<lparr>dtls_next_flight := False, dtls_flight := 0\<rparr>) c4 else c4)"
  define i where "i = (if cfg_failure_send_interval env > 0 \<and> fst (call_result_handler env False c3) = 0
      then cfg_failure_send_interval env else fst (call_result_handler env False c3))"
  have f: "dtls_coap_failure env c = dtls_coap_next env i c5"
    unfolding dtls_coap_failure_def Let_def case_prod_beta i_def c5_def c4_def c3_def c2_def c1_def ..
  have c1: "out c1 = out c" "failures c1 = failures c" "send_buffer c1 = send_buffer c" "send_ival c1 = send_ival c"
      "general_states c1 = (if ne_led_red env then insert PM_PREVENT_SUSPEND (general_states c) else general_states c)"
      "handled_failures c1 = handled_failures c" "current_failures c1 = current_failures c" "app c1 = app c"
      "clients_state c1 = clients_state c"
    by (simp_all add: c1_def set_flag_def)
  have c3: "out c3 = out c" "failures c3 = failures c + 1" "send_buffer c3 = send_buffer c" "send_ival c3 = send_ival c"
      "general_states c3 = general_states c1" "handled_failures c3 = handled_failures c" "app c3 = app c"
      "current_failures c3 = (if APPL_INITIAL_SUCCESS \<in> general_states c \<and> current_failures c = handled_failures c
         then current_failures c + 1 else current_failures c)"
      "clients_state c3 = clients_state c"
    by (auto simp: c3_def c2_def c1 dtls_coap_inc_failures_def Let_def)
  have c4: "protocol (app c4) = protocol (app c)"
      "clients_state c4 = clients_state c \<or> clients_state c4 = cl_update_cancel (ne_clients env) (clients_state c)"
    by (cases "result_handler (app c3)"; simp add: c4_def c3 call_result_handler_def dtls_app_coap_result_handler_def
        dtls_app_prov_result_handler_def dtls_app_download_result_handler_def)+
  show ?thesis
    by (rule exI [of _ i], rule exI [of _ c5]) (use f c1(5) c3 c4 in \<open>auto simp: c5_def c4_def on_app_def\<close>)
qed

lemma failure_simps [simp]:
  "sent (dtls_coap_failure env c) = sent c" "failures (dtls_coap_failure env c) = failures c + 1"
proof -
  obtain i c' where f: "dtls_coap_failure env c = dtls_coap_next env i c'" "out c' = out c" "failures c' = failures c + 1"
    using failure_next [of env c] by blast
  then show "sent (dtls_coap_failure env c) = sent c" "failures (dtls_coap_failure env c) = failures c + 1"
    by (simp_all add: sent_def [of c] sent_def [of c'])
qed

text \<open>C4. The schedule of the retransmissions: on a network that stays connected, a request that has just been sent
  with a timeout of \<open>t\<close> seconds, and to which no datagram arrives, is sent three times more, with the timeout
  doubled each time, and fails after \<open>15 t + 4\<close> seconds, not before.\<close>

theorem retransmission_schedule:
  assumes "waiting m 0 t c" "good_network env" "8 * uint t < 65536"
  defines "n \<equiv> 15 * unat t + 4"
  shows "\<not> dtls_pending_request (request_state (app ((loop_timeout env ^^ n) c))) \<and>
    sent ((loop_timeout env ^^ n) c) = sent c @ [m, m, m] \<and> failures ((loop_timeout env ^^ n) c) = failures c + 1 \<and>
    (\<forall>k < n. dtls_pending_request (request_state (app ((loop_timeout env ^^ k) c))))"
proof -
  let ?f = "loop_timeout env"
  have dbl: "uint (push_bit 1 t') = 2 * uint t' \<and> unat (push_bit 1 t') = 2 * unat t'" if "2 * uint t' < 65536" for t' :: u16
  proof -
    have "uint (push_bit 1 t') = 2 * uint t'" using that by (simp add: push_bit_eq_mult uint_word_ariths)
    moreover from this have "int (unat (push_bit 1 t')) = int (2 * unat t')" by (simp only: of_nat_mult of_nat_numeral uint_nat [symmetric])
    ultimately show ?thesis by (simp only: of_nat_eq_iff)
  qed
  define t1 where "t1 = push_bit 1 t"
  define t2 where "t2 = push_bit 1 t1"
  define t3 where "t3 = push_bit 1 t2"
  have t: "uint t1 = 2 * uint t" "unat t1 = 2 * unat t" "uint t2 = 4 * uint t" "unat t2 = 4 * unat t"
      "uint t3 = 8 * uint t" "unat t3 = 8 * unat t"
    using dbl [of t] dbl [of t1] dbl [of t2] assms(3) by (simp_all add: t1_def t2_def t3_def)
  define c1 where "c1 = (?f ^^ Suc (unat t)) c"
  define c2 where "c2 = (?f ^^ Suc (unat t1)) c1"
  define c3 where "c3 = (?f ^^ Suc (unat t2)) c2"
  have "waiting m 1 t1 c1" "sent c1 = sent c @ [m]" "failures c1 = failures c"
    using waiting_resend [OF assms(1,2)] assms(3) by (simp_all add: c1_def t1_def)
  moreover from this have "waiting m 2 t2 c2" "sent c2 = sent c1 @ [m]" "failures c2 = failures c1"
    using waiting_resend [of m 1 t1 c1 env] assms(2,3) t(1) by (simp_all add: c2_def t2_def)
  moreover from this have w3: "waiting m 3 t3 c3" "sent c3 = sent c2 @ [m]" "failures c3 = failures c2"
    using waiting_resend [of m 2 t2 c2 env] assms(2,3) t(3) by (simp_all add: c3_def t3_def)
  ultimately have s3: "sent c3 = sent c @ [m, m, m]" "failures c3 = failures c" by simp_all
  have last: "(?f ^^ unat t3) c3 = c3\<lparr>loops := uint t3\<rparr>" using waiting_ticks [OF w3(1), of "unat t3" env] by simp
  then have fail: "(?f ^^ Suc (unat t3)) c3 = dtls_coap_failure env (c3\<lparr>loops := uint t3 + 1\<rparr>)"
    using receive_tick [of "c3\<lparr>loops := uint t3\<rparr>" env] w3(1) by (simp add: waiting_def)
  have c3: "(?f ^^ (k + (Suc (unat t2) + (Suc (unat t1) + Suc (unat t))))) c = (?f ^^ k) c3" for k
    by (simp only: funpow_add comp_apply c1_def c2_def c3_def)
  have n: "n = Suc (unat t3) + (Suc (unat t2) + (Suc (unat t1) + Suc (unat t)))" by (simp add: n_def t)
  have "pending_request ((?f ^^ (n - 1)) c)"
  proof -
    have "n - 1 = unat t3 + (Suc (unat t2) + (Suc (unat t1) + Suc (unat t)))" by (simp add: n)
    then show ?thesis using w3(1) by (simp only: c3 last) (simp add: waiting_def)
  qed
  then have "pending_request ((?f ^^ k) c)" if "k < n" for k using pending_before [of "n - 1" env c k] that by simp
  then show ?thesis
    unfolding n c3 fail using failure_not_pending [of env] s3 by (simp add: n c3 fail)
qed

theorem retransmission_schedule_witness:
  "sent ((loop_timeout (sim_net sim_clients) ^^ 49) (sim_client sim_handler RECEIVE ())) = [[1, 2, 3], [1, 2, 3], [1, 2, 3]]"
proof -
  have "waiting [1, 2, 3] 0 3 (sim_client sim_handler RECEIVE ())"
    by (simp add: waiting_def plain_coap_def sim_defs)
  moreover have "good_network (sim_net sim_clients)" by (simp add: good_network_def sim_defs)
  moreover have "sent (sim_client sim_handler RECEIVE ()) = []" by (simp add: sent_def sim_defs)
  ultimately show ?thesis
    using retransmission_schedule [of "[1, 2, 3]" 3 "sim_client sim_handler RECEIVE ()" "sim_net sim_clients"]
    by (simp del: funpow.simps)
qed

end
