(* ===== verification/Device.thy ===== *)
theory Device
  imports Request_Machine
begin

text \<open>
  The device: the CoAP clients of \<open>src/src/coap_appl_client.c\<close>, \<open>src/src/coap_prov_client.c\<close> and
  \<open>src/src/appl_update_coap.c\<close> put together as the clients of \<open>src/src/dtls_client.c\<close>.

  The three clients share the token factory and the context of the ACK (\<open>dev_client\<close>), and the update holds the
  state of the reboot. The commands that a reply schedules are collected in \<open>dev_cmds\<close>. \<open>dev_fault\<close> tells that
  one of the clients has read or written outside an array (the time 0, a query that fills its buffer); the
  request is then taken as failed.
\<close>

section \<open>The clients of the device\<close>

record ('c, 'w) device =
  dev_client :: coap_client
  dev_appl :: coap_appl_state
  dev_prov :: coap_prov_state
  dev_update :: "('c, 'w) update_state"
  dev_provisioning :: bool
  dev_cmds :: "(cstring \<times> int) list"
  dev_fault :: bool

record ('p, 'c, 'w) device_env =
  de_coap :: "'p coap_env"
  de_block :: "'p coap_block_env"
  de_dfu :: "('c, 'w) dfu_env"
  de_uptime :: int
  de_mid :: u16
  de_settings :: post_settings
  de_collect :: "u32 \<Rightarrow> string \<Rightarrow> u8 list"
  de_prov_text :: "u8 list"
  de_model :: string
  de_image_version :: cstring

text \<open>A command of the text payload of a reply.\<close>

definition dev_text_action :: "('p, 'c, 'w) device_env \<Rightarrow> text_action \<Rightarrow> ('c, 'w) device \<Rightarrow> ('c, 'w) device" where
  "dev_text_action env a d =
     (case a of
        SH_CMD_APPEND cmd delay \<Rightarrow> d\<lparr>dev_cmds := dev_cmds d @ [(cmd, delay)]\<rparr>
      | APPL_UPDATE_COAP_CMD v \<Rightarrow>
          (case appl_update_coap_cmd (de_dfu env) (de_uptime env) (de_image_version env) v (dev_update d) of
             None \<Rightarrow> d\<lparr>dev_fault := True\<rparr> | Some (_, u) \<Rightarrow> d\<lparr>dev_update := u\<rparr>)
      | TEXT_LOG _ _ \<Rightarrow> d)"

definition dev_appl_parse ::
  "('p, 'c, 'w) device_env \<Rightarrow> u8 list \<Rightarrow> ('c, 'w) device \<Rightarrow> (int + parse_result_t) \<times> ('c, 'w) device" where
  "dev_appl_parse env data d =
     (let (r, st, acts) = coap_appl_client_parse_data (de_coap env) (word_of_int (de_uptime env)) data
                            ((dev_appl d)\<lparr>client := dev_client d\<rparr>)
      in (r, fold (dev_text_action env) acts (d\<lparr>dev_appl := st, dev_client := client st\<rparr>)))"

definition dev_prov_parse ::
  "('p, 'c, 'w) device_env \<Rightarrow> u8 list \<Rightarrow> ('c, 'w) device \<Rightarrow> (int + parse_result_t) \<times> ('c, 'w) device" where
  "dev_prov_parse env data d =
     (let (r, st, finished) = coap_prov_client_parse_data (de_coap env) data ((dev_prov d)\<lparr>prov_client := dev_client d\<rparr>)
      in (r, d\<lparr>dev_prov := st, dev_client := prov_client st,
               dev_provisioning := (dev_provisioning d \<and> \<not> finished)\<rparr>))"

definition dev_update_parse ::
  "('p, 'c, 'w) device_env \<Rightarrow> u8 list \<Rightarrow> ('c, 'w) device \<Rightarrow> (int + parse_result_t) \<times> ('c, 'w) device" where
  "dev_update_parse env data d =
     (let (r, u) = appl_update_coap_parse_data (de_coap env) (de_block env) (de_dfu env) (de_uptime env) data
                     ((dev_update d)\<lparr>upd_client := dev_client d\<rparr>)
      in (r, d\<lparr>dev_update := u, dev_client := upd_client u\<rparr>))"

text \<open>The payload is the one given, or the status that \<open>coap_appl_client.c\<close> collects for the trigger.\<close>

definition dev_prepare_post ::
  "('p, 'c, 'w) device_env \<Rightarrow> u32 \<Rightarrow> u8 list + string \<Rightarrow> ('c, 'w) device \<Rightarrow> int \<times> ('c, 'w) device" where
  "dev_prepare_post env flags p d =
     (let payload = (case p of Inl data \<Rightarrow> data | Inr trigger \<Rightarrow> de_collect env flags trigger)
      in case coap_appl_client_prepare_post (de_coap env) (flags AND COAP_SEND_FLAG_NO_RESPONSE \<noteq> 0) payload
                (de_settings env) (de_mid env) (word_of_int (de_uptime env)) ((dev_appl d)\<lparr>client := dev_client d\<rparr>) of
           None \<Rightarrow> (- EFAULT, d\<lparr>dev_fault := True\<rparr>)
         | Some (res, st) \<Rightarrow> (res, d\<lparr>dev_appl := st, dev_client := client st\<rparr>))"

definition dev_prepare_prov :: "('p, 'c, 'w) device_env \<Rightarrow> ('c, 'w) device \<Rightarrow> int \<times> ('c, 'w) device" where
  "dev_prepare_prov env d =
     (let (res, st) = coap_prov_client_prepare_post (de_coap env) (de_prov_text env) (de_mid env)
                        ((dev_prov d)\<lparr>prov_client := dev_client d\<rparr>)
      in (res, d\<lparr>dev_prov := st, dev_client := prov_client st\<rparr>))"

definition dev_update_next :: "('p, 'c, 'w) device_env \<Rightarrow> ('c, 'w) device \<Rightarrow> ('c, 'w) device" where
  "dev_update_next env d =
     (let (_, u) = appl_update_coap_next (de_coap env) (de_block env) (de_model env) (de_mid env)
                     ((dev_update d)\<lparr>upd_client := dev_client d\<rparr>)
      in d\<lparr>dev_update := u, dev_client := upd_client u\<rparr>)"

definition on_update :: "(('c, 'w) update_state \<Rightarrow> ('c, 'w) update_state) \<Rightarrow> ('c, 'w) device \<Rightarrow> ('c, 'w) device" where
  "on_update f d = d\<lparr>dev_update := f (dev_update d)\<rparr>"

definition on_dfu :: "(('c, 'w) dfu_state \<Rightarrow> ('c, 'w) dfu_state) \<Rightarrow> ('c, 'w) device \<Rightarrow> ('c, 'w) device" where
  "on_dfu f = on_update (\<lambda>u. u\<lparr>upd_dfu := f (upd_dfu u)\<rparr>)"

definition device_clients :: "('p, 'c, 'w) device_env \<Rightarrow> ('c, 'w) device clients" where
  "device_clients env = \<lparr>
     appl_client_handler = \<lparr>h_get_message = (\<lambda>d. coap_appl_client_message (dev_appl d)), h_parse_data = dev_appl_parse env\<rparr>,
     prov_client_handler = \<lparr>h_get_message = (\<lambda>d. coap_prov_client_message (dev_prov d)), h_parse_data = dev_prov_parse env\<rparr>,
     update_client_handler = \<lparr>h_get_message = (\<lambda>d. appl_update_coap_message (dev_update d)), h_parse_data = dev_update_parse env\<rparr>,
     ack_message = (\<lambda>d. coap_client_message (dev_client d)),
     cl_prepare_post = dev_prepare_post env,
     cl_prepare_prov = dev_prepare_prov env,
     cl_is_provisioning = dev_provisioning,
     cl_update_pending = (\<lambda>d. appl_update_coap_pending (dev_update d)),
     cl_update_pending_next = (\<lambda>d. appl_update_coap_pending_next (dev_update d)),
     cl_update_next = dev_update_next env,
     cl_update_cancel = on_update (\<lambda>u. snd (appl_update_coap_cancel (de_dfu env) (de_uptime env) u)),
     cl_update_reboot = on_update (\<lambda>u. snd (appl_update_coap_reboot (de_dfu env) u)),
     cl_image_verify = on_dfu (\<lambda>s. snd (appl_update_image_verify (de_dfu env) s)),
     cl_reboots = (\<lambda>d. appl_reboots (dfu_reboot (upd_dfu (dev_update d)))),
     cl_reboot = (\<lambda>error delay. on_dfu (\<lambda>s. s\<lparr>dfu_reboot := appl_reboot error delay (dfu_reboot s)\<rparr>))\<rparr>"

section \<open>The reboot after failures\<close>

lemma power_management_simps [simp]:
  "app (dtls_power_management env c) = app c" "clients_state (dtls_power_management env c) = clients_state c"
  "current_failures (dtls_power_management env c) = current_failures c"
  "handled_failures (dtls_power_management env c) = handled_failures c"
  "g \<noteq> PM_SUSPENDED \<Longrightarrow> (g \<in> general_states (dtls_power_management env c)) = (g \<in> general_states c)"
  by (auto simp: dtls_power_management_def Let_def client_defs)

lemma restart_simps [simp]:
  "app (restart env e f c) = app c" "current_failures (restart env e f c) = current_failures c"
  "handled_failures (restart env e f c) = handled_failures c"
  "APPL_INITIAL_SUCCESS \<in> general_states c \<Longrightarrow> APPL_INITIAL_SUCCESS \<in> general_states (restart env e f c)"
  by (simp_all add: restart_def Let_def on_clients_def emit_def set_flag_def)

lemma trigger_keeps [simp]:
  "clients_state (dtls_trigger env cause b c) = clients_state c"
  "current_failures (dtls_trigger env cause b c) = current_failures c"
  "handled_failures (dtls_trigger env cause b c) = handled_failures c"
  "g \<noteq> TRIGGER_SEND \<Longrightarrow> (g \<in> general_states (dtls_trigger env cause b c)) = (g \<in> general_states c)"
  by (simp_all add: dtls_trigger_def Let_def client_defs)

lemma dtls_pending_simps [simp]:
  "general_states (snd (dtls_pending c)) = general_states c" "clients_state (snd (dtls_pending c)) = clients_state c"
  "current_failures (snd (dtls_pending c)) = current_failures c" "handled_failures (snd (dtls_pending c)) = handled_failures c"
  "protocol (app (snd (dtls_pending c))) = protocol (app c)" "result_handler (app (snd (dtls_pending c))) = result_handler (app c)"
  "download_progress (app (snd (dtls_pending c))) = download_progress (app c)"
  by (simp_all add: dtls_pending_def on_app_def)

text \<open>A device that has been successful before, with \<open>n\<close> failures since, all of them handled, and without a
  download.\<close>

definition failed :: "nat \<Rightarrow> ('s, 'd) dtls_client \<Rightarrow> bool" where
  "failed n c \<longleftrightarrow> APPL_INITIAL_SUCCESS \<in> general_states c \<and> current_failures c = of_nat n \<and> handled_failures c = of_nat n \<and>
     result_handler (app c) = Coap_Result \<and> download_progress (app c) = 0"

text \<open>A request that fails, and the round of the main loop that handles the failure.\<close>

definition fail_round :: "('s, 'd) net_env \<Rightarrow> ('s, 'd) dtls_client \<Rightarrow> ('s, 'd) dtls_client" where
  "fail_round env c = snd (snd (loop_failures env False (dtls_coap_failure env c)))"

abbreviation (input) reboot_failures :: "('s, 'd) dtls_client \<Rightarrow> nat" where
  "reboot_failures c \<equiv> (if protocol (app c) = PROTOCOL_COAP_DTLS then 4 else 3)"

lemma failure_counters [simp]:
  "current_failures (set_flag g c) = current_failures c" "handled_failures (set_flag g c) = handled_failures c"
  "current_failures (emit os c) = current_failures c" "handled_failures (emit os c) = handled_failures c"
  "current_failures (on_app f c) = current_failures c" "handled_failures (on_app f c) = handled_failures c"
  "current_failures (on_clients h c) = current_failures c" "handled_failures (on_clients h c) = handled_failures c"
  "current_failures (next_schedule i c) = current_failures c" "handled_failures (next_schedule i c) = handled_failures c"
  by (simp_all add: set_flag_def emit_def on_app_def on_clients_def next_schedule_def set_next_send_interval_def
      reschedule_timer_def schedule_timer_def Let_def)

lemma next_keeps:
  "current_failures (dtls_coap_next env i c) = current_failures c"
  "handled_failures (dtls_coap_next env i c) = handled_failures c"
  "result_handler (app (dtls_coap_next env i c)) = result_handler (app c)"
  "download_progress (app (dtls_coap_next env i c)) = download_progress (app c)"
  "protocol (app (dtls_coap_next env i c)) = protocol (app c)"
  "APPL_INITIAL_SUCCESS \<in> general_states c \<Longrightarrow> APPL_INITIAL_SUCCESS \<in> general_states (dtls_coap_next env i c)"
  "download_progress (app c) = 0 \<Longrightarrow> clients_state (dtls_coap_next env i c) = clients_state c"
  by (simp_all add: dtls_coap_next_def change_request_state_def Let_def)

lemma coap_failure_failed:
  fixes env :: "('s, 'd) net_env"
  assumes "failed n c"
  defines "c' \<equiv> dtls_coap_failure env c"
  shows "APPL_INITIAL_SUCCESS \<in> general_states c'" "current_failures c' = of_nat (Suc n)" "handled_failures c' = of_nat n"
    "result_handler (app c') = Coap_Result" "download_progress (app c') = 0" "protocol (app c') = protocol (app c)"
    "clients_state c' = clients_state c"
proof -
  define c1 where "c1 = (if ne_led_red env then (set_flag PM_PREVENT_SUSPEND c)\<lparr>suspend_work := Some 10\<rparr> else c)"
  define c2 where "c2 = snd (dtls_coap_inc_failures (c1\<lparr>failures := failures c1 + 1\<rparr>))"
  define c3 where "c3 = (if dtls_pend (app c2) then on_app (\<lambda>a. a\<lparr>dtls_next_flight := False, dtls_flight := 0\<rparr>) c2 else c2)"
  have c1: "APPL_INITIAL_SUCCESS \<in> general_states c1" "current_failures c1 = of_nat n" "handled_failures c1 = of_nat n"
      "app c1 = app c" "clients_state c1 = clients_state c"
    using assms(1) by (simp_all add: c1_def failed_def set_flag_def)
  have c2: "APPL_INITIAL_SUCCESS \<in> general_states c2" "current_failures c2 = of_nat (Suc n)" "handled_failures c2 = of_nat n"
      "app c2 = app c" "clients_state c2 = clients_state c"
    using c1 by (simp_all add: c2_def dtls_coap_inc_failures_def add.commute)
  have r: "call_result_handler env False c2 = (0, c2)"
    using c2(4) assms(1) by (simp add: call_result_handler_def dtls_app_coap_result_handler_def failed_def)
  have c3: "APPL_INITIAL_SUCCESS \<in> general_states c3" "current_failures c3 = of_nat (Suc n)" "handled_failures c3 = of_nat n"
      "result_handler (app c3) = Coap_Result" "download_progress (app c3) = 0" "protocol (app c3) = protocol (app c)"
      "clients_state c3 = clients_state c"
    using c2 assms(1) by (simp_all add: c3_def failed_def on_app_def)
  have "\<exists>i. c' = dtls_coap_next env i c3"
    using c1(1) r unfolding c'_def dtls_coap_failure_def Let_def c1_def [symmetric] c3_def
    by (simp add: c2_def [symmetric] case_prod_beta) blast
  then obtain i where "c' = dtls_coap_next env i c3" by blast
  then show "APPL_INITIAL_SUCCESS \<in> general_states c'" "current_failures c' = of_nat (Suc n)" "handled_failures c' = of_nat n"
    "result_handler (app c') = Coap_Result" "download_progress (app c') = 0" "protocol (app c') = protocol (app c)"
    "clients_state c' = clients_state c"
    using c3 by (simp_all add: next_keeps del: of_nat_Suc)
qed

lemma fail_round_step:
  fixes env :: "('s, 'd) net_env"
  assumes "failed n c" "n < 100"
  shows "failed (Suc n) (fail_round env c)" "protocol (app (fail_round env c)) = protocol (app c)"
    "\<exists>d. clients_state (fail_round env c) =
       (if Suc n < reboot_failures c then clients_state c
        else clients_state (restart env ERROR_CODE_TOO_MANY_FAILURES False d))"
proof -
  define d where "d = (dtls_coap_failure env c)\<lparr>handled_failures := of_nat (Suc n)\<rparr>"
  note f = coap_failure_failed [OF assms(1), of env]
  have d: "failed (Suc n) d" "protocol (app d) = protocol (app c)" "clients_state d = clients_state c"
    using f by (simp_all add: d_def failed_def)
  have "(of_nat (Suc n) :: u32) \<noteq> of_nat n" by simp
  moreover have "sint (of_nat (Suc n) :: u32) = int (Suc n)"
    using assms(2) by (simp add: signed_of_nat signed_take_bit_int_eq_self del: of_nat_Suc)
  ultimately have nf: "dtls_coap_next_failures (dtls_coap_failure env c) = (int (Suc n), d)"
    using f(2,3) by (simp add: dtls_coap_next_failures_def d_def del: of_nat_Suc)
  consider "n = 0" | "n = 1" | "n = 2" | "2 < n" by linarith
  then have "fail_round env c =
      (if Suc n < 3 then d
       else if Suc n = 3 \<and> protocol (app c) = PROTOCOL_COAP_DTLS then dtls_trigger env ''retry handshake'' True (snd (dtls_pending d))
       else restart env ERROR_CODE_TOO_MANY_FAILURES False d)"
    using nf d(2)
    by cases (simp_all add: fail_round_def loop_failures_def coap_appl_client_retry_strategy_def Let_def)
  then show "failed (Suc n) (fail_round env c)" "protocol (app (fail_round env c)) = protocol (app c)"
    "\<exists>d. clients_state (fail_round env c) =
       (if Suc n < reboot_failures c then clients_state c
        else clients_state (restart env ERROR_CODE_TOO_MANY_FAILURES False d))"
    using d by (auto simp: failed_def)
qed

text \<open>What the main loop relies on: a reboot that was requested is pending.\<close>

locale reboot_clients =
  fixes cl :: "'s clients"
  assumes reboot_pending: "cl_reboots cl (cl_reboot cl error delay s)"
begin

lemma restart_reboots: "ne_clients env = cl \<Longrightarrow> cl_reboots cl (clients_state (restart env error factory c))"
  by (simp add: restart_def Let_def reboot_pending)

end

interpretation dev: reboot_clients "device_clients env" for env
  by standard (simp add: device_clients_def on_dfu_def on_update_def appl_reboots_def appl_reboot_def Let_def)

text \<open>C15. Failures in a row: each is handled once, and the device reboots with the third one, or with the fourth one
  when it uses DTLS, after it has switched the modem off and on and, with DTLS, made a new handshake; not
  earlier.\<close>

theorem reboot_after_failures:
  assumes "failed 0 c" "ne_clients env = device_clients denv" "\<not> cl_reboots (device_clients denv) (clients_state c)" "n \<le> 100"
  shows "cl_reboots (device_clients denv) (clients_state ((fail_round env ^^ n) c)) \<longleftrightarrow>
    (if protocol (app c) = PROTOCOL_COAP_DTLS then 4 else 3) \<le> n"
proof -
  have "failed n ((fail_round env ^^ n) c) \<and> protocol (app ((fail_round env ^^ n) c)) = protocol (app c) \<and>
    (cl_reboots (device_clients denv) (clients_state ((fail_round env ^^ n) c)) \<longleftrightarrow> reboot_failures c \<le> n)"
    using assms(4)
  proof (induction n)
    case 0
    then show ?case using assms by simp
  next
    case (Suc n)
    let ?c = "(fail_round env ^^ n) c"
    have IH: "failed n ?c" "protocol (app ?c) = protocol (app c)"
        "cl_reboots (device_clients denv) (clients_state ?c) \<longleftrightarrow> reboot_failures c \<le> n"
      using Suc by simp_all
    have "n < 100" using Suc.prems by simp
    note step = fail_round_step [OF IH(1) this, of env]
    then obtain d where d: "clients_state (fail_round env ?c) =
        (if Suc n < reboot_failures c then clients_state ?c
         else clients_state (restart env ERROR_CODE_TOO_MANY_FAILURES False d))"
      using IH(2) by auto
    show ?case
    proof (cases "Suc n < reboot_failures c")
      case True
      then show ?thesis using step(1,2) d IH by (auto split: if_splits)
    next
      case False
      then show ?thesis using step(1,2) d IH dev.restart_reboots [OF assms(2)] by (auto split: if_splits)
    qed
  qed
  then show ?thesis by simp
qed

definition sim_device_env :: "(sim_packet, u8 list, u8 list) device_env" where
  "sim_device_env = \<lparr>de_coap = sim_coap, de_block = sim_blocks, de_dfu = sim_dfu sim_header, de_uptime = 100000, de_mid = 7,
     de_settings = sim_settings, de_collect = (\<lambda>_ _. [104, 105]), de_prov_text = [112], de_model = ''thingy91'',
     de_image_version = ''0.9.12+3''\<rparr>"

definition sim_device :: "(u8 list, u8 list) device" where
  "sim_device = \<lparr>dev_client = sim_cc, dev_appl = sim_appl,
     dev_prov = \<lparr>prov_context = coap_context_init, prov_client = sim_cc\<rparr>,
     dev_update = sim_update_state, dev_provisioning = False, dev_cmds = [], dev_fault = False\<rparr>"

abbreviation sim_dev_client :: "request_state_t \<Rightarrow> ((u8 list, u8 list) device, unit) dtls_client" where
  "sim_dev_client s \<equiv> sim_client (appl_client_handler (device_clients sim_device_env)) s sim_device"

theorem reboot_after_failures_witness:
  "cl_reboots (device_clients sim_device_env)
     (clients_state ((fail_round (sim_net (device_clients sim_device_env)) ^^ 3) (sim_dev_client RECEIVE))) \<and>
   \<not> cl_reboots (device_clients sim_device_env)
     (clients_state ((fail_round (sim_net (device_clients sim_device_env)) ^^ 2) (sim_dev_client RECEIVE)))"
proof -
  have "failed 0 (sim_dev_client RECEIVE)" "protocol (app (sim_dev_client RECEIVE)) = PROTOCOL_COAP_UDP"
    by (simp_all add: failed_def sim_client_def sim_app_def)
  moreover have "ne_clients (sim_net (device_clients sim_device_env)) = device_clients sim_device_env"
    by (simp add: sim_net_def)
  moreover have "\<not> appl_reboots (dfu_reboot (upd_dfu (dev_update sim_device)))" by code_simp
  then have "\<not> cl_reboots (device_clients sim_device_env) (clients_state (sim_dev_client RECEIVE))"
    by (simp add: device_clients_def sim_client_def)
  ultimately show ?thesis
    using reboot_after_failures [of "sim_dev_client RECEIVE" "sim_net (device_clients sim_device_env)" sim_device_env]
    by (simp del: funpow.simps)
qed

end
