(* ===== verification/Request_Events.thy ===== *)
theory Request_Events
  imports Device
begin

text \<open>
  What happens around a request of \<open>src/src/dtls_client.c\<close>: what a received datagram does to it, how the timer
  starts the next one and a whole exchange of the device runs, a trigger that gets lost, and the collection of
  a handshake's flight into datagrams.
\<close>

section \<open>A message is sent\<close>

text \<open>Sending a message on a network that is connected: the request then waits for the response.\<close>

lemma sendto_peer_sends:
  fixes env :: "('s, 'd) net_env"
  assumes "plain_coap c" "good_network env" "LTE_CONNECTED \<in> general_states c" "request_state (app c) \<noteq> RECEIVE"
    and "\<not> no_response (app c)" "h_get_message (coap_handler (app c)) (clients_state c) = (l, m)" "l \<noteq> 0"
  defines "c' \<equiv> snd (sendto_peer env c)"
  shows "plain_coap c'" "sent c' = sent c @ [m]" "general_states c' = general_states c - {LTE_CONNECTED_TO_SEND, LTE_SEND}"
    "app c' = (app c)\<lparr>request_state := RECEIVE,
       timeout := (if retransmission (app c) = 0 then network_timeout_scale env (coap_timeout c) else timeout (app c))\<rparr>"
    "clients_state c' = clients_state c" "failures c' = failures c" "loops c' = loops c" "timer_work c' = timer_work c"
    "coap_timeout c' = coap_timeout c" "trigger_msg_sem c' = trigger_msg_sem c" "dtls_context c' = dtls_context c"
    "lte_power_on_off c' = lte_power_on_off c" "lte_power_off c' = lte_power_off c"
proof -
  obtain n e where n: "ne_sendto env (length m) = (n, e)" by fastforce
  then have n0: "\<not> n < 0" using assms(2) by (metis fst_conv good_network_def not_less)
  define c1 where "c1 = clear_flags {LTE_SEND} (emit [Transmission_Time] (emit [Sent m]
      (set_flag LTE_SEND (clear_flags {LTE_CONNECTED_TO_SEND} (emit [Set_Rai (if \<not> lte_power_on_off c \<and> rai (app c)
         then RAI_MODE_ONE_RESPONSE else RAI_MODE_OFF)] c)))))"
  define c2 where "c2 = (if retransmission (app c) = 0
      then on_app (\<lambda>a. a\<lparr>timeout := network_timeout_scale env (coap_timeout c)\<rparr>) c1 else c1)"
  have m: "send_message env c = send_to_peer env m c"
    using assms(1,6,7) by (simp add: send_message_def plain_coap_def Let_def)
  have p: "send_to_peer env m c = (n, c2)"
    using assms(1,3,5) n n0
    by (simp add: send_to_peer_def plain_coap_def Let_def c1_def c2_def network_adjust_initial_timeout_def)
  have c': "c' = change_request_state RECEIVE c2"
    using assms(1,3,4,5) n0 m p
    by (simp add: c'_def sendto_peer_def plain_coap_def Let_def c2_def c1_def dtls_coap_set_request_state_def)
  show "plain_coap c'" "sent c' = sent c @ [m]" "general_states c' = general_states c - {LTE_CONNECTED_TO_SEND, LTE_SEND}"
    "app c' = (app c)\<lparr>request_state := RECEIVE,
       timeout := (if retransmission (app c) = 0 then network_timeout_scale env (coap_timeout c) else timeout (app c))\<rparr>"
    "clients_state c' = clients_state c" "failures c' = failures c" "loops c' = loops c" "timer_work c' = timer_work c"
    "coap_timeout c' = coap_timeout c" "trigger_msg_sem c' = trigger_msg_sem c" "dtls_context c' = dtls_context c"
    "lte_power_on_off c' = lte_power_on_off c" "lte_power_off c' = lte_power_off c"
    using assms(1) by (auto simp: c' c2_def c1_def change_request_state_def plain_coap_def client_defs sent_def)
qed

section \<open>A datagram is received\<close>

lemma statistics_simps [simp]:
  "sent (success_statistics c) = sent c" "failures (success_statistics c) = failures c"
  "sent (dtls_coap_clear_failures c) = sent c" "failures (dtls_coap_clear_failures c) = failures c"
  "current_failures (dtls_coap_clear_failures c) = 0" "handled_failures (dtls_coap_clear_failures c) = 0"
  "current_failures (clear_flags gs c) = current_failures c" "handled_failures (clear_flags gs c) = handled_failures c"
  "sent (snd (call_result_handler env b c)) = sent c" "sent (set_response_time env c) = sent c"
  "failures (set_response_time env c) = failures c" "sent (change_request_state s c) = sent c"
  "failures (change_request_state s c) = failures c" "sent (c\<lparr>clients_state := st\<rparr>) = sent c"
  "app (change_request_state s c) = (app c)\<lparr>request_state := s\<rparr>"
  "app (set_response_time env c) = (app c)\<lparr>response_time := ne_uptime env\<rparr>"
  "general_states (set_response_time env c) = general_states c"
  "clients_state (set_response_time env c) = clients_state c"
  by (simp_all add: success_statistics_def Let_def dtls_coap_clear_failures_def sent_def clear_flags_def
      change_request_state_def set_response_time_def)

lemma success_simps [simp]:
  "sent (dtls_coap_success env c) = sent c" "failures (dtls_coap_success env c) = failures c"
  "current_failures (dtls_coap_success env c) = 0" "handled_failures (dtls_coap_success env c) = 0"
  by (simp_all add: dtls_coap_success_def Let_def case_prod_beta next_keeps)

lemma plain_receive:
  assumes "plain_coap c"
  shows "recvfrom_peer env data c = read_from_peer env data (emit [Transmission_Time] c)"
  using assms by (simp add: recvfrom_peer_def plain_coap_def Let_def)

lemma plain_response_time [simp]: "plain_coap (set_response_time env c) = plain_coap c"
  by (simp add: set_response_time_def plain_coap_def)

text \<open>What remains of \<open>loop_receive\<close> for a client that speaks plain CoAP.\<close>

definition receive_ends :: "('s, 'd) dtls_client \<Rightarrow> ('s, 'd) dtls_client" where
  "receive_ends c = (if \<not> lte_power_on_off c \<and> rai (app c) \<and> \<not> dtls_pending_request (request_state (app c))
      then emit [Set_Rai RAI_MODE_NOW] c else c)"

lemma receive_ends_simps [simp]:
  "app (receive_ends c) = app c" "sent (receive_ends c) = sent c" "failures (receive_ends c) = failures c"
  "current_failures (receive_ends c) = current_failures c" "clients_state (receive_ends c) = clients_state c"
  "plain_coap (receive_ends c) = plain_coap c" "general_states (receive_ends c) = general_states c"
  "timer_work (receive_ends c) = timer_work c" "loops (receive_ends c) = loops c"
  by (simp_all add: receive_ends_def plain_coap_def client_defs sent_def)

lemma loop_receive_plain:
  assumes "plain_coap c" "\<not> send_request_pending (app c)"
    and "snd (read_from_peer env data (emit [Transmission_Time] c)) = c1" "plain_coap c1" "\<not> send_request_pending (app c1)"
  shows "loop_receive env (Some data) c =
    receive_ends (if request_state (app c1) = SEND_ACK
       then dtls_coap_success env (snd (sendto_peer env
              (on_app (\<lambda>a. a\<lparr>coap_handler := (coap_handler a)\<lparr>h_get_message := ack_message (ne_clients env)\<rparr>\<rparr>) c1)))
       else c1)"
proof -
  let ?c2 = "snd (sendto_peer env
              (on_app (\<lambda>a. a\<lparr>coap_handler := (coap_handler a)\<lparr>h_get_message := ack_message (ne_clients env)\<rparr>\<rparr>) c1))"
  have "plain_coap (on_app (\<lambda>a. a\<lparr>coap_handler := (coap_handler a)\<lparr>h_get_message := ack_message (ne_clients env)\<rparr>\<rparr>) c1)"
    using assms(4) by (simp add: plain_coap_def)
  then have "plain_coap ?c2" by (rule sendto_peer_plain)
  then have "plain_coap (dtls_coap_success env ?c2)" by (rule plain_success)
  then have p: "protocol (app (dtls_coap_success env ?c2)) \<noteq> PROTOCOL_COAP_DTLS" "protocol (app c1) \<noteq> PROTOCOL_COAP_DTLS"
    using assms(4) by (simp_all add: plain_coap_def)
  have f: "dtls_flight (app c) = 0" using assms(1) by (simp add: plain_coap_def)
  show ?thesis
    unfolding loop_receive_def Let_def option.case plain_receive [OF assms(1)] assms(3) f
    by (cases "request_state (app c1) = SEND_ACK")
      (simp_all only: simp_thms if_True if_False p assms(5) receive_ends_def emit_simps if_distrib [of app] if_cancel)
qed

lemma next_keeps_pending [simp]:
  "send_request_pending (app (dtls_coap_next env i c)) = send_request_pending (app c)"
  "send_request_pending (app (snd (call_result_handler env b c))) = send_request_pending (app c)"
  "send_request_pending (app (success_statistics c)) = send_request_pending (app c)"
  "send_request_pending (app (dtls_coap_clear_failures c)) = send_request_pending (app c)"
  "app (snd (dtls_coap_inc_failures c)) = app c"
  by (simp_all add: dtls_coap_next_def change_request_state_def Let_def call_result_handler_def
      dtls_app_coap_result_handler_def dtls_app_prov_result_handler_def dtls_app_download_result_handler_def
      dtls_pending_def success_statistics_def dtls_coap_clear_failures_def dtls_coap_inc_failures_def
      split: dtls_app_result_handler.split)

lemma end_keeps_pending [simp]:
  "send_request_pending (app (dtls_coap_success env c)) = send_request_pending (app c)"
  "send_request_pending (app (dtls_coap_failure env c)) = send_request_pending (app c)"
  by (simp_all add: dtls_coap_success_def dtls_coap_failure_def Let_def case_prod_beta)

text \<open>The state after the datagram has been handed to the handler, for a request in progress.\<close>

lemma read_from_peer_in_flight:
  assumes "h_parse_data (coap_handler (app c)) data (clients_state c) = (r, s)"
    and "request_state (app c) \<in> {SEND, RECEIVE, WAIT_RESPONSE}"
  shows "snd (read_from_peer env data c) =
    (let c1 = c\<lparr>clients_state := s\<rparr>
     in case r of
          Inr PARSE_RST \<Rightarrow> dtls_coap_failure env (set_response_time env c1)
        | Inr PARSE_ACK \<Rightarrow> change_request_state WAIT_RESPONSE c1
        | Inr PARSE_RESPONSE \<Rightarrow> dtls_coap_success env (set_response_time env c1)
        | Inr PARSE_CON_RESPONSE \<Rightarrow> change_request_state SEND_ACK (set_response_time env c1)
        | _ \<Rightarrow> c1)"
proof -
  have st: "request_state (app c) \<noteq> INCOMING_DATA" "dtls_pending_request (request_state (app c))" "request_state (app c) \<noteq> NONE"
      "request_state (app c) \<noteq> SEND_ACK" "request_state (app c) \<in> {SEND, RECEIVE} \<or> request_state (app c) = WAIT_RESPONSE"
    using assms(2) by auto
  show ?thesis
  proof (cases r)
    case (Inl err)
    then show ?thesis using assms(1) st(1) by (simp add: read_from_peer_def)
  next
    case (Inr p)
    define c1 where "c1 = c\<lparr>clients_state := s\<rparr>"
    have rs: "request_state (app c1) = request_state (app c)" by (simp add: c1_def)
    have ack: "(if request_state (app c1) \<in> {SEND, RECEIVE} then dtls_coap_set_request_state env WAIT_RESPONSE c1 else c1) =
        change_request_state WAIT_RESPONSE c1"
    proof (cases "request_state (app c) = WAIT_RESPONSE")
      case True
      then have "app c1 = (app c1)\<lparr>request_state := WAIT_RESPONSE\<rparr>" using rs by simp
      then have "change_request_state WAIT_RESPONSE c1 = c1" by (simp add: change_request_state_def on_app_def)
      then show ?thesis using True rs by simp
    next
      case False
      then show ?thesis using st(5) rs by (auto simp: dtls_coap_set_request_state_def)
    qed
    have con: "dtls_coap_set_request_state env SEND_ACK (set_response_time env c1) =
        change_request_state SEND_ACK (set_response_time env c1)"
      using st(4) rs by (simp add: dtls_coap_set_request_state_def)
    show ?thesis
      unfolding read_from_peer_def assms(1) Let_def prod.case Inr sum.case c1_def [symmetric] ack con
      by (cases p; simp only: parse_result_t.case snd_conv rs st if_True simp_thms)
  qed
qed

text \<open>The answer of the handler to a datagram decides what becomes of the request.\<close>

definition after_datagram :: "('s, 'd) net_env \<Rightarrow> int + parse_result_t \<Rightarrow> 's \<Rightarrow> ('s, 'd) dtls_client \<Rightarrow> ('s, 'd) dtls_client \<Rightarrow> bool" where
  "after_datagram env r s c c' =
     (case r of
        Inr PARSE_RESPONSE \<Rightarrow>
          \<not> dtls_pending_request (request_state (app c')) \<and> sent c' = sent c \<and> failures c' = failures c \<and> current_failures c' = 0
      | Inr PARSE_CON_RESPONSE \<Rightarrow>
          \<not> dtls_pending_request (request_state (app c')) \<and> current_failures c' = 0 \<and>
          sent c' = sent c @ [snd (ack_message (ne_clients env) s)] \<and> failures c' = failures c
      | Inr PARSE_RST \<Rightarrow>
          \<not> dtls_pending_request (request_state (app c')) \<and> sent c' = sent c \<and> failures c' = failures c + 1
      | Inr PARSE_ACK \<Rightarrow>
          request_state (app c') = WAIT_RESPONSE \<and> sent c' = sent c \<and> failures c' = failures c
      | _ \<Rightarrow> app c' = app c \<and> sent c' = sent c \<and> failures c' = failures c)"

text \<open>What a datagram does to a request in progress: a response ends it with success, a confirmable one after
  exactly one ACK has been sent for it; a RST ends it with one more failure; an empty ACK makes it wait for the
  separate response, without any retransmission; and anything else (malformed, foreign, a duplicate of an
  earlier exchange) changes nothing of the request.\<close>

lemma loop_receive_datagram:
  fixes env :: "('s, 'd) net_env"
  assumes "plain_coap c" "request_state (app c) \<in> {SEND, RECEIVE, WAIT_RESPONSE}"
    and "\<not> send_request_pending (app c)" "\<not> no_response (app c)" "LTE_CONNECTED \<in> general_states c" "good_network env"
    and "h_parse_data (coap_handler (app c)) data (clients_state c) = (r, s)"
    and "r = Inr PARSE_CON_RESPONSE \<Longrightarrow> fst (ack_message (ne_clients env) s) \<noteq> 0"
  shows "after_datagram env r s c (loop_receive env (Some data) c)"
proof -
  let ?c0 = "emit [Transmission_Time] c"
  define c1 where "c1 = snd (read_from_peer env data ?c0)"
  have c1: "c1 = (let c1 = ?c0\<lparr>clients_state := s\<rparr>
     in case r of
          Inr PARSE_RST \<Rightarrow> dtls_coap_failure env (set_response_time env c1)
        | Inr PARSE_ACK \<Rightarrow> change_request_state WAIT_RESPONSE c1
        | Inr PARSE_RESPONSE \<Rightarrow> dtls_coap_success env (set_response_time env c1)
        | Inr PARSE_CON_RESPONSE \<Rightarrow> change_request_state SEND_ACK (set_response_time env c1)
        | _ \<Rightarrow> c1)"
    unfolding c1_def by (rule read_from_peer_in_flight) (use assms in simp_all)
  have p1: "plain_coap c1" "\<not> send_request_pending (app c1)"
    using assms(1,3) unfolding c1 Let_def
    by (auto simp: plain_failure plain_success split: sum.split parse_result_t.split)
  note l = loop_receive_plain [OF assms(1,3) c1_def [symmetric] p1]
  show ?thesis
  proof (cases "r = Inr PARSE_CON_RESPONSE")
    case True
    define c2 where "c2 = on_app (\<lambda>a. a\<lparr>coap_handler := (coap_handler a)\<lparr>h_get_message := ack_message (ne_clients env)\<rparr>\<rparr>) c1"
    have "c1 = change_request_state SEND_ACK (set_response_time env (?c0\<lparr>clients_state := s\<rparr>))"
      using True by (simp add: c1)
    then have c2: "plain_coap c2" "LTE_CONNECTED \<in> general_states c2" "request_state (app c2) \<noteq> RECEIVE" "\<not> no_response (app c2)"
        "h_get_message (coap_handler (app c2)) (clients_state c2) = ack_message (ne_clients env) s"
        "sent c2 = sent c" "failures c2 = failures c" "request_state (app c1) = SEND_ACK"
      using p1 assms(4,5) by (simp_all add: c2_def plain_coap_def change_request_state_def)
    have a: "ack_message (ne_clients env) s = (fst (ack_message (ne_clients env) s), snd (ack_message (ne_clients env) s))" by simp
    note s = sendto_peer_sends [OF c2(1) assms(6) c2(2-4) trans [OF c2(5) a] assms(8) [OF True]]
    show ?thesis
      unfolding l after_datagram_def True sum.case parse_result_t.case
      using s(2,6) c2 by (simp add: c2_def [symmetric] success_not_pending)
  next
    case False
    then have "request_state (app c1) \<noteq> SEND_ACK"
      using assms(2) success_not_pending [of env "set_response_time env (?c0\<lparr>clients_state := s\<rparr>)"]
        failure_not_pending [of env "set_response_time env (?c0\<lparr>clients_state := s\<rparr>)"]
      unfolding c1 Let_def by (auto split: sum.split parse_result_t.split)
    then have "loop_receive env (Some data) c = receive_ends c1" using l by simp
    then show ?thesis
      using False unfolding c1 after_datagram_def Let_def
      by (auto simp: success_not_pending failure_not_pending split: sum.split parse_result_t.split)
  qed
qed

text \<open>C5. What a datagram does to a request in progress: a response ends it with success, a confirmable one after
  exactly one ACK has been sent for it; a RST ends it with one more failure; an empty ACK makes it wait for the
  separate response, without any retransmission; and anything else (malformed, foreign, a duplicate of an
  earlier exchange) changes nothing of the request.\<close>

theorem received_datagram:
  assumes "plain_coap c" "request_state (app c) \<in> {SEND, RECEIVE, WAIT_RESPONSE}"
    and "\<not> send_request_pending (app c)" "\<not> no_response (app c)" "LTE_CONNECTED \<in> general_states c" "good_network env"
    and "h_parse_data (coap_handler (app c)) data (clients_state c) = (r, s)"
    and "r = Inr PARSE_CON_RESPONSE \<longrightarrow> fst (ack_message (ne_clients env) s) \<noteq> 0"
  shows "after_datagram env r s c (loop_receive env (Some data) c)"
  using assms by (intro loop_receive_datagram) auto

theorem received_datagram_witness:
  "\<not> dtls_pending_request (request_state (app (loop_receive (sim_net sim_clients) (Some [9]) (sim_client sim_handler RECEIVE ()))))"
proof -
  have "plain_coap (sim_client sim_handler RECEIVE ())" "good_network (sim_net sim_clients)"
    by (simp_all add: plain_coap_def good_network_def sim_defs)
  then have "after_datagram (sim_net sim_clients) (Inr PARSE_RESPONSE) () (sim_client sim_handler RECEIVE ())
      (loop_receive (sim_net sim_clients) (Some [9]) (sim_client sim_handler RECEIVE ()))"
    by (intro received_datagram) (simp_all add: sim_defs)
  then show ?thesis by (simp add: after_datagram_def)
qed

section \<open>The timer sends a request\<close>

text \<open>A device between two requests, connected and with nothing else to do: no reboot, no download, no provisioning,
  and a response is expected.\<close>

definition idle :: "('s, 'd) net_env \<Rightarrow> ('s, 'd) dtls_client \<Rightarrow> bool" where
  "idle env c \<longleftrightarrow> plain_coap c \<and> request_state (app c) = NONE \<and> LTE_READY \<in> general_states c \<and> LTE_CONNECTED \<in> general_states c \<and>
     LTE_INCOMING_DATA \<notin> general_states c \<and> \<not> lte_power_off c \<and> 0 \<le> fd (app c) \<and> send_buffer c = [] \<and>
     download_progress (app c) = 0 \<and> \<not> send_request_pending (app c) \<and> coap_send_flags_next c AND COAP_SEND_FLAG_NO_RESPONSE = 0 \<and>
     \<not> cl_reboots (ne_clients env) (clients_state c) \<and> \<not> cl_update_pending (ne_clients env) (clients_state c) \<and>
     \<not> (cfg_provisioning env \<and> cl_is_provisioning (ne_clients env) (clients_state c))"

definition working :: "('s, 'd) net_env \<Rightarrow> bool" where
  "working env \<longleftrightarrow> ne_modem_on env \<and> ne_socket_error env = 0 \<and> good_network env"

text \<open>What the timer leaves: a trigger to send.\<close>

lemma timer_triggers:
  assumes "idle env c" "working env"
  shows "dtls_timer_trigger_fn env c =
    (let c1 = (if TRIGGER_DURATION \<in> general_states c then emit [Interrupt_Wait] (c\<lparr>timer_work := None\<rparr>) else c\<lparr>timer_work := None\<rparr>)
     in (set_flag TRIGGER_SEND (c1\<lparr>send_trigger := Some ''timer''\<rparr>))\<lparr>trigger_msg_sem := True, send_ival := send_ival c AND 0xffffff\<rparr>)"
  using assms by (auto simp: idle_def working_def dtls_timer_trigger_fn_def dtls_trigger_def Let_def set_flag_def emit_def)

text \<open>A round of the loop with a trigger to send.\<close>

lemma triggered_round:
  assumes "idle env c" "working env" "trigger_msg_sem c" "TRIGGER_SEND \<in> general_states c"
  shows "loop_round env c =
    loop_send env ((clear_flags {TRIGGER_SEND} ((dtls_power_management env c)\<lparr>trigger_msg_sem := False\<rparr>))\<lparr>loops := 0\<rparr>)"
proof -
  have sock: "loop_check_socket env c = c"
    using assms(1,2) by (simp add: idle_def working_def loop_check_socket_def check_socket_def get_socket_error_def Let_def)
  have down: "loop_download env c = (False, c)"
    using assms(1) by (simp add: idle_def loop_download_def cancel_progress_def Let_def)
  have inc: "loop_incoming env c = c" using assms(1) by (simp add: idle_def loop_incoming_def)
  have pm: "trigger_msg_sem (dtls_power_management env c)" "TRIGGER_SEND \<in> general_states (dtls_power_management env c)"
      "lte_power_off (dtls_power_management env c) = lte_power_off c"
    using assms(3,4) by (auto simp: dtls_power_management_def Let_def client_defs)
  have "loop_trigger env c =
    loop_send env ((clear_flags {TRIGGER_SEND} ((dtls_power_management env c)\<lparr>trigger_msg_sem := False\<rparr>))\<lparr>loops := 0\<rparr>)"
    using pm assms(2) by (simp add: loop_trigger_def Let_def working_def)
  then show ?thesis
    using assms(1,3) by (simp add: loop_round_def idle_def sock down inc)
qed

lemma power_management_keeps [simp]:
  "sent (dtls_power_management env c) = sent c" "failures (dtls_power_management env c) = failures c"
  "loops (dtls_power_management env c) = loops c" "timer_work (dtls_power_management env c) = timer_work c"
  "send_ival (dtls_power_management env c) = send_ival c" "coap_timeout (dtls_power_management env c) = coap_timeout c"
  "send_buffer (dtls_power_management env c) = send_buffer c" "send_trigger (dtls_power_management env c) = send_trigger c"
  "lte_power_off (dtls_power_management env c) = lte_power_off c"
  "coap_send_flags_next (dtls_power_management env c) = coap_send_flags_next c"
  "plain_coap (dtls_power_management env c) = plain_coap c" "dtls_context (dtls_power_management env c) = dtls_context c"
  by (simp_all add: dtls_power_management_def Let_def client_defs sent_def plain_coap_def)

lemma sent_update [simp]:
  "sent (c\<lparr>app := a\<rparr>) = sent c" "sent (c\<lparr>out := os\<rparr>) = concat (map sent_data os)" "sent (c\<lparr>out := os, app := a\<rparr>) = concat (map sent_data os)"
  by (simp_all add: sent_def)

text \<open>Sending the request of a trigger, when the application's client has prepared it: the message goes out, and the
  request waits for the response with the initial timeout; the timer for the next request runs.\<close>

lemma loop_send_sends:
  fixes env :: "('s, 'd) net_env"
  assumes "idle env c" "working env" "loops c = 0"
    and "cl_prepare_post (ne_clients env) (coap_send_flags_next c) (Inr (case send_trigger c of None \<Rightarrow> [] | Some t \<Rightarrow> t))
      (clients_state c) = (res, s)" "0 < res"
    and "h_get_message (appl_client_handler (ne_clients env)) s = (l, m)" "l \<noteq> 0"
  defines "c' \<equiv> loop_send env c"
  shows "waiting m 0 (coap_timeout c) c'" "sent c' = sent c @ [m]" "failures c' = failures c" "clients_state c' = s"
    "coap_handler (app c') = appl_client_handler (ne_clients env)" "result_handler (app c') = Coap_Result"
    "\<not> send_request_pending (app c')"
    "timer_work c' = (if 0 < get_send_interval c then Some (get_send_interval c) else timer_work c)"
    "LTE_READY \<in> general_states c'" "LTE_INCOMING_DATA \<notin> general_states c'" "fd (app c') = fd (app c)" "\<not> lte_power_off c'"
proof -
  define c1 where "c1 = dtls_power_management env (change_request_state SEND (emit [Sh_Active] c))"
  define c2 where "c2 = (if get_send_interval c > 0 then reschedule_timer (get_send_interval c) c1 else c1)"
  define c3 where "c3 = on_app (\<lambda>a. a\<lparr>retransmission := 0, timeout := coap_timeout c\<rparr>) c2"
  define c4 where "c4 = on_app (\<lambda>a. a\<lparr>coap_handler := appl_client_handler (ne_clients env), result_handler := Coap_Result,
      rai := True, download_progress := 0\<rparr>)
    ((on_app (\<lambda>a. a\<lparr>no_response := False\<rparr>) c3)\<lparr>send_trigger := None, clients_state := s\<rparr>)"
  define c5 where "c5 = on_app (\<lambda>a. a\<lparr>start_time := ne_uptime env\<rparr>) c4"
  have c1: "app c1 = (app c)\<lparr>request_state := SEND\<rparr>" "sent c1 = sent c" "failures c1 = failures c" "loops c1 = 0"
      "clients_state c1 = clients_state c" "coap_timeout c1 = coap_timeout c" "send_buffer c1 = []" "lte_power_off c1 = lte_power_off c"
      "send_trigger c1 = send_trigger c" "coap_send_flags_next c1 = coap_send_flags_next c" "timer_work c1 = timer_work c"
      "plain_coap c1" "LTE_CONNECTED \<in> general_states c1" "LTE_READY \<in> general_states c1"
      "LTE_INCOMING_DATA \<notin> general_states c1" "\<not> lte_power_off c1"
    using assms(1,3) by (simp_all add: c1_def idle_def change_request_state_def emit_def on_app_def plain_coap_def sent_def [of c])
  have c2: "app c2 = (app c)\<lparr>request_state := SEND\<rparr>" "sent c2 = sent c" "failures c2 = failures c" "loops c2 = 0"
      "clients_state c2 = clients_state c" "coap_timeout c2 = coap_timeout c" "send_buffer c2 = []" "lte_power_off c2 = lte_power_off c"
      "send_trigger c2 = send_trigger c" "coap_send_flags_next c2 = coap_send_flags_next c"
      "timer_work c2 = (if 0 < get_send_interval c then Some (get_send_interval c) else timer_work c)"
      "plain_coap c2" "LTE_CONNECTED \<in> general_states c2" "LTE_READY \<in> general_states c2"
      "LTE_INCOMING_DATA \<notin> general_states c2" "\<not> lte_power_off c2"
    using c1 by (simp_all add: c2_def reschedule_timer_def sent_def plain_coap_def)
  have c5: "app c5 = (app c)\<lparr>request_state := SEND, retransmission := 0, timeout := coap_timeout c, no_response := False,
        coap_handler := appl_client_handler (ne_clients env), result_handler := Coap_Result, rai := True,
        download_progress := 0, start_time := ne_uptime env\<rparr>"
      "sent c5 = sent c" "failures c5 = failures c" "loops c5 = 0" "clients_state c5 = s" "coap_timeout c5 = coap_timeout c"
      "timer_work c5 = (if 0 < get_send_interval c then Some (get_send_interval c) else timer_work c)"
      "plain_coap c5" "LTE_CONNECTED \<in> general_states c5" "LTE_READY \<in> general_states c5"
      "LTE_INCOMING_DATA \<notin> general_states c5" "\<not> lte_power_off c5"
    using c2 by (simp_all add: c5_def c4_def c3_def sent_def on_app_def plain_coap_def)
  have prep: "prepare_request env c3 = (res, c4)"
  proof -
    have np: "\<not> (cfg_provisioning env \<and> cl_is_provisioning (ne_clients env) (clients_state c3))"
      using assms(1) c2(5) by (simp add: idle_def c3_def)
    have sb: "send_buffer (on_app f c3) = []" "send_trigger (on_app f c3) = send_trigger c" for f
      using c2(7,9) by (simp_all add: c3_def on_app_def)
    have post: "cl_prepare_post (ne_clients env) (coap_send_flags_next c3) (Inr (case send_trigger c of None \<Rightarrow> [] | Some t \<Rightarrow> t))
        (clients_state c3) = (res, s)"
      using assms(4) c2(5,10) by (simp add: c3_def on_app_def)
    have nr: "coap_send_flags_next c3 AND COAP_SEND_FLAG_NO_RESPONSE = 0"
      using assms(1) c2(10) by (simp add: c3_def on_app_def idle_def)
    have dp: "download_progress (app c3) = 0" using assms(1) c2(1) by (simp add: c3_def idle_def)
    show ?thesis
      unfolding prepare_request_def Let_def if_not_P [OF np] by (simp add: sb post nr dp c4_def)
  qed
  have c': "c' = snd (sendto_peer env c5)"
  proof -
    have pm: "dtls_power_management env (dtls_coap_set_request_state env SEND (emit [Sh_Active] c)) = c1"
      using assms(1) by (simp add: dtls_coap_set_request_state_def idle_def c1_def)
    have on: "\<not> lte_power_off c2" "\<not> lte_power_off c4" "\<not> res < 0"
      using assms(1,5) c2(8) by (simp_all add: idle_def c4_def c3_def on_app_def)
    show ?thesis
      unfolding c'_def loop_send_def Let_def pm c2_def [symmetric] if_not_P [OF on(1)] c2(6) c3_def [symmetric] prep prod.case
        if_not_P [OF on(2)] if_not_P [OF on(3)] if_P [OF assms(5)] c5_def ..
  qed
  have g: "good_network env" using assms(2) by (simp add: working_def)
  have rs: "request_state (app c5) \<noteq> RECEIVE" "\<not> no_response (app c5)"
      "h_get_message (coap_handler (app c5)) (clients_state c5) = (l, m)"
    using c5(1,5) assms(6) by simp_all
  note f = sendto_peer_sends [OF c5(8) g c5(9) rs assms(7), folded c']
  have t: "network_timeout_scale env t = t" for t
    using g by (simp add: network_timeout_scale_def good_network_def)
  show "waiting m 0 (coap_timeout c) c'"
    using f c5 assms(6,7) by (simp add: waiting_def t)
  show "sent c' = sent c @ [m]" "failures c' = failures c" "clients_state c' = s"
    "coap_handler (app c') = appl_client_handler (ne_clients env)" "result_handler (app c') = Coap_Result"
    "timer_work c' = (if 0 < get_send_interval c then Some (get_send_interval c) else timer_work c)"
    using f c5 by simp_all
  show "\<not> send_request_pending (app c')" using f c5 assms(1) by (simp add: idle_def)
  show "LTE_READY \<in> general_states c'" "LTE_INCOMING_DATA \<notin> general_states c'" "fd (app c') = fd (app c)" "\<not> lte_power_off c'"
    using f c5 by simp_all
qed

lemma timer_round:
  fixes env :: "('s, 'd) net_env"
  assumes "idle env c" "working env"
    and "cl_prepare_post (ne_clients env) (coap_send_flags_next c) (Inr ''timer'') (clients_state c) = (res, s)" "0 < res"
    and "h_get_message (appl_client_handler (ne_clients env)) s = (l, m)" "l \<noteq> 0"
  defines "c' \<equiv> loop_round env (dtls_timer_trigger_fn env c)"
  shows "waiting m 0 (coap_timeout c) c'" "sent c' = sent c @ [m]" "failures c' = failures c" "clients_state c' = s"
    "coap_handler (app c') = appl_client_handler (ne_clients env)" "result_handler (app c') = Coap_Result"
    "\<not> send_request_pending (app c')"
    "0 < get_send_interval c \<Longrightarrow> timer_work c' = Some (get_send_interval c)"
    "LTE_READY \<in> general_states c'" "LTE_INCOMING_DATA \<notin> general_states c'" "0 \<le> fd (app c')" "\<not> lte_power_off c'"
proof -
  define c1 where "c1 = dtls_timer_trigger_fn env c"
  define c2 where "c2 = (clear_flags {TRIGGER_SEND} ((dtls_power_management env c1)\<lparr>trigger_msg_sem := False\<rparr>))\<lparr>loops := 0\<rparr>"
  have c1: "idle env c1" "trigger_msg_sem c1" "TRIGGER_SEND \<in> general_states c1" "sent c1 = sent c" "failures c1 = failures c"
      "coap_timeout c1 = coap_timeout c" "get_send_interval c1 = get_send_interval c" "clients_state c1 = clients_state c"
      "send_trigger c1 = Some ''timer''" "coap_send_flags_next c1 = coap_send_flags_next c" "app c1 = app c"
    using assms(1) unfolding c1_def timer_triggers [OF assms(1,2)]
    by (auto simp: idle_def plain_coap_def Let_def client_defs sent_def get_send_interval_def and.assoc)
  have so: "sent c2 = sent c1" by (simp add: c2_def clear_flags_def dtls_power_management_def Let_def client_defs sent_def)
  have c2: "idle env c2" "loops c2 = 0" "sent c2 = sent c" "failures c2 = failures c" "app c2 = app c"
      "coap_timeout c2 = coap_timeout c" "get_send_interval c2 = get_send_interval c" "clients_state c2 = clients_state c"
      "send_trigger c2 = Some ''timer''" "coap_send_flags_next c2 = coap_send_flags_next c"
    using c1 so by (simp_all) (simp_all add: c2_def idle_def plain_coap_def clear_flags_def get_send_interval_def)
  have c': "c' = loop_send env c2"
    using triggered_round [OF c1(1) assms(2) c1(2,3)] by (simp add: c'_def c1_def c2_def)
  have "cl_prepare_post (ne_clients env) (coap_send_flags_next c2) (Inr (case send_trigger c2 of None \<Rightarrow> [] | Some t \<Rightarrow> t))
      (clients_state c2) = (res, s)"
    using assms(3) c2(8-10) by simp
  note f = loop_send_sends [OF c2(1) assms(2) c2(2) this assms(4-6), folded c']
  show "waiting m 0 (coap_timeout c) c'" "sent c' = sent c @ [m]" "failures c' = failures c" "clients_state c' = s"
    "coap_handler (app c') = appl_client_handler (ne_clients env)" "result_handler (app c') = Coap_Result"
    "\<not> send_request_pending (app c')"
    "0 < get_send_interval c \<Longrightarrow> timer_work c' = Some (get_send_interval c)"
    "LTE_READY \<in> general_states c'" "LTE_INCOMING_DATA \<notin> general_states c'" "0 \<le> fd (app c')" "\<not> lte_power_off c'"
    using f c2 assms(1) by (simp_all add: idle_def)
qed

section \<open>An exchange of the device\<close>

lemma text_actions_client [simp]: "dev_client (fold (dev_text_action env) acts d) = dev_client d"
proof (induction acts arbitrary: d)
  case (Cons a acts)
  have "dev_client (dev_text_action env a d) = dev_client d"
    by (simp add: dev_text_action_def split: text_action.split option.split)
  then show ?case using Cons by simp
qed simp

lemma is_response_iff: "is_response r \<longleftrightarrow> r = Inr PARSE_RESPONSE \<or> r = Inr PARSE_CON_RESPONSE"
proof (cases r)
  case (Inr p)
  then show ?thesis by (cases p) (simp_all add: is_response_def less_eq_parse_result_t_def)
qed (simp add: is_response_def)

text \<open>How the device takes a datagram with a response code, after the request it has prepared last.\<close>

lemma dev_exchange:
  assumes "coap_appl_client_prepare_post (de_coap denv) nr payload ps mid uptime ((dev_appl dev)\<lparr>client := dev_client dev\<rparr>) = Some (res, st)"
    and "coap_packet_parse (de_coap denv) d = (0, reply)"
    and "coap_header_get_type (de_coap denv) reply \<in> {COAP_TYPE_CON, COAP_TYPE_NON_CON, COAP_TYPE_ACK, COAP_TYPE_RESET}"
    and "coap_header_get_code (de_coap denv) reply \<noteq> COAP_CODE_EMPTY"
    and "coap_ack_init (de_coap denv) reply 4 = (err, ack)"
    and "dev_appl_parse denv d (dev\<lparr>dev_appl := st, dev_client := client st\<rparr>) = (r, s)"
  shows "if coap_header_get_token (de_coap denv) reply = token_bytes (token_factory (dev_client dev))
    then if coap_header_get_type (de_coap denv) reply = COAP_TYPE_CON \<and> 0 \<le> err
         then r = Inr PARSE_CON_RESPONSE \<and> coap_client_message (dev_client s) = (int (length ack), ack)
         else r = Inr PARSE_RESPONSE
    else r \<notin> {Inr PARSE_RESPONSE, Inr PARSE_CON_RESPONSE, Inr PARSE_RST, Inr PARSE_ACK}"
proof -
  obtain r' st'' acts where p: "coap_appl_client_parse_data (de_coap denv) (word_of_int (de_uptime denv)) d st = (r', st'', acts)"
    by (rule prod_cases3)
  have r: "r' = r" "dev_client s = client st''"
    using assms(6) p by (auto simp: dev_appl_parse_def Let_def)
  have x: "is_response r \<longleftrightarrow> coap_header_get_token (de_coap denv) reply = token_bytes (token_factory (dev_client dev))"
      "is_response r \<Longrightarrow> r = Inr PARSE_CON_RESPONSE \<longleftrightarrow> coap_header_get_type (de_coap denv) reply = COAP_TYPE_CON \<and> 0 \<le> err"
      "is_response r \<Longrightarrow> r = Inr PARSE_CON_RESPONSE \<Longrightarrow> coap_client_message (dev_client s) = (int (length ack), ack)"
    using coap_exchange [OF assms(1-4), of "word_of_int (de_uptime denv)"] p r assms(5) by simp_all
  have "r \<noteq> Inr PARSE_RST \<and> r \<noteq> Inr PARSE_ACK"
    using p assms(2-4) r(1)
    by (auto simp: coap_appl_client_parse_data_def coap_client_match_def coap_match_token_def coap_client_prepare_ack_def Let_def
        split: prod.splits if_splits)
  then show ?thesis using x unfolding is_response_iff by auto
qed

text \<open>A round of the loop in which a datagram arrives for a request that waits for its response.\<close>

lemma waiting_round:
  assumes "waiting m rt t c" "working env" "LTE_READY \<in> general_states c" "LTE_INCOMING_DATA \<notin> general_states c"
    and "0 \<le> fd (app c)" "\<not> lte_power_off c" "ne_poll env = Poll_In data"
  shows "loop_round env c = loop_receive env data c"
proof -
  have rs: "request_state (app c) = RECEIVE" using assms(1) by (simp add: waiting_def)
  have sock: "loop_check_socket env c = c"
    using assms(2,5) by (simp add: working_def loop_check_socket_def check_socket_def get_socket_error_def Let_def)
  have down: "loop_download env c = (False, c)" by (simp add: loop_download_def rs)
  have inc: "loop_incoming env c = c" using assms(4) by (simp add: loop_incoming_def)
  show ?thesis using assms(3,6,7) by (simp add: loop_round_def sock down inc rs)
qed

text \<open>C1. A whole exchange, through the loop and the clients: when the timer of an idle device runs off, the next
  round of the loop sends the request that the application's client prepares, and the device waits for the
  response, the timer of the next request running. A datagram with a response code that carries the token of
  this request then ends it with success and resets the failures, after an ACK if it asks for one; with any
  other token it changes nothing of the request.\<close>

theorem device_exchange:
  fixes env :: "(('c, 'w) device, 'd) net_env" and denv :: "('p, 'c, 'w) device_env"
  assumes "idle env c" "working env" "ne_clients env = device_clients denv" "clients_state c = dev"
    and "coap_appl_client_prepare_post (de_coap denv) False (de_collect denv (coap_send_flags_next c) ''timer'')
      (de_settings denv) (de_mid denv) (word_of_int (de_uptime denv)) ((dev_appl dev)\<lparr>client := dev_client dev\<rparr>) = Some (res, st)"
    and "0 < res" "message (appl_context st) \<noteq> []" "0 < get_send_interval c"
    and "coap_packet_parse (de_coap denv) d = (0, reply)"
    and "coap_header_get_type (de_coap denv) reply \<in> {COAP_TYPE_CON, COAP_TYPE_NON_CON, COAP_TYPE_ACK, COAP_TYPE_RESET}"
    and "coap_header_get_code (de_coap denv) reply \<noteq> COAP_CODE_EMPTY"
    and "coap_ack_init (de_coap denv) reply 4 = (err, ack)" "0 \<le> err \<longrightarrow> ack \<noteq> []"
  defines "c1 \<equiv> loop_round env (dtls_timer_trigger_fn env c)"
  defines "c2 \<equiv> loop_round (env\<lparr>ne_poll := Poll_In (Some d)\<rparr>) c1"
  shows "sent c1 = sent c @ [message (appl_context st)] \<and> request_state (app c1) = RECEIVE \<and>
    timer_work c1 = Some (get_send_interval c) \<and>
    (if coap_header_get_token (de_coap denv) reply = token_bytes (token_factory (dev_client dev))
     then \<not> dtls_pending_request (request_state (app c2)) \<and> failures c2 = failures c \<and> current_failures c2 = 0 \<and>
       sent c2 = sent c1 @ (if coap_header_get_type (de_coap denv) reply = COAP_TYPE_CON \<and> 0 \<le> err then [ack] else [])
     else app c2 = app c1 \<and> sent c2 = sent c1)"
proof -
  let ?dev = "dev\<lparr>dev_appl := st, dev_client := client st\<rparr>" and ?env = "env\<lparr>ne_poll := Poll_In (Some d)\<rparr>"
  let ?m = "message (appl_context st)"
  have nr: "coap_send_flags_next c AND COAP_SEND_FLAG_NO_RESPONSE = 0" using assms(1) by (simp add: idle_def)
  have post: "cl_prepare_post (ne_clients env) (coap_send_flags_next c) (Inr ''timer'') (clients_state c) = (res, ?dev)"
    using assms(5) nr by (simp add: assms(3,4) device_clients_def dev_prepare_post_def Let_def)
  have msg: "h_get_message (appl_client_handler (ne_clients env)) ?dev = (int (length ?m), ?m)"
    by (simp add: assms(3) device_clients_def coap_appl_client_message_def coap_context_message_def)
  have "int (length ?m) \<noteq> 0" using assms(7) by simp
  note t = timer_round [OF assms(1,2) post assms(6) msg this, folded c1_def]
  have w: "working ?env" "good_network ?env" using assms(2) by (simp_all add: working_def good_network_def)
  have c2: "c2 = loop_receive ?env (Some d) c1"
    unfolding c2_def by (rule waiting_round [OF t(1) w(1) t(9-12)]) simp
  obtain r s where r: "dev_appl_parse denv d ?dev = (r, s)" by fastforce
  have h: "h_parse_data (coap_handler (app c1)) d (clients_state c1) = (r, s)"
    using r t(4,5) by (simp add: assms(3) device_clients_def)
  have wt: "plain_coap c1" "request_state (app c1) \<in> {SEND, RECEIVE, WAIT_RESPONSE}" "\<not> no_response (app c1)"
      "LTE_CONNECTED \<in> general_states c1" "request_state (app c1) = RECEIVE"
    using t(1) by (simp_all add: waiting_def)
  note x = dev_exchange [OF assms(5,9-12) r]
  have a: "ack_message (ne_clients ?env) s = coap_client_message (dev_client s)"
    by (simp add: assms(3) device_clients_def)
  have "r = Inr PARSE_CON_RESPONSE \<Longrightarrow> fst (ack_message (ne_clients ?env) s) \<noteq> 0"
    using x a assms(13) by (auto split: if_splits)
  note after = loop_receive_datagram [OF wt(1,2) t(7) wt(3,4) w(2) h this, folded c2]
  show ?thesis
  proof (intro conjI)
    show "sent c1 = sent c @ [?m]" "request_state (app c1) = RECEIVE" "timer_work c1 = Some (get_send_interval c)"
      using t(2,8) wt(5) assms(8) by simp_all
    show "if coap_header_get_token (de_coap denv) reply = token_bytes (token_factory (dev_client dev))
     then \<not> dtls_pending_request (request_state (app c2)) \<and> failures c2 = failures c \<and> current_failures c2 = 0 \<and>
       sent c2 = sent c1 @ (if coap_header_get_type (de_coap denv) reply = COAP_TYPE_CON \<and> 0 \<le> err then [ack] else [])
     else app c2 = app c1 \<and> sent c2 = sent c1"
      using x after a t(3)
      by (auto simp: after_datagram_def split: if_splits sum.splits parse_result_t.splits)
  qed
qed

theorem device_exchange_witness:
  "let env = sim_net (device_clients sim_device_env); c = sim_dev_client NONE;
       c1 = loop_round env (dtls_timer_trigger_fn env c);
       c2 = loop_round (env\<lparr>ne_poll := Poll_In (Some [2, 69, 7, 0, 255, 255, 255, 255])\<rparr>) c1
   in request_state (app c1) = RECEIVE \<and> \<not> dtls_pending_request (request_state (app c2))"
proof -
  let ?env = "sim_net (device_clients sim_device_env)" and ?c = "sim_dev_client NONE"
  let ?d = "[2, 69, 7, 0, 255, 255, 255, 255] :: u8 list"
  let ?p = "coap_appl_client_prepare_post sim_coap False [104, 105] sim_settings 7 (word_of_int 100000) (sim_appl\<lparr>client := sim_cc\<rparr>)"
  obtain res st where p: "?p = Some (res, st)" "0 < res" "message (appl_context st) \<noteq> []"
  proof -
    have "case ?p of None \<Rightarrow> False | Some (res, st) \<Rightarrow> 0 < res \<and> message (appl_context st) \<noteq> []" by code_simp
    then show thesis using that by (auto split: option.splits)
  qed
  have pending: "\<not> appl_update_coap_pending (dev_update sim_device)" "\<not> appl_reboots (dfu_reboot (upd_dfu (dev_update sim_device)))"
      "\<not> dev_provisioning sim_device"
    by code_simp+
  have "idle ?env ?c"
    using pending by (simp add: idle_def plain_coap_def sim_net_def sim_client_def sim_app_def device_clients_def)
  moreover have "working ?env" by (simp add: working_def good_network_def sim_net_def)
  moreover have "coap_packet_parse sim_coap ?d = (0, sim_reply 2 69 7 [255, 255, 255, 255])" by (simp add: sim_coap_def)
  moreover have "token_bytes (token_factory (dev_client sim_device)) = [255, 255, 255, 255]" by code_simp
  moreover have "0 < get_send_interval ?c" by (simp add: sim_client_def get_send_interval_def)
  ultimately show ?thesis
    using device_exchange [of ?env ?c sim_device_env sim_device res st ?d "sim_reply 2 69 7 [255, 255, 255, 255]"
        "fst (coap_ack_init sim_coap (sim_reply 2 69 7 [255, 255, 255, 255]) 4)"
        "snd (coap_ack_init sim_coap (sim_reply 2 69 7 [255, 255, 255, 255]) 4)"] p
    by (simp add: sim_device_env_def sim_device_def sim_client_def sim_coap_def sim_reply_def sim_net_def Let_def)
qed

section \<open>Triggers that get lost\<close>

text \<open>C36. The trigger of the timer gets lost when the modem connects before the loop has taken it: the incoming
  connection clears \<open>TRIGGER_SEND\<close>, the next round sends nothing, and as the timer is only started again with the
  next request, the device stops sending until a button, a command or a datagram triggers it.\<close>

theorem timer_trigger_lost:
  fixes env :: "('s, 'd) net_env"
  assumes "request_state (app c) = NONE" "\<not> cl_reboots (ne_clients env) (clients_state c)" "ne_modem_on env"
    and "{LTE_READY, LTE_READY_1S} \<subseteq> general_states c" "LTE_CONNECTED \<notin> general_states c" "LTE_SEND \<notin> general_states c"
    and "0 \<le> fd (app c)" "ne_socket_error env = 0" "\<not> cl_update_pending (ne_clients env) (clients_state c)"
    and "download_progress (app c) = 0"
  defines "c1 \<equiv> dtls_timer_trigger_fn env c"
  defines "c2 \<equiv> dtls_lte_state_handler env LTE_STATE_CONNECTED True c1"
  defines "c3 \<equiv> loop_round env c2"
  shows "TRIGGER_SEND \<in> general_states c1 \<and> trigger_msg_sem c1 \<and>
    TRIGGER_SEND \<notin> general_states c3 \<and> \<not> trigger_msg_sem c3 \<and> timer_work c3 = None \<and> sent c3 = sent c"
proof -
  have c1: "TRIGGER_SEND \<in> general_states c1" "trigger_msg_sem c1" "timer_work c1 = None" "sent c1 = sent c" "app c1 = app c"
      "clients_state c1 = clients_state c" "general_states c1 = insert TRIGGER_SEND (general_states c)" "lte_power_off c1 = lte_power_off c"
    using assms(1-3,5)
    by (auto simp: c1_def dtls_timer_trigger_fn_def dtls_trigger_def Let_def client_defs sent_def)
  have c2: "trigger_msg_sem c2" "timer_work c2 = None" "sent c2 = sent c" "app c2 = app c" "clients_state c2 = clients_state c"
      "TRIGGER_SEND \<notin> general_states c2" "LTE_READY \<in> general_states c2" "LTE_INCOMING_DATA \<in> general_states c2"
    using assms(1,2,4-6) c1
    by (auto simp: c2_def dtls_lte_state_handler_def lte_state_bit_def lte_connected_def dtls_trigger_def Let_def client_defs sent_def)
  have sock: "loop_check_socket env c2 = c2"
    using assms(7,8) c2(4) by (simp add: loop_check_socket_def check_socket_def get_socket_error_def Let_def)
  have down: "loop_download env c2 = (False, c2)"
    using assms(1,9,10) c2(4,5) by (simp add: loop_download_def cancel_progress_def Let_def)
  define c4 where "c4 = change_request_state INCOMING_DATA (clear_flags {LTE_INCOMING_DATA} c2)"
  have inc: "loop_incoming env c2 = c4"
    using assms(1) c2(4,8) by (simp add: loop_incoming_def dtls_coap_set_request_state_def Let_def c4_def)
  have c4: "trigger_msg_sem c4" "request_state (app c4) = INCOMING_DATA" "TRIGGER_SEND \<notin> general_states c4" "timer_work c4 = None"
      "sent c4 = sent c"
    using c2 by (simp_all add: c4_def change_request_state_def client_defs sent_def)
  define c5 where "c5 = dtls_power_management env c4"
  have c5: "trigger_msg_sem c5" "TRIGGER_SEND \<notin> general_states c5" "timer_work c5 = None" "sent c5 = sent c"
    using c4 unfolding c5_def by (simp_all) (simp add: dtls_power_management_def Let_def client_defs)
  have "c3 = loop_trigger env c4" using c2(7) c4(1,2) by (simp add: c3_def loop_round_def sock down inc)
  then have "c3 = c5\<lparr>trigger_msg_sem := False\<rparr>" using c5(1,2) by (simp add: loop_trigger_def c5_def Let_def)
  then show ?thesis using c1(1,2) c5 by (simp add: sent_def)
qed

theorem timer_trigger_lost_witness:
  "let env = sim_net sim_clients; c = (sim_client sim_handler NONE ())\<lparr>general_states := {LTE_ON, LTE_REGISTERED, LTE_READY, LTE_READY_1S}\<rparr>
   in timer_work (loop_round env (dtls_lte_state_handler env LTE_STATE_CONNECTED True (dtls_timer_trigger_fn env c))) = None"
  using timer_trigger_lost [of "(sim_client sim_handler NONE ())\<lparr>general_states := {LTE_ON, LTE_REGISTERED, LTE_READY, LTE_READY_1S}\<rparr>"
      "sim_net sim_clients"]
  by (simp add: sim_defs Let_def)

section \<open>The flights of a handshake\<close>

lemma send_to_peer_flight:
  fixes c :: "('s, 'd) dtls_client" and data :: "u8 list"
  assumes "good_network env"
  defines "c' \<equiv> snd (send_to_peer env data c)"
  shows "sent c' = sent c @ [data]" "dtls_next_flight (app c') = False"
    "dtls_flight (app c') = (if dtls_next_flight (app c) then dtls_flight (app c) + 2 else dtls_flight (app c))"
proof -
  obtain n e where n: "ne_sendto env (length data) = (n, e)" by fastforce
  then have "\<not> n < 0" using assms(1) by (metis fst_conv good_network_def not_less)
  then show "sent c' = sent c @ [data]" "dtls_next_flight (app c') = False"
    "dtls_flight (app c') = (if dtls_next_flight (app c) then dtls_flight (app c) + 2 else dtls_flight (app c))"
    using n by (auto simp: c'_def send_to_peer_def Let_def network_adjust_initial_timeout_def)
qed

text \<open>A flight in progress: not so many flights that their counter overflows, and a buffer that holds.\<close>

definition in_flight :: "('s, 'd) dtls_client \<Rightarrow> bool" where
  "in_flight c \<longleftrightarrow> 1 < dtls_flight (app c) \<and> (dtls_next_flight (app c) \<longrightarrow> dtls_flight (app c) < 254) \<and>
     length (dtls_buffer c) \<le> MAX_DTLS_BUF"

lemma flight_record:
  assumes "good_network env" "in_flight c" "data \<noteq> []" "length data \<le> MAX_DTLS_BUF"
  defines "c' \<equiv> snd (dtls_send_to_peer env data c)"
  shows "in_flight c' \<and>
    (\<exists>ds. sent c' = sent c @ ds \<and> concat ds @ dtls_buffer c' = dtls_buffer c @ data \<and> (\<forall>d \<in> set ds. length d \<le> MAX_DTLS_BUF))"
proof (cases "length (dtls_buffer c) + length data > MAX_DTLS_BUF")
  case True
  define c1 where "c1 = snd (send_to_peer env (dtls_buffer c) c)"
  note s = send_to_peer_flight [OF assms(1), of "dtls_buffer c" c, folded c1_def]
  have "c' = c1\<lparr>dtls_buffer := data\<rparr>"
    using True assms(2,3) by (simp add: c'_def dtls_send_to_peer_def Let_def c1_def in_flight_def)
  moreover have "1 < dtls_flight (app c1)"
    using s(3) assms(2) by (auto simp: in_flight_def word_less_nat_alt unat_word_ariths)
  ultimately show ?thesis
    using s assms(2,4) by (auto simp: in_flight_def sent_def intro: exI [of _ "[dtls_buffer c]"])
next
  case False
  then have "c' = c\<lparr>dtls_buffer := dtls_buffer c @ data\<rparr>"
    using assms(2,3) by (simp add: c'_def dtls_send_to_peer_def Let_def in_flight_def)
  then show ?thesis using False assms(2) by (auto simp: in_flight_def sent_def intro: exI [of _ "[]"])
qed

text \<open>C27. The records of a handshake's flight are merged into datagrams: whatever records tinydtls writes, none of
  them larger than the buffer, the datagrams sent and the rest in the buffer are together exactly the records
  in their order, and no datagram is larger than 512 bytes.\<close>

theorem flight_merged:
  assumes "good_network env" "in_flight c" "dtls_buffer c = []"
    and "\<forall>r \<in> set rs. r \<noteq> [] \<and> length r \<le> MAX_DTLS_BUF"
  defines "c' \<equiv> fold (\<lambda>r c. snd (dtls_send_to_peer env r c)) rs c"
  shows "\<exists>ds. sent c' = sent c @ ds \<and> concat ds @ dtls_buffer c' = concat rs \<and>
    (\<forall>d \<in> set (dtls_buffer c' # ds). length d \<le> MAX_DTLS_BUF)"
proof -
  have "\<exists>ds. in_flight (fold (\<lambda>r c. snd (dtls_send_to_peer env r c)) rs c) \<and>
      sent (fold (\<lambda>r c. snd (dtls_send_to_peer env r c)) rs c) = sent c @ ds \<and>
      concat ds @ dtls_buffer (fold (\<lambda>r c. snd (dtls_send_to_peer env r c)) rs c) = dtls_buffer c @ concat rs \<and>
      (\<forall>d \<in> set ds. length d \<le> MAX_DTLS_BUF)"
    using assms(2,4)
  proof (induction rs arbitrary: c)
    case (Cons r rs)
    let ?c = "snd (dtls_send_to_peer env r c)"
    obtain ds where r: "in_flight ?c" "sent ?c = sent c @ ds" "concat ds @ dtls_buffer ?c = dtls_buffer c @ r"
        "\<forall>d \<in> set ds. length d \<le> MAX_DTLS_BUF"
      using flight_record [OF assms(1) Cons.prems(1), of r] Cons.prems(2) by auto
    obtain es where "in_flight (fold (\<lambda>r c. snd (dtls_send_to_peer env r c)) rs ?c)"
        "sent (fold (\<lambda>r c. snd (dtls_send_to_peer env r c)) rs ?c) = sent ?c @ es"
        "concat es @ dtls_buffer (fold (\<lambda>r c. snd (dtls_send_to_peer env r c)) rs ?c) = dtls_buffer ?c @ concat rs"
        "\<forall>d \<in> set es. length d \<le> MAX_DTLS_BUF"
      using Cons.IH [OF r(1)] Cons.prems(2) by auto
    then show ?case using r by (intro exI [of _ "ds @ es"]) (auto simp flip: append_assoc, simp)
  qed (auto intro: exI [of _ "[]"])
  then show ?thesis using assms(3) by (auto simp: c'_def in_flight_def)
qed

theorem flight_merged_witness:
  "let c = (sim_client sim_handler SEND ())\<lparr>app := (sim_app sim_handler SEND)\<lparr>dtls_flight := 3\<rparr>\<rparr>;
       c' = fold (\<lambda>r c. snd (dtls_send_to_peer (sim_net sim_clients) r c)) [replicate 300 1, replicate 200 2, replicate 100 3] c
   in \<exists>ds. sent c' = sent c @ ds \<and> concat ds @ dtls_buffer c' = replicate 300 1 @ replicate 200 2 @ replicate 100 3"
proof -
  let ?c = "(sim_client sim_handler SEND ())\<lparr>app := (sim_app sim_handler SEND)\<lparr>dtls_flight := 3\<rparr>\<rparr>"
  have "good_network (sim_net sim_clients)" "in_flight ?c" "dtls_buffer ?c = []"
    by (simp_all add: good_network_def in_flight_def sim_defs)
  then show ?thesis
    using flight_merged [of "sim_net sim_clients" ?c "[replicate 300 1, replicate 200 2, replicate 100 3]"]
    unfolding Let_def by fastforce
qed

end
