(* ===== verification/Appl_Settings.thy ===== *)
theory Appl_Settings
  imports Coap_Appl Appl_Update
begin

text \<open>
  The settings of \<open>src/src/appl_settings.c\<close>: destination, identity, credentials and the history of reboots,
  their handlers for Zephyr's settings, the factory reset, the callbacks of tinydtls and the shell commands.

  \<^item> \<open>settings\<close> holds the static variables. Texts are C strings, keys are arrays of bytes; of \<open>psk_id\<close> and
    \<open>psk_key\<close> the bytes behind their lengths are not looked at. \<open>saved\<close> is what Zephyr keeps in the flash; how it is
    saved and what fails there is a parameter (\<open>zephyr_settings\<close>).
  \<^item> \<open>settings_env\<close> holds the parameters: sizes and functions of tinydtls, Zephyr's decoders, and the configured
    initial values. \<open>behind_zero\<close> is what a read behind the end of an array finds (see \<open>is_zero\<close>).
  \<^item> PSK, ECDSA, automatic provisioning and the unlock password are configured.
\<close>

section \<open>State\<close>

abbreviation (input) MAX_SETTINGS_VALUE_LENGTH :: nat where "MAX_SETTINGS_VALUE_LENGTH \<equiv> 64"
abbreviation (input) SCHEME_SIZE :: nat where "SCHEME_SIZE \<equiv> 12"
abbreviation (input) DTLS_EC_KEY_SIZE :: nat where "DTLS_EC_KEY_SIZE \<equiv> 32"
abbreviation (input) REBOOT_HISTORY :: nat where "REBOOT_HISTORY \<equiv> 4"
abbreviation (input) REBOOT_TIME_SIZE :: nat where "REBOOT_TIME_SIZE \<equiv> 6"
abbreviation (input) REBOOT_SIZE :: nat where "REBOOT_SIZE \<equiv> 8"
abbreviation (input) ECANCELED :: int where "ECANCELED \<equiv> 140"

record 'st settings =
  settings_initialized :: u8
  battery_profile :: u8
  apn :: cstring
  scheme :: cstring
  destination :: cstring
  destination_port :: u16
  destination_secure_port :: u16
  device_imei :: cstring
  device_id :: cstring
  settings_path :: cstring
  settings_query :: cstring
  reboot_codes :: "u8 list"
  unlock_password :: cstring
  psk_id :: "u8 list"
  psk_id_length :: nat
  psk_key :: "u8 list"
  psk_key_length :: nat
  ecdsa_priv_key :: "u8 list"
  ecdsa_pub_key :: "u8 list"
  trusted_pub_key :: "u8 list"
  ecdsa_provisioning_enabled :: u8
  ecdsa_provisioning_priv_key :: "u8 list"
  ecdsa_provisioning_pub_key :: "u8 list"
  saved :: 'st

record settings_env =
  max_identity :: nat
  max_key :: nat
  public_key2 :: "u8 list \<Rightarrow> int \<times> u8 list"
  base64_decode :: "cstring \<Rightarrow> nat \<Rightarrow> int + u8 list"
  hex2bin :: "cstring \<Rightarrow> nat \<Rightarrow> u8 list"
  behind_zero :: bool
  put_be48 :: "u64 \<Rightarrow> u8 list"
  get_be48 :: "u8 list \<Rightarrow> u64"
  put_be16 :: "u16 \<Rightarrow> u8 list"
  get_be16 :: "u8 list \<Rightarrow> u16"
  cfg_init_settings :: bool
  cfg_unlock_password :: "cstring option"
  cfg_hostname :: "cstring option"
  cfg_port :: u16
  cfg_secure_port :: u16
  cfg_scheme :: cstring
  cfg_resource :: "cstring option"
  cfg_query :: "cstring option"
  cfg_device_identity :: "cstring option"
  cfg_battery_type :: u8
  cfg_psk_identity :: "cstring option"
  cfg_psk_secret :: "u8 list + cstring"
  cfg_private_key :: "(u8 list \<times> u8 list) option + cstring"
  cfg_trusted_key :: "cstring option"
  cfg_provisioning_key :: cstring

text \<open>Texts and bytes, and an array of \<open>n\<close> bytes filled with zeros behind the data.\<close>

definition text_bytes :: "cstring \<Rightarrow> u8 list" where
  "text_bytes s = map (\<lambda>c. of_nat (of_char c)) s"

definition bytes_text :: "u8 list \<Rightarrow> cstring" where
  "bytes_text bs = map (\<lambda>b. char_of (unat b)) (takeWhile (\<lambda>b. b \<noteq> 0) bs)"

definition fill :: "nat \<Rightarrow> u8 list \<Rightarrow> u8 list" where
  "fill n bs = take n bs @ replicate (n - length bs) 0"

text \<open>Little endian 16 bit values, as the processor stores them.\<close>

definition le16 :: "u16 \<Rightarrow> u8 list" where
  "le16 v = [ucast v, ucast (drop_bit 8 v)]"

definition of_le16 :: "u8 list \<Rightarrow> u16" where
  "of_le16 bs = (case fill 2 bs of [a, b] \<Rightarrow> ucast a + push_bit 8 (ucast b) | _ \<Rightarrow> 0)"

section \<open>Decoding of configured keys\<close>

definition appl_settings_decode_value :: "settings_env \<Rightarrow> cstring \<Rightarrow> nat \<Rightarrow> int \<times> u8 list" where
  "appl_settings_decode_value env value len =
     (let n = length value
      in if value = [] then (0, [])
         else if hd value = CHR 0x27
         then (if 1 < n \<and> last value = CHR 0x27
               then (let res = min (n - 2) (len - 1) in (int res, text_bytes (take res (tl value))))
               else (- EINVAL, []))
         else if hd value = CHR '':''
         then (if take 3 value = '':0x'' \<and> n mod 2 = 1
               then (let bs = hex2bin env (drop 3 value) len in (int (length bs), bs))
               else (- EINVAL, []))
         else case base64_decode env value len of Inl err \<Rightarrow> (err, []) | Inr bs \<Rightarrow> (int (length bs), bs))"

text \<open>\<open>is_zero\<close> of the first \<open>n\<close> bytes; more bytes than the array has are read behind it.\<close>

definition is_zero :: "settings_env \<Rightarrow> u8 list \<Rightarrow> nat \<Rightarrow> bool" where
  "is_zero env key n \<longleftrightarrow> list_all (\<lambda>b. b = 0) (take n key) \<and> (n \<le> length key \<or> behind_zero env)"

definition ecdsa_pub_cert_asn1_header :: "u8 list" where
  "ecdsa_pub_cert_asn1_header =
     [0x30, 0x59, 0x30, 0x13, 0x06, 0x07, 0x2A, 0x86, 0x48, 0xCE, 0x3D, 0x02, 0x01, 0x06, 0x08,
      0x2A, 0x86, 0x48, 0xCE, 0x3D, 0x03, 0x01, 0x07, 0x03, 0x42, 0x00, 0x04]"

definition ecdsa_priv_asn1_header :: "u8 list" where
  "ecdsa_priv_asn1_header =
     [0x30, 0x41, 0x02, 0x01, 0x00, 0x30, 0x13, 0x06, 0x07, 0x2A, 0x86, 0x48, 0xCE, 0x3D, 0x02, 0x01, 0x06, 0x08,
      0x2A, 0x86, 0x48, 0xCE, 0x3D, 0x03, 0x01, 0x07, 0x04, 0x27, 0x30, 0x25, 0x02, 0x01, 0x01, 0x04, 0x20]"

definition ecdsa_priv_asn1_key :: "u8 list" where
  "ecdsa_priv_asn1_key = [0x30, 0x31, 0x02, 0x01, 0x01, 0x04, 0x20]"

text \<open>The result and the key of 64 bytes. A key with another header keeps the length of the whole value as result.\<close>

definition appl_settings_decode_public_key :: "settings_env \<Rightarrow> cstring \<Rightarrow> int \<times> u8 list" where
  "appl_settings_decode_public_key env value =
     (let size = length ecdsa_pub_cert_asn1_header + DTLS_EC_KEY_SIZE * 2;
          (res, bs) = appl_settings_decode_value env value size;
          temp = fill size bs;
          (res, buf) =
            (if res = int size
             then (if take (length ecdsa_pub_cert_asn1_header) temp \<noteq> ecdsa_pub_cert_asn1_header then (res, replicate 64 0)
                   else (64, drop (length ecdsa_pub_cert_asn1_header) temp))
             else if res = 64 then (64, take 64 temp)
             else (0, replicate 64 0))
      in (if is_zero env buf (nat res) then 0 else res, buf))"

definition appl_settings_decode_private_key :: "settings_env \<Rightarrow> cstring \<Rightarrow> int \<times> u8 list" where
  "appl_settings_decode_private_key env value =
     (let size = length ecdsa_priv_asn1_header + DTLS_EC_KEY_SIZE;
          (res, bs) = appl_settings_decode_value env value size;
          temp = fill size bs; n = length ecdsa_priv_asn1_header; k = length ecdsa_priv_asn1_key;
          (res, buf) =
            (if res = int size
             then (if take n temp = ecdsa_priv_asn1_header then (32, take 32 (drop n temp)) else (res, replicate 32 0))
             else if res = int (DTLS_EC_KEY_SIZE + k + 12)
             then (if take k temp = ecdsa_priv_asn1_key then (32, take 32 (drop k temp)) else (res, replicate 32 0))
             else if res = 32 then (32, take 32 temp)
             else (0, replicate 32 0))
      in (if is_zero env buf (nat res) then 0 else res, buf))"

section \<open>The callbacks of tinydtls\<close>

datatype dtls_credentials_type_t = DTLS_PSK_HINT | DTLS_PSK_IDENTITY | DTLS_PSK_KEY

datatype dtls_alert = DTLS_ALERT_INTERNAL_ERROR | DTLS_ALERT_ILLEGAL_PARAMETER | DTLS_ALERT_BAD_CERTIFICATE
  | DTLS_ALERT_UNSUPPORTED_CERTIFICATE | DTLS_ALERT_CERTIFICATE_UNKNOWN

text \<open>A fatal alert, or the bytes that are given out.\<close>

definition appl_settings_get_psk_info ::
  "dtls_credentials_type_t \<Rightarrow> u8 list \<Rightarrow> nat \<Rightarrow> 'st settings \<Rightarrow> dtls_alert + u8 list" where
  "appl_settings_get_psk_info type ident result_length s =
     (case type of
        DTLS_PSK_IDENTITY \<Rightarrow>
          if result_length < psk_id_length s then Inl DTLS_ALERT_INTERNAL_ERROR else Inr (take (psk_id_length s) (psk_id s))
      | DTLS_PSK_KEY \<Rightarrow>
          if length ident \<noteq> psk_id_length s \<or> take (length ident) (psk_id s) \<noteq> ident then Inl DTLS_ALERT_ILLEGAL_PARAMETER
          else if result_length < psk_key_length s then Inl DTLS_ALERT_INTERNAL_ERROR
          else Inr (take (psk_key_length s) (psk_key s))
      | DTLS_PSK_HINT \<Rightarrow> Inl DTLS_ALERT_INTERNAL_ERROR)"

definition appl_settings_get_ecdsa_key :: "settings_env \<Rightarrow> 'st settings \<Rightarrow> dtls_alert + (u8 list \<times> u8 list)" where
  "appl_settings_get_ecdsa_key env s =
     (let (priv, pub) = (if ecdsa_provisioning_enabled s \<noteq> 0 then (ecdsa_provisioning_priv_key s, ecdsa_provisioning_pub_key s)
                         else (ecdsa_priv_key s, ecdsa_pub_key s))
      in if is_zero env priv DTLS_EC_KEY_SIZE then Inl DTLS_ALERT_BAD_CERTIFICATE else Inr (priv, pub))"

definition appl_settings_verify_ecdsa_key :: "u8 list \<Rightarrow> u8 list \<Rightarrow> 'st settings \<Rightarrow> dtls_alert option" where
  "appl_settings_verify_ecdsa_key other_pub_x other_pub_y s =
     (if length other_pub_x \<noteq> DTLS_EC_KEY_SIZE then Some DTLS_ALERT_UNSUPPORTED_CERTIFICATE
      else if take DTLS_EC_KEY_SIZE (trusted_pub_key s) \<noteq> other_pub_x then Some DTLS_ALERT_CERTIFICATE_UNKNOWN
      else if drop DTLS_EC_KEY_SIZE (trusted_pub_key s) \<noteq> other_pub_y then Some DTLS_ALERT_CERTIFICATE_UNKNOWN
      else None)"

section \<open>The handlers of the settings\<close>

abbreviation (input) SETTINGS_NAME_SEPARATOR :: char where "SETTINGS_NAME_SEPARATOR \<equiv> CHR ''/''"

text \<open>The first part of a name: its length, and what follows the separator.\<close>

definition settings_name_next :: "cstring \<Rightarrow> nat \<times> cstring option" where
  "settings_name_next name =
     (let part = takeWhile (\<lambda>c. c \<noteq> SETTINGS_NAME_SEPARATOR \<and> c \<noteq> CHR ''='') name; rest = drop (length part) name
      in (length part, if c_deref rest = SETTINGS_NAME_SEPARATOR then Some (tl rest) else None))"

definition appl_settings_key_match :: "cstring \<Rightarrow> cstring \<Rightarrow> nat \<Rightarrow> bool" where
  "appl_settings_key_match name label len \<longleftrightarrow> len = length label \<and> take len name = take len label"

text \<open>Zephyr's callback that reads at most \<open>n\<close> bytes of the value, or fails.\<close>

definition settings_read :: "nat \<Rightarrow> int + u8 list \<Rightarrow> int \<times> u8 list" where
  "settings_read n v = (case v of Inl err \<Rightarrow> (err, []) | Inr bs \<Rightarrow> (int (min n (length bs)), take n bs))"

definition set_byte :: "u8 \<Rightarrow> int + u8 list \<Rightarrow> u8" where
  "set_byte dflt v = (let (res, bs) = settings_read 1 v in if res = 1 then hd bs else dflt)"

definition handle_set_number ::
  "settings_env \<Rightarrow> cstring \<Rightarrow> nat \<Rightarrow> int + u8 list \<Rightarrow> 'st settings \<Rightarrow> 'st settings option" where
  "handle_set_number env name n v s =
     (if appl_settings_key_match name ''init'' n then Some (s\<lparr>settings_initialized := set_byte 0 v\<rparr>)
      else if appl_settings_key_match name ''prov'' n then Some (s\<lparr>ecdsa_provisioning_enabled := set_byte 0 v\<rparr>)
      else if appl_settings_key_match name ''bat'' n then Some (s\<lparr>battery_profile := set_byte (cfg_battery_type env) v\<rparr>)
      else if appl_settings_key_match name ''port'' n then Some (s\<lparr>destination_port := of_le16 (snd (settings_read 2 v))\<rparr>)
      else if appl_settings_key_match name ''sport'' n
      then Some (s\<lparr>destination_secure_port := of_le16 (snd (settings_read 2 v))\<rparr>)
      else None)"

definition set_text :: "nat \<Rightarrow> int + u8 list \<Rightarrow> cstring" where
  "set_text sz v = bytes_text (snd (settings_read (sz - 1) v))"

definition handle_set_text ::
  "settings_env \<Rightarrow> cstring \<Rightarrow> nat \<Rightarrow> int + u8 list \<Rightarrow> 'st settings \<Rightarrow> 'st settings option" where
  "handle_set_text env name n v s =
     (if appl_settings_key_match name ''apn'' n then Some (s\<lparr>apn := set_text MAX_SETTINGS_VALUE_LENGTH v\<rparr>)
      else if appl_settings_key_match name ''scheme'' n then Some (s\<lparr>scheme := set_text SCHEME_SIZE v\<rparr>)
      else if appl_settings_key_match name ''dest'' n then Some (s\<lparr>destination := set_text MAX_SETTINGS_VALUE_LENGTH v\<rparr>)
      else if appl_settings_key_match name ''path'' n then Some (s\<lparr>settings_path := set_text MAX_SETTINGS_VALUE_LENGTH v\<rparr>)
      else if appl_settings_key_match name ''query'' n then Some (s\<lparr>settings_query := set_text MAX_SETTINGS_VALUE_LENGTH v\<rparr>)
      else if appl_settings_key_match name ''reboots'' n
      then Some (s\<lparr>reboot_codes := fill (REBOOT_SIZE * REBOOT_HISTORY) (snd (settings_read (REBOOT_SIZE * REBOOT_HISTORY) v))\<rparr>)
      else if appl_settings_key_match name ''id'' n then Some (s\<lparr>device_id := set_text (max_identity env + 1) v\<rparr>)
      else if appl_settings_key_match name ''unlock'' n
      then Some (if fst (settings_read (max_key env) v) > 0 then s\<lparr>unlock_password := set_text (max_key env + 1) v\<rparr> else s)
      else None)"

definition handle_set_key ::
  "settings_env \<Rightarrow> cstring \<Rightarrow> nat \<Rightarrow> int + u8 list \<Rightarrow> 'st settings \<Rightarrow> 'st settings option" where
  "handle_set_key env name n v s =
     (if appl_settings_key_match name ''psk_id'' n
      then (let (res, bs) = settings_read (max_identity env) v
            in Some (s\<lparr>psk_id := fill (max_identity env + 1) bs, psk_id_length := nat res\<rparr>))
      else if appl_settings_key_match name ''psk_key'' n
      then (let (res, bs) = settings_read (max_key env - 1) v
            in Some (s\<lparr>psk_key := fill (max_key env) bs, psk_key_length := nat res\<rparr>))
      else if appl_settings_key_match name ''ec_priv'' n
      then (let (res, bs) = settings_read DTLS_EC_KEY_SIZE v; priv = fill DTLS_EC_KEY_SIZE bs
            in Some (s\<lparr>ecdsa_priv_key := priv,
                       ecdsa_pub_key := (if res > 0 then snd (public_key2 env priv) else replicate (DTLS_EC_KEY_SIZE * 2) 0)\<rparr>))
      else if appl_settings_key_match name ''ec_tr_pub'' n
      then Some (s\<lparr>trusted_pub_key := fill (DTLS_EC_KEY_SIZE * 2) (snd (settings_read (DTLS_EC_KEY_SIZE * 2) v))\<rparr>)
      else None)"

definition appl_settings_handle_set :: "settings_env \<Rightarrow> cstring \<Rightarrow> int + u8 list \<Rightarrow> 'st settings \<Rightarrow> int \<times> 'st settings" where
  "appl_settings_handle_set env name v s =
     (let (n, rest) = settings_name_next name
      in if rest \<noteq> None then (- ENOENT, s)
         else case handle_set_number env name n v s of
                Some s \<Rightarrow> (0, s)
              | None \<Rightarrow>
                  (case handle_set_text env name n v s of
                     Some s \<Rightarrow> (0, s)
                   | None \<Rightarrow> (case handle_set_key env name n v s of Some s \<Rightarrow> (0, s) | None \<Rightarrow> (- ENOENT, s))))"

text \<open>What is exported, in order; incomplete PSK credentials are removed.\<close>

definition service_key :: "cstring \<Rightarrow> cstring" where
  "service_key key = ''csrv/'' @ key"

definition appl_settings_handle_export :: "'st settings \<Rightarrow> (cstring \<times> u8 list) list \<times> 'st settings" where
  "appl_settings_handle_export s =
     (let psk = (psk_id_length s \<noteq> 0 \<and> psk_key_length s \<noteq> 0)
      in (map (map_prod service_key id)
            ([(''init'', [settings_initialized s]), (''port'', le16 (destination_port s)),
              (''sport'', le16 (destination_secure_port s)), (''id'', text_bytes (device_id s)),
              (''scheme'', text_bytes (scheme s)), (''dest'', text_bytes (destination s)),
              (''path'', text_bytes (settings_path s)), (''query'', text_bytes (settings_query s)),
              (''reboots'', reboot_codes s), (''apn'', text_bytes (apn s)), (''bat'', [battery_profile s]),
              (''unlock'', text_bytes (unlock_password s))] @
             (if psk then [(''psk_id'', take (psk_id_length s) (psk_id s)), (''psk_key'', take (psk_key_length s) (psk_key s))] else []) @
             [(''ec_priv'', ecdsa_priv_key s), (''ec_tr_pub'', trusted_pub_key s), (''prov'', [ecdsa_provisioning_enabled s])]),
          if psk then s
          else s\<lparr>psk_id_length := 0, psk_key_length := 0, psk_id := replicate (length (psk_id s)) 0,
                 psk_key := replicate (length (psk_key s)) 0\<rparr>))"

text \<open>A text with its length, if it fits with its terminator.\<close>

definition appl_settings_copy :: "cstring \<Rightarrow> nat \<Rightarrow> int \<times> u8 list" where
  "appl_settings_copy value len = (if length value + 1 > len then (- EINVAL, []) else (int (length value), text_bytes value))"

definition get_bytes :: "u8 list \<Rightarrow> nat \<Rightarrow> int \<times> u8 list" where
  "get_bytes bs len = (if length bs > len then (- EINVAL, []) else (int (length bs), bs))"

definition handle_get_plain :: "cstring \<Rightarrow> nat \<Rightarrow> nat \<Rightarrow> 'st settings \<Rightarrow> (int \<times> u8 list) option" where
  "handle_get_plain name n len s =
     (if appl_settings_key_match name ''init'' n then Some (get_bytes [settings_initialized s] len)
      else if appl_settings_key_match name ''prov'' n then Some (get_bytes [ecdsa_provisioning_enabled s] len)
      else if appl_settings_key_match name ''bat'' n then Some (get_bytes [battery_profile s] len)
      else if appl_settings_key_match name ''port'' n then Some (get_bytes (le16 (destination_port s)) len)
      else if appl_settings_key_match name ''sport'' n then Some (get_bytes (le16 (destination_secure_port s)) len)
      else if appl_settings_key_match name ''apn'' n then Some (appl_settings_copy (apn s) len)
      else if appl_settings_key_match name ''scheme'' n then Some (appl_settings_copy (scheme s) len)
      else if appl_settings_key_match name ''dest'' n then Some (appl_settings_copy (destination s) len)
      else if appl_settings_key_match name ''path'' n then Some (appl_settings_copy (settings_path s) len)
      else if appl_settings_key_match name ''query'' n then Some (appl_settings_copy (settings_query s) len)
      else if appl_settings_key_match name ''reboots'' n then Some (appl_settings_copy (bytes_text (reboot_codes s)) len)
      else if appl_settings_key_match name ''id'' n then Some (appl_settings_copy (device_id s) len)
      else None)"

text \<open>Keys: the PSK secret is only given out when the shell is not protected, the private key and the password never.
  The array of the PSK secret is copied as a text, that is up to its first zero byte.\<close>

definition handle_get_key :: "settings_env \<Rightarrow> bool \<Rightarrow> cstring \<Rightarrow> nat \<Rightarrow> nat \<Rightarrow> 'st settings \<Rightarrow> (int \<times> u8 list) option" where
  "handle_get_key env sh_protected name n len s =
     (if appl_settings_key_match name ''psk_id'' n then Some (appl_settings_copy (bytes_text (psk_id s)) len)
      else if appl_settings_key_match name ''psk_key'' n
      then Some (if psk_key_length s = 0 \<or> sh_protected then (0, []) else appl_settings_copy (bytes_text (psk_key s)) len)
      else if appl_settings_key_match name ''ec_priv'' n then Some (0, [])
      else if appl_settings_key_match name ''ec_pub'' n
      then Some (if is_zero env (ecdsa_pub_key s) (DTLS_EC_KEY_SIZE * 2) then (0, []) else get_bytes (ecdsa_pub_key s) len)
      else if appl_settings_key_match name ''ec_tr_pub'' n
      then Some (if is_zero env (trusted_pub_key s) (DTLS_EC_KEY_SIZE * 2) then (0, []) else get_bytes (trusted_pub_key s) len)
      else if appl_settings_key_match name ''unlock'' n then Some (0, [])
      else None)"

definition appl_settings_handle_get :: "settings_env \<Rightarrow> bool \<Rightarrow> cstring \<Rightarrow> nat \<Rightarrow> 'st settings \<Rightarrow> int \<times> u8 list" where
  "appl_settings_handle_get env sh_protected name len s =
     (let (n, rest) = settings_name_next name
      in if rest \<noteq> None then (- ENOENT, [])
         else case handle_get_plain name n len s of
                Some r \<Rightarrow> r
              | None \<Rightarrow> (case handle_get_key env sh_protected name n len s of Some r \<Rightarrow> r | None \<Rightarrow> (- ENOENT, [])))"

section \<open>Zephyr's settings\<close>

text \<open>The storage of Zephyr: the name that it hands to the handlers above for a full name, saving one value or all
  that are exported, and deleting one.\<close>

record 'st zephyr_settings =
  zs_handler :: "cstring \<Rightarrow> cstring option"
  zs_save_one :: "cstring \<Rightarrow> u8 list \<Rightarrow> 'st \<Rightarrow> int \<times> 'st"
  zs_save :: "(cstring \<times> u8 list) list \<Rightarrow> 'st \<Rightarrow> int \<times> 'st"
  zs_delete :: "cstring \<Rightarrow> 'st \<Rightarrow> int \<times> 'st"

definition settings_save_one :: "'st zephyr_settings \<Rightarrow> cstring \<Rightarrow> u8 list \<Rightarrow> 'st settings \<Rightarrow> int \<times> 'st settings" where
  "settings_save_one z key v s = (let (res, st) = zs_save_one z key v (saved s) in (res, s\<lparr>saved := st\<rparr>))"

definition settings_delete :: "'st zephyr_settings \<Rightarrow> cstring \<Rightarrow> 'st settings \<Rightarrow> int \<times> 'st settings" where
  "settings_delete z key s = (let (res, st) = zs_delete z key (saved s) in (res, s\<lparr>saved := st\<rparr>))"

definition settings_save :: "'st zephyr_settings \<Rightarrow> 'st settings \<Rightarrow> 'st settings" where
  "settings_save z s =
     (let (kvs, s) = appl_settings_handle_export s; (_, st) = zs_save z kvs (saved s) in s\<lparr>saved := st\<rparr>)"

definition settings_runtime_set ::
  "'st zephyr_settings \<Rightarrow> settings_env \<Rightarrow> cstring \<Rightarrow> u8 list \<Rightarrow> 'st settings \<Rightarrow> int \<times> 'st settings" where
  "settings_runtime_set z env key v s =
     (case zs_handler z key of None \<Rightarrow> (- EINVAL, s) | Some name \<Rightarrow> appl_settings_handle_set env name (Inr v) s)"

definition settings_runtime_get ::
  "'st zephyr_settings \<Rightarrow> settings_env \<Rightarrow> bool \<Rightarrow> cstring \<Rightarrow> nat \<Rightarrow> 'st settings \<Rightarrow> int \<times> u8 list" where
  "settings_runtime_get z env sh_protected key len s =
     (case zs_handler z key of None \<Rightarrow> (- EINVAL, []) | Some name \<Rightarrow> appl_settings_handle_get env sh_protected name len s)"

section \<open>Initial values\<close>

abbreviation (input) SETTINGS_RESET_DEST :: int where "SETTINGS_RESET_DEST \<equiv> 1"
abbreviation (input) SETTINGS_RESET_ID :: int where "SETTINGS_RESET_ID \<equiv> 2"
abbreviation (input) SETTINGS_RESET_UNLOCK :: int where "SETTINGS_RESET_UNLOCK \<equiv> 4"
abbreviation (input) SETTINGS_RESET_PSK :: int where "SETTINGS_RESET_PSK \<equiv> 8"
abbreviation (input) SETTINGS_RESET_ECDSA :: int where "SETTINGS_RESET_ECDSA \<equiv> 16"
abbreviation (input) SETTINGS_RESET_TRUST :: int where "SETTINGS_RESET_TRUST \<equiv> 32"
abbreviation (input) SETTINGS_RESET_PROVISIONING :: int where "SETTINGS_RESET_PROVISIONING \<equiv> 64"

definition appl_settings_init_provisioning :: "settings_env \<Rightarrow> 'st settings \<Rightarrow> int \<times> 'st settings" where
  "appl_settings_init_provisioning env s =
     (let (len, key) = appl_settings_decode_private_key env (cfg_provisioning_key env)
      in if len = int DTLS_EC_KEY_SIZE
         then (let (res, pub) = public_key2 env key
               in (res, s\<lparr>ecdsa_provisioning_priv_key := key, ecdsa_provisioning_pub_key := pub\<rparr>))
         else (0, s\<lparr>ecdsa_provisioning_priv_key := replicate 32 0, ecdsa_provisioning_pub_key := replicate 64 0\<rparr>))"

text \<open>The text with \<open>${imei}\<close> replaced, in a buffer of \<open>sz\<close> bytes, and its length.\<close>

definition appl_settings_expand_imei :: "cstring \<Rightarrow> nat \<Rightarrow> cstring \<Rightarrow> int \<times> cstring" where
  "appl_settings_expand_imei imei sz value =
     (let buf = take (sz - 1) value; id_len = length buf
      in case strstr buf ''${imei}'' of
           None \<Rightarrow> (int id_len, buf)
         | Some cur \<Rightarrow>
             (let imei_len = min (length imei) (sz - id_len + 6)
              in (int id_len + int imei_len - 7, take cur buf @ take imei_len imei @ drop (cur + 7) buf)))"

definition expand_option :: "cstring \<Rightarrow> nat \<Rightarrow> cstring option \<Rightarrow> cstring" where
  "expand_option imei sz value = (case value of None \<Rightarrow> [] | Some v \<Rightarrow> snd (appl_settings_expand_imei imei sz v))"

definition reset_dest :: "settings_env \<Rightarrow> 'st settings \<Rightarrow> 'st settings" where
  "reset_dest env s = s\<lparr>scheme := take (SCHEME_SIZE - 1) (cfg_scheme env),
     destination := (case cfg_hostname env of None \<Rightarrow> [] | Some h \<Rightarrow> take (MAX_SETTINGS_VALUE_LENGTH - 1) h),
     destination_port := cfg_port env, destination_secure_port := cfg_secure_port env,
     settings_path := expand_option (device_imei s) MAX_SETTINGS_VALUE_LENGTH (cfg_resource env),
     settings_query := expand_option (device_imei s) MAX_SETTINGS_VALUE_LENGTH (cfg_query env)\<rparr>"

definition reset_id :: "settings_env \<Rightarrow> 'st settings \<Rightarrow> 'st settings" where
  "reset_id env s = s\<lparr>device_id := expand_option (device_imei s) (max_identity env + 1) (cfg_device_identity env),
     battery_profile := cfg_battery_type env\<rparr>"

text \<open>The PSK secret is generated (12 bytes) or decoded.\<close>

definition reset_psk :: "settings_env \<Rightarrow> 'st settings \<Rightarrow> 'st settings" where
  "reset_psk env s =
     (let ident = text_bytes (expand_option (device_imei s) (max_identity env + 1) (cfg_psk_identity env));
          (res, key) = (case cfg_psk_secret env of
              Inl random \<Rightarrow> (12, random) | Inr v \<Rightarrow> appl_settings_decode_value env v (max_key env))
      in if ident \<noteq> [] \<and> res > 0
         then s\<lparr>psk_id := fill (max_identity env + 1) ident, psk_id_length := length ident,
                psk_key := fill (max_key env) key, psk_key_length := nat res\<rparr>
         else s\<lparr>psk_id := replicate (max_identity env + 1) 0, psk_id_length := 0,
                psk_key := (if ident \<noteq> [] then fill (max_key env) key else replicate (max_key env) 0), psk_key_length := 0\<rparr>)"

text \<open>The private key is generated, with its public key, or decoded.\<close>

definition reset_ecdsa :: "settings_env \<Rightarrow> 'st settings \<Rightarrow> 'st settings" where
  "reset_ecdsa env s =
     (case cfg_private_key env of
        Inl (Some (priv, pub)) \<Rightarrow> s\<lparr>ecdsa_priv_key := priv, ecdsa_pub_key := pub\<rparr>
      | Inl None \<Rightarrow> s\<lparr>ecdsa_priv_key := replicate 32 0, ecdsa_pub_key := replicate 64 0\<rparr>
      | Inr v \<Rightarrow>
          (let (res, key) = appl_settings_decode_private_key env v
           in if res = int DTLS_EC_KEY_SIZE then s\<lparr>ecdsa_priv_key := key, ecdsa_pub_key := snd (public_key2 env key)\<rparr>
              else s\<lparr>ecdsa_priv_key := (if res > 0 then replicate 32 0 else key), ecdsa_pub_key := replicate 64 0\<rparr>))"

definition reset_trust :: "settings_env \<Rightarrow> 'st settings \<Rightarrow> 'st settings" where
  "reset_trust env s = s\<lparr>trusted_pub_key :=
     (case cfg_trusted_key env of None \<Rightarrow> replicate 64 0 | Some v \<Rightarrow> snd (appl_settings_decode_public_key env v))\<rparr>"

text \<open>The factory reset: without initial settings it is canceled if it would lose the password or the destination.\<close>

definition appl_setting_factory_reset :: "'st zephyr_settings \<Rightarrow> settings_env \<Rightarrow> int \<Rightarrow> 'st settings \<Rightarrow> int \<times> 'st settings" where
  "appl_setting_factory_reset z env flags s =
     (let has = (\<lambda>f. flags AND f \<noteq> 0)
      in if has SETTINGS_RESET_UNLOCK \<and> \<not> cfg_init_settings env \<and> unlock_password s \<noteq> [] then (- ECANCELED, s)
         else (let s = (if has SETTINGS_RESET_UNLOCK
                        then s\<lparr>unlock_password := (case cfg_unlock_password env of None \<Rightarrow> [] | Some p \<Rightarrow> take (max_key env) p)\<rparr>
                        else s)
               in if has SETTINGS_RESET_DEST \<and> \<not> cfg_init_settings env \<and> destination s \<noteq> [] then (- ECANCELED, s)
                  else (let s = (if has SETTINGS_RESET_DEST then reset_dest env s else s);
                            s = (if has SETTINGS_RESET_ID then reset_id env s else s);
                            s = (if has SETTINGS_RESET_PSK then reset_psk env s else s);
                            s = (if has SETTINGS_RESET_ECDSA then reset_ecdsa env s else s);
                            s = (if has SETTINGS_RESET_TRUST then reset_trust env s else s);
                            (prov, s) = (if has SETTINGS_RESET_PROVISIONING then appl_settings_init_provisioning env s else (0, s));
                            s = (if prov \<noteq> 0 then s\<lparr>ecdsa_provisioning_enabled := 1\<rparr> else s);
                            save = (flags AND 63 \<noteq> 0 \<or> prov \<noteq> 0)
                        in (1, if save \<or> settings_initialized s = 0
                               then settings_save z (s\<lparr>settings_initialized := 1\<rparr>) else s))))"

definition appl_settings_is_provisioning :: "'st settings \<Rightarrow> bool" where
  "appl_settings_is_provisioning s \<longleftrightarrow> ecdsa_provisioning_enabled s \<noteq> 0"

definition appl_settings_provisioning_done :: "'st zephyr_settings \<Rightarrow> 'st settings \<Rightarrow> 'st settings" where
  "appl_settings_provisioning_done z s =
     (if ecdsa_provisioning_enabled s \<noteq> 0
      then snd (settings_save_one z (service_key ''prov'') [0] (s\<lparr>ecdsa_provisioning_enabled := 0\<rparr>)) else s)"

record settings_handler =
  has_psk_info :: bool
  has_ecdsa_key :: bool
  has_verify_ecdsa_key :: bool

text \<open>The initialization; \<open>res\<close> is the static result, which a call without arguments returns. The callbacks are given
  to tinydtls if there are credentials for them.\<close>

definition appl_settings_init ::
  "'st zephyr_settings \<Rightarrow> settings_env \<Rightarrow> cstring option \<Rightarrow> settings_handler option \<Rightarrow> int \<times> 'st settings
   \<Rightarrow> settings_handler option \<times> int \<times> 'st settings" where
  "appl_settings_init z env imei handler rs =
     (if imei = None \<and> handler = None then (handler, rs)
      else (let (res, s) = rs;
                s = (case imei of None \<Rightarrow> s | Some i \<Rightarrow> s\<lparr>device_imei := take (max_identity env) i\<rparr>);
                (res, s) =
                  (if settings_initialized s \<noteq> 0
                   then (res, if handler \<noteq> None \<and> ecdsa_provisioning_enabled s \<noteq> 0
                              then (let (ok, s) = appl_settings_init_provisioning env s
                                    in if ok = 0 then appl_settings_provisioning_done z s else s)
                              else s)
                   else appl_setting_factory_reset z env (if handler \<noteq> None then 127 else 7) s)
            in (map_option (\<lambda>h. h\<lparr>has_psk_info := (has_psk_info h \<or> psk_id_length s \<noteq> 0 \<and> psk_key_length s \<noteq> 0),
                  has_ecdsa_key := (has_ecdsa_key h \<or> \<not> is_zero env (ecdsa_priv_key s) 32 \<and> \<not> is_zero env (ecdsa_pub_key s) 64),
                  has_verify_ecdsa_key := (has_verify_ecdsa_key h \<or> \<not> is_zero env (trusted_pub_key s) 64)\<rparr>) handler, res, s)))"

section \<open>Reading the settings\<close>

definition appl_settings_get_apn :: "nat \<Rightarrow> 'st settings \<Rightarrow> int \<times> u8 list" where
  "appl_settings_get_apn len s = appl_settings_copy (apn s) len"

definition appl_settings_get_device_identity :: "nat \<Rightarrow> 'st settings \<Rightarrow> int \<times> u8 list" where
  "appl_settings_get_device_identity len s = appl_settings_copy (device_id s) len"

definition appl_settings_get_scheme :: "nat \<Rightarrow> 'st settings \<Rightarrow> int \<times> u8 list" where
  "appl_settings_get_scheme len s = appl_settings_copy (scheme s) len"

definition appl_settings_get_destination :: "nat \<Rightarrow> 'st settings \<Rightarrow> int \<times> u8 list" where
  "appl_settings_get_destination len s = appl_settings_copy (destination s) len"

definition appl_settings_get_coap_path :: "nat \<Rightarrow> 'st settings \<Rightarrow> int \<times> u8 list" where
  "appl_settings_get_coap_path len s = appl_settings_copy (settings_path s) len"

definition appl_settings_get_coap_query :: "nat \<Rightarrow> 'st settings \<Rightarrow> int \<times> u8 list" where
  "appl_settings_get_coap_query len s = appl_settings_copy (settings_query s) len"

definition appl_settings_get_destination_port :: "bool \<Rightarrow> 'st settings \<Rightarrow> u16" where
  "appl_settings_get_destination_port secure s = (if secure then destination_secure_port s else destination_port s)"

definition appl_settings_get_battery_profile :: "'st settings \<Rightarrow> u8" where
  "appl_settings_get_battery_profile s = battery_profile s"

text \<open>The reboots: time in milliseconds and code, newest first; the time 1 stands for an unknown time.\<close>

definition appl_settings_get_reboot_code :: "settings_env \<Rightarrow> nat \<Rightarrow> 'st settings \<Rightarrow> (u64 \<times> u16) option" where
  "appl_settings_get_reboot_code env index s =
     (let i = index * REBOOT_SIZE
      in if i + REBOOT_SIZE \<le> REBOOT_SIZE * REBOOT_HISTORY
         then (let time_s = get_be48 env (take REBOOT_TIME_SIZE (drop i (reboot_codes s)))
               in if time_s \<noteq> 0
                  then Some (if time_s = 1 then 0 else time_s * 1000, get_be16 env (take 2 (drop (i + REBOOT_TIME_SIZE) (reboot_codes s))))
                  else None)
         else None)"

definition reboot_time :: "u64 \<Rightarrow> u64" where
  "reboot_time now = (let t = word_of_int (c_div (sint now) MSEC_PER_SEC) AND 0xffffffffffff in if t = 0 then 1 else t)"

definition appl_settings_add_reboot_code ::
  "'st zephyr_settings \<Rightarrow> settings_env \<Rightarrow> u64 \<Rightarrow> u16 \<Rightarrow> 'st settings \<Rightarrow> int \<times> 'st settings" where
  "appl_settings_add_reboot_code z env now reboot_code s =
     (let codes = put_be48 env (reboot_time now) @ put_be16 env reboot_code @
                    take (REBOOT_SIZE * REBOOT_HISTORY - REBOOT_SIZE) (reboot_codes s)
      in settings_save_one z (service_key ''reboots'') codes (s\<lparr>reboot_codes := codes\<rparr>))"

definition appl_settings_unlock :: "cstring \<Rightarrow> 'st settings \<Rightarrow> bool" where
  "appl_settings_unlock value s \<longleftrightarrow> value \<noteq> [] \<and> unlock_password s = value"

section \<open>Commands\<close>

abbreviation (input) SETTINGS_KEY_BUF :: nat where "SETTINGS_KEY_BUF \<equiv> 25"
abbreviation (input) SETTINGS_MAX_VAL_LEN :: nat where "SETTINGS_MAX_VAL_LEN \<equiv> 256"
abbreviation (input) ERROR_CODE_REINIT_CMD :: int where "ERROR_CODE_REINIT_CMD \<equiv> 0xA000"

definition appl_settings_expand_key :: "cstring \<Rightarrow> nat \<Rightarrow> cstring" where
  "appl_settings_expand_key key max_len =
     (if SETTINGS_NAME_SEPARATOR \<notin> set key \<and> length key + 5 + 1 \<le> max_len then service_key key else key)"

definition settings_key :: "cstring \<Rightarrow> cstring \<times> cstring" where
  "settings_key parameter = (let (cur, key) = parse_next_text parameter (CHR '' '') (Some SETTINGS_KEY_BUF) in (cur, the key))"

definition sh_cmd_settings_get :: "'st zephyr_settings \<Rightarrow> settings_env \<Rightarrow> bool \<Rightarrow> cstring \<Rightarrow> 'st settings \<Rightarrow> int" where
  "sh_cmd_settings_get z env sh_protected parameter s =
     (let (cur, key) = settings_key parameter
      in if key = [] then - EINVAL
         else fst (settings_runtime_get z env sh_protected (appl_settings_expand_key key SETTINGS_KEY_BUF) SETTINGS_MAX_VAL_LEN s))"

definition set_and_save ::
  "'st zephyr_settings \<Rightarrow> settings_env \<Rightarrow> cstring \<Rightarrow> u8 list \<Rightarrow> 'st settings \<Rightarrow> int \<times> 'st settings" where
  "set_and_save z env key v s =
     (let (res, s) = settings_runtime_set z env key v s in if res = 0 then settings_save_one z key v s else (res, s))"

definition sh_cmd_settings_set :: "'st zephyr_settings \<Rightarrow> settings_env \<Rightarrow> cstring \<Rightarrow> 'st settings \<Rightarrow> int \<times> 'st settings" where
  "sh_cmd_settings_set z env parameter s =
     (let (cur, key) = settings_key parameter
      in if key = [] \<or> cur = [] then (- EINVAL, s)
         else (let key = appl_settings_expand_key key SETTINGS_KEY_BUF;
                   number = fst (strtol cur 0);
                   v = (if key = service_key ''bat'' then [word_of_int number]
                        else if key = service_key ''port'' \<or> key = service_key ''sport'' then le16 (word_of_int number)
                        else text_bytes cur)
               in set_and_save z env key v s))"

text \<open>A text that is not hexadecimal gives no bytes, which sets an empty value.\<close>

definition sh_cmd_settings_sethex :: "'st zephyr_settings \<Rightarrow> settings_env \<Rightarrow> cstring \<Rightarrow> 'st settings \<Rightarrow> int \<times> 'st settings" where
  "sh_cmd_settings_sethex z env parameter s =
     (let (cur, key) = settings_key parameter
      in if key = [] \<or> cur = [] then (- EINVAL, s)
         else set_and_save z env (appl_settings_expand_key key SETTINGS_KEY_BUF) (hex2bin env cur SETTINGS_MAX_VAL_LEN) s)"

definition appl_settings_del :: "'st zephyr_settings \<Rightarrow> settings_env \<Rightarrow> cstring \<Rightarrow> 'st settings \<Rightarrow> int \<times> 'st settings" where
  "appl_settings_del z env key s =
     (let (res, s) = settings_runtime_set z env key [] s in if res = 0 then settings_delete z key s else (res, s))"

definition sh_cmd_settings_del :: "'st zephyr_settings \<Rightarrow> settings_env \<Rightarrow> cstring \<Rightarrow> 'st settings \<Rightarrow> int \<times> 'st settings" where
  "sh_cmd_settings_del z env parameter s =
     (let (cur, key) = settings_key parameter
      in if key = [] then (- EINVAL, s) else appl_settings_del z env (appl_settings_expand_key key SETTINGS_KEY_BUF) s)"

definition sh_cmd_settings_delall :: "'st zephyr_settings \<Rightarrow> settings_env \<Rightarrow> 'st settings \<Rightarrow> int \<times> 'st settings" where
  "sh_cmd_settings_delall z env s =
     (0, fold (\<lambda>key s. snd (appl_settings_del z env (service_key key) s))
           [''init'', ''port'', ''sport'', ''id'', ''scheme'', ''dest'', ''path'', ''query'', ''reboots'', ''apn'', ''bat'', ''unlock'',
            ''psk_id'', ''psk_key'', ''ec_priv'', ''ec_tr_pub'', ''prov''] s)"

definition sh_cmd_settings_provdone :: "'st zephyr_settings \<Rightarrow> 'st settings \<Rightarrow> int \<times> 'st settings" where
  "sh_cmd_settings_provdone z s = (0, appl_settings_provisioning_done z s)"

text \<open>The reinitialization; \<open>init_res\<close> is the static result of \<open>appl_settings_init\<close>.\<close>

definition sh_cmd_reinit ::
  "'st zephyr_settings \<Rightarrow> settings_env \<Rightarrow> int \<Rightarrow> cstring \<Rightarrow> reboot_state \<times> 'st settings \<Rightarrow> int \<times> reboot_state \<times> 'st settings" where
  "sh_cmd_reinit z env init_res parameter rs =
     (let (r, s) = rs
      in if appl_reboots r then (0, rs)
         else (let (cur, i) = parse_next_long parameter 10 (Some 0);
                   code = (ERROR_CODE_REINIT_CMD AND 0xf000) OR (the i AND 0xfff)
               in if cur = parameter then (- EINVAL, rs)
                  else case appl_settings_get_reboot_code env 0 s of
                         Some (_, c) \<Rightarrow>
                           if c = word_of_int code then (0, rs)
                           else if init_res \<noteq> 0 then (0, rs)
                           else (0, appl_reboot code 2000 r, snd (appl_settings_del z env (service_key ''init'') s))
                       | None \<Rightarrow>
                           if init_res \<noteq> 0 then (0, rs)
                           else (0, appl_reboot code 2000 r, snd (appl_settings_del z env (service_key ''init'') s))))"

definition sh_cmd_settings_generate_psk :: "settings_env \<Rightarrow> u8 list \<Rightarrow> 'st settings \<Rightarrow> int \<times> 'st settings" where
  "sh_cmd_settings_generate_psk env random s = (0, s\<lparr>psk_key := fill (max_key env) (take 12 random), psk_key_length := 12\<rparr>)"

definition sh_cmd_settings_generate_ec :: "(u8 list \<times> u8 list) option \<Rightarrow> 'st settings \<Rightarrow> int \<times> 'st settings" where
  "sh_cmd_settings_generate_ec key s =
     (0, case key of Some (priv, pub) \<Rightarrow> s\<lparr>ecdsa_priv_key := priv, ecdsa_pub_key := pub\<rparr>
         | None \<Rightarrow> s\<lparr>ecdsa_priv_key := replicate 32 0, ecdsa_pub_key := replicate 64 0\<rparr>)"


section \<open>Loading what was exported\<close>

text \<open>At the start \<open>appl_settings_initialize\<close> lets Zephyr load the settings: every saved value is handed to the
  handler, in an order that Zephyr chooses. Zephyr drops the name of the service.\<close>

definition load_setting :: "settings_env \<Rightarrow> cstring \<times> u8 list \<Rightarrow> 'st settings \<Rightarrow> 'st settings" where
  "load_setting env kv s = snd (appl_settings_handle_set env (drop (length ''csrv/'') (fst kv)) (Inr (snd kv)) s)"

definition settings_load :: "settings_env \<Rightarrow> (cstring \<times> u8 list) list \<Rightarrow> 'st settings \<Rightarrow> 'st settings" where
  "settings_load env kvs s = fold (load_setting env) kvs s"

text \<open>The variables at the start of the program.\<close>

definition initial_settings :: "settings_env \<Rightarrow> 'st \<Rightarrow> 'st settings" where
  "initial_settings env st = \<lparr>settings_initialized = 0, battery_profile = cfg_battery_type env, apn = [], scheme = ''coaps'', destination = [],
     destination_port = cfg_port env, destination_secure_port = cfg_secure_port env, device_imei = [], device_id = [], settings_path = [],
     settings_query = [], reboot_codes = replicate 32 0, unlock_password = [], psk_id = replicate (max_identity env + 1) 0,
     psk_id_length = 0, psk_key = replicate (max_key env) 0, psk_key_length = 0, ecdsa_priv_key = replicate 32 0,
     ecdsa_pub_key = replicate 64 0, trusted_pub_key = replicate 64 0, ecdsa_provisioning_enabled = 0,
     ecdsa_provisioning_priv_key = replicate 32 0, ecdsa_provisioning_pub_key = replicate 64 0, saved = st\<rparr>"

end
