(* ===== verification/Settings_Laws.thy ===== *)
theory Settings_Laws
  imports Appl_Settings "HOL-Library.Multiset"
begin

text \<open>
  Laws of the settings: what is exported is what the next start loads, in every order; the arrays and texts keep
  their bounds whatever is set, loaded or reset; the history of the reboots is a list of four entries; secrets are not
  given out while the shell is protected.
\<close>

section \<open>The handlers by name\<close>

lemmas setting_names = appl_settings_key_match_def settings_name_next_def c_deref_def

lemma handle_set_numbers [simp]:
  "appl_settings_handle_set env ''init'' v s = (0, s\<lparr>settings_initialized := set_byte 0 v\<rparr>)"
  "appl_settings_handle_set env ''prov'' v s = (0, s\<lparr>ecdsa_provisioning_enabled := set_byte 0 v\<rparr>)"
  "appl_settings_handle_set env ''bat'' v s = (0, s\<lparr>battery_profile := set_byte (cfg_battery_type env) v\<rparr>)"
  "appl_settings_handle_set env ''port'' v s = (0, s\<lparr>destination_port := of_le16 (snd (settings_read 2 v))\<rparr>)"
  "appl_settings_handle_set env ''sport'' v s = (0, s\<lparr>destination_secure_port := of_le16 (snd (settings_read 2 v))\<rparr>)"
  by (simp_all add: appl_settings_handle_set_def handle_set_number_def setting_names)

lemma handle_set_texts [simp]:
  "appl_settings_handle_set env ''apn'' v s = (0, s\<lparr>apn := set_text MAX_SETTINGS_VALUE_LENGTH v\<rparr>)"
  "appl_settings_handle_set env ''scheme'' v s = (0, s\<lparr>scheme := set_text SCHEME_SIZE v\<rparr>)"
  "appl_settings_handle_set env ''dest'' v s = (0, s\<lparr>destination := set_text MAX_SETTINGS_VALUE_LENGTH v\<rparr>)"
  "appl_settings_handle_set env ''path'' v s = (0, s\<lparr>settings_path := set_text MAX_SETTINGS_VALUE_LENGTH v\<rparr>)"
  "appl_settings_handle_set env ''query'' v s = (0, s\<lparr>settings_query := set_text MAX_SETTINGS_VALUE_LENGTH v\<rparr>)"
  "appl_settings_handle_set env ''reboots'' v s =
     (0, s\<lparr>reboot_codes := fill (REBOOT_SIZE * REBOOT_HISTORY) (snd (settings_read (REBOOT_SIZE * REBOOT_HISTORY) v))\<rparr>)"
  "appl_settings_handle_set env ''id'' v s = (0, s\<lparr>device_id := set_text (max_identity env + 1) v\<rparr>)"
  "appl_settings_handle_set env ''unlock'' v s =
     (0, if fst (settings_read (max_key env) v) > 0 then s\<lparr>unlock_password := set_text (max_key env + 1) v\<rparr> else s)"
  by (simp_all add: appl_settings_handle_set_def handle_set_number_def handle_set_text_def setting_names)

lemma handle_set_keys [simp]:
  "appl_settings_handle_set env ''psk_id'' (Inr bs) s =
     (0, s\<lparr>psk_id := fill (max_identity env + 1) (take (max_identity env) bs),
            psk_id_length := min (max_identity env) (length bs)\<rparr>)"
  "appl_settings_handle_set env ''psk_key'' (Inr bs) s =
     (0, s\<lparr>psk_key := fill (max_key env) (take (max_key env - 1) bs), psk_key_length := min (max_key env - 1) (length bs)\<rparr>)"
  "appl_settings_handle_set env ''ec_priv'' (Inr bs) s =
     (0, s\<lparr>ecdsa_priv_key := fill 32 bs,
            ecdsa_pub_key := (if bs \<noteq> [] then snd (public_key2 env (fill 32 bs)) else replicate 64 0)\<rparr>)"
  "appl_settings_handle_set env ''ec_tr_pub'' (Inr bs) s = (0, s\<lparr>trusted_pub_key := fill 64 (take 64 bs)\<rparr>)"
  by (simp_all add: appl_settings_handle_set_def handle_set_number_def handle_set_text_def handle_set_key_def setting_names
      settings_read_def fill_def min_def Let_def)


section \<open>Well-formed settings\<close>

text \<open>Texts have no zero and fit with their terminator, arrays have their size, and the bytes behind the PSK
  identity and the PSK secret are zero.\<close>

definition text_ok :: "nat \<Rightarrow> cstring \<Rightarrow> bool" where
  "text_ok n t \<longleftrightarrow> length t \<le> n \<and> CHR 0x00 \<notin> set t"

definition filled :: "nat \<Rightarrow> nat \<Rightarrow> u8 list \<Rightarrow> bool" where
  "filled sz n bs \<longleftrightarrow> n \<le> sz \<and> bs = fill sz (take n bs)"

definition settings_wf :: "settings_env \<Rightarrow> 'st settings \<Rightarrow> bool" where
  "settings_wf env s \<longleftrightarrow> list_all (text_ok 63) [apn s, destination s, settings_path s, settings_query s] \<and> text_ok 11 (scheme s)
     \<and> text_ok (max_identity env) (device_id s) \<and> text_ok (max_identity env) (device_imei s)
     \<and> text_ok (max_key env) (unlock_password s) \<and> length (reboot_codes s) = 32
     \<and> length (ecdsa_priv_key s) = 32 \<and> length (trusted_pub_key s) = 64
     \<and> filled (max_identity env + 1) (psk_id_length s) (psk_id s) \<and> psk_id_length s \<le> max_identity env
     \<and> filled (max_key env) (psk_key_length s) (psk_key s)"

lemma length_fill [simp]: "length (fill n bs) = n"
  by (simp add: fill_def)

lemma fill_whole [simp]: "length bs = n \<Longrightarrow> fill n bs = bs"
  by (simp add: fill_def)

lemma take_fill [simp]: "n \<le> sz \<Longrightarrow> length bs = n \<Longrightarrow> take n (fill sz bs) = bs"
  by (simp add: fill_def)

lemma fill_Nil [simp]: "fill n [] = replicate n 0"
  by (simp add: fill_def)

lemma filled_fill: "length bs = n \<Longrightarrow> n \<le> sz \<Longrightarrow> filled sz n (fill sz bs)"
  by (simp add: filled_def)

lemma filled_length: "filled sz n bs \<Longrightarrow> length bs = sz"
  by (metis filled_def length_fill)

lemma filled_zero [simp]: "filled sz 0 (replicate sz 0)" "filled (Suc n) 0 (0 # replicate n 0)"
  by (simp_all add: filled_def)

lemma of_char_u8 [simp]: "unat (of_nat (of_char (c :: char)) :: u8) = of_char c"
  by (simp add: unat_of_nat)

lemma text_byte_zero [simp]: "(of_nat (of_char c) :: u8) = 0 \<longleftrightarrow> c = CHR 0x00"
proof
  assume "(of_nat (of_char c) :: u8) = 0"
  hence "(of_char c :: nat) = of_char (CHR 0x00)" using of_char_u8[of c] by simp
  thus "c = CHR 0x00" by (simp only: of_char_eq_iff)
qed simp

lemma bytes_text_text_bytes: "CHR 0x00 \<notin> set t \<Longrightarrow> bytes_text (text_bytes t) = t"
  by (induction t) (auto simp: bytes_text_def text_bytes_def)

lemma length_text_bytes [simp]: "length (text_bytes t) = length t"
  by (simp add: text_bytes_def)

lemma set_text_text_bytes [simp]: "text_ok n t \<Longrightarrow> set_text (Suc n) (Inr (text_bytes t)) = t"
  by (simp add: text_ok_def set_text_def settings_read_def bytes_text_text_bytes)

lemma of_le16_le16 [simp]: "of_le16 (le16 v) = v"
proof -
  have "(ucast (ucast v :: u8) :: u16) = v AND mask 8"
    by (rule bit_word_eqI) (auto simp: bit_simps)
  moreover have "push_bit 8 (ucast (ucast (drop_bit 8 v) :: u8) :: u16) = push_bit 8 (drop_bit 8 v)"
    by (rule bit_word_eqI) (auto simp: bit_simps)
  moreover have "(v AND mask 8) + push_bit 8 (drop_bit 8 v) = v"
    by (metis add.commute bits_ident take_bit_eq_mask)
  ultimately show ?thesis by (simp add: of_le16_def le16_def fill_def)
qed

lemma take_le16 [simp]: "take 2 (le16 v) = le16 v"
  by (simp add: le16_def)

lemma set_byte_one [simp]: "set_byte d (Inr [b]) = b"
  by (simp add: set_byte_def settings_read_def)

text \<open>The exported names set different variables, so the order does not matter.\<close>

definition setting_keys :: "cstring list" where
  "setting_keys = [''init'', ''port'', ''sport'', ''id'', ''scheme'', ''dest'', ''path'', ''query'', ''reboots'', ''apn'', ''bat'',
     ''unlock'', ''psk_id'', ''psk_key'', ''ec_priv'', ''ec_tr_pub'', ''prov'']"

lemma load_setting_key [simp]: "load_setting env (service_key k, v) s = snd (appl_settings_handle_set env k (Inr v) s)"
  by (simp add: load_setting_def service_key_def)

lemma handle_set_unlock: "appl_settings_handle_set env ''unlock'' v s =
     (0, s\<lparr>unlock_password := (if fst (settings_read (max_key env) v) > 0 then set_text (max_key env + 1) v else unlock_password s)\<rparr>)"
  by simp

lemma load_commute:
  assumes "k \<in> set setting_keys" "k' \<in> set setting_keys" "k \<noteq> k'"
  shows "load_setting env (service_key k, v) (load_setting env (service_key k', v') s) =
         load_setting env (service_key k', v') (load_setting env (service_key k, v) s)"
  using assms unfolding setting_keys_def load_setting_key list.set insert_iff empty_iff simp_thms
  by (elim disjE) (simp_all only: handle_set_numbers handle_set_texts(1-7) handle_set_unlock handle_set_keys snd_conv, simp_all)

definition exported :: "'st settings \<Rightarrow> (cstring \<times> u8 list) list" where
  "exported s = fst (appl_settings_handle_export s)"

definition exported_plain :: "'st settings \<Rightarrow> (cstring \<times> u8 list) list" where
  "exported_plain s = [(''init'', [settings_initialized s]), (''port'', le16 (destination_port s)),
     (''sport'', le16 (destination_secure_port s)), (''id'', text_bytes (device_id s)), (''scheme'', text_bytes (scheme s)),
     (''dest'', text_bytes (destination s)), (''path'', text_bytes (settings_path s)), (''query'', text_bytes (settings_query s)),
     (''reboots'', reboot_codes s), (''apn'', text_bytes (apn s)), (''bat'', [battery_profile s]),
     (''unlock'', text_bytes (unlock_password s))]"

definition exported_psk :: "'st settings \<Rightarrow> (cstring \<times> u8 list) list" where
  "exported_psk s = [(''psk_id'', take (psk_id_length s) (psk_id s)), (''psk_key'', take (psk_key_length s) (psk_key s))]"

definition exported_ecdsa :: "'st settings \<Rightarrow> (cstring \<times> u8 list) list" where
  "exported_ecdsa s = [(''ec_priv'', ecdsa_priv_key s), (''ec_tr_pub'', trusted_pub_key s),
     (''prov'', [ecdsa_provisioning_enabled s])]"

lemma handle_export_psk: "psk_id_length s \<noteq> 0 \<and> psk_key_length s \<noteq> 0 \<Longrightarrow> appl_settings_handle_export s =
    (map (map_prod service_key id) (exported_plain s @ exported_psk s @ exported_ecdsa s), s)"
  by (simp only: appl_settings_handle_export_def Let_def if_True exported_plain_def exported_psk_def exported_ecdsa_def simp_thms)

lemma handle_export_no_psk: "\<not> (psk_id_length s \<noteq> 0 \<and> psk_key_length s \<noteq> 0) \<Longrightarrow> appl_settings_handle_export s =
    (map (map_prod service_key id) (exported_plain s @ exported_ecdsa s),
     s\<lparr>psk_id_length := 0, psk_key_length := 0, psk_id := replicate (length (psk_id s)) 0,
       psk_key := replicate (length (psk_key s)) 0\<rparr>)"
  by (simp only: appl_settings_handle_export_def Let_def if_False exported_plain_def exported_ecdsa_def append_Nil)

lemma exported_names: "\<exists>ks. map fst (exported s) = map service_key ks \<and> distinct ks \<and> set ks \<subseteq> set setting_keys"
proof -
  have d: "distinct setting_keys" by (simp add: setting_keys_def)
  show ?thesis
  proof (cases "psk_id_length s \<noteq> 0 \<and> psk_key_length s \<noteq> 0")
    case True
    have "map fst (exported s) = map service_key setting_keys"
      unfolding exported_def handle_export_psk[OF True]
      by (simp add: exported_plain_def exported_psk_def exported_ecdsa_def setting_keys_def)
    with d show ?thesis by blast
  next
    case False
    let ?ks = "filter (\<lambda>k. k \<noteq> ''psk_id'' \<and> k \<noteq> ''psk_key'') setting_keys"
    have "map fst (exported s) = map service_key ?ks"
      unfolding exported_def handle_export_no_psk[OF False] by (simp add: exported_plain_def exported_ecdsa_def setting_keys_def)
    moreover have "distinct ?ks" using d by (rule distinct_filter)
    moreover have "set ?ks \<subseteq> set setting_keys" by (rule filter_is_subset)
    ultimately show ?thesis by blast
  qed
qed

lemma exported_keys:
  assumes "kv \<in> set (exported s)"
  obtains k v where "k \<in> set setting_keys" "kv = (service_key k, v)"
proof -
  obtain ks where ks: "map fst (exported s) = map service_key ks" "set ks \<subseteq> set setting_keys" using exported_names[of s] by blast
  have "fst kv \<in> set (map fst (exported s))" using assms by (simp only: set_map imageI)
  hence "fst kv \<in> service_key ` set ks" by (simp only: ks(1) set_map)
  then obtain k where "k \<in> set setting_keys" "fst kv = service_key k" using ks(2) by blast
  with that[of k "snd kv"] show ?thesis by (metis prod.collapse)
qed

lemma distinct_exported: "distinct (map fst (exported s))"
proof -
  have "inj service_key" by (simp add: inj_on_def service_key_def)
  thus ?thesis using exported_names[of s] by (metis distinct_map inj_on_subset subset_UNIV)
qed

lemma settings_load_order:
  assumes "mset kvs = mset (exported s)"
  shows "settings_load env kvs = settings_load env (exported s)"
proof -
  have "load_setting env x \<circ> load_setting env y = load_setting env y \<circ> load_setting env x"
    if xy: "x \<in> set (exported s)" "y \<in> set (exported s)" for x y
  proof (cases "fst x = fst y")
    case True
    hence "x = y" using distinct_exported[of s] xy by (metis eq_key_imp_eq_value prod.collapse)
    thus ?thesis by simp
  next
    case False
    obtain k v k' v' where k: "k \<in> set setting_keys" "k' \<in> set setting_keys" "x = (service_key k, v)" "y = (service_key k', v')"
      using xy by (elim exported_keys)
    with False have "k \<noteq> k'" by auto
    thus ?thesis by (intro ext) (simp only: k(3,4) comp_apply, rule load_commute[OF k(1,2)])
  qed
  hence "fold (load_setting env) kvs = fold (load_setting env) (exported s)"
    by (metis assms fold_multiset_equiv mset_eq_setD)
  thus ?thesis by (simp add: settings_load_def fun_eq_iff)
qed

lemma settings_load_append: "settings_load env (xs @ ys) s = settings_load env ys (settings_load env xs s)"
  by (simp add: settings_load_def)

lemma set_text_wf:
  assumes "settings_wf env s"
  shows "set_text 64 (Inr (text_bytes (apn s))) = apn s" "set_text 64 (Inr (text_bytes (destination s))) = destination s"
    "set_text 64 (Inr (text_bytes (settings_path s))) = settings_path s"
    "set_text 64 (Inr (text_bytes (settings_query s))) = settings_query s"
    "set_text 12 (Inr (text_bytes (scheme s))) = scheme s"
    "set_text (max_identity env + 1) (Inr (text_bytes (device_id s))) = device_id s"
    "set_text (max_key env + 1) (Inr (text_bytes (unlock_password s))) = unlock_password s"
  using assms set_text_text_bytes[of 63] set_text_text_bytes[of 11] set_text_text_bytes[of "max_identity env"]
    set_text_text_bytes[of "max_key env"] by (simp_all add: settings_wf_def)

lemma load_plain:
  assumes "settings_wf env s"
  shows "settings_load env (map (map_prod service_key id) (exported_plain s)) (initial_settings env st) =
     (initial_settings env st)\<lparr>settings_initialized := settings_initialized s, battery_profile := battery_profile s, apn := apn s,
       scheme := scheme s, destination := destination s, destination_port := destination_port s,
       destination_secure_port := destination_secure_port s, device_id := device_id s, settings_path := settings_path s,
       settings_query := settings_query s, reboot_codes := reboot_codes s, unlock_password := unlock_password s\<rparr>"
proof -
  have "initial_settings env st\<lparr>unlock_password := []\<rparr> = initial_settings env st" by (simp add: initial_settings_def)
  moreover have "length (reboot_codes s) = 32" "length (unlock_password s) \<le> max_key env"
    using assms by (simp_all add: settings_wf_def text_ok_def)
  ultimately show ?thesis
    using set_text_wf(6,7)[OF assms]
    by (cases "unlock_password s") (simp_all add: set_text_wf[OF assms] settings_load_def exported_plain_def initial_settings_def
        settings_read_def)
qed

lemma exported_loads:
  assumes wf: "settings_wf env s" and key: "psk_key_length s < max_key env"
  shows "settings_load env (exported s) (initial_settings env st) =
     (snd (appl_settings_handle_export s))\<lparr>device_imei := [], ecdsa_pub_key := snd (public_key2 env (ecdsa_priv_key s)),
       ecdsa_provisioning_priv_key := replicate 32 0, ecdsa_provisioning_pub_key := replicate 64 0, saved := st\<rparr>"
proof -
  have lens: "length (psk_id s) = max_identity env + 1" "length (psk_key s) = max_key env" "psk_id_length s \<le> max_identity env"
      "length (ecdsa_priv_key s) = 32" "length (trusted_pub_key s) = 64" "ecdsa_priv_key s \<noteq> []"
    using wf by (auto simp: settings_wf_def dest: filled_length)
  have psk: "fill (Suc (max_identity env)) (take (psk_id_length s) (psk_id s)) = psk_id s"
      "fill (max_key env) (take (psk_key_length s) (psk_key s)) = psk_key s"
    using wf by (simp_all add: settings_wf_def filled_def)
  have mins: "min (max_identity env) (psk_id_length s) = psk_id_length s" "min (max_key env - 1) (psk_key_length s) = psk_key_length s"
    using lens key by simp_all
  show ?thesis
  proof (cases "psk_id_length s \<noteq> 0 \<and> psk_key_length s \<noteq> 0")
    case True
    show ?thesis
      using lens mins key unfolding exported_def handle_export_psk[OF True] fst_conv snd_conv map_append settings_load_append load_plain[OF wf]
      by (simp add: settings_load_def exported_psk_def exported_ecdsa_def initial_settings_def psk settings_read_def set_byte_def min_def)
  next
    case False
    show ?thesis
      using lens unfolding exported_def handle_export_no_psk[OF False] fst_conv snd_conv map_append settings_load_append load_plain[OF wf]
      by (simp add: settings_load_def exported_ecdsa_def initial_settings_def set_byte_def settings_read_def)
  qed
qed

section \<open>All operations keep the settings well-formed\<close>

text \<open>What is relied on of tinydtls, of Zephyr's decoders and of the configuration.\<close>

definition texts_ok :: "cstring option list \<Rightarrow> bool" where
  "texts_ok ts \<longleftrightarrow> list_all (\<lambda>t. case t of None \<Rightarrow> True | Some t \<Rightarrow> CHR 0x00 \<notin> set t) ts"

definition settings_env_ok :: "settings_env \<Rightarrow> bool" where
  "settings_env_ok env \<longleftrightarrow> 12 \<le> max_key env \<and> (\<forall>t n. length (hex2bin env t n) \<le> n)
     \<and> (\<forall>t n bs. base64_decode env t n = Inr bs \<longrightarrow> length bs \<le> n) \<and> (\<forall>t n e. base64_decode env t n = Inl e \<longrightarrow> e < 0)
     \<and> (\<forall>v. length (put_be48 env v) = 6) \<and> (\<forall>v. length (put_be16 env v) = 2)
     \<and> texts_ok [cfg_unlock_password env, cfg_hostname env, Some (cfg_scheme env), cfg_resource env, cfg_query env,
          cfg_device_identity env, cfg_psk_identity env]
     \<and> (case cfg_psk_secret env of Inl random \<Rightarrow> length random = 12 | Inr _ \<Rightarrow> True)
     \<and> (case cfg_private_key env of Inl (Some (priv, pub)) \<Rightarrow> length priv = 32 | _ \<Rightarrow> True)"

lemma char_of_u8_zero [simp]: "char_of (unat (b :: u8)) = CHR 0x00 \<longleftrightarrow> b = 0"
proof
  assume "char_of (unat b) = CHR 0x00"
  hence "of_char (char_of (unat b) :: char) = (of_char (CHR 0x00) :: nat)" by simp
  hence "unat b mod 256 = 0" by (simp only: of_char_of) simp
  moreover have "unat b < 256" using unsigned_less[of b, where 'a = nat] by simp
  ultimately show "b = 0" by (simp add: unat_eq_zero)
qed (simp add: char_of_def)

lemma bytes_text_ok: "length bs \<le> n \<Longrightarrow> text_ok n (bytes_text bs)"
  using length_takeWhile_le[of "\<lambda>b. b \<noteq> 0" bs]
  by (auto simp: text_ok_def bytes_text_def dest!: set_takeWhileD sym[of "CHR 0x00"])

lemma set_text_ok [simp]: "text_ok n (set_text (Suc n) v)"
  by (auto simp: set_text_def settings_read_def intro!: bytes_text_ok split: sum.splits)

lemma text_ok_Nil [simp]: "text_ok n []"
  by (simp add: text_ok_def)

lemma text_ok_take: "CHR 0x00 \<notin> set t \<Longrightarrow> text_ok n (take n t)"
  by (auto simp: text_ok_def dest: in_set_takeD)

lemma handle_set_number_wf:
  "handle_set_number env name n v s = Some s' \<Longrightarrow> settings_wf env s \<Longrightarrow> settings_wf env s'"
  by (auto simp: handle_set_number_def settings_wf_def split: if_splits)

lemma handle_set_text_wf:
  "handle_set_text env name n v s = Some s' \<Longrightarrow> settings_wf env s \<Longrightarrow> settings_wf env s'"
  using set_text_ok[of 63 v] set_text_ok[of 11 v]
  by (auto simp: handle_set_text_def settings_wf_def split: if_splits)

text \<open>A value that can be read, or a negative error.\<close>

definition read_ok :: "int + u8 list \<Rightarrow> bool" where
  "read_ok v \<longleftrightarrow> (case v of Inl err \<Rightarrow> err < 0 | Inr _ \<Rightarrow> True)"

lemma settings_read_fill:
  "read_ok v \<Longrightarrow> n \<le> sz \<Longrightarrow> filled sz (nat (fst (settings_read n v))) (fill sz (snd (settings_read n v)))"
  "read_ok v \<Longrightarrow> fst (settings_read n v) \<le> int n"
  by (auto simp: settings_read_def read_ok_def intro!: filled_fill split: sum.splits)

lemma handle_set_key_wf:
  assumes "handle_set_key env name n v s = Some s'" "settings_wf env s" "read_ok v"
  shows "settings_wf env s'"
proof -
  note reads = settings_read_fill(1)[OF assms(3), of "max_identity env" "max_identity env + 1"]
    settings_read_fill(2)[OF assms(3), of "max_identity env"] settings_read_fill(1)[OF assms(3), of "max_key env - 1" "max_key env"]
  from assms(1,2) reads show ?thesis
    by (auto simp: handle_set_key_def settings_wf_def case_prod_beta Let_def nat_le_iff split: if_split_asm)
qed

lemma handle_set_wf:
  assumes "settings_wf env s" "read_ok v"
  shows "settings_wf env (snd (appl_settings_handle_set env name v s))"
  using assms handle_set_number_wf[of env name _ v s] handle_set_text_wf[of env name _ v s] handle_set_key_wf[of env name _ v s]
  by (auto simp: appl_settings_handle_set_def split: prod.splits option.splits)

text \<open>The text with the IMEI always fits its buffer, and the returned length is the one of the text.\<close>

lemma expand_imei_length:
  assumes "0 < sz"
  shows "fst (appl_settings_expand_imei imei sz v) = int (length (snd (appl_settings_expand_imei imei sz v)))"
    and "length (snd (appl_settings_expand_imei imei sz v)) \<le> sz - 1"
proof -
  define buf where "buf = take (sz - 1) v"
  have len: "length buf \<le> sz - 1" by (simp add: buf_def)
  have "fst (appl_settings_expand_imei imei sz v) = int (length (snd (appl_settings_expand_imei imei sz v))) \<and>
      length (snd (appl_settings_expand_imei imei sz v)) \<le> sz - 1"
  proof (cases "strstr buf ''${imei}''")
    case None
    show ?thesis unfolding appl_settings_expand_imei_def Let_def buf_def[symmetric] None using len by simp
  next
    case (Some cur)
    have "cur + 7 \<le> length buf" using strstr_bound[OF Some] by simp
    thus ?thesis unfolding appl_settings_expand_imei_def Let_def buf_def[symmetric] Some using len assms by (auto simp: of_nat_diff)
  qed
  thus "fst (appl_settings_expand_imei imei sz v) = int (length (snd (appl_settings_expand_imei imei sz v)))"
    "length (snd (appl_settings_expand_imei imei sz v)) \<le> sz - 1" by blast+
qed

lemma expand_imei_ok:
  assumes "CHR 0x00 \<notin> set v" "CHR 0x00 \<notin> set imei"
  shows "text_ok n (snd (appl_settings_expand_imei imei (Suc n) v))"
proof -
  have "CHR 0x00 \<notin> set (snd (appl_settings_expand_imei imei (Suc n) v))"
    using assms by (auto simp: appl_settings_expand_imei_def Let_def split: option.splits dest: in_set_takeD in_set_dropD)
  thus ?thesis using expand_imei_length(2)[of "Suc n" imei v] by (simp add: text_ok_def)
qed

lemma expand_option_ok:
  "texts_ok [v] \<Longrightarrow> CHR 0x00 \<notin> set imei \<Longrightarrow> text_ok n (expand_option imei (Suc n) v)"
  by (auto simp: expand_option_def texts_ok_def intro: expand_imei_ok split: option.splits)

lemma settings_env_decode:
  assumes "settings_env_ok env"
  shows "length (hex2bin env t n) \<le> n" "base64_decode env t n = Inr bs \<Longrightarrow> length bs \<le> n" "base64_decode env t n = Inl e \<Longrightarrow> nat e = 0"
  using assms by (auto simp: settings_env_ok_def) (metis less_imp_le)

lemma decode_value_length:
  assumes "settings_env_ok env" "appl_settings_decode_value env v n = (res, bs)" "0 < n"
  shows "nat res \<le> n \<and> length bs = nat res"
  using assms(2,3) settings_env_decode[OF assms(1)]
  by (auto simp: appl_settings_decode_value_def Let_def split: if_splits sum.splits)

lemma decode_key_length:
  "length (snd (appl_settings_decode_private_key env v)) = 32"
  "length (snd (appl_settings_decode_public_key env v)) = 64"
  by (auto simp: appl_settings_decode_private_key_def appl_settings_decode_public_key_def Let_def ecdsa_priv_asn1_header_def
      ecdsa_priv_asn1_key_def ecdsa_pub_cert_asn1_header_def split: prod.splits if_splits)

lemma reset_dest_wf:
  assumes "settings_wf env s" "settings_env_ok env"
  shows "settings_wf env (reset_dest env s)"
proof -
  have "CHR 0x00 \<notin> set (device_imei s)" using assms(1) by (simp add: settings_wf_def text_ok_def)
  hence "text_ok 63 (expand_option (device_imei s) 64 (cfg_resource env))" "text_ok 63 (expand_option (device_imei s) 64 (cfg_query env))"
    using assms(2) expand_option_ok[of _ "device_imei s" 63] by (simp_all add: settings_env_ok_def texts_ok_def)
  moreover have "text_ok 63 (case cfg_hostname env of None \<Rightarrow> [] | Some h \<Rightarrow> take (64 - 1) h)" "text_ok 11 (take 11 (cfg_scheme env))"
    using assms(2) text_ok_take[of _ 63] by (auto simp: settings_env_ok_def texts_ok_def intro!: text_ok_take split: option.splits)
  ultimately show ?thesis using assms(1) by (simp add: reset_dest_def settings_wf_def)
qed

lemma reset_id_wf:
  assumes "settings_wf env s" "settings_env_ok env"
  shows "settings_wf env (reset_id env s)"
proof -
  have "CHR 0x00 \<notin> set (device_imei s)" using assms(1) by (simp add: settings_wf_def text_ok_def)
  hence "text_ok (max_identity env) (expand_option (device_imei s) (Suc (max_identity env)) (cfg_device_identity env))"
    using assms(2) expand_option_ok by (simp add: settings_env_ok_def texts_ok_def)
  thus ?thesis using assms(1) by (simp add: reset_id_def settings_wf_def)
qed

lemma reset_psk_wf:
  assumes "settings_wf env s" "settings_env_ok env"
  shows "settings_wf env (reset_psk env s)"
proof -
  let ?ident = "text_bytes (expand_option (device_imei s) (Suc (max_identity env)) (cfg_psk_identity env))"
  obtain res key where rk: "(case cfg_psk_secret env of Inl random \<Rightarrow> (12, random)
      | Inr v \<Rightarrow> appl_settings_decode_value env v (max_key env)) = (res, key)" by fastforce
  have "CHR 0x00 \<notin> set (device_imei s)" using assms(1) by (simp add: settings_wf_def text_ok_def)
  hence "text_ok (max_identity env) (expand_option (device_imei s) (Suc (max_identity env)) (cfg_psk_identity env))"
    using assms(2) expand_option_ok by (simp add: settings_env_ok_def texts_ok_def)
  hence "length ?ident \<le> max_identity env" by (simp add: text_ok_def)
  moreover have "length key = nat res \<and> nat res \<le> max_key env"
    using rk assms(2) decode_value_length[OF assms(2)] by (auto simp: settings_env_ok_def split: sum.splits)
  ultimately show ?thesis using assms(1)
    by (auto simp: reset_psk_def rk settings_wf_def Let_def intro!: filled_fill)
qed

lemma reset_keys_wf:
  assumes "settings_wf env s" "settings_env_ok env"
  shows "settings_wf env (reset_ecdsa env s)" "settings_wf env (reset_trust env s)"
    "settings_wf env (snd (appl_settings_init_provisioning env s))"
  using assms decode_key_length[of env]
  by (auto simp: reset_ecdsa_def reset_trust_def appl_settings_init_provisioning_def settings_wf_def settings_env_ok_def Let_def
      case_prod_beta split: sum.splits option.splits)

lemma settings_save_wf: "settings_wf env s \<Longrightarrow> settings_wf env (settings_save z s)"
proof (cases "psk_id_length s \<noteq> 0 \<and> psk_key_length s \<noteq> 0")
  case True
  assume "settings_wf env s"
  thus ?thesis unfolding settings_save_def handle_export_psk[OF True] by (simp add: settings_wf_def case_prod_beta)
next
  case False
  assume wf: "settings_wf env s"
  hence "length (psk_id s) = max_identity env + 1" "length (psk_key s) = max_key env"
    by (auto simp: settings_wf_def dest: filled_length)
  with wf show ?thesis unfolding settings_save_def handle_export_no_psk[OF False]
    by (simp add: settings_wf_def case_prod_beta)
qed

lemma settings_store_wf [simp]:
  "settings_wf env (snd (settings_save_one z key v s)) = settings_wf env s"
  "settings_wf env (snd (settings_delete z key s)) = settings_wf env s"
  "settings_wf env (s\<lparr>settings_initialized := b\<rparr>) = settings_wf env s"
  "settings_wf env (s\<lparr>ecdsa_provisioning_enabled := b\<rparr>) = settings_wf env s"
  by (simp_all add: settings_save_one_def settings_delete_def settings_wf_def case_prod_beta)

lemma factory_reset_wf:
  assumes wf: "settings_wf env s" and env: "settings_env_ok env"
  shows "settings_wf env (snd (appl_setting_factory_reset z env flags s))"
proof -
  define s1 where "s1 = (if flags AND SETTINGS_RESET_UNLOCK \<noteq> 0
    then s\<lparr>unlock_password := (case cfg_unlock_password env of None \<Rightarrow> [] | Some p \<Rightarrow> take (max_key env) p)\<rparr> else s)"
  have "text_ok (max_key env) (case cfg_unlock_password env of None \<Rightarrow> [] | Some p \<Rightarrow> take (max_key env) p)"
    using env by (auto simp: settings_env_ok_def texts_ok_def intro!: text_ok_take split: option.splits)
  with wf have "settings_wf env s1" by (simp add: s1_def settings_wf_def)
  note wfs = wf this reset_dest_wf[OF _ env] reset_id_wf[OF _ env] reset_psk_wf[OF _ env] reset_keys_wf[OF _ env] settings_save_wf
  show ?thesis unfolding appl_setting_factory_reset_def Let_def s1_def[symmetric]
    by (simp add: case_prod_beta wfs)
qed

lemma provisioning_done_wf: "settings_wf env s \<Longrightarrow> settings_wf env (appl_settings_provisioning_done z s)"
  by (simp add: appl_settings_provisioning_done_def)

lemma init_wf:
  assumes "settings_wf env s" "settings_env_ok env" "texts_ok [imei]"
  shows "settings_wf env (snd (snd (appl_settings_init z env imei handler (res, s))))"
proof -
  define s1 where "s1 = (case imei of None \<Rightarrow> s | Some i \<Rightarrow> s\<lparr>device_imei := take (max_identity env) i\<rparr>)"
  have s1: "settings_wf env s1"
    using assms(1,3) text_ok_take by (auto simp: s1_def settings_wf_def texts_ok_def split: option.splits)
  note prov = reset_keys_wf(3)[OF s1 assms(2)]
  show ?thesis unfolding appl_settings_init_def s1_def[symmetric]
    using assms(1) s1 factory_reset_wf[OF s1 assms(2), of z] prov provisioning_done_wf[OF prov, of z]
    by (simp add: Let_def case_prod_beta flip: s1_def)
qed

lemma add_reboot_wf:
  assumes "settings_wf env s" "settings_env_ok env"
  shows "settings_wf env (snd (appl_settings_add_reboot_code z env now code s))"
  using assms by (simp add: appl_settings_add_reboot_code_def settings_env_ok_def Let_def) (simp add: settings_wf_def)

lemma runtime_set_wf: "settings_wf env s \<Longrightarrow> settings_wf env (snd (settings_runtime_set z env key v s))"
  by (auto simp: settings_runtime_set_def read_ok_def intro!: handle_set_wf split: option.splits)

lemma set_and_save_wf: "settings_wf env s \<Longrightarrow> settings_wf env (snd (set_and_save z env key v s))"
  using runtime_set_wf[of env s z key v] by (simp add: set_and_save_def case_prod_beta)

lemma appl_settings_del_wf: "settings_wf env s \<Longrightarrow> settings_wf env (snd (appl_settings_del z env key s))"
  using runtime_set_wf[of env s z key "[]"] by (simp add: appl_settings_del_def case_prod_beta)

lemma delall_wf: "settings_wf env s \<Longrightarrow> settings_wf env (snd (sh_cmd_settings_delall z env s))"
proof -
  have "settings_wf env s \<Longrightarrow> settings_wf env (fold (\<lambda>key s. snd (appl_settings_del z env (service_key key) s)) keys s)" for keys
    by (induction keys arbitrary: s) (simp_all add: appl_settings_del_wf)
  thus "settings_wf env s \<Longrightarrow> ?thesis" by (simp only: sh_cmd_settings_delall_def snd_conv)
qed

text \<open>The states that the settings reach.\<close>

inductive settings_reachable :: "'st zephyr_settings \<Rightarrow> settings_env \<Rightarrow> 'st settings \<Rightarrow> bool" for z env where
  start: "settings_reachable z env (initial_settings env st)"
| set: "settings_reachable z env s \<Longrightarrow> read_ok v \<Longrightarrow> settings_reachable z env (snd (appl_settings_handle_set env name v s))"
| init: "settings_reachable z env s \<Longrightarrow> texts_ok [imei] \<Longrightarrow>
    settings_reachable z env (snd (snd (appl_settings_init z env imei handler (res, s))))"
| reboot: "settings_reachable z env s \<Longrightarrow> settings_reachable z env (snd (appl_settings_add_reboot_code z env now code s))"
| provdone: "settings_reachable z env s \<Longrightarrow> settings_reachable z env (snd (sh_cmd_settings_provdone z s))"
| cmd_set: "settings_reachable z env s \<Longrightarrow> settings_reachable z env (snd (sh_cmd_settings_set z env p s))"
| cmd_sethex: "settings_reachable z env s \<Longrightarrow> settings_reachable z env (snd (sh_cmd_settings_sethex z env p s))"
| cmd_del: "settings_reachable z env s \<Longrightarrow> settings_reachable z env (snd (sh_cmd_settings_del z env p s))"
| cmd_delall: "settings_reachable z env s \<Longrightarrow> settings_reachable z env (snd (sh_cmd_settings_delall z env s))"
| cmd_reinit: "settings_reachable z env s \<Longrightarrow> settings_reachable z env (snd (snd (sh_cmd_reinit z env res p (r, s))))"
| generate_psk: "settings_reachable z env s \<Longrightarrow> length random = 12 \<Longrightarrow>
    settings_reachable z env (snd (sh_cmd_settings_generate_psk env random s))"
| generate_ec: "settings_reachable z env s \<Longrightarrow> (case key of None \<Rightarrow> True | Some (priv, pub) \<Rightarrow> length priv = 32) \<Longrightarrow>
    settings_reachable z env (snd (sh_cmd_settings_generate_ec key s))"

lemma commands_wf:
  assumes "settings_wf env s"
  shows "settings_wf env (snd (sh_cmd_settings_set z env p s))" "settings_wf env (snd (sh_cmd_settings_sethex z env p s))"
    "settings_wf env (snd (sh_cmd_settings_del z env p s))" "settings_wf env (snd (snd (sh_cmd_reinit z env res p (r, s))))"
  using assms by (simp_all add: sh_cmd_settings_set_def sh_cmd_settings_sethex_def sh_cmd_settings_del_def sh_cmd_reinit_def
      set_and_save_wf appl_settings_del_wf case_prod_beta Let_def split: option.split)

lemma generate_wf:
  assumes "settings_wf env s"
  shows "settings_env_ok env \<Longrightarrow> length random = 12 \<Longrightarrow> settings_wf env (snd (sh_cmd_settings_generate_psk env random s))"
    "(case key of None \<Rightarrow> True | Some (priv, pub) \<Rightarrow> length priv = 32) \<Longrightarrow> settings_wf env (snd (sh_cmd_settings_generate_ec key s))"
  using assms by (auto simp: sh_cmd_settings_generate_psk_def sh_cmd_settings_generate_ec_def settings_wf_def settings_env_ok_def
      intro!: filled_fill split: option.splits)

lemma initial_settings_wf: "settings_wf env (initial_settings env st)"
  by (simp add: initial_settings_def settings_wf_def) (simp add: text_ok_def)

section \<open>The history of the reboots\<close>

text \<open>The array of 32 bytes stands for a list of four entries, newest first.\<close>

definition reboots :: "settings_env \<Rightarrow> 'st settings \<Rightarrow> (u64 \<times> u16) option list" where
  "reboots env s = map (\<lambda>i. appl_settings_get_reboot_code env i s) [0..<REBOOT_HISTORY]"

definition push_reboot :: "'a \<Rightarrow> 'a option list \<Rightarrow> 'a option list" where
  "push_reboot r rs = Some r # butlast rs"

text \<open>Zephyr's big endian functions store the low 48 and 16 bits.\<close>

definition byte_order_ok :: "settings_env \<Rightarrow> bool" where
  "byte_order_ok env \<longleftrightarrow> (\<forall>v. length (put_be48 env v) = 6 \<and> get_be48 env (put_be48 env v) = v AND 0xffffffffffff)
     \<and> (\<forall>v. length (put_be16 env v) = 2 \<and> get_be16 env (put_be16 env v) = v)"

lemma reboot_time_be48 [simp]: "reboot_time now AND 0xffffffffffff = reboot_time now" "reboot_time now \<noteq> 0"
  by (simp_all add: reboot_time_def Let_def and.assoc)

lemma reboots_Cons: "reboots env s = map (\<lambda>i. appl_settings_get_reboot_code env i s) [0, 1, 2, 3]"
  by (simp add: reboots_def upt_rec numeral_2_eq_2 numeral_3_eq_3)

lemma reboot_pushed:
  assumes "byte_order_ok env" "length (reboot_codes s) = 32"
    "reboot_codes s' = put_be48 env (reboot_time now) @ put_be16 env code @ take 24 (reboot_codes s)"
  shows "appl_settings_get_reboot_code env 0 s' = Some (if reboot_time now = 1 then 0 else reboot_time now * 1000, code)"
    and "i < 3 \<Longrightarrow> appl_settings_get_reboot_code env (Suc i) s' = appl_settings_get_reboot_code env i s"
proof -
  have len: "length (put_be48 env (reboot_time now)) = 6" "length (put_be16 env code) = 2"
    using assms(1) by (simp_all add: byte_order_ok_def)
  show "appl_settings_get_reboot_code env 0 s' = Some (if reboot_time now = 1 then 0 else reboot_time now * 1000, code)"
    using assms(1) len by (simp add: appl_settings_get_reboot_code_def assms(3) byte_order_ok_def Let_def)
  assume "i < 3"
  have "drop (8 + k) (reboot_codes s') = drop k (take 24 (reboot_codes s))" for k
    using len by (simp add: assms(3))
  note drops = this[of "8 * i"] this[of "8 * i + 6"]
  have "take 6 (drop (8 * i) (take 24 (reboot_codes s))) = take 6 (drop (8 * i) (reboot_codes s))"
    "take 2 (drop (8 * i + 6) (take 24 (reboot_codes s))) = take 2 (drop (8 * i + 6) (reboot_codes s))"
    using \<open>i < 3\<close> by (simp_all add: take_drop min_def)
  with drops \<open>i < 3\<close> show "appl_settings_get_reboot_code env (Suc i) s' = appl_settings_get_reboot_code env i s"
    by (simp add: appl_settings_get_reboot_code_def Let_def mult.commute add.commute add.left_commute)
qed

section \<open>A concrete environment\<close>

text \<open>Big endian encoders as Zephyr documents them, no configured keys and the sizes of tinydtls, for the witnesses.\<close>

fun sim_put_be :: "nat \<Rightarrow> nat \<Rightarrow> u8 list" where
  "sim_put_be 0 v = []"
| "sim_put_be (Suc n) v = sim_put_be n (v div 256) @ [of_nat v]"

definition sim_get_be :: "u8 list \<Rightarrow> nat" where
  "sim_get_be bs = foldl (\<lambda>v b. v * 256 + unat b) 0 bs"

definition sim_settings_env :: settings_env where
  "sim_settings_env = \<lparr>max_identity = 32, max_key = 16, public_key2 = (\<lambda>k. (1, k @ k)), base64_decode = (\<lambda>_ _. Inl (- 22)),
     hex2bin = (\<lambda>_ _. []), behind_zero = False, put_be48 = (\<lambda>v. sim_put_be 6 (unat v)), get_be48 = (\<lambda>bs. of_nat (sim_get_be bs)),
     put_be16 = (\<lambda>v. sim_put_be 2 (unat v)), get_be16 = (\<lambda>bs. of_nat (sim_get_be bs)), cfg_init_settings = True,
     cfg_unlock_password = Some ''secret'', cfg_hostname = Some ''host'', cfg_port = 5683, cfg_secure_port = 5684,
     cfg_scheme = ''coaps'', cfg_resource = Some ''echo'', cfg_query = None, cfg_device_identity = Some ''cali.${imei}'',
     cfg_battery_type = 1, cfg_psk_identity = Some ''cali.${imei}'', cfg_psk_secret = Inl (replicate 12 7),
     cfg_private_key = Inl None, cfg_trusted_key = None, cfg_provisioning_key = []\<rparr>"

definition sim_store :: "(cstring \<times> u8 list) list zephyr_settings" where
  "sim_store = \<lparr>zs_handler = (\<lambda>k. if take 5 k = ''csrv/'' then Some (drop 5 k) else None),
     zs_save_one = (\<lambda>k v st. (0, (k, v) # st)), zs_save = (\<lambda>kvs st. (0, kvs @ st)), zs_delete = (\<lambda>k st. (0, filter (\<lambda>kv. fst kv \<noteq> k) st))\<rparr>"

definition sim_settings :: "(cstring \<times> u8 list) list settings" where
  "sim_settings = snd (snd (appl_settings_init sim_store sim_settings_env (Some ''123456789012345'') (Some \<lparr>has_psk_info = False,
     has_ecdsa_key = False, has_verify_ecdsa_key = False\<rparr>) (0, initial_settings sim_settings_env [])))"

lemma length_sim_put_be [simp]: "length (sim_put_be n v) = n"
  by (induction n arbitrary: v) simp_all

lemma sim_get_put_be: "sim_get_be (sim_put_be n v) = v mod 256 ^ n"
  by (induction n arbitrary: v) (simp_all add: sim_get_be_def unat_of_nat mod_mult2_eq)

lemma sim_settings_env_ok: "settings_env_ok sim_settings_env"
  by (simp add: settings_env_ok_def sim_settings_env_def texts_ok_def)

lemma sim_byte_order_ok: "byte_order_ok sim_settings_env"
proof -
  have mask: "(0xffffffffffff :: u64) = mask 48" by (simp add: mask_eq_exp_minus_1)
  have "(of_nat (unat v mod 256 ^ 6) :: u64) = v AND 0xffffffffffff" for v
    unfolding mask take_bit_eq_mask[symmetric] by (subst word_unat_eq_iff) (simp add: take_bit_eq_mod unat_of_nat unat_mod)
  moreover have "(of_nat (unat v mod 256 ^ 2) :: u16) = v" for v
    using unsigned_less[of v, where 'a = nat] by simp
  ultimately show ?thesis by (simp add: byte_order_ok_def sim_settings_env_def sim_get_put_be)
qed

lemma sim_settings_reachable: "settings_reachable sim_store sim_settings_env sim_settings"
  unfolding sim_settings_def by (intro settings_reachable.init settings_reachable.start) (simp add: texts_ok_def)

section \<open>Properties\<close>

text \<open>C9. Whatever is loaded, set, deleted, reset or generated, every text stays inside its array with its terminator, the keys
  have their size, and the lengths of the PSK identity and secret stay inside their arrays.\<close>

theorem settings_stay_well_formed:
  assumes "settings_env_ok env" "settings_reachable z env s"
  shows "settings_wf env s"
  using assms(2)
proof (induction rule: settings_reachable.induct)
  case (provdone s)
  then show ?case by (simp add: sh_cmd_settings_provdone_def provisioning_done_wf)
qed (use assms(1) in \<open>simp_all add: initial_settings_wf handle_set_wf init_wf add_reboot_wf commands_wf delall_wf generate_wf\<close>)

theorem settings_stay_well_formed_witness: "settings_wf sim_settings_env sim_settings"
  using settings_stay_well_formed [OF sim_settings_env_ok sim_settings_reachable] .

text \<open>C8. The next start loads what was exported: after loading the exported values in any order, every setting is what it was,
  with the public key computed anew. The PSK secret is only kept if it is shorter than its array.\<close>

theorem exported_settings_load:
  assumes "settings_wf env s" "psk_key_length s < max_key env" "mset kvs = mset (fst (appl_settings_handle_export s))"
  shows "settings_load env kvs (initial_settings env st) =
     (snd (appl_settings_handle_export s))\<lparr>device_imei := [], ecdsa_pub_key := snd (public_key2 env (ecdsa_priv_key s)),
       ecdsa_provisioning_priv_key := replicate 32 0, ecdsa_provisioning_pub_key := replicate 64 0, saved := st\<rparr>"
proof -
  have eq: "mset kvs = mset (exported s)" using assms(3) by (simp only: exported_def)
  show ?thesis by (simp only: settings_load_order[OF eq] exported_loads[OF assms(1,2)])
qed

text \<open>A PSK secret that fills its array is accepted, but loses its last byte: tinydtls gets the shortened secret.\<close>

lemma full_psk_secret_cut:
  assumes "settings_wf env s" "length bs = max_key env" "0 < max_key env" "max_key env \<le> result_length"
  shows "fst (appl_settings_handle_set env ''psk_key'' (Inr bs) s) = 0 \<and>
    appl_settings_get_psk_info DTLS_PSK_KEY (take (psk_id_length s) (psk_id s)) result_length
      (snd (appl_settings_handle_set env ''psk_key'' (Inr bs) s)) = Inr (butlast bs)"
proof -
  have "length (psk_id s) = max_identity env + 1" "psk_id_length s \<le> max_identity env"
    using assms(1) by (auto simp: settings_wf_def dest: filled_length)
  thus ?thesis using assms(2-) by (simp add: appl_settings_get_psk_info_def butlast_conv_take)
qed


text \<open>C11. Adding a reboot code pushes it in front of the list of reboots, with its time in seconds, and drops the oldest.\<close>

theorem add_reboot_pushes:
  assumes "byte_order_ok env" "length (reboot_codes s) = 32"
  shows "reboots env (snd (appl_settings_add_reboot_code z env now code s)) =
    push_reboot (if reboot_time now = 1 then 0 else reboot_time now * 1000, code) (reboots env s)"
proof -
  let ?s' = "snd (appl_settings_add_reboot_code z env now code s)"
  have "reboot_codes ?s' = put_be48 env (reboot_time now) @ put_be16 env code @ take 24 (reboot_codes s)"
    by (simp add: appl_settings_add_reboot_code_def settings_save_one_def Let_def case_prod_beta)
  note pushed = reboot_pushed[OF assms this]
  show ?thesis using pushed(1) pushed(2)[of 0] pushed(2)[of 1] pushed(2)[of 2]
    by (simp add: reboots_Cons push_reboot_def numeral_eq_Suc)
qed

theorem add_reboot_pushes_witness:
  "reboots sim_settings_env (snd (appl_settings_add_reboot_code sim_store sim_settings_env 5000 7 (initial_settings sim_settings_env []))) =
     [Some (5000, 7), None, None, None]"
proof -
  have "reboot_time 5000 = 5" by code_simp
  moreover have "reboots sim_settings_env (initial_settings sim_settings_env ([] :: (cstring \<times> u8 list) list)) = [None, None, None, None]"
    by code_simp
  ultimately show ?thesis
    using add_reboot_pushes [OF sim_byte_order_ok, of "initial_settings sim_settings_env []" sim_store 5000 7]
    by (simp add: initial_settings_def push_reboot_def)
qed

theorem exported_settings_load_witness:
  "settings_load sim_settings_env (rev (fst (appl_settings_handle_export sim_settings))) (initial_settings sim_settings_env []) =
     (snd (appl_settings_handle_export sim_settings))\<lparr>device_imei := [], ecdsa_pub_key := replicate 64 0,
       ecdsa_provisioning_priv_key := replicate 32 0, ecdsa_provisioning_pub_key := replicate 64 0, saved := []\<rparr>"
proof -
  have "settings_wf sim_settings_env sim_settings" "psk_key_length sim_settings < max_key sim_settings_env"
    "snd (public_key2 sim_settings_env (ecdsa_priv_key sim_settings)) = replicate 64 0" by code_simp+
  with exported_settings_load [of sim_settings_env sim_settings "rev (fst (appl_settings_handle_export sim_settings))" "[]"]
  show ?thesis by simp
qed

end
