(* ===== verification/Modem_At.thy ===== *)
theory Modem_At
  imports Parse
begin

text \<open>
  The AT interface of \<open>src/src/modem_at.c\<close>: the lock around AT commands, commands with their response, commands that
  are answered later, the function modes of the modem and switching it off for a while.

  \<^item> \<open>at_state\<close> holds the static variables; \<open>'h\<close> are the handlers of late responses, \<open>'w\<close> is the modem behind its
    library.
  \<^item> \<open>modem_lib\<close> holds the functions of the modem library. A change of the function mode calls the hooks for
    \<open>+CFUN\<close>: the library returns with which modes they are called. \<open>at_free\<close> tells whether the lock is got within the
    timeout; waiting without timeout gets it. The lock may be taken again by the thread that has it.
  \<^item> Logging and the watchdog are left out.
\<close>

section \<open>State\<close>

abbreviation (input) INTERNAL_BUF_SIZE :: nat where "INTERNAL_BUF_SIZE \<equiv> 256"
abbreviation (input) EAGAIN :: int where "EAGAIN \<equiv> 11"
abbreviation (input) LTE_LC_FUNC_MODE_POWER_OFF :: int where "LTE_LC_FUNC_MODE_POWER_OFF \<equiv> 0"
abbreviation (input) LTE_LC_FUNC_MODE_NORMAL :: int where "LTE_LC_FUNC_MODE_NORMAL \<equiv> 1"
abbreviation (input) LTE_LC_FUNC_MODE_OFFLINE :: int where "LTE_LC_FUNC_MODE_OFFLINE \<equiv> 4"
abbreviation (input) LTE_LC_FUNC_MODE_DEACTIVATE_LTE :: int where "LTE_LC_FUNC_MODE_DEACTIVATE_LTE \<equiv> 20"
abbreviation (input) LTE_LC_FUNC_MODE_ACTIVATE_LTE :: int where "LTE_LC_FUNC_MODE_ACTIVATE_LTE \<equiv> 21"
abbreviation (input) LTE_LC_FUNC_MODE_ACTIVATE_UICC :: int where "LTE_LC_FUNC_MODE_ACTIVATE_UICC \<equiv> 41"

record ('h, 'w) at_state =
  lte_at_counter :: int
  lte_at_warn :: bool
  lte_at_response_skip :: "cstring option"
  lte_at_response_handler :: "'h option"
  modem_mode :: int
  pushs_counter :: int
  previous_mode :: int
  at_world :: 'w

record 'w modem_lib =
  at_free :: "'w \<Rightarrow> bool"
  nrf_modem_at_cmd :: "cstring \<Rightarrow> 'w \<Rightarrow> int \<times> cstring \<times> 'w"
  nrf_modem_at_err :: "int \<Rightarrow> int"
  nrf_modem_at_cmd_async :: "cstring \<Rightarrow> 'w \<Rightarrow> int \<times> 'w"
  lte_lc_func_mode_set :: "int \<Rightarrow> 'w \<Rightarrow> int \<times> int list \<times> 'w"
  lte_lc_func_mode_get :: "'w \<Rightarrow> int + int"
  lte_lc_normal :: "'w \<Rightarrow> int \<times> int list \<times> 'w"
  lte_lc_system_mode_get :: "'w \<Rightarrow> int + (int \<times> int)"
  lte_lc_system_mode_set :: "int \<Rightarrow> int \<Rightarrow> 'w \<Rightarrow> int \<times> 'w"
  lte_lc_psm_req :: "bool \<Rightarrow> 'w \<Rightarrow> int \<times> 'w"
  lte_lc_edrx_req :: "bool \<Rightarrow> 'w \<Rightarrow> int \<times> 'w"
  lte_lc_psm_param_set :: "cstring \<Rightarrow> cstring \<Rightarrow> 'w \<Rightarrow> 'w"
  pdn_ctx_configure :: "cstring \<Rightarrow> 'w \<Rightarrow> 'w"
  nrf_modem_lib_init :: "'w \<Rightarrow> 'w"
  set_rai_option :: "int \<Rightarrow> int \<Rightarrow> 'w \<Rightarrow> int \<times> 'w"
  nrf_modem_lib_shutdown :: "'w \<Rightarrow> 'w"
  sms_register_listener :: "'w \<Rightarrow> int \<times> 'w"
  sms_unregister_listener :: "int \<Rightarrow> 'w \<Rightarrow> 'w"
  lte_lc_connect_async :: "'w \<Rightarrow> int \<times> 'w"
  lte_lc_neighbor_cell_measurement :: "int \<Rightarrow> int \<Rightarrow> 'w \<Rightarrow> int \<times> 'w"
  lte_lc_psm_get :: "'w \<Rightarrow> int"
  lte_lc_edrx_get :: "'w \<Rightarrow> int + (int \<times> int \<times> int)"
  sms_send_text :: "cstring \<Rightarrow> cstring \<Rightarrow> 'w \<Rightarrow> int \<times> 'w"

definition at_state_init :: "'w \<Rightarrow> ('h, 'w) at_state" where
  "at_state_init w = \<lparr>lte_at_counter = 0, lte_at_warn = True, lte_at_response_skip = None, lte_at_response_handler = None,
     modem_mode = - 1, pushs_counter = 0, previous_mode = - 1, at_world = w\<rparr>"

section \<open>Lock\<close>

definition modem_at_lock :: "bool \<Rightarrow> ('h, 'w) at_state \<Rightarrow> int \<times> ('h, 'w) at_state" where
  "modem_at_lock free s =
     (if \<not> free then (- EAGAIN, s)
      else if lte_at_response_handler s \<noteq> None then (- EBUSY, s)
      else (0, if lte_at_counter s \<noteq> 0 then s\<lparr>lte_at_counter := lte_at_counter s + 1\<rparr> else s))"

definition modem_at_lock_no_warn :: "bool \<Rightarrow> ('h, 'w) at_state \<Rightarrow> int \<times> ('h, 'w) at_state" where
  "modem_at_lock_no_warn free s =
     (if \<not> free then (- EAGAIN, s)
      else if lte_at_response_handler s \<noteq> None then (- EBUSY, s)
      else (0, s\<lparr>lte_at_counter := lte_at_counter s + 1, lte_at_warn := False\<rparr>))"

definition modem_at_unlock :: "('h, 'w) at_state \<Rightarrow> ('h, 'w) at_state" where
  "modem_at_unlock s =
     (if lte_at_counter s \<noteq> 0
      then (let s = s\<lparr>lte_at_counter := lte_at_counter s - 1\<rparr> in if lte_at_counter s = 0 then s\<lparr>lte_at_warn := True\<rparr> else s)
      else s)"

definition modem_at_lock_internal :: "('h, 'w) at_state \<Rightarrow> int \<times> ('h, 'w) at_state" where
  "modem_at_lock_internal s = modem_at_lock True s"

text \<open>An operation of the library under the lock.\<close>

definition at_locked ::
  "(('h, 'w) at_state \<Rightarrow> int \<times> ('h, 'w) at_state) \<Rightarrow> ('h, 'w) at_state \<Rightarrow> int \<times> ('h, 'w) at_state" where
  "at_locked f s =
     (let (res, s) = modem_at_lock_internal s
      in if res \<noteq> 0 then (res, s) else (let (res, s) = f s in (res, modem_at_unlock s)))"

section \<open>Commands\<close>

definition terminate_at_buffer :: "cstring \<Rightarrow> cstring" where
  "terminate_at_buffer line =
     (let tail = strend line [CHR 0x0D, CHR 0x0A, CHR ''O'', CHR ''K'', CHR 0x0D, CHR 0x0A] True;
          tail = (if tail = 0 then strend line [CHR 0x0D, CHR 0x0A] False else tail)
      in if tail > 0 then take (nat (int (length line) - tail)) line else line)"

text \<open>The length and the text, if there is a buffer of \<open>len\<close> bytes for it.\<close>

definition modem_at_cmd ::
  "'w modem_lib \<Rightarrow> nat option \<Rightarrow> cstring option \<Rightarrow> cstring \<Rightarrow> ('h, 'w) at_state
   \<Rightarrow> (int \<times> cstring option) \<times> ('h, 'w) at_state" where
  "modem_at_cmd lib buf skip cmd s =
     (let (err, s) = modem_at_lock_internal s
      in if err \<noteq> 0 then ((err, None), s)
         else (let (err, response, w) = nrf_modem_at_cmd lib cmd (at_world s); s = s\<lparr>at_world := w\<rparr>
               in if err < 0 then ((err, None), modem_at_unlock s)
                  else if err > 0
                  then (let error = nrf_modem_at_err lib err
                        in ((if error \<noteq> 0 then - error else - EBADMSG, None), modem_at_unlock s))
                  else (let text = terminate_at_buffer (take (INTERNAL_BUF_SIZE - 1) response)
                        in case buf of
                             None \<Rightarrow> ((int (length text), None), modem_at_unlock s)
                           | Some 0 \<Rightarrow> ((int (length text), None), modem_at_unlock s)
                           | Some len \<Rightarrow>
                               (let skip_len = (case skip of None \<Rightarrow> 0 | Some t \<Rightarrow> nat (strstart text t True));
                                    text = take (len - 1) (drop skip_len text)
                                in ((int (length text), Some text), modem_at_unlock s)))))"

text \<open>\<open>cmd\<close> is the formatted command, cut to the internal buffer.\<close>

definition modem_at_cmdf ::
  "'w modem_lib \<Rightarrow> nat option \<Rightarrow> cstring option \<Rightarrow> cstring \<Rightarrow> ('h, 'w) at_state
   \<Rightarrow> (int \<times> cstring option) \<times> ('h, 'w) at_state" where
  "modem_at_cmdf lib buf skip cmd s =
     (let (err, s) = modem_at_lock (at_free lib (at_world s)) s
      in if err \<noteq> 0 then ((err, None), s)
         else (let (r, s) = modem_at_cmd lib buf skip (take (INTERNAL_BUF_SIZE - 1) cmd) s in (r, modem_at_unlock s)))"

definition modem_at_cmd_async ::
  "'w modem_lib \<Rightarrow> 'h \<Rightarrow> cstring option \<Rightarrow> cstring \<Rightarrow> ('h, 'w) at_state \<Rightarrow> int \<times> ('h, 'w) at_state" where
  "modem_at_cmd_async lib handler skip cmd s =
     (if \<not> at_free lib (at_world s) then (- EBUSY, s)
      else if lte_at_response_handler s \<noteq> None then (- EBUSY, s)
      else (let s = s\<lparr>lte_at_response_handler := Some handler, lte_at_response_skip := skip\<rparr>;
                (res, w) = nrf_modem_at_cmd_async lib cmd (at_world s); s = s\<lparr>at_world := w\<rparr>
            in (res, if res \<noteq> 0 then s\<lparr>lte_at_response_skip := None, lte_at_response_handler := None\<rparr> else s)))"

definition modem_at_cmdf_async ::
  "'w modem_lib \<Rightarrow> 'h \<Rightarrow> cstring option \<Rightarrow> cstring \<Rightarrow> ('h, 'w) at_state \<Rightarrow> int \<times> ('h, 'w) at_state" where
  "modem_at_cmdf_async lib handler skip cmd s = modem_at_cmd_async lib handler skip (take (INTERNAL_BUF_SIZE - 1) cmd) s"

text \<open>The late response: which handler is called with which text.\<close>

definition modem_at_cmd_async_response_handler ::
  "cstring \<Rightarrow> ('h, 'w) at_state \<Rightarrow> ('h \<times> cstring) option \<times> ('h, 'w) at_state" where
  "modem_at_cmd_async_response_handler response s =
     (case lte_at_response_handler s of
        None \<Rightarrow> (None, s)
      | Some h \<Rightarrow>
          (let skip_len = (case lte_at_response_skip s of None \<Rightarrow> 0 | Some t \<Rightarrow> nat (strstart response t True))
           in (Some (h, drop skip_len response), s\<lparr>lte_at_response_skip := None, lte_at_response_handler := None\<rparr>)))"

definition modem_at_async_pending :: "('h, 'w) at_state \<Rightarrow> bool" where
  "modem_at_async_pending s \<longleftrightarrow> lte_at_response_handler s \<noteq> None"

section \<open>Function modes\<close>

definition modem_at_on_cfun :: "int \<Rightarrow> ('h, 'w) at_state \<Rightarrow> ('h, 'w) at_state" where
  "modem_at_on_cfun mode s = s\<lparr>modem_mode := mode\<rparr>"

text \<open>A call of the library that changes the mode, with the hooks it calls.\<close>

definition at_mode_call :: "int \<times> int list \<times> 'w \<Rightarrow> ('h, 'w) at_state \<Rightarrow> int \<times> ('h, 'w) at_state" where
  "at_mode_call r s = (let (res, hooks, w) = r in (res, fold modem_at_on_cfun hooks (s\<lparr>at_world := w\<rparr>)))"

definition modem_at_set_func_mode :: "'w modem_lib \<Rightarrow> int \<Rightarrow> ('h, 'w) at_state \<Rightarrow> int \<times> ('h, 'w) at_state" where
  "modem_at_set_func_mode lib mode =
     at_locked (\<lambda>s. let previous = modem_mode s;
                        (res, s) = at_mode_call (lte_lc_func_mode_set lib mode (at_world s)) (s\<lparr>modem_mode := mode\<rparr>)
                    in (res, if 0 > res \<and> modem_mode s = mode then s\<lparr>modem_mode := previous\<rparr> else s))"

definition modem_at_is_on :: "('h, 'w) at_state \<Rightarrow> bool" where
  "modem_at_is_on s \<longleftrightarrow> modem_mode s = LTE_LC_FUNC_MODE_NORMAL \<or> modem_mode s = LTE_LC_FUNC_MODE_ACTIVATE_LTE"

definition modem_at_push_off :: "'w modem_lib \<Rightarrow> ('h, 'w) at_state \<Rightarrow> int \<times> ('h, 'w) at_state" where
  "modem_at_push_off lib =
     at_locked (\<lambda>s. case lte_lc_func_mode_get lib (at_world s) of
        Inl res \<Rightarrow> (res, s)
      | Inr mode \<Rightarrow>
          (let push = (previous_mode s = - 1);
               s = (if push then s\<lparr>previous_mode := mode\<rparr> else s)
           in if push \<or> mode = LTE_LC_FUNC_MODE_POWER_OFF
              then (let s = s\<lparr>pushs_counter := pushs_counter s + 1\<rparr>
                    in if push \<and> mode \<noteq> LTE_LC_FUNC_MODE_POWER_OFF
                       then (let (res, s) = modem_at_set_func_mode lib LTE_LC_FUNC_MODE_POWER_OFF s
                             in (res, if res \<noteq> 0 then s\<lparr>previous_mode := - 1, pushs_counter := pushs_counter s - 1\<rparr> else s))
                       else (0, s))
              else (- EBUSY, s)))"

definition modem_at_restore :: "'w modem_lib \<Rightarrow> ('h, 'w) at_state \<Rightarrow> int \<times> ('h, 'w) at_state" where
  "modem_at_restore lib =
     at_locked (\<lambda>s.
       if pushs_counter s > 0
       then (let s = s\<lparr>pushs_counter := pushs_counter s - 1\<rparr>
             in if pushs_counter s = 0 \<and> previous_mode s \<noteq> - 1
                then (let (res, s) =
                        (if previous_mode s \<noteq> LTE_LC_FUNC_MODE_POWER_OFF
                         then (let (res, s) = at_mode_call (lte_lc_func_mode_set lib (previous_mode s) (at_world s)) s
                               in (res, if res \<noteq> 0 then s\<lparr>pushs_counter := pushs_counter s + 1\<rparr> else s))
                         else (0, s))
                      in (res, if res = 0 then s\<lparr>previous_mode := - 1\<rparr> else s))
                else (- EINVAL, s))
       else (- EINVAL, s))"

definition modem_at_set_offline :: "'w modem_lib \<Rightarrow> ('h, 'w) at_state \<Rightarrow> int \<times> ('h, 'w) at_state" where
  "modem_at_set_offline lib = modem_at_set_func_mode lib LTE_LC_FUNC_MODE_OFFLINE"

definition modem_at_set_normal :: "'w modem_lib \<Rightarrow> ('h, 'w) at_state \<Rightarrow> int \<times> ('h, 'w) at_state" where
  "modem_at_set_normal lib = at_locked (\<lambda>s. at_mode_call (lte_lc_normal lib (at_world s)) s)"

definition modem_at_set_lte_offline :: "'w modem_lib \<Rightarrow> ('h, 'w) at_state \<Rightarrow> int \<times> ('h, 'w) at_state" where
  "modem_at_set_lte_offline lib = modem_at_set_func_mode lib LTE_LC_FUNC_MODE_DEACTIVATE_LTE"

definition modem_at_power_off :: "'w modem_lib \<Rightarrow> ('h, 'w) at_state \<Rightarrow> int \<times> ('h, 'w) at_state" where
  "modem_at_power_off lib = modem_at_set_func_mode lib LTE_LC_FUNC_MODE_POWER_OFF"

definition modem_at_system_mode_get ::
  "'w modem_lib \<Rightarrow> ('h, 'w) at_state \<Rightarrow> (int + (int \<times> int)) \<times> ('h, 'w) at_state" where
  "modem_at_system_mode_get lib s =
     (let (res, s) = modem_at_lock_internal s
      in if res \<noteq> 0 then (Inl res, s) else (lte_lc_system_mode_get lib (at_world s), modem_at_unlock s))"

text \<open>If the modem cannot be switched off, the mode is not set and the result is 0.\<close>

definition modem_at_system_mode_set :: "'w modem_lib \<Rightarrow> int \<Rightarrow> int \<Rightarrow> ('h, 'w) at_state \<Rightarrow> int \<times> ('h, 'w) at_state" where
  "modem_at_system_mode_set lib mode preference =
     at_locked (\<lambda>s. let (off, s) = modem_at_push_off lib s
                    in if off = 0
                       then (let (res, w) = lte_lc_system_mode_set lib mode preference (at_world s)
                             in (res, snd (modem_at_restore lib (s\<lparr>at_world := w\<rparr>))))
                       else (0, s))"

definition modem_at_psm_req :: "'w modem_lib \<Rightarrow> bool \<Rightarrow> ('h, 'w) at_state \<Rightarrow> int \<times> ('h, 'w) at_state" where
  "modem_at_psm_req lib enable =
     at_locked (\<lambda>s. let (res, w) = lte_lc_psm_req lib enable (at_world s) in (res, s\<lparr>at_world := w\<rparr>))"

definition modem_at_edrx_req :: "'w modem_lib \<Rightarrow> bool \<Rightarrow> ('h, 'w) at_state \<Rightarrow> int \<times> ('h, 'w) at_state" where
  "modem_at_edrx_req lib enable =
     at_locked (\<lambda>s. let (res, w) = lte_lc_edrx_req lib enable (at_world s) in (res, s\<lparr>at_world := w\<rparr>))"

section \<open>Laws\<close>

text \<open>No late response is pending and the lock is not counted: then locking and unlocking changes nothing.\<close>

definition at_idle :: "('h, 'w) at_state \<Rightarrow> bool" where
  "at_idle s \<longleftrightarrow> lte_at_response_handler s = None \<and> lte_at_counter s = 0"

lemma at_locked_idle: "at_idle s \<Longrightarrow> at_locked f s = (let (res, s) = f s in (res, modem_at_unlock s))"
  by (simp add: at_locked_def modem_at_lock_internal_def modem_at_lock_def at_idle_def)

lemma unlock_idle [simp]: "lte_at_counter s = 0 \<Longrightarrow> modem_at_unlock s = s"
  by (simp add: modem_at_unlock_def)

text \<open>A library that sets the mode when it reports success, and tells it.\<close>

definition func_mode_ok :: "'w modem_lib \<Rightarrow> bool" where
  "func_mode_ok lib \<longleftrightarrow> (\<forall>mode w. case lte_lc_func_mode_set lib mode w of
     (res, hooks, w') \<Rightarrow> res = 0 \<and> hooks = [mode] \<and> lte_lc_func_mode_get lib w' = Inr mode)"

lemma func_mode_set_ok:
  assumes "func_mode_ok lib"
  obtains w' where "lte_lc_func_mode_set lib mode w = (0, [mode], w')" "lte_lc_func_mode_get lib w' = Inr mode"
proof -
  obtain res hooks w' where r: "lte_lc_func_mode_set lib mode w = (res, hooks, w')" by (cases "lte_lc_func_mode_set lib mode w") auto
  have "case lte_lc_func_mode_set lib mode w of
      (res, hooks, w') \<Rightarrow> res = 0 \<and> hooks = [mode] \<and> lte_lc_func_mode_get lib w' = Inr mode"
    using assms by (simp only: func_mode_ok_def)
  with r that show ?thesis by simp
qed

text \<open>The modem is in \<open>mode\<close>, and the program knows it; or it was switched off \<open>k\<close> times.\<close>

definition in_mode :: "'w modem_lib \<Rightarrow> int \<Rightarrow> ('h, 'w) at_state \<Rightarrow> bool" where
  "in_mode lib mode s \<longleftrightarrow> at_idle s \<and> pushs_counter s = 0 \<and> previous_mode s = - 1 \<and> modem_mode s = mode
     \<and> lte_lc_func_mode_get lib (at_world s) = Inr mode"

definition pushed_off :: "'w modem_lib \<Rightarrow> int \<Rightarrow> nat \<Rightarrow> ('h, 'w) at_state \<Rightarrow> bool" where
  "pushed_off lib mode k s \<longleftrightarrow> at_idle s \<and> 0 < k \<and> pushs_counter s = int k \<and> previous_mode s = mode
     \<and> modem_mode s = LTE_LC_FUNC_MODE_POWER_OFF \<and> lte_lc_func_mode_get lib (at_world s) = Inr LTE_LC_FUNC_MODE_POWER_OFF"

lemma push_off_first:
  assumes "func_mode_ok lib" "in_mode lib mode s" "mode \<noteq> - 1"
  shows "fst (modem_at_push_off lib s) = 0 \<and> pushed_off lib mode 1 (snd (modem_at_push_off lib s))"
proof -
  obtain w' where w: "lte_lc_func_mode_set lib 0 (at_world s) = (0, [0], w')" "lte_lc_func_mode_get lib w' = Inr 0"
    by (rule func_mode_set_ok[OF assms(1)])
  show ?thesis using assms(2,3) w
    by (simp add: modem_at_push_off_def modem_at_set_func_mode_def at_locked_def modem_at_lock_internal_def modem_at_lock_def
        at_mode_call_def modem_at_on_cfun_def in_mode_def pushed_off_def at_idle_def Let_def)
qed

lemma push_off_again:
  assumes "pushed_off lib mode k s" "mode \<noteq> - 1"
  shows "fst (modem_at_push_off lib s) = 0 \<and> pushed_off lib mode (Suc k) (snd (modem_at_push_off lib s))"
  using assms by (simp add: modem_at_push_off_def at_locked_def modem_at_lock_internal_def modem_at_lock_def pushed_off_def
      at_idle_def Let_def)

lemma restore_inner:
  assumes "pushed_off lib mode (Suc k) s" "0 < k"
  shows "pushed_off lib mode k (snd (modem_at_restore lib s))"
  using assms by (simp add: modem_at_restore_def at_locked_def modem_at_lock_internal_def modem_at_lock_def pushed_off_def
      at_idle_def Let_def)

lemma restore_last:
  assumes "func_mode_ok lib" "pushed_off lib mode 1 s" "mode \<noteq> - 1"
  shows "fst (modem_at_restore lib s) = 0 \<and> in_mode lib mode (snd (modem_at_restore lib s))"
proof -
  obtain w' where "lte_lc_func_mode_set lib mode (at_world s) = (0, [mode], w')" "lte_lc_func_mode_get lib w' = Inr mode"
    by (rule func_mode_set_ok[OF assms(1)])
  thus ?thesis using assms(2,3)
    by (simp add: modem_at_restore_def at_locked_def modem_at_lock_internal_def modem_at_lock_def at_mode_call_def
        modem_at_on_cfun_def in_mode_def pushed_off_def at_idle_def Let_def)
qed

definition push_offs :: "'w modem_lib \<Rightarrow> nat \<Rightarrow> ('h, 'w) at_state \<Rightarrow> ('h, 'w) at_state" where
  "push_offs lib n = ((\<lambda>s. snd (modem_at_push_off lib s)) ^^ n)"

definition restores :: "'w modem_lib \<Rightarrow> nat \<Rightarrow> ('h, 'w) at_state \<Rightarrow> ('h, 'w) at_state" where
  "restores lib n = ((\<lambda>s. snd (modem_at_restore lib s)) ^^ n)"

lemma push_offs_pushed:
  assumes "func_mode_ok lib" "in_mode lib mode s" "mode \<noteq> - 1"
  shows "pushed_off lib mode (Suc n) (push_offs lib (Suc n) s)"
proof (induction n)
  case 0
  show ?case using push_off_first[OF assms] by (simp add: push_offs_def)
next
  case (Suc n)
  show ?case using push_off_again[OF Suc.IH assms(3)] by (simp add: push_offs_def)
qed

lemma restores_pushed:
  assumes "pushed_off lib mode (n + k) s" "0 < k"
  shows "pushed_off lib mode k (restores lib n s)"
  using assms
proof (induction n arbitrary: k)
  case (Suc n)
  have "pushed_off lib mode (Suc k) (restores lib n s)" by (rule Suc.IH) (use Suc.prems in simp_all)
  thus ?case using restore_inner[OF _ Suc.prems(2)] by (simp add: restores_def)
qed (simp add: restores_def)


section \<open>A concrete library\<close>

definition sim_modem_lib :: "int modem_lib" where
  "sim_modem_lib = \<lparr>at_free = (\<lambda>_. True), nrf_modem_at_cmd = (\<lambda>_ w. (0, [], w)), nrf_modem_at_err = id,
     nrf_modem_at_cmd_async = (\<lambda>_ w. (0, w)), lte_lc_func_mode_set = (\<lambda>mode _. (0, [mode], mode)), lte_lc_func_mode_get = Inr,
     lte_lc_normal = (\<lambda>_. (0, [1], 1)), lte_lc_system_mode_get = (\<lambda>_. Inr (6, 1)), lte_lc_system_mode_set = (\<lambda>_ _ w. (0, w)),
     lte_lc_psm_req = (\<lambda>_ w. (0, w)), lte_lc_edrx_req = (\<lambda>_ w. (0, w)),
     lte_lc_psm_param_set = (\<lambda>_ _ w. w), pdn_ctx_configure = (\<lambda>_ w. w), nrf_modem_lib_init = id, set_rai_option = (\<lambda>_ _ w. (0, w)),
     nrf_modem_lib_shutdown = id, sms_register_listener = (\<lambda>w. (0, w)), sms_unregister_listener = (\<lambda>_ w. w),
     lte_lc_connect_async = (\<lambda>w. (0, w)), lte_lc_neighbor_cell_measurement = (\<lambda>_ _ w. (0, w)),
     lte_lc_psm_get = (\<lambda>_. 0), lte_lc_edrx_get = (\<lambda>_. Inr (0, 0, 0)), sms_send_text = (\<lambda>_ _ w. (0, w))\<rparr>"


end
