(* ===== verification/Modem_Desc.thy ===== *)
theory Modem_Desc
  imports Parse
begin

text \<open>
  The descriptions of \<open>src/src/modem_desc.c\<close>, with the states and modes of the modem: those of the modem library by
  their numbers, which the AT interface uses too.
\<close>

datatype lte_network_state_type = LTE_NETWORK_STATE_INIT | LTE_NETWORK_STATE_OFF | LTE_NETWORK_STATE_ON

datatype lte_network_rai = LTE_NETWORK_RAI_UNKNOWN | LTE_NETWORK_NO_RAI | LTE_NETWORK_CP_RAI | LTE_NETWORK_AS_RAI
  | LTE_NETWORK_AS_AND_CP_RAI

text \<open>Registration states and modes, by their numbers in the AT interface.\<close>

abbreviation (input) LTE_LC_NW_REG_NOT_REGISTERED :: int where "LTE_LC_NW_REG_NOT_REGISTERED \<equiv> 0"
abbreviation (input) LTE_LC_NW_REG_REGISTERED_HOME :: int where "LTE_LC_NW_REG_REGISTERED_HOME \<equiv> 1"
abbreviation (input) LTE_LC_NW_REG_SEARCHING :: int where "LTE_LC_NW_REG_SEARCHING \<equiv> 2"
abbreviation (input) LTE_LC_NW_REG_REGISTRATION_DENIED :: int where "LTE_LC_NW_REG_REGISTRATION_DENIED \<equiv> 3"
abbreviation (input) LTE_LC_NW_REG_UNKNOWN :: int where "LTE_LC_NW_REG_UNKNOWN \<equiv> 4"
abbreviation (input) LTE_LC_NW_REG_REGISTERED_ROAMING :: int where "LTE_LC_NW_REG_REGISTERED_ROAMING \<equiv> 5"
abbreviation (input) LTE_LC_NW_REG_UICC_FAIL :: int where "LTE_LC_NW_REG_UICC_FAIL \<equiv> 90"
abbreviation (input) LTE_LC_LTE_MODE_NONE :: int where "LTE_LC_LTE_MODE_NONE \<equiv> 0"
abbreviation (input) LTE_LC_LTE_MODE_LTEM :: int where "LTE_LC_LTE_MODE_LTEM \<equiv> 7"
abbreviation (input) LTE_LC_LTE_MODE_NBIOT :: int where "LTE_LC_LTE_MODE_NBIOT \<equiv> 9"
abbreviation (input) LTE_LC_SYSTEM_MODE_LTEM :: int where "LTE_LC_SYSTEM_MODE_LTEM \<equiv> 1"
abbreviation (input) LTE_LC_SYSTEM_MODE_NBIOT :: int where "LTE_LC_SYSTEM_MODE_NBIOT \<equiv> 2"
abbreviation (input) LTE_LC_SYSTEM_MODE_GPS :: int where "LTE_LC_SYSTEM_MODE_GPS \<equiv> 3"
abbreviation (input) LTE_LC_SYSTEM_MODE_LTEM_GPS :: int where "LTE_LC_SYSTEM_MODE_LTEM_GPS \<equiv> 4"
abbreviation (input) LTE_LC_SYSTEM_MODE_NBIOT_GPS :: int where "LTE_LC_SYSTEM_MODE_NBIOT_GPS \<equiv> 5"
abbreviation (input) LTE_LC_SYSTEM_MODE_LTEM_NBIOT :: int where "LTE_LC_SYSTEM_MODE_LTEM_NBIOT \<equiv> 6"
abbreviation (input) LTE_LC_SYSTEM_MODE_LTEM_NBIOT_GPS :: int where "LTE_LC_SYSTEM_MODE_LTEM_NBIOT_GPS \<equiv> 7"
abbreviation (input) LTE_LC_SYSTEM_MODE_PREFER_AUTO :: int where "LTE_LC_SYSTEM_MODE_PREFER_AUTO \<equiv> 0"
abbreviation (input) LTE_LC_SYSTEM_MODE_PREFER_LTEM :: int where "LTE_LC_SYSTEM_MODE_PREFER_LTEM \<equiv> 1"
abbreviation (input) LTE_LC_SYSTEM_MODE_PREFER_NBIOT :: int where "LTE_LC_SYSTEM_MODE_PREFER_NBIOT \<equiv> 2"
abbreviation (input) LTE_LC_SYSTEM_MODE_PREFER_LTEM_PLMN_PRIO :: int where "LTE_LC_SYSTEM_MODE_PREFER_LTEM_PLMN_PRIO \<equiv> 3"
abbreviation (input) LTE_LC_SYSTEM_MODE_PREFER_NBIOT_PLMN_PRIO :: int where "LTE_LC_SYSTEM_MODE_PREFER_NBIOT_PLMN_PRIO \<equiv> 4"

definition modem_get_system_mode_description :: "int \<Rightarrow> int \<Rightarrow> cstring" where
  "modem_get_system_mode_description lte_mode lte_preference =
     (if lte_mode = LTE_LC_SYSTEM_MODE_LTEM then ''LTE-M''
      else if lte_mode = LTE_LC_SYSTEM_MODE_NBIOT then ''NB-IoT''
      else if lte_mode = LTE_LC_SYSTEM_MODE_GPS then ''GPS''
      else if lte_mode = LTE_LC_SYSTEM_MODE_LTEM_GPS then ''LTE-M/GPS''
      else if lte_mode = LTE_LC_SYSTEM_MODE_NBIOT_GPS then ''NB-IoT/GPS''
      else if lte_mode = LTE_LC_SYSTEM_MODE_LTEM_NBIOT
      then (if lte_preference = LTE_LC_SYSTEM_MODE_PREFER_AUTO then ''LTE-M/NB-IoT (auto)''
            else if lte_preference = LTE_LC_SYSTEM_MODE_PREFER_LTEM then ''LTE-M/NB-IoT''
            else if lte_preference = LTE_LC_SYSTEM_MODE_PREFER_NBIOT then ''NB-IoT/LTE-M''
            else if lte_preference = LTE_LC_SYSTEM_MODE_PREFER_LTEM_PLMN_PRIO then ''LTE-M/NB-IoT (plmn)''
            else if lte_preference = LTE_LC_SYSTEM_MODE_PREFER_NBIOT_PLMN_PRIO then ''NB-IoT/LTE-M (plmn)''
            else ''LTE-M/NB-IoT (???)'')
      else if lte_mode = LTE_LC_SYSTEM_MODE_LTEM_NBIOT_GPS
      then (if lte_preference = LTE_LC_SYSTEM_MODE_PREFER_AUTO then ''LTE-M/NB-IoT/GPS (auto)''
            else if lte_preference = LTE_LC_SYSTEM_MODE_PREFER_LTEM then ''LTE-M/NB-IoT/GPS''
            else if lte_preference = LTE_LC_SYSTEM_MODE_PREFER_NBIOT then ''NB-IoT/LTE-M/GPS''
            else if lte_preference = LTE_LC_SYSTEM_MODE_PREFER_LTEM_PLMN_PRIO then ''LTE-M/NB-IoT/GPS (plmn)''
            else if lte_preference = LTE_LC_SYSTEM_MODE_PREFER_NBIOT_PLMN_PRIO then ''NB-IoT/LTE-M/GPS (plmn)''
            else ''LTE-M/NB-IoT/GPS (???)'')
      else ''LTE ???'')"

definition modem_get_system_mode_cfg :: "int \<Rightarrow> int \<Rightarrow> cstring" where
  "modem_get_system_mode_cfg lte_mode lte_preference =
     (if lte_mode = LTE_LC_SYSTEM_MODE_LTEM then ''m1''
      else if lte_mode = LTE_LC_SYSTEM_MODE_NBIOT then ''nb''
      else if lte_mode = LTE_LC_SYSTEM_MODE_GPS then ''(GPS)''
      else if lte_mode = LTE_LC_SYSTEM_MODE_LTEM_GPS then ''m1 (GPS)''
      else if lte_mode = LTE_LC_SYSTEM_MODE_NBIOT_GPS then ''nb (GPS)''
      else if lte_mode = LTE_LC_SYSTEM_MODE_LTEM_NBIOT
      then (if lte_preference = LTE_LC_SYSTEM_MODE_PREFER_AUTO then ''m1 nb (no pref.)''
            else if lte_preference = LTE_LC_SYSTEM_MODE_PREFER_LTEM then ''m1 nb''
            else if lte_preference = LTE_LC_SYSTEM_MODE_PREFER_NBIOT then ''nb m1''
            else if lte_preference = LTE_LC_SYSTEM_MODE_PREFER_LTEM_PLMN_PRIO then ''m1 nb (plmn prio)''
            else if lte_preference = LTE_LC_SYSTEM_MODE_PREFER_NBIOT_PLMN_PRIO then ''nb m1 (plmn prio)''
            else ''m1 nb (???)'')
      else if lte_mode = LTE_LC_SYSTEM_MODE_LTEM_NBIOT_GPS
      then (if lte_preference = LTE_LC_SYSTEM_MODE_PREFER_AUTO then ''m1 nb (GPS, no pref.)''
            else if lte_preference = LTE_LC_SYSTEM_MODE_PREFER_LTEM then ''m1 nb (GPS)''
            else if lte_preference = LTE_LC_SYSTEM_MODE_PREFER_NBIOT then ''nb m1 (GPS)''
            else if lte_preference = LTE_LC_SYSTEM_MODE_PREFER_LTEM_PLMN_PRIO then ''m1 nb (GPS, plmn prio)''
            else if lte_preference = LTE_LC_SYSTEM_MODE_PREFER_NBIOT_PLMN_PRIO then ''nb m1 (GPS, plmn prio)''
            else ''m1 nb (GPS, ???)'')
      else ''???'')"

definition modem_get_registration_description :: "int \<Rightarrow> cstring" where
  "modem_get_registration_description reg_status =
     (if reg_status = LTE_LC_NW_REG_NOT_REGISTERED then ''Not Registered''
      else if reg_status = LTE_LC_NW_REG_REGISTERED_HOME then ''Registered - home network''
      else if reg_status = LTE_LC_NW_REG_SEARCHING then ''Searching ...''
      else if reg_status = LTE_LC_NW_REG_REGISTRATION_DENIED then ''Not Registered - denied''
      else if reg_status = LTE_LC_NW_REG_UNKNOWN then ''Unknown''
      else if reg_status = LTE_LC_NW_REG_REGISTERED_ROAMING then ''Registered - roaming network''
      else if reg_status = LTE_LC_NW_REG_UICC_FAIL then ''Not Registered - UICC fail''
      else ''Unknown?'')"

definition modem_get_registration_short_description :: "int \<Rightarrow> cstring" where
  "modem_get_registration_short_description reg_status =
     (if reg_status = LTE_LC_NW_REG_NOT_REGISTERED then ''not reg.''
      else if reg_status = LTE_LC_NW_REG_REGISTERED_HOME then ''home''
      else if reg_status = LTE_LC_NW_REG_SEARCHING then ''search''
      else if reg_status = LTE_LC_NW_REG_REGISTRATION_DENIED then ''denied''
      else if reg_status = LTE_LC_NW_REG_REGISTERED_ROAMING then ''roaming''
      else if reg_status = LTE_LC_NW_REG_UICC_FAIL then ''UICC fail''
      else ''unknown'')"

definition modem_get_network_mode_description :: "int \<Rightarrow> cstring" where
  "modem_get_network_mode_description mode =
     (if mode = LTE_LC_LTE_MODE_NONE then ''none'' else if mode = LTE_LC_LTE_MODE_LTEM then ''CAT-M1''
      else if mode = LTE_LC_LTE_MODE_NBIOT then ''NB-IoT'' else ''Unknown'')"

definition modem_get_rai_description :: "lte_network_rai \<Rightarrow> cstring" where
  "modem_get_rai_description rai =
     (case rai of LTE_NETWORK_NO_RAI \<Rightarrow> ''no RAI'' | LTE_NETWORK_CP_RAI \<Rightarrow> ''CP-RAI'' | LTE_NETWORK_AS_RAI \<Rightarrow> ''AS-RAI''
      | LTE_NETWORK_AS_AND_CP_RAI \<Rightarrow> ''CP/AS-RAI'' | LTE_NETWORK_RAI_UNKNOWN \<Rightarrow> ''Unknown'')"

definition modem_get_state_type :: "lte_network_state_type \<Rightarrow> cstring" where
  "modem_get_state_type state_type =
     (case state_type of LTE_NETWORK_STATE_INIT \<Rightarrow> ''init'' | LTE_NETWORK_STATE_OFF \<Rightarrow> ''off'' | LTE_NETWORK_STATE_ON \<Rightarrow> ''on'')"

definition modem_get_emm_cause_description :: "int \<Rightarrow> cstring option" where
  "modem_get_emm_cause_description cause = map_of
    [(2, ''IMSI unknown''), (3, ''UE illegal''), (5, ''IMEI not accepted''), (6, ''ME illegal''),
     (7, ''EPS not allowed''), (8, ''EPS and non-EPS not allowed''), (9, ''UE unknown''), (10, ''Detached''),
     (11, ''PLMN not allowed''), (12, ''TAC not allowed''), (13, ''Roaming in TAC not allowed''), (14, ''EPS in PLMN not allowed''),
     (15, ''No suitable cells in TAC''), (16, ''MSC temporary not reachable''), (17, ''Network failure''), (18, ''CS domain not available''),
     (19, ''ESM failure''), (20, ''MAC failure''), (21, ''Synch failure''), (22, ''Congestion''),
     (23, ''UE security capabilities mismatch''), (24, ''Security mode rejected''), (25, ''Not authorized for CSG''), (26, ''Non-EPS authentication not accepted''),
     (35, ''Service option not authorized for PLMN''), (39, ''CS temporary not available''), (40, ''No EPS bearer''), (95, ''Incorrect message''),
     (96, ''Invalid mandatory information''), (97, ''Message type unknown''), (98, ''Message type uncompatible''), (99, ''Information unknown''),
     (100, ''Conditional IE error''), (101, ''Message uncompatible''), (111, ''Protocol error'')] cause"

end
