(* ===== verification/Modem.thy ===== *)
theory Modem
  imports Modem_At Modem_Desc Modem_Sim Dtls_Client
begin

text \<open>
  The states of the modem of \<open>src/src/modem.c\<close>: what the events of the modem library do to the known state of the
  network, which changes are reported to the application, and the statistics. The configuration is the one of
  \<open>prj.conf\<close> (PDN, PSM, AS-RAI, all modules of the LTE link control).

  \<^item> \<open>modem\<close> holds the static variables, those inside of functions too; the bits of \<open>modem_states\<close> are a set.
  \<^item> \<open>io_queue\<close> and \<open>cmd_queue\<close> are the works that are submitted and not yet run, in order. As in Zephyr a work that
    is pending is not submitted a second time. \<open>ready_work\<close> is the delayed work of the ready signal.
  \<^item> A state change is reported by a work of its own for each state and value.
  \<^item> Times are milliseconds since the start; LEDs and logging are left out. The times of eDRX are hundredths of
    seconds instead of floating point numbers.
\<close>

section \<open>State\<close>

datatype modem_bit = MODEM_LIB_INITIALIZED | MODEM_INITIALIZED | MODEM_INTERRUPT_SEARCH | MODEM_FIRMWARE_2 | MODEM_ON_OFF
  | MODEM_SIGNAL_READY | MODEM_READY | MODEM_CONNECTED | MODEM_PSM_UPDATE | MODEM_LOW_POWER | MODEM_LTE_MODE_INITIALIZED
  | MODEM_LTE_MODE_PREFERENCE | MODEM_LTE_MODE_FORCE

abbreviation (input) INVALID_SIGNAL_VALUE :: int where "INVALID_SIGNAL_VALUE \<equiv> 0x7fff"
abbreviation (input) NONE_SIGNAL_VALUE :: int where "NONE_SIGNAL_VALUE \<equiv> 0x7ffe"

record lte_network_info =
  registered :: lte_network_state_type
  pdn_active :: lte_network_state_type
  rrc_active :: lte_network_state_type
  sleeping :: lte_network_state_type
  plmn_lock :: lte_network_state_type
  psm_active :: lte_network_state_type
  rate_limit :: u16
  rate_limit_period :: u32
  rate_limit_time :: u32
  ni_status :: int
  ni_mode :: int
  ni_band :: u8
  provider :: cstring
  ni_tac :: u16
  ni_cell :: u32
  ni_earfcn :: u32
  ni_apn :: cstring
  local_ip :: cstring
  local_ip6 :: cstring

record lte_ce_info =
  ce_supported :: u8
  ce_state :: char
  downlink_repetition :: u8
  uplink_repetition :: u8
  rsrp :: int
  rsrq :: int
  cinr :: int
  snr :: int

record lte_lc_edrx_cfg =
  edrx_mode :: int
  edrx_time :: int
  edrx_ptw :: int

record lte_lc_psm_cfg =
  psm_tau :: int
  psm_active_time :: int

datatype modem_job = State_Change lte_state_type bool | Read_Sim | Read_Network | Read_Coverage | Ready_Job nat

record modem =
  modem_states :: "modem_bit set"
  edrx_status :: lte_lc_edrx_cfg
  psm_status :: lte_lc_psm_cfg
  psm_rat :: int
  rai_lock :: bool
  requested_edrx_time_s :: int
  requested_ptw_time_s :: int
  lte_starts :: u32
  lte_searchs :: u32
  lte_psm_delays :: u32
  lte_cell_updates :: u32
  lte_wakeups :: u32
  lte_low_voltage :: u32
  lte_search_time :: int
  lte_wakeup_time :: int
  lte_connected_time :: int
  lte_asleep_time :: int
  lte_psm_delay_time :: int
  network_info :: lte_network_info
  ce_info :: lte_ce_info
  transmission_time :: int
  network_search_time :: int
  scan_time :: int
  rai_current_mode :: int
  rai_network_state :: lte_network_rai
  rai_time :: int
  phase :: u8
  phase_start_time :: int
  active_time :: int
  lte_ready_list :: "nat list"
  ready_work :: bool
  io_queue :: "modem_job list"
  cmd_queue :: "modem_job list"
  psm_signaled :: bool
  ready_signaled :: bool
  last_neighbor_cell_meas :: cstring
  meas_overrun :: bool
  meas_scans :: u32
  meas_hits :: u32
  all_scan_time :: int

definition network_info_init :: lte_network_info where
  "network_info_init = \<lparr>registered = LTE_NETWORK_STATE_INIT, pdn_active = LTE_NETWORK_STATE_INIT, rrc_active = LTE_NETWORK_STATE_INIT,
     sleeping = LTE_NETWORK_STATE_INIT, plmn_lock = LTE_NETWORK_STATE_INIT, psm_active = LTE_NETWORK_STATE_INIT, rate_limit = 0,
     rate_limit_period = 0, rate_limit_time = 0, ni_status = 0, ni_mode = 0, ni_band = 0, provider = [], ni_tac = 0, ni_cell = 0,
     ni_earfcn = 0, ni_apn = [], local_ip = [], local_ip6 = []\<rparr>"

definition ce_info_init :: lte_ce_info where
  "ce_info_init = \<lparr>ce_supported = 0, ce_state = NUL, downlink_repetition = 0, uplink_repetition = 0, rsrp = 0, rsrq = 0, cinr = 0, snr = 0\<rparr>"

definition modem_init_state :: modem where
  "modem_init_state = \<lparr>modem_states = {}, edrx_status = \<lparr>edrx_mode = LTE_LC_LTE_MODE_NONE, edrx_time = 0, edrx_ptw = 0\<rparr>,
     psm_status = \<lparr>psm_tau = 0, psm_active_time = - 1\<rparr>, psm_rat = - 1, rai_lock = False, requested_edrx_time_s = 0,
     requested_ptw_time_s = 0, lte_starts = 0, lte_searchs = 0, lte_psm_delays = 0, lte_cell_updates = 0, lte_wakeups = 0,
     lte_low_voltage = 0, lte_search_time = 0, lte_wakeup_time = 0, lte_connected_time = 0, lte_asleep_time = 0,
     lte_psm_delay_time = 0, network_info = network_info_init, ce_info = ce_info_init, transmission_time = 0,
     network_search_time = 0, scan_time = 0, rai_current_mode = 0, rai_network_state = LTE_NETWORK_RAI_UNKNOWN, rai_time = - 1,
     phase = 0, phase_start_time = 0, active_time = - 1, lte_ready_list = [], ready_work = False, io_queue = [], cmd_queue = [],
     psm_signaled = False, ready_signaled = False, last_neighbor_cell_meas = [], meas_overrun = False, meas_scans = 0, meas_hits = 0,
     all_scan_time = 0\<rparr>"

definition on_network :: "(lte_network_info \<Rightarrow> lte_network_info) \<Rightarrow> modem \<Rightarrow> modem" where
  "on_network f m = m\<lparr>network_info := f (network_info m)\<rparr>"

definition set_bits :: "modem_bit set \<Rightarrow> modem \<Rightarrow> modem" where
  "set_bits bs m = m\<lparr>modem_states := modem_states m \<union> bs\<rparr>"

definition clear_bits :: "modem_bit set \<Rightarrow> modem \<Rightarrow> modem" where
  "clear_bits bs m = m\<lparr>modem_states := modem_states m - bs\<rparr>"

definition modem_states_changed :: "modem_bit \<Rightarrow> bool \<Rightarrow> modem \<Rightarrow> bool \<times> modem" where
  "modem_states_changed b v m =
     (if v then (b \<notin> modem_states m, set_bits {b} m) else (b \<in> modem_states m, clear_bits {b} m))"

section \<open>Works\<close>

definition work_submit_to_io_queue :: "modem_job \<Rightarrow> modem \<Rightarrow> modem" where
  "work_submit_to_io_queue j m = (if j \<in> set (io_queue m) then m else m\<lparr>io_queue := io_queue m @ [j]\<rparr>)"

definition work_submit_to_cmd_queue :: "modem_job \<Rightarrow> modem \<Rightarrow> modem" where
  "work_submit_to_cmd_queue j m = (if j \<in> set (cmd_queue m) then m else m\<lparr>cmd_queue := cmd_queue m @ [j]\<rparr>)"

definition state_change_callback :: "lte_state_type \<Rightarrow> bool \<Rightarrow> modem \<Rightarrow> modem" where
  "state_change_callback t a = work_submit_to_io_queue (State_Change t a)"

definition modem_cancel_all_job :: "modem \<Rightarrow> modem" where
  "modem_cancel_all_job m = m\<lparr>cmd_queue := filter (\<lambda>j. j \<notin> {Read_Sim, Read_Network, Read_Coverage}) (cmd_queue m),
     ready_work := False, io_queue := filter (\<lambda>j. case j of State_Change _ _ \<Rightarrow> False | _ \<Rightarrow> True) (io_queue m)\<rparr>"

text \<open>The next work of the queue for I/O: the callback with its state and value.\<close>

definition run_io_queue :: "modem \<Rightarrow> modem_job option \<times> modem" where
  "run_io_queue m = (case io_queue m of [] \<Rightarrow> (None, m) | j # js \<Rightarrow> (Some j, m\<lparr>io_queue := js\<rparr>))"

text \<open>One second after the modem got ready: the callback is called at once, then all waiting works are submitted.\<close>

definition modem_ready_work_fn :: "modem \<Rightarrow> (lte_state_type \<times> bool) list \<times> modem" where
  "modem_ready_work_fn m =
     (let m = m\<lparr>ready_work := False\<rparr>
      in if MODEM_READY \<in> modem_states m
         then ([(LTE_STATE_READY_1S, True)],
               (fold (\<lambda>w. work_submit_to_io_queue (Ready_Job w)) (lte_ready_list m)
                  (set_bits {MODEM_SIGNAL_READY} m))\<lparr>lte_ready_list := [], ready_signaled := True\<rparr>)
         else ([], m))"

definition modem_on_ready :: "nat \<Rightarrow> modem \<Rightarrow> bool \<times> modem" where
  "modem_on_ready w m =
     (if MODEM_SIGNAL_READY \<in> modem_states m then (True, work_submit_to_io_queue (Ready_Job w) m)
      else (False, m\<lparr>io_queue := filter (\<lambda>j. j \<noteq> Ready_Job w) (io_queue m), lte_ready_list := lte_ready_list m @ [w]\<rparr>))"

definition modem_interrupt_wait :: "modem \<Rightarrow> modem" where
  "modem_interrupt_wait = set_bits {MODEM_INTERRUPT_SEARCH}"

section \<open>State of the network\<close>

definition network_state :: "bool \<Rightarrow> lte_network_state_type" where
  "network_state on = (if on then LTE_NETWORK_STATE_ON else LTE_NETWORK_STATE_OFF)"

definition lte_set_edrx_status :: "lte_lc_edrx_cfg \<Rightarrow> modem \<Rightarrow> modem" where
  "lte_set_edrx_status edrx m = m\<lparr>edrx_status := edrx\<rparr>"

definition lte_set_psm_status :: "lte_lc_psm_cfg \<Rightarrow> bool \<Rightarrow> modem \<Rightarrow> modem" where
  "lte_set_psm_status psm notify m =
     (let active = (0 \<le> psm_active_time psm); m = m\<lparr>psm_status := psm\<rparr>;
          m = (if psm_active (network_info m) \<noteq> network_state active
               then state_change_callback LTE_STATE_PSM_ACTIVE active (on_network (\<lambda>n. n\<lparr>psm_active := network_state active\<rparr>) m)
               else m)
      in if notify then (set_bits {MODEM_PSM_UPDATE} m)\<lparr>psm_signaled := True\<rparr> else m)"

definition lte_inc_psm_delays :: "int \<Rightarrow> modem \<Rightarrow> modem" where
  "lte_inc_psm_delays time m = m\<lparr>lte_psm_delays := lte_psm_delays m + 1, lte_psm_delay_time := lte_psm_delay_time m + time\<rparr>"

definition lte_start_search :: "int \<Rightarrow> modem \<Rightarrow> modem" where
  "lte_start_search now m =
     (let m = m\<lparr>lte_searchs := lte_searchs m + 1\<rparr>;
          m = (if network_search_time m \<noteq> 0 then m\<lparr>lte_search_time := lte_search_time m + (now - network_search_time m)\<rparr> else m)
      in m\<lparr>network_search_time := now\<rparr>)"

definition lte_end_search :: "int \<Rightarrow> modem \<Rightarrow> modem" where
  "lte_end_search now m =
     (if network_search_time m \<noteq> 0
      then m\<lparr>lte_search_time := lte_search_time m + (now - network_search_time m), network_search_time := 0\<rparr> else m)"

definition lte_update_cell :: "u16 \<Rightarrow> u32 \<Rightarrow> modem \<Rightarrow> modem" where
  "lte_update_cell tac cell m =
     (if ni_cell (network_info m) \<noteq> cell \<or> ni_tac (network_info m) \<noteq> tac
      then on_network (\<lambda>n. n\<lparr>ni_tac := tac, ni_cell := cell\<rparr>) (m\<lparr>lte_cell_updates := lte_cell_updates m + 1\<rparr>) else m)"

definition lte_inc_wakeups :: "int \<Rightarrow> modem \<Rightarrow> modem" where
  "lte_inc_wakeups time m = m\<lparr>lte_wakeups := lte_wakeups m + 1, lte_wakeup_time := lte_wakeup_time m + time\<rparr>"

definition lte_add_connected :: "int \<Rightarrow> modem \<Rightarrow> modem" where
  "lte_add_connected time m = m\<lparr>lte_connected_time := lte_connected_time m + time\<rparr>"

definition lte_add_asleep :: "int \<Rightarrow> modem \<Rightarrow> modem" where
  "lte_add_asleep time m = m\<lparr>lte_asleep_time := lte_asleep_time m + time\<rparr>"

text \<open>Ready is registered with an active PDN, connected is ready with an active radio connection. A change is reported: the
  lost connection first, then ready, then the new connection. \<open>on\<close> is \<open>modem_at_is_on\<close>.\<close>

definition is_ready :: "lte_network_info \<Rightarrow> bool" where
  "is_ready n \<longleftrightarrow> registered n = LTE_NETWORK_STATE_ON \<and> pdn_active n = LTE_NETWORK_STATE_ON"

definition is_connected :: "lte_network_info \<Rightarrow> bool" where
  "is_connected n \<longleftrightarrow> is_ready n \<and> rrc_active n = LTE_NETWORK_STATE_ON"

definition drop_connected :: "bool \<Rightarrow> modem \<Rightarrow> modem" where
  "drop_connected connected m =
     (if \<not> connected \<and> MODEM_CONNECTED \<in> modem_states m
      then state_change_callback LTE_STATE_CONNECTED False (clear_bits {MODEM_CONNECTED} m) else m)"

definition change_ready :: "bool \<Rightarrow> modem \<Rightarrow> modem" where
  "change_ready ready m =
     (let (changed, m) = modem_states_changed MODEM_READY ready m
      in if \<not> changed then m
         else (let m = clear_bits {MODEM_SIGNAL_READY} m
               in if ready
                  then (state_change_callback LTE_STATE_READY True (work_submit_to_cmd_queue Read_Network m))\<lparr>ready_work := True\<rparr>
                  else state_change_callback LTE_STATE_READY False (m\<lparr>ready_work := False\<rparr>)))"

definition get_connected :: "bool \<Rightarrow> bool \<Rightarrow> modem \<Rightarrow> modem" where
  "get_connected on connected m =
     (if connected \<and> MODEM_CONNECTED \<notin> modem_states m
      then state_change_callback LTE_STATE_CONNECTED True
             (let m = set_bits {MODEM_CONNECTED} m in if on then work_submit_to_cmd_queue Read_Coverage m else m)
      else m)"

definition lte_connection_status :: "bool \<Rightarrow> modem \<Rightarrow> modem" where
  "lte_connection_status on m =
     (let connected = is_connected (network_info m)
      in get_connected on connected (change_ready (is_ready (network_info m)) (drop_connected connected m)))"

definition lte_registration_set :: "bool \<Rightarrow> bool \<Rightarrow> modem \<Rightarrow> modem" where
  "lte_registration_set on reg m =
     (if registered (network_info m) \<noteq> network_state reg
      then lte_connection_status on ((on_network (\<lambda>n. n\<lparr>registered := network_state reg\<rparr>) m)\<lparr>rai_time := - 1\<rparr>) else m)"

definition lte_connection_status_set :: "bool \<Rightarrow> bool \<Rightarrow> modem \<Rightarrow> modem" where
  "lte_connection_status_set on connect m =
     (if rrc_active (network_info m) \<noteq> network_state connect
      then lte_connection_status on (on_network (\<lambda>n. n\<lparr>rrc_active := network_state connect\<rparr>) m) else m)"

definition lte_network_mode_set :: "int \<Rightarrow> modem \<Rightarrow> modem" where
  "lte_network_mode_set mode m =
     (if ni_mode (network_info m) \<noteq> mode then (on_network (\<lambda>n. n\<lparr>ni_mode := mode\<rparr>) m)\<lparr>rai_time := - 1\<rparr> else m)"

definition lte_network_sleeping_set :: "bool \<Rightarrow> modem \<Rightarrow> modem" where
  "lte_network_sleeping_set sleep m =
     (if sleeping (network_info m) \<noteq> network_state sleep
      then state_change_callback LTE_STATE_SLEEPING sleep (on_network (\<lambda>n. n\<lparr>sleeping := network_state sleep\<rparr>) m) else m)"

definition modem_set_low_power :: "modem \<Rightarrow> modem" where
  "modem_set_low_power m =
     (let m = state_change_callback LTE_STATE_LOW_VOLTAGE True m
      in set_bits {MODEM_LOW_POWER} (m\<lparr>lte_low_voltage := lte_low_voltage m + 1\<rparr>))"

definition lte_pdn_status_set :: "bool \<Rightarrow> bool \<Rightarrow> modem \<Rightarrow> modem" where
  "lte_pdn_status_set on active m =
     (if pdn_active (network_info m) \<noteq> network_state active
      then lte_connection_status on (on_network (\<lambda>n. n\<lparr>pdn_active := network_state active\<rparr>) m) else m)"

definition lte_registration :: "bool \<Rightarrow> int \<Rightarrow> int \<Rightarrow> modem \<Rightarrow> modem" where
  "lte_registration on now reg_status m =
     (let reg = (reg_status = LTE_LC_NW_REG_REGISTERED_HOME \<or> reg_status = LTE_LC_NW_REG_REGISTERED_ROAMING);
          m = (if reg_status = LTE_LC_NW_REG_SEARCHING then work_submit_to_cmd_queue Read_Sim (lte_start_search now m)
               else lte_end_search now m)
      in lte_registration_set on reg (state_change_callback LTE_STATE_REGISTRATION reg m))"

definition lte_rai :: "bool \<Rightarrow> bool \<Rightarrow> modem \<Rightarrow> modem" where
  "lte_rai as_rai cp_rai m = m\<lparr>rai_network_state :=
     (if as_rai \<and> cp_rai then LTE_NETWORK_AS_AND_CP_RAI else if as_rai then LTE_NETWORK_AS_RAI
      else if cp_rai then LTE_NETWORK_CP_RAI else LTE_NETWORK_NO_RAI)\<rparr>"

section \<open>Measurements of cells\<close>

abbreviation (input) MIN_QUALITY_DELTA :: int where "MIN_QUALITY_DELTA \<equiv> 15"
abbreviation (input) NEIGHBOR_CELL_MEAS_SIZE :: nat where "NEIGHBOR_CELL_MEAS_SIZE \<equiv> 800"
abbreviation (input) LTE_LC_CELL_EUTRAN_ID_INVALID :: int where "LTE_LC_CELL_EUTRAN_ID_INVALID \<equiv> 0xFFFFFFFF"

definition RSRP :: "int \<Rightarrow> int" where "RSRP x = x - 140"

definition RSRQ :: "int \<Rightarrow> int" where "RSRQ x = c_div (x - 39) 2"

definition MSEC_TO_SEC :: "int \<Rightarrow> int" where "MSEC_TO_SEC x = c_div (x + 500) 1000"

record lte_lc_ncell =
  nc_earfcn :: int
  nc_phys_cell_id :: int
  nc_rsrp :: int
  nc_rsrq :: int

record lte_lc_cell = lte_lc_ncell +
  gci_mcc :: int
  gci_mnc :: int
  gci_tac :: int
  gci_id :: int

definition lte_cell_quality :: "'a lte_lc_ncell_scheme \<Rightarrow> int" where
  "lte_cell_quality c = nc_rsrp c + c_div (nc_rsrq c) 2"

text \<open>The pointers sorted so far, last one first; the new one is exchanged with its predecessors of less quality.\<close>

fun bubble_cell :: "('a \<Rightarrow> int) \<Rightarrow> 'a \<Rightarrow> 'a list \<Rightarrow> 'a list" where
  "bubble_cell quality c [] = [c]"
| "bubble_cell quality c (x # xs) = (if quality c \<le> quality x then c # x # xs else x # bubble_cell quality c xs)"

definition sort_cells :: "('a \<Rightarrow> int) \<Rightarrow> 'a list \<Rightarrow> 'a list" where
  "sort_cells quality cells = rev (fold (bubble_cell quality) cells [])"

text \<open>Numbers of \<open>printf\<close>.\<close>

definition fmt_width :: "nat \<Rightarrow> cstring \<Rightarrow> cstring" where
  "fmt_width w t = replicate (w - length t) (CHR '' '') @ t"

definition fmt_int :: "int \<Rightarrow> cstring" where
  "fmt_int z = (if z < 0 then ''-'' @ print_nat (nat (- z)) else print_nat (nat z))"

definition fmt_zeros :: "nat \<Rightarrow> cstring \<Rightarrow> cstring" where
  "fmt_zeros w t = replicate (w - length t) (CHR ''0'') @ t"

fun fmt_hex :: "cstring \<Rightarrow> nat \<Rightarrow> cstring" where
  "fmt_hex digits n = (if n < 16 then [digits ! n] else fmt_hex digits (n div 16) @ [digits ! (n mod 16)])"

declare fmt_hex.simps [simp del]

abbreviation (input) lower_digits :: cstring where "lower_digits \<equiv> ''0123456789abcdef''"
abbreviation (input) upper_digits :: cstring where "upper_digits \<equiv> ''0123456789ABCDEF''"

text \<open>A line is appended to the text of \<open>sz\<close> bytes: whether the terminator is written behind it, and the text.\<close>

definition append_result :: "nat \<Rightarrow> cstring \<Rightarrow> cstring \<Rightarrow> bool \<times> cstring" where
  "append_result sz text line =
     (let idx = length text; n = min (sz - idx - 1) (length line)
      in if idx < sz \<and> n > 0 then (idx + n + 1 \<ge> sz, text @ take n line @ [CHR 0x0A]) else (False, text))"

definition append_line :: "nat \<Rightarrow> cstring \<Rightarrow> bool \<times> cstring \<Rightarrow> bool \<times> cstring" where
  "append_line sz line r = (let (b, t) = r; (b', t') = append_result sz t (take 127 line) in (b \<or> b', t'))"

definition append_results :: "nat \<Rightarrow> cstring \<Rightarrow> cstring list \<Rightarrow> bool \<times> cstring" where
  "append_results sz text lines = fold (append_line sz) lines (False, text)"

definition print_mnc :: "int \<Rightarrow> cstring" where
  "print_mnc mnc =
     (if 100 \<le> mnc \<and> mnc \<le> 999 then fmt_width 3 (fmt_int mnc)
      else if 0 \<le> mnc \<and> mnc \<le> 99 then fmt_zeros 2 (fmt_int mnc) @ '' '' else ''xxx'')"

definition current_cell_line :: "lte_lc_cell \<Rightarrow> cstring" where
  "current_cell_line c = ''[*]: plmn '' @ fmt_width 3 (fmt_int (gci_mcc c)) @ fmt_zeros 2 (fmt_int (gci_mnc c)) @ '', tac 0x'' @
     fmt_zeros 4 (fmt_hex lower_digits (nat (gci_tac c))) @ '', cell 0x'' @ fmt_zeros 8 (fmt_hex upper_digits (nat (gci_id c))) @
     '', band '' @ print_nat (modem_get_band (nc_earfcn c)) @ '', earfnc '' @ fmt_int (nc_earfcn c) @ '', pid '' @
     fmt_int (nc_phys_cell_id c) @ '', rsrp '' @ fmt_int (RSRP (nc_rsrp c)) @ '' dBm, rsrq '' @ fmt_int (RSRQ (nc_rsrq c)) @ '' dB''"

definition radio_columns :: "'a lte_lc_ncell_scheme \<Rightarrow> cstring" where
  "radio_columns c = fmt_width 2 (print_nat (modem_get_band (nc_earfcn c))) @ '' '' @ fmt_width 5 (fmt_int (nc_earfcn c)) @ ''  '' @
     fmt_width 3 (fmt_int (nc_phys_cell_id c)) @ ''  '' @ fmt_width 4 (fmt_int (RSRP (nc_rsrp c))) @ ''/'' @
     fmt_width 3 (fmt_int (RSRQ (nc_rsrq c)))"

definition gci_line :: "nat \<Rightarrow> bool \<Rightarrow> nat \<Rightarrow> lte_lc_cell \<Rightarrow> cstring" where
  "gci_line w match_current index c = ''['' @ [if match_current then CHR ''*'' else CHR '' ''] @ fmt_width w (print_nat index) @ '']: '' @
     fmt_width 3 (fmt_int (gci_mcc c)) @ print_mnc (gci_mnc c) @ '' 0x'' @ fmt_zeros 4 (fmt_hex lower_digits (nat (gci_tac c))) @
     '' 0x'' @ fmt_zeros 8 (fmt_hex upper_digits (nat (gci_id c))) @ ''  '' @ radio_columns c"

record lte_lc_cells_info =
  current_cell :: lte_lc_cell
  gci_cells :: "lte_lc_cell list"
  neighbor_cells :: "lte_lc_ncell list"

definition scan_seconds :: "int \<Rightarrow> cstring" where
  "scan_seconds ms = print_nat (nat (MSEC_TO_SEC ms)) @ '' s''"

text \<open>The cells by quality, which of them are the current one, and how often it is much worse than the best.\<close>

definition gci_matches :: "modem \<Rightarrow> lte_lc_cell \<Rightarrow> bool" where
  "gci_matches m c \<longleftrightarrow> ni_cell (network_info m) = word_of_int (gci_id c) \<and> ni_earfcn (network_info m) = word_of_int (nc_earfcn c)"

definition count_hits :: "modem \<Rightarrow> lte_lc_cell list \<Rightarrow> nat" where
  "count_hits m cells =
     (let best = fold (\<lambda>c q. max (lte_cell_quality c) q) cells 0
      in length (filter (\<lambda>c. gci_matches m c \<and> best - lte_cell_quality c > MIN_QUALITY_DELTA) cells))"

definition gci_lines :: "modem \<Rightarrow> u32 \<Rightarrow> u32 \<Rightarrow> int \<Rightarrow> int \<Rightarrow> lte_lc_cell list \<Rightarrow> cstring list" where
  "gci_lines m scans hits time all cells =
     (let w = (if length cells > 9 then 2 else 1); sorted_cells = sort_cells lte_cell_quality cells;
          matched = filter (\<lambda>i. gci_matches m (sorted_cells ! i)) [0..<length sorted_cells]
      in [''  '' @ fmt_width w ''#'' @ '' :  plmn    tac      cell  band earfnc pid rsrp/q dB(m)''] @
         map (\<lambda>i. gci_line w (gci_matches m (sorted_cells ! i)) i (sorted_cells ! i)) [0..<length sorted_cells] @
         (if matched \<noteq> [] then [''(*'' @ fmt_width w (print_nat (last matched)) @ '' : current cell)''] else []) @
         (if time \<noteq> 0
          then [''Scans '' @ print_nat (unat scans) @ '', improves '' @ print_nat (unat hits) @ '', '' @ scan_seconds time @
                '', overall '' @ scan_seconds all]
          else []))"

definition ncell_lines :: "int \<Rightarrow> lte_lc_ncell list \<Rightarrow> cstring list" where
  "ncell_lines time cells =
     (let w = (if length cells > 9 then 2 else 1); sorted_cells = sort_cells lte_cell_quality cells
      in (if cells \<noteq> []
          then ['' '' @ fmt_width w ''#'' @ '' : bd earfnc pid rsrp/q dB(m)''] @
               map (\<lambda>i. ''['' @ fmt_width w (print_nat i) @ '']: '' @ radio_columns (sorted_cells ! i)) [0..<length sorted_cells]
          else []) @
         (if time \<noteq> 0 then [''Scan '' @ scan_seconds time] else []))"

text \<open>The lines of the report; \<open>m\<close> has the counters already.\<close>

definition meas_lines :: "modem \<Rightarrow> int \<Rightarrow> lte_lc_cells_info \<Rightarrow> cstring list" where
  "meas_lines m time info =
     [modem_get_network_mode_description (ni_mode (network_info m)) @ '' neighbor cell measurements '' @
        print_nat (length (neighbor_cells info)) @ ''/'' @ print_nat (length (gci_cells info))] @
     (if gci_id (current_cell info) \<noteq> LTE_LC_CELL_EUTRAN_ID_INVALID then [current_cell_line (current_cell info)] else []) @
     (if gci_cells info \<noteq> [] then gci_lines m (meas_scans m) (meas_hits m) time (all_scan_time m) (gci_cells info)
      else ncell_lines time (neighbor_cells info))"

definition count_meas :: "int \<Rightarrow> lte_lc_cells_info \<Rightarrow> modem \<Rightarrow> int \<times> modem" where
  "count_meas now info m =
     (let cells = gci_cells info;
          time = (if scan_time m \<noteq> 0 then now - scan_time m else 0);
          m = (if scan_time m \<noteq> 0
               then m\<lparr>scan_time := 0, all_scan_time := all_scan_time m + (if cells \<noteq> [] then time else 0)\<rparr> else m)
      in (time, if cells \<noteq> [] then m\<lparr>meas_scans := meas_scans m + 1, meas_hits := meas_hits m + of_nat (count_hits m cells)\<rparr> else m))"

definition lte_neighbor_cell_meas :: "int \<Rightarrow> lte_lc_cells_info \<Rightarrow> modem \<Rightarrow> modem" where
  "lte_neighbor_cell_meas now info m =
     (let (time, m) = count_meas now info m;
          (overrun, text) = append_results NEIGHBOR_CELL_MEAS_SIZE [] (meas_lines m time info)
      in m\<lparr>last_neighbor_cell_meas := text, meas_overrun := (meas_overrun m \<or> overrun)\<rparr>)"

definition modem_get_last_neighbor_cell_meas :: "nat \<Rightarrow> modem \<Rightarrow> cstring" where
  "modem_get_last_neighbor_cell_meas len m = take (len - 1) (last_neighbor_cell_meas m)"

definition modem_clear_last_neighbor_cell_meas :: "modem \<Rightarrow> modem" where
  "modem_clear_last_neighbor_cell_meas m = m\<lparr>last_neighbor_cell_meas := []\<rparr>"

section \<open>Events\<close>

datatype modem_sleep_type = LTE_LC_MODEM_SLEEP_PSM | LTE_LC_MODEM_SLEEP_RF_INACTIVITY | LTE_LC_MODEM_SLEEP_LIMITED_SERVICE
  | LTE_LC_MODEM_SLEEP_FLIGHT_MODE | LTE_LC_MODEM_SLEEP_PROPRIETARY_PSM

datatype modem_evt_type = LTE_LC_MODEM_EVT_BATTERY_LOW | LTE_LC_MODEM_EVT_OTHER

datatype lte_lc_evt = LTE_LC_EVT_NW_REG_STATUS int | LTE_LC_EVT_LTE_MODE_UPDATE int | LTE_LC_EVT_PSM_UPDATE lte_lc_psm_cfg
  | LTE_LC_EVT_EDRX_UPDATE lte_lc_edrx_cfg | LTE_LC_EVT_RRC_UPDATE bool | LTE_LC_EVT_TAU_PRE_WARNING | LTE_LC_EVT_CELL_UPDATE u16 u32
  | LTE_LC_EVT_MODEM_SLEEP_ENTER modem_sleep_type | LTE_LC_EVT_MODEM_SLEEP_EXIT | LTE_LC_EVT_MODEM_EVENT modem_evt_type
  | LTE_LC_EVT_NEIGHBOR_CELL_MEAS lte_lc_cells_info | LTE_LC_EVT_RAI_UPDATE bool bool | LTE_LC_EVT_OTHER

definition rrc_connected :: "bool \<Rightarrow> int \<Rightarrow> modem \<Rightarrow> modem" where
  "rrc_connected on now m =
     (let m = (if phase m = 1 then lte_inc_wakeups (now - phase_start_time m) m else m)
      in lte_network_sleeping_set False (lte_connection_status_set on True (m\<lparr>phase := 2, phase_start_time := now\<rparr>)))"

definition rrc_idle :: "bool \<Rightarrow> int \<Rightarrow> modem \<Rightarrow> modem" where
  "rrc_idle on now m =
     (let time = transmission_time m; m = lte_connection_status_set on False m;
          m = (if phase m = 2
               then (lte_add_connected (now - phase_start_time m) m)\<lparr>rai_time :=
                      (if time - phase_start_time m > 0 then now - time else - 1)\<rparr>
               else m)
      in m\<lparr>phase := 3, phase_start_time := now\<rparr>)"

definition modem_sleep_enter :: "int \<Rightarrow> modem_sleep_type \<Rightarrow> modem \<Rightarrow> modem" where
  "modem_sleep_enter now t m =
     (let m = (if t = LTE_LC_MODEM_SLEEP_PSM then m else m\<lparr>phase := 0\<rparr>);
          m = (if phase m = 3
               then (let time = now - phase_start_time m; m = lte_add_asleep time m
                     in if active_time m \<ge> 0 \<and> MSEC_TO_SEC time > active_time m + 5 then lte_inc_psm_delays time m else m)
               else m)
      in lte_network_sleeping_set True (m\<lparr>phase := 0\<rparr>))"

text \<open>The events of the modem at the time \<open>now\<close>; \<open>reboots\<close> is \<open>appl_reboots\<close>.\<close>

definition lte_handler :: "bool \<Rightarrow> bool \<Rightarrow> int \<Rightarrow> lte_lc_evt \<Rightarrow> modem \<Rightarrow> modem" where
  "lte_handler reboots on now evt m =
     (if reboots then m
      else case evt of
             LTE_LC_EVT_NW_REG_STATUS reg_status \<Rightarrow> lte_registration on now reg_status m
           | LTE_LC_EVT_LTE_MODE_UPDATE mode \<Rightarrow> lte_network_mode_set mode m
           | LTE_LC_EVT_PSM_UPDATE psm \<Rightarrow> lte_set_psm_status psm True (m\<lparr>active_time := psm_active_time psm\<rparr>)
           | LTE_LC_EVT_EDRX_UPDATE edrx \<Rightarrow> lte_set_edrx_status edrx m
           | LTE_LC_EVT_RRC_UPDATE connected \<Rightarrow> if connected then rrc_connected on now m else rrc_idle on now m
           | LTE_LC_EVT_TAU_PRE_WARNING \<Rightarrow> m
           | LTE_LC_EVT_CELL_UPDATE tac cell \<Rightarrow> lte_update_cell tac cell m
           | LTE_LC_EVT_MODEM_SLEEP_ENTER t \<Rightarrow> modem_sleep_enter now t m
           | LTE_LC_EVT_MODEM_SLEEP_EXIT \<Rightarrow> lte_network_sleeping_set False (m\<lparr>phase := 1, phase_start_time := now\<rparr>)
           | LTE_LC_EVT_MODEM_EVENT e \<Rightarrow> if e = LTE_LC_MODEM_EVT_BATTERY_LOW then modem_set_low_power m else m
           | LTE_LC_EVT_NEIGHBOR_CELL_MEAS info \<Rightarrow> lte_neighbor_cell_meas now info m
           | LTE_LC_EVT_RAI_UPDATE as_rai cp_rai \<Rightarrow> lte_rai as_rai cp_rai m
           | LTE_LC_EVT_OTHER \<Rightarrow> m)"

datatype pdn_event = PDN_EVENT_CNEC_ESM | PDN_EVENT_ACTIVATED | PDN_EVENT_DEACTIVATED | PDN_EVENT_IPV6_UP | PDN_EVENT_IPV6_DOWN
  | PDN_EVENT_NETWORK_DETACH | PDN_EVENT_APN_RATE_CONTROL_ON | PDN_EVENT_APN_RATE_CONTROL_OFF | PDN_EVENT_CTX_DESTROYED

definition pdn_handler :: "bool \<Rightarrow> bool \<Rightarrow> pdn_event \<Rightarrow> modem \<Rightarrow> modem" where
  "pdn_handler reboots on event m =
     (if reboots then m
      else case event of
             PDN_EVENT_ACTIVATED \<Rightarrow> lte_pdn_status_set on True m
           | PDN_EVENT_DEACTIVATED \<Rightarrow> lte_pdn_status_set on False m
           | PDN_EVENT_NETWORK_DETACH \<Rightarrow> lte_pdn_status_set on False m
           | _ \<Rightarrow> m)"

section \<open>Modem faults\<close>

abbreviation (input) FAULT_COUNTER_MASK :: int where "FAULT_COUNTER_MASK \<equiv> 0xABCDEF"
abbreviation (input) WEEK_IN_MILLIS :: int where "WEEK_IN_MILLIS \<equiv> 604800000"

record fault_state =
  fault_time1 :: u64
  fault_time2 :: u64
  fault_counter1 :: u32
  fault_counter2 :: u32

definition fault_init :: fault_state where
  "fault_init = \<lparr>fault_time1 = 0, fault_time2 = 0xABCDEF, fault_counter1 = 0, fault_counter2 = 0xABCDEF\<rparr>"

text \<open>Whether the fault reboots the device; \<open>threshold\<close> is \<open>CONFIG_MODEM_FAULT_THRESHOLD\<close>. The milliseconds of a week fit
  into the 32 bits of the constant.\<close>

definition nrf_modem_fault_handler :: "nat \<Rightarrow> int \<Rightarrow> fault_state \<Rightarrow> bool \<times> fault_state" where
  "nrf_modem_fault_handler threshold now f =
     (if threshold > 0 \<and> fault_counter1 f = (fault_counter2 f XOR 0xABCDEF) \<and> fault_time1 f = (fault_time2 f XOR 0xABCDEF)
      then (let f = (if sint (fault_time1 f) + WEEK_IN_MILLIS < now then f\<lparr>fault_counter1 := 0\<rparr> else f);
                f = (if fault_counter1 f = 0
                     then f\<lparr>fault_time1 := word_of_int now, fault_time2 := word_of_int now XOR 0xABCDEF\<rparr> else f);
                low = (unat (fault_counter1 f) < threshold);
                f = f\<lparr>fault_counter1 := fault_counter1 f + 1\<rparr>
            in if low then (False, f\<lparr>fault_counter2 := fault_counter1 f XOR 0xABCDEF\<rparr>) else (True, f))
      else (True, f))"

section \<open>Waiting\<close>

text \<open>\<open>waited\<close> is what the wait on the condition gives: whether it was signaled and the modem is ready then.\<close>

definition lte_ready_wait :: "bool \<Rightarrow> modem \<Rightarrow> int" where
  "lte_ready_wait waited m =
     (if MODEM_LOW_POWER \<in> modem_states m then - EINVAL
      else if MODEM_SIGNAL_READY \<in> modem_states m then 0 else if waited then 0 else - EINPROGRESS)"

definition lte_psm_rai_wait :: "bool \<Rightarrow> modem \<Rightarrow> int" where
  "lte_psm_rai_wait waited m =
     (if MODEM_SIGNAL_READY \<notin> modem_states m then 0 else if MODEM_PSM_UPDATE \<in> modem_states m then 0
      else if waited then 0 else - EINPROGRESS)"

text \<open>The turns of \<open>modem_wait_ready\<close>: in each the search may be interrupted, the wait gives a result, and the time goes on.\<close>

record wait_turn =
  wt_interrupt :: bool
  wt_result :: int
  wt_now :: int

fun wait_ready_loop :: "int \<Rightarrow> int \<Rightarrow> wait_turn list \<Rightarrow> int \<Rightarrow> int option" where
  "wait_ready_loop start timeout_ms [] err = None"
| "wait_ready_loop start timeout_ms (t # ts) err =
     (if wt_interrupt t then Some err
      else if wt_result t \<noteq> - EINPROGRESS then Some (wt_result t)
      else if wt_now t - start > timeout_ms then Some (- 1)
      else wait_ready_loop start timeout_ms ts (wt_result t))"

definition modem_wait_ready :: "int \<Rightarrow> int \<Rightarrow> int \<Rightarrow> wait_turn list \<Rightarrow> int option" where
  "modem_wait_ready start timeout_ms first_result turns =
     (if first_result = - EINPROGRESS then wait_ready_loop start timeout_ms turns first_result else Some first_result)"

section \<open>Reading the state\<close>

datatype lte_power_state = LTE_POWER_STATE_OFF | LTE_POWER_STATE_SLEEPING | LTE_POWER_STATE_IDLE | LTE_POWER_STATE_ACTIVE
  | LTE_POWER_STATE_LOW_VOLTAGE

abbreviation (input) ENODATA :: int where "ENODATA \<equiv> 61"

definition modem_uses_preference :: "modem \<Rightarrow> bool" where
  "modem_uses_preference m \<longleftrightarrow> MODEM_LTE_MODE_PREFERENCE \<in> modem_states m"

definition modem_get_power_state :: "modem \<Rightarrow> int + lte_power_state" where
  "modem_get_power_state m =
     (let n = network_info m
      in if MODEM_ON_OFF \<notin> modem_states m then Inr LTE_POWER_STATE_OFF
         else if MODEM_LOW_POWER \<in> modem_states m then Inr LTE_POWER_STATE_LOW_VOLTAGE
         else if sleeping n = LTE_NETWORK_STATE_ON then Inr LTE_POWER_STATE_SLEEPING
         else if rrc_active n = LTE_NETWORK_STATE_ON then Inr LTE_POWER_STATE_ACTIVE
         else if rrc_active n = LTE_NETWORK_STATE_OFF then Inr LTE_POWER_STATE_IDLE
         else Inl (- ENODATA))"

definition modem_get_edrx_status :: "bool \<Rightarrow> modem \<Rightarrow> int \<times> lte_lc_edrx_cfg" where
  "modem_get_edrx_status edrx_enabled m =
     (if \<not> edrx_enabled \<and> edrx_mode (edrx_status m) = LTE_LC_LTE_MODE_NONE then - ENODATA else 0, edrx_status m)"

definition modem_get_recv_interval_ms :: "modem \<Rightarrow> int" where
  "modem_get_recv_interval_ms m =
     (if psm_active_time (psm_status m) < 0
      then (if edrx_mode (edrx_status m) = LTE_LC_LTE_MODE_NONE then 2560 else edrx_time (edrx_status m) * 10)
      else - ENODATA)"

definition modem_get_psm_status :: "modem \<Rightarrow> int \<times> lte_lc_psm_cfg" where
  "modem_get_psm_status m = (0, psm_status m)"

definition modem_get_coverage_enhancement_info :: "modem \<Rightarrow> lte_ce_info" where
  "modem_get_coverage_enhancement_info m = ce_info m"

definition modem_get_network_info :: "modem \<Rightarrow> lte_network_info" where
  "modem_get_network_info m = network_info m"

definition modem_get_mcc :: "modem \<Rightarrow> cstring" where
  "modem_get_mcc m = take 3 (provider (network_info m))"

text \<open>The larger of both repetitions is kept in 8 bits, also when the one of the uplink times four is more.\<close>

definition modem_get_time_scale :: "modem \<Rightarrow> int" where
  "modem_get_time_scale m =
     (let info = modem_get_coverage_enhancement_info m;
          repetition = unat (of_nat (max (unat (downlink_repetition info)) (unat (uplink_repetition info) * 4)) :: u8);
          factor1 = (if repetition \<le> 8 then 100 else if repetition \<le> 16 then 150 else if repetition \<le> 32 then 200
                     else if repetition \<le> 64 then 350 else if repetition \<le> 128 then 500 else 100);
          factor2 = (if rsrp info > - 110 then 100 else if rsrp info > - 120 then 150 else if rsrp info > - 125 then 200
                     else if rsrp info > - 130 then 350 else 500)
      in max factor1 factor2)"

abbreviation (input) CP_RAI_MAX_DELAY :: int where "CP_RAI_MAX_DELAY \<equiv> 500"
abbreviation (input) AS_RAI_MAX_DELAY :: int where "AS_RAI_MAX_DELAY \<equiv> 3000"

definition modem_get_rai_status :: "modem \<Rightarrow> int \<times> lte_network_rai" where
  "modem_get_rai_status m =
     (let time = (if psm_active_time (psm_status m) \<ge> 0 then rai_time m else - 1)
      in if rai_network_state m \<noteq> LTE_NETWORK_RAI_UNKNOWN then (0, rai_network_state m)
         else if time < 0 then (- ENODATA, LTE_NETWORK_RAI_UNKNOWN)
         else (let factor = modem_get_time_scale m;
                   time = (if factor > 100 then c_div (time * 100) factor else time)
               in (0, if time < CP_RAI_MAX_DELAY then LTE_NETWORK_CP_RAI
                      else if time < AS_RAI_MAX_DELAY then LTE_NETWORK_AS_RAI else LTE_NETWORK_NO_RAI)))"

definition modem_get_release_time :: "modem \<Rightarrow> int" where
  "modem_get_release_time m = rai_time m"

definition modem_set_transmission_time :: "int \<Rightarrow> modem \<Rightarrow> modem" where
  "modem_set_transmission_time now m = m\<lparr>transmission_time := now\<rparr>"

definition modem_set_scan_time :: "int \<Rightarrow> modem \<Rightarrow> modem" where
  "modem_set_scan_time now m = m\<lparr>scan_time := now\<rparr>"

definition modem_lock_psm :: "bool \<Rightarrow> modem \<Rightarrow> modem" where
  "modem_lock_psm on m = m\<lparr>psm_rat := (if on then - 3 else - 2)\<rparr>"

definition modem_lock_rai :: "bool \<Rightarrow> modem \<Rightarrow> modem" where
  "modem_lock_rai on m = m\<lparr>rai_lock := on\<rparr>"

definition modem_lock_plmn :: "bool \<Rightarrow> modem \<Rightarrow> modem" where
  "modem_lock_plmn on m = on_network (\<lambda>n. n\<lparr>plmn_lock := network_state on\<rparr>) m"

end
