(* ===== verification/Modem_Read.thy ===== *)
theory Modem_Read
  imports Modem
begin

text \<open>
  The part of \<open>src/src/modem.c\<close> that talks to the modem: reading the state of the network and of the signal from the
  responses of AT commands, and setting PSM, eDRX, RAI and other modes. Each operation takes the state of the modem
  module and the state of the AT interface. Texts copied over the buffer they come from are modelled as new texts; a
  field that is not quoted cuts the buffer there, as its terminator does. The decoder of the PSM timers is the one of
  the modem library, a parameter.
\<close>

type_synonym ('h, 'w) modem_at = "modem \<times> ('h, 'w) at_state"

section \<open>Fields of responses\<close>

definition to_i16 :: "int \<Rightarrow> int" where
  "to_i16 v = sint (word_of_int v :: u16)"

text \<open>\<open>sscanf\<close> of up to \<open>n\<close> numbers separated by commas.\<close>

fun scan_numbers :: "nat \<Rightarrow> cstring \<Rightarrow> int list" where
  "scan_numbers 0 t = []"
| "scan_numbers (Suc n) t =
     (let (v, k) = strtol t 10
      in if k = 0 then [] else v # (let r = drop k t in if c_deref r = CHR '','' then scan_numbers n (tl r) else []))"

definition scanned :: "int list \<Rightarrow> nat \<Rightarrow> int" where
  "scanned vs i = (if i < length vs then vs ! i else 0)"

text \<open>A field behind a comma, and a field with a number.\<close>

definition next_field :: "(cstring \<Rightarrow> 'a \<Rightarrow> cstring \<times> 'a) \<Rightarrow> cstring \<times> 'a \<Rightarrow> cstring \<times> 'a" where
  "next_field f nx = (let (n, x) = nx in if c_deref n = CHR '','' then f (tl n) x else (n, x))"

definition long_field :: "(int \<Rightarrow> 'a \<Rightarrow> 'a) \<Rightarrow> cstring \<Rightarrow> 'a \<Rightarrow> cstring \<times> 'a" where
  "long_field upd cur x = (let (n, v) = parse_next_long cur 10 (Some 0) in (n, if n \<noteq> cur then upd (the v) x else x))"

definition hex_field :: "(int \<Rightarrow> 'a \<Rightarrow> 'a) \<Rightarrow> cstring \<Rightarrow> 'a \<Rightarrow> cstring \<times> 'a" where
  "hex_field upd cur x = (let (n, v) = parse_next_long_qtext cur (CHR 0x22) 16 (Some 0) in (n, if n \<noteq> cur then upd (the v) x else x))"

definition text_field :: "nat \<Rightarrow> (cstring \<Rightarrow> 'a \<Rightarrow> 'a) \<Rightarrow> cstring \<Rightarrow> 'a \<Rightarrow> cstring \<times> 'a" where
  "text_field len upd cur x =
     (if c_deref cur \<noteq> CHR 0x22 then ([], upd [] x)
      else (let (n, t) = parse_next_qtext cur (CHR 0x22) (Some len) in (n, upd (the t) x)))"

section \<open>State of the network\<close>

record xmonitor =
  xm_info :: lte_network_info
  xm_rsrp :: int
  xm_rsrq :: int
  xm_snr :: int
  xm_act :: "cstring option"
  xm_tau_ext :: "cstring option"
  xm_tau :: "cstring option"

definition xmonitor_init :: xmonitor where
  "xmonitor_init = \<lparr>xm_info = network_info_init, xm_rsrp = NONE_SIGNAL_VALUE, xm_rsrq = NONE_SIGNAL_VALUE, xm_snr = NONE_SIGNAL_VALUE,
     xm_act = None, xm_tau_ext = None, xm_tau = None\<rparr>"

definition on_info :: "(lte_network_info \<Rightarrow> lte_network_info) \<Rightarrow> xmonitor \<Rightarrow> xmonitor" where
  "on_info f x = x\<lparr>xm_info := f (xm_info x)\<rparr>"

definition xmonitor_status :: "int \<Rightarrow> lte_network_info \<Rightarrow> lte_network_info" where
  "xmonitor_status v n =
     (if v = LTE_LC_NW_REG_REGISTERED_HOME \<or> v = LTE_LC_NW_REG_REGISTERED_ROAMING then n\<lparr>ni_status := v, registered := LTE_NETWORK_STATE_ON\<rparr>
      else if v \<in> {LTE_LC_NW_REG_NOT_REGISTERED, LTE_LC_NW_REG_SEARCHING, LTE_LC_NW_REG_REGISTRATION_DENIED, LTE_LC_NW_REG_UNKNOWN,
                    LTE_LC_NW_REG_UICC_FAIL}
      then n\<lparr>ni_status := v, registered := LTE_NETWORK_STATE_OFF\<rparr>
      else n\<lparr>ni_status := LTE_LC_NW_REG_UNKNOWN, registered := LTE_NETWORK_STATE_OFF\<rparr>)"

text \<open>The provider is the third of the skipped parameters, if it is quoted.\<close>

definition provider_field :: "cstring \<Rightarrow> xmonitor \<Rightarrow> cstring \<times> xmonitor" where
  "provider_field cur x =
     (let n = the (parse_next_chars (Some cur) (CHR '','') 2)
      in if c_deref n = CHR 0x22
         then (let (n, t) = parse_next_qtext n (CHR 0x22) (Some 7) in (n, on_info (\<lambda>i. i\<lparr>provider := the t\<rparr>) x))
         else (n, x))"

definition network_fields :: "cstring \<times> xmonitor \<Rightarrow> cstring \<times> xmonitor" where
  "network_fields nx =
     (let nx = next_field provider_field nx;
          nx = next_field (hex_field (\<lambda>v. if 0 \<le> v \<and> v < 0x10000 then on_info (\<lambda>i. i\<lparr>ni_tac := word_of_int v\<rparr>) else id)) nx;
          nx = next_field (long_field (\<lambda>v. if v \<in> {LTE_LC_LTE_MODE_NONE, LTE_LC_LTE_MODE_NBIOT, LTE_LC_LTE_MODE_LTEM}
                                           then on_info (\<lambda>i. i\<lparr>ni_mode := v\<rparr>) else id)) nx;
          nx = next_field (long_field (\<lambda>v. if 0 \<le> v \<and> v < 90 then on_info (\<lambda>i. i\<lparr>ni_band := word_of_int v\<rparr>) else id)) nx;
          nx = next_field (hex_field (\<lambda>v. on_info (\<lambda>i. i\<lparr>ni_cell := word_of_int v\<rparr>))) nx;
          nx = next_field (long_field (\<lambda>v. id)) nx
      in next_field (long_field (\<lambda>v. on_info (\<lambda>i. i\<lparr>ni_earfcn := word_of_int v\<rparr>))) nx)"

definition signal_fields :: "cstring \<times> xmonitor \<Rightarrow> cstring \<times> xmonitor" where
  "signal_fields nx =
     (let nx = next_field (long_field (\<lambda>v x. x\<lparr>xm_rsrp := (if v = 255 then INVALID_SIGNAL_VALUE else to_i16 (v - 141))\<rparr>)) nx;
          nx = next_field (long_field (\<lambda>v x. x\<lparr>xm_snr := (if v = 127 then INVALID_SIGNAL_VALUE else to_i16 (v - 25))\<rparr>)) nx;
          nx = next_field (text_field 5 (\<lambda>t. id)) nx;
          nx = next_field (text_field 9 (\<lambda>t x. x\<lparr>xm_act := Some t\<rparr>)) nx;
          nx = next_field (text_field 9 (\<lambda>t x. x\<lparr>xm_tau_ext := Some t\<rparr>)) nx;
          nx = next_field (text_field 9 (\<lambda>t x. x\<lparr>xm_tau := Some t\<rparr>)) nx
      in next_field (long_field (\<lambda>v x. x\<lparr>xm_rsrq := (if v = 127 then INVALID_SIGNAL_VALUE else to_i16 (v - 40))\<rparr>)) nx)"

definition parse_xmonitor :: "cstring \<Rightarrow> xmonitor" where
  "parse_xmonitor buf =
     (let (n, x) = long_field (\<lambda>v. on_info (xmonitor_status v)) buf xmonitor_init
      in if registered (xm_info x) = LTE_NETWORK_STATE_ON then snd (signal_fields (network_fields (n, x))) else x)"

definition split_ip :: "cstring \<Rightarrow> lte_network_info \<Rightarrow> lte_network_info" where
  "split_ip ip n =
     (if CHR '' '' \<in> set ip
      then (let v4 = takeWhile (\<lambda>c. c \<noteq> CHR '' '') ip
            in n\<lparr>local_ip := take 15 v4, local_ip6 := take 45 (drop (length v4 + 1) ip), pdn_active := network_state (v4 \<noteq> [])\<rparr>)
      else if CHR '':'' \<in> set ip then n\<lparr>local_ip := [], local_ip6 := take 45 ip, pdn_active := network_state (ip \<noteq> [])\<rparr>
      else n\<lparr>local_ip := take 15 ip, local_ip6 := [], pdn_active := network_state (ip \<noteq> [])\<rparr>)"

definition parse_cgdcont :: "cstring \<Rightarrow> lte_network_info \<Rightarrow> lte_network_info option" where
  "parse_cgdcont buf n =
     (let cur = the (parse_next_chars (Some buf) (CHR '','') 2);
          (cur, name) = parse_next_qtext cur (CHR 0x22) (Some 32)
      in if c_deref cur = CHR '',''
         then (let ip = (if c_deref (tl cur) = CHR 0x22 then the (snd (parse_next_qtext (tl cur) (CHR 0x22) (Some 100))) else [])
               in Some (split_ip ip (n\<lparr>ni_apn := the name\<rparr>)))
         else None)"

text \<open>The PDN part of the network state is updated, and \<open>info\<close>, if there is one.\<close>

definition modem_read_pdn_info ::
  "'w modem_lib \<Rightarrow> lte_network_info option \<Rightarrow> ('h, 'w) modem_at \<Rightarrow> (int \<times> lte_network_info option) \<times> ('h, 'w) modem_at" where
  "modem_read_pdn_info lib info ma =
     (let (m, a) = ma; ((result, buf), a) = modem_at_cmd lib (Some 100) (Some ''+CGDCONT: '') ''AT+CGDCONT?'' a
      in if result > 0
         then (case parse_cgdcont (the buf) (network_info m) of
                 None \<Rightarrow> ((result, info), m, a)
               | Some n \<Rightarrow>
                   ((result, map_option (\<lambda>i. i\<lparr>pdn_active := pdn_active n, ni_apn := ni_apn n, local_ip := local_ip n, local_ip6 := local_ip6 n\<rparr>) info),
                    m\<lparr>network_info := n\<rparr>, a))
         else ((result, info), m, a))"

definition read_rrc :: "'w modem_lib \<Rightarrow> lte_network_info \<Rightarrow> ('h, 'w) at_state \<Rightarrow> lte_network_info \<times> ('h, 'w) at_state" where
  "read_rrc lib n a =
     (let ((result, buf), a) = modem_at_cmd lib (Some 160) (Some ''+CSCON: '') ''AT+CSCON?'' a
      in (if result > 0 then n\<lparr>rrc_active := network_state ((word_of_int (scanned (scan_numbers 2 (the buf)) 1) :: u16) \<noteq> 0)\<rparr> else n, a))"

definition read_rate_limit :: "'w modem_lib \<Rightarrow> lte_network_info \<Rightarrow> ('h, 'w) at_state \<Rightarrow> lte_network_info \<times> ('h, 'w) at_state" where
  "read_rate_limit lib n a =
     (let ((result, buf), a) = modem_at_cmd lib (Some 160) (Some ''%APNRATECTRL: '') ''AT%APNRATECTRL=1'' a
      in if result > 0
         then (let vs = scan_numbers 4 (the buf); n = n\<lparr>rate_limit := word_of_int (scanned vs 2), rate_limit_period := word_of_int (scanned vs 3)\<rparr>
               in if rate_limit n \<noteq> 0
                  then (let ((result, buf), a) = modem_at_cmd lib (Some 160) (Some ''%APNRATECTRL: '') ''AT%APNRATECTRL=0,0'' a
                        in (if result > 0 then n\<lparr>rate_limit_time := word_of_int (scanned (scan_numbers 4 (the buf)) 3)\<rparr> else n, a))
                  else (n, a))
         else (n, a))"

text \<open>The state that was read replaces the known one, with callbacks only if they are asked for.\<close>

definition set_network_info :: "bool \<Rightarrow> int \<Rightarrow> bool \<Rightarrow> xmonitor \<Rightarrow> modem \<Rightarrow> modem" where
  "set_network_info on now callbacks x m =
     (let n = network_info m; temp = (xm_info x)\<lparr>plmn_lock := plmn_lock n, sleeping := sleeping n\<rparr>;
          m = (if ni_cell n \<noteq> ni_cell temp \<or> ni_tac n \<noteq> ni_tac temp then m\<lparr>lte_cell_updates := lte_cell_updates m + 1\<rparr> else m);
          ce = ce_info m;
          ce = (if xm_rsrp x \<noteq> NONE_SIGNAL_VALUE then ce\<lparr>rsrp := xm_rsrp x\<rparr> else ce);
          ce = (if xm_snr x \<noteq> NONE_SIGNAL_VALUE then ce\<lparr>snr := xm_snr x\<rparr> else ce);
          ce = (if xm_rsrq x \<noteq> NONE_SIGNAL_VALUE then ce\<lparr>rsrq := xm_rsrq x\<rparr> else ce);
          m = m\<lparr>network_info := temp, ce_info := ce\<rparr>
      in if callbacks
         then (let m = on_network (\<lambda>n. n\<lparr>registered := LTE_NETWORK_STATE_INIT, rrc_active := LTE_NETWORK_STATE_INIT\<rparr>) m;
                   m = lte_registration on now (ni_status temp) m
               in lte_connection_status_set on (rrc_active temp = LTE_NETWORK_STATE_ON) m)
         else m)"

definition modem_read_network_info ::
  "'w modem_lib \<Rightarrow> (cstring \<Rightarrow> cstring \<Rightarrow> cstring \<Rightarrow> int + lte_lc_psm_cfg) \<Rightarrow> int \<Rightarrow> bool \<Rightarrow> ('h, 'w) modem_at
   \<Rightarrow> int \<times> ('h, 'w) modem_at" where
  "modem_read_network_info lib psm_parse now callbacks ma =
     (let (m, a) = ma; ((result, buf), a) = modem_at_cmd lib (Some 160) (Some ''%XMONITOR: '') ''AT%XMONITOR'' a
      in if result < 0 then (result, m, a)
         else if result = 0 then (- ENODATA, m, a)
         else (let x = parse_xmonitor (the buf);
                   m = (case (xm_act x, xm_tau_ext x, xm_tau x) of
                          (Some act, Some ext, Some tau) \<Rightarrow>
                            (case psm_parse act ext tau of Inr psm \<Rightarrow> lte_set_psm_status psm False m | Inl _ \<Rightarrow> m)
                        | _ \<Rightarrow> m);
                   (n, a) = read_rrc lib (xm_info x) a;
                   ((_, n'), m, a) = modem_read_pdn_info lib (Some n) (m, a);
                   (n, a) = read_rate_limit lib (the n') a
               in (0, set_network_info (modem_at_is_on a) now callbacks (x\<lparr>xm_info := n\<rparr>) m, a)))"

section \<open>Statistic and signal\<close>

record lte_network_statistic =
  st_searchs :: u32
  st_psm_delays :: u32
  st_restarts :: u32
  st_cell_updates :: u32
  st_wakeups :: u32
  st_search_time :: u32
  st_psm_delay_time :: u32
  st_wakeup_time :: u32
  st_connected_time :: u32
  st_asleep_time :: u32
  st_transmitted :: u32
  st_received :: u32
  st_max_packet_size :: u16
  st_average_packet_size :: u16

definition modem_read_statistic :: "'w modem_lib \<Rightarrow> ('h, 'w) modem_at \<Rightarrow> lte_network_statistic \<times> ('h, 'w) modem_at" where
  "modem_read_statistic lib ma =
     (let (m, a) = ma; ((result, buf), a) = modem_at_cmd lib (Some 64) (Some ''%XCONNSTAT: '') ''AT%XCONNSTAT?'' a;
          vs = (if result > 0 then scan_numbers 6 (the buf) else []); sec = (\<lambda>t. word_of_int (MSEC_TO_SEC t))
      in (\<lparr>st_searchs = lte_searchs m, st_psm_delays = lte_psm_delays m, st_restarts = (if lte_starts m > 0 then lte_starts m - 1 else 0),
           st_cell_updates = lte_cell_updates m, st_wakeups = lte_wakeups m, st_search_time = sec (lte_search_time m),
           st_psm_delay_time = sec (lte_psm_delay_time m), st_wakeup_time = sec (lte_wakeup_time m),
           st_connected_time = sec (lte_connected_time m), st_asleep_time = sec (lte_asleep_time m),
           st_transmitted = word_of_int (scanned vs 2), st_received = word_of_int (scanned vs 3),
           st_max_packet_size = word_of_int (scanned vs 4), st_average_packet_size = word_of_int (scanned vs 5)\<rparr>, m, a))"

definition ce_info_none :: lte_ce_info where
  "ce_info_none = ce_info_init\<lparr>ce_state := CHR ''U'', rsrp := INVALID_SIGNAL_VALUE, rsrq := INVALID_SIGNAL_VALUE,
     cinr := INVALID_SIGNAL_VALUE, snr := INVALID_SIGNAL_VALUE\<rparr>"

definition coneval_rsrp :: "int \<Rightarrow> int" where
  "coneval_rsrp v = (if v = 255 then INVALID_SIGNAL_VALUE else (let r = to_i16 (v - 140) in if v > 0 then to_i16 (r - 1) else r))"

definition coneval_rsrq :: "int \<Rightarrow> int" where
  "coneval_rsrq v =
     (if v = 255 then INVALID_SIGNAL_VALUE else if v < 0 then to_i16 (v - 39) else if v < 34 then to_i16 (v - 40) else to_i16 (v - 41))"

text \<open>The fields of \<open>CONEVAL\<close>; \<open>ce\<close> marks coverage enhancement as supported. Behind the signal the cursor stays at the last
  field that was looked at.\<close>

definition coneval_signal :: "cstring \<Rightarrow> lte_ce_info \<Rightarrow> cstring \<times> lte_ce_info" where
  "coneval_signal cur x =
     (let n0 = the (parse_next_chars (Some cur) (CHR '','') 2);
          (cur, n, x) = (if n0 \<noteq> [] then (let (n, x) = long_field (\<lambda>v x. x\<lparr>rsrp := coneval_rsrp v\<rparr>) n0 x in (n0, n, x)) else (cur, n0, x));
          (cur, n, x) = (if c_deref n = CHR '','' then (let (n', x) = long_field (\<lambda>v x. x\<lparr>rsrq := coneval_rsrq v\<rparr>) (tl n) x in (tl n, n', x))
                         else (cur, n, x));
          (cur, n, x) = (if c_deref n = CHR '',''
                         then (let (n', x) = long_field (\<lambda>v x. x\<lparr>snr := (if v = 127 then INVALID_SIGNAL_VALUE else to_i16 (v - 25))\<rparr>) (tl n) x
                               in (tl n, n', x))
                         else (cur, n, x))
      in (cur, x))"

definition coneval_repetitions :: "bool \<Rightarrow> cstring \<Rightarrow> lte_ce_info \<Rightarrow> lte_ce_info" where
  "coneval_repetitions ce cur x =
     (let supported = (\<lambda>x. if ce then x\<lparr>ce_supported := 1\<rparr> else x);
          n = the (parse_next_chars (Some cur) (CHR '','') 9);
          (n, x) = (if n \<noteq> [] then long_field (\<lambda>v x. supported (x\<lparr>uplink_repetition := word_of_int v\<rparr>)) n x else (n, x))
      in snd (next_field (long_field (\<lambda>v x. supported (x\<lparr>downlink_repetition := word_of_int v\<rparr>))) (n, x)))"

definition parse_coneval :: "bool \<Rightarrow> cstring \<Rightarrow> lte_ce_info option" where
  "parse_coneval ce buf =
     (let (n, v) = parse_next_long buf 10 (Some 0)
      in if n \<noteq> buf \<and> v = Some 0 \<and> c_deref n = CHR '',''
         then (let cur = tl n; connected = (snd (parse_next_long cur 10 (Some 0)) = Some 1);
                   (cur, x) = coneval_signal cur (ce_info_none\<lparr>ce_state := (if connected then CHR ''C'' else CHR ''I'')\<rparr>)
               in Some (coneval_repetitions ce cur x))
         else None)"

text \<open>Without connection the values that are not known stay what they were.\<close>

definition merge_ce_info :: "lte_ce_info \<Rightarrow> lte_ce_info \<Rightarrow> lte_ce_info" where
  "merge_ce_info old new =
     (let keep = (\<lambda>v d. if v = INVALID_SIGNAL_VALUE then d else v)
      in new\<lparr>downlink_repetition := (if downlink_repetition new = 0 then downlink_repetition old else downlink_repetition new),
             uplink_repetition := (if uplink_repetition new = 0 then uplink_repetition old else uplink_repetition new),
             rsrp := keep (rsrp new) (rsrp old), rsrq := keep (rsrq new) (rsrq old), cinr := keep (cinr new) (cinr old),
             snr := keep (snr new) (snr old)\<rparr>)"

definition read_coneval :: "bool \<Rightarrow> 'w modem_lib \<Rightarrow> ('h, 'w) modem_at \<Rightarrow> int \<times> ('h, 'w) modem_at" where
  "read_coneval ce lib ma =
     (let (m, a) = ma; ((err, buf), a) = modem_at_cmd lib (Some 128) (Some ''%CONEVAl: '') ''AT%CONEVAl'' a
      in if err < 0 then (err, m, a)
         else if err = 0 then (- ENODATA, m, a)
         else case parse_coneval ce (the buf) of
                None \<Rightarrow> (err, m, a)
              | Some x \<Rightarrow> (err, m\<lparr>ce_info := (if rrc_active (network_info m) \<noteq> LTE_NETWORK_STATE_ON then merge_ce_info (ce_info m) x else x)\<rparr>, a))"

definition modem_read_coverage_enhancement_info :: "'w modem_lib \<Rightarrow> ('h, 'w) modem_at \<Rightarrow> int \<times> ('h, 'w) modem_at" where
  "modem_read_coverage_enhancement_info lib ma = read_coneval True lib ma"

definition modem_read_connection_info :: "'w modem_lib \<Rightarrow> ('h, 'w) modem_at \<Rightarrow> int \<times> ('h, 'w) modem_at" where
  "modem_read_connection_info lib ma = read_coneval False lib ma"

definition modem_read_rate_limit_time :: "'w modem_lib \<Rightarrow> ('h, 'w) modem_at \<Rightarrow> int \<times> ('h, 'w) modem_at" where
  "modem_read_rate_limit_time lib ma =
     (let (m, a) = ma; ((result, buf), a) = modem_at_cmd lib (Some 32) (Some ''%APNRATECTRL: '') ''AT%APNRATECTRL=0,0'' a
      in if result > 0
         then (let vs = scan_numbers 4 (the buf)
               in (if length vs = 4 then 1 else 0, on_network (\<lambda>n. n\<lparr>rate_limit_time := word_of_int (scanned vs 3)\<rparr>) m, a))
         else (result, m, a))"

end
