(* ===== verification/Modem_Set.thy ===== *)
theory Modem_Set
  imports Modem_Read Appl_Settings
begin

text \<open>
  Setting the modes of the modem in \<open>src/src/modem.c\<close>: PSM with its active time, eDRX and the paging time window, RAI,
  the preferred kind of network, reduced mobility and power level, and what a change of the function mode does. Times
  of eDRX are compared as hundredths of seconds: no whole number of seconds is a multiple of 5.12, 2.56 or 1.28 in the
  range of the codes, so rounding does not matter. Waiting for an update of PSM does not change the result.
\<close>

section \<open>Numbers\<close>

text \<open>A command with a number from 0 to \<open>top\<close>; the value is read again afterwards, if there is a way to.\<close>

definition read_number :: "'w modem_lib \<Rightarrow> cstring \<Rightarrow> cstring \<Rightarrow> ('h, 'w) at_state \<Rightarrow> int \<times> ('h, 'w) at_state" where
  "read_number lib skip cmd a =
     (let ((err, buf), a) = modem_at_cmd lib (Some 32) (Some skip) cmd a
      in if err \<ge> 0 then (case scan_numbers 1 (the buf) of [v] \<Rightarrow> (sint (word_of_int v :: u32), a) | _ \<Rightarrow> (- EINVAL, a)) else (err, a))"

definition modem_get_reduced_mobility :: "'w modem_lib \<Rightarrow> ('h, 'w) at_state \<Rightarrow> int \<times> ('h, 'w) at_state" where
  "modem_get_reduced_mobility lib = read_number lib ''%REDMOB: '' ''AT%REDMOB?''"

definition modem_set_reduced_mobility :: "'w modem_lib \<Rightarrow> int \<Rightarrow> ('h, 'w) at_state \<Rightarrow> int \<times> ('h, 'w) at_state" where
  "modem_set_reduced_mobility lib mode a =
     (if 0 \<le> mode \<and> mode \<le> 2
      then (let ((err, _), a) = modem_at_cmdf lib (Some 32) None (''AT%REDMOB='' @ fmt_int mode) a
            in (err, if err \<ge> 0 then snd (modem_get_reduced_mobility lib a) else a))
      else (- EINVAL, a))"

definition modem_get_power_level :: "'w modem_lib \<Rightarrow> ('h, 'w) at_state \<Rightarrow> int \<times> ('h, 'w) at_state" where
  "modem_get_power_level lib = read_number lib ''%XDATAPRFL: '' ''AT%XDATAPRFL?''"

definition modem_set_power_level :: "'w modem_lib \<Rightarrow> int \<Rightarrow> ('h, 'w) at_state \<Rightarrow> int \<times> ('h, 'w) at_state" where
  "modem_set_power_level lib level a =
     (if 0 \<le> level \<and> level \<le> 4
      then (let ((err, _), a) = modem_at_cmdf lib (Some 32) None (''AT%XDATAPRFL='' @ fmt_int level) a
            in (err, if err \<ge> 0 then snd (modem_get_power_level lib a) else a))
      else (- EINVAL, a))"

definition modem_set_power_indication :: "'w modem_lib \<Rightarrow> int \<Rightarrow> ('h, 'w) at_state \<Rightarrow> int \<times> ('h, 'w) at_state" where
  "modem_set_power_indication lib level a =
     (if 0 \<le> level \<and> level \<le> 1
      then (let ((err, _), a) = modem_at_cmdf lib (Some 32) None (''AT+CEPPI='' @ fmt_int level) a in (err, a))
      else (- EINVAL, a))"

section \<open>PSM\<close>

abbreviation (input) LTE_PSM_REQ_RPTAU :: cstring where "LTE_PSM_REQ_RPTAU \<equiv> ''00111000''"

text \<open>The active time in units of 2 seconds, of a minute or of 6 minutes: three bits for the unit, five for the value.\<close>

definition psm_rat_code :: "int \<Rightarrow> cstring" where
  "psm_rat_code active_time_s =
     (let t = c_div active_time_s 2
      in if t > 31
         then (let t = c_div t 30
               in if t > 31 then ''010'' @ print_bin 5 (word_of_int (c_div t 6)) else ''001'' @ print_bin 5 (word_of_int t))
         else ''000'' @ print_bin 5 (word_of_int t))"

definition modem_set_psm :: "'w modem_lib \<Rightarrow> int \<Rightarrow> ('h, 'w) modem_at \<Rightarrow> int \<times> ('h, 'w) modem_at" where
  "modem_set_psm lib time ma =
     (let (m, a) = ma; active_time_s = (if time < - 1 then - 1 else time); known = psm_rat m;
          m = (if - 2 \<le> psm_rat m then m\<lparr>psm_rat := active_time_s\<rparr> else m)
      in if known < - 2 then (0, m, a)
         else if known = active_time_s then (0, m, a)
         else if active_time_s < 0
         then (let (res, a) = modem_at_psm_req lib False a in (res, clear_bits {MODEM_PSM_UPDATE} m, a))
         else (let a = a\<lparr>at_world := lte_lc_psm_param_set lib LTE_PSM_REQ_RPTAU (psm_rat_code active_time_s) (at_world a)\<rparr>;
                   (res, a) = modem_at_psm_req lib True a
               in (res, clear_bits {MODEM_PSM_UPDATE} m, a)))"

text \<open>\<open>connect_rat\<close> is \<open>CONFIG_UDP_PSM_CONNECT_RAT\<close>.\<close>

definition modem_set_psm_for_connect :: "'w modem_lib \<Rightarrow> int \<Rightarrow> ('h, 'w) modem_at \<Rightarrow> int \<times> ('h, 'w) modem_at" where
  "modem_set_psm_for_connect lib connect_rat = modem_set_psm lib connect_rat"

section \<open>RAI\<close>

datatype rai_mode = RAI_MODE_OFF | RAI_MODE_NOW | RAI_MODE_LAST | RAI_MODE_ONE_RESPONSE

abbreviation (input) RAI_NO_DATA :: int where "RAI_NO_DATA \<equiv> 1"
abbreviation (input) RAI_LAST :: int where "RAI_LAST \<equiv> 2"
abbreviation (input) RAI_ONE_RESP :: int where "RAI_ONE_RESP \<equiv> 3"
abbreviation (input) RAI_ONGOING :: int where "RAI_ONGOING \<equiv> 4"

text \<open>AS-RAI with a socket option, as of NCS 2.6.0; \<open>use_connect\<close> is \<open>CONFIG_UDP_USE_CONNECT\<close>.\<close>

definition rai_option :: "bool \<Rightarrow> rai_mode \<Rightarrow> int \<Rightarrow> int" where
  "rai_option use_connect mode used =
     (case mode of
        RAI_MODE_NOW \<Rightarrow> if use_connect then RAI_NO_DATA else - 1
      | RAI_MODE_LAST \<Rightarrow> RAI_LAST
      | RAI_MODE_ONE_RESPONSE \<Rightarrow> RAI_ONE_RESP
      | RAI_MODE_OFF \<Rightarrow> if used \<noteq> RAI_ONGOING then RAI_ONGOING else - 1)"

definition modem_set_rai_mode :: "bool \<Rightarrow> 'w modem_lib \<Rightarrow> rai_mode \<Rightarrow> int \<Rightarrow> ('h, 'w) modem_at \<Rightarrow> int \<times> ('h, 'w) modem_at" where
  "modem_set_rai_mode use_connect lib mode socket ma =
     (let (m, a) = ma; option = rai_option use_connect mode (rai_current_mode m)
      in if rai_lock m then (0, m, a)
         else if option < 0 then (0, m, a)
         else if socket < 0 then (- EIO, m, a)
         else (let (err, w) = set_rai_option lib socket option (at_world a)
               in (err, if err = 0 then m\<lparr>rai_current_mode := option\<rparr> else m, a\<lparr>at_world := w\<rparr>)))"

section \<open>eDRX\<close>

definition edrx_multiplier :: "int list" where
  "edrx_multiplier = [1, 2, 4, 8, 12, 16, 20, 24, 28, 32, 64, 128, 256, 512, 1024, 2048]"

definition modem_get_edrx_multiplier :: "int \<Rightarrow> int" where
  "modem_get_edrx_multiplier edrx_code =
     (if 0 \<le> edrx_code \<and> edrx_code < 16 then edrx_multiplier ! nat edrx_code else 0)"

text \<open>The first code whose time, in hundredths of seconds, is not less than the requested one, or 15. \<open>n\<close> codes are left.\<close>

fun find_code :: "(int \<Rightarrow> int) \<Rightarrow> int \<Rightarrow> nat \<Rightarrow> int \<Rightarrow> int" where
  "find_code cycle t 0 code = code"
| "find_code cycle t (Suc n) code = (if t * 100 \<le> cycle code then code else find_code cycle t n (code + 1))"

definition edrx_code :: "int \<Rightarrow> int" where
  "edrx_code t = find_code (\<lambda>c. modem_get_edrx_multiplier c * 512) t 15 0"

definition modem_set_edrx :: "'w modem_lib \<Rightarrow> int \<Rightarrow> ('h, 'w) modem_at \<Rightarrow> int \<times> ('h, 'w) modem_at" where
  "modem_set_edrx lib edrx_time_s ma =
     (let (m, a) = ma
      in if edrx_time_s = 0
         then (let ((res, _), a) = modem_at_cmd lib None None ''AT+CEDRXS=0'' a
               in (if res < 0 then res else 0,
                   if res \<ge> 0 then m\<lparr>edrx_status := (edrx_status m)\<lparr>edrx_mode := LTE_LC_LTE_MODE_NONE\<rparr>, requested_edrx_time_s := 0\<rparr> else m, a))
         else (let edrx = print_bin 4 (word_of_int (edrx_code edrx_time_s));
                   ((res2, _), a) = modem_at_cmdf lib None None (''AT+CEDRXS=2,5,'' @ [CHR 0x22] @ edrx @ [CHR 0x22]) a;
                   ((res, _), a) = modem_at_cmdf lib None None (''AT+CEDRXS=2,4,'' @ [CHR 0x22] @ edrx @ [CHR 0x22]) a
               in if res2 < 0 then (res2, m, a)
                  else (if res < 0 then res else 0, if res \<ge> 0 then m\<lparr>requested_edrx_time_s := edrx_time_s\<rparr> else m, a)))"

definition modem_set_ptw :: "'w modem_lib \<Rightarrow> int \<Rightarrow> ('h, 'w) modem_at \<Rightarrow> int \<times> ('h, 'w) modem_at" where
  "modem_set_ptw lib ptw_time_s ma =
     (let (m, a) = ma;
          ptw = print_bin 4 (word_of_int (find_code (\<lambda>c. (c + 1) * 128) ptw_time_s 15 0));
          ((res, _), a) = modem_at_cmdf lib None None (''AT%XPTW=4,'' @ [CHR 0x22] @ ptw @ [CHR 0x22]) a;
          ptw = print_bin 4 (word_of_int (find_code (\<lambda>c. (c + 1) * 256) ptw_time_s 15 0));
          ((res2, _), a) = modem_at_cmdf lib None None (''AT%XPTW=5,'' @ [CHR 0x22] @ ptw @ [CHR 0x22]) a
      in if res2 < 0 then (res2, m, a)
         else (if res < 0 then res else 0, if res \<ge> 0 then m\<lparr>requested_ptw_time_s := ptw_time_s\<rparr> else m, a))"

definition fmt_hundredths :: "int \<Rightarrow> cstring" where
  "fmt_hundredths v = print_nat (nat v div 100) @ ''.'' @ fmt_zeros 2 (print_nat (nat v mod 100))"

definition modem_print_edrx :: "cstring \<Rightarrow> lte_lc_edrx_cfg \<Rightarrow> cstring" where
  "modem_print_edrx desc cfg =
     (let sep = (if desc = [] \<or> strend desc '' '' False \<noteq> 0 then [] else '' ''); start = ''eDRX '' @ desc @ sep;
          radio = (\<lambda>mode. if edrx_time cfg < 100 then start @ mode @ '' disabled.''
                          else if edrx_ptw cfg < 100 then start @ mode @ '' '' @ fmt_hundredths (edrx_time cfg) @ ''s''
                          else start @ mode @ '' '' @ fmt_hundredths (edrx_time cfg) @ ''s, ptw '' @ fmt_hundredths (edrx_ptw cfg) @ ''s'')
      in if edrx_mode cfg = LTE_LC_LTE_MODE_NONE then start @ ''disabled.''
         else if edrx_mode cfg = LTE_LC_LTE_MODE_LTEM then radio ''CAT-M1''
         else if edrx_mode cfg = LTE_LC_LTE_MODE_NBIOT then radio ''NB-IoT''
         else start @ ''unknown.'')"

section \<open>Preferred network\<close>

datatype preference_mode = RESET_PREFERENCE | SWAP_PREFERENCE | NBIOT_PREFERENCE | LTE_M_PREFERENCE

definition swapped_preference :: "int \<Rightarrow> int" where
  "swapped_preference p =
     (if p = LTE_LC_SYSTEM_MODE_PREFER_NBIOT then LTE_LC_SYSTEM_MODE_PREFER_LTEM
      else if p = LTE_LC_SYSTEM_MODE_PREFER_LTEM then LTE_LC_SYSTEM_MODE_PREFER_NBIOT
      else if p = LTE_LC_SYSTEM_MODE_PREFER_NBIOT_PLMN_PRIO then LTE_LC_SYSTEM_MODE_PREFER_LTEM_PLMN_PRIO
      else if p = LTE_LC_SYSTEM_MODE_PREFER_LTEM_PLMN_PRIO then LTE_LC_SYSTEM_MODE_PREFER_NBIOT_PLMN_PRIO
      else p)"

text \<open>\<open>configured\<close> is \<open>CONFIG_LTE_MODE_PREFERENCE_VALUE\<close>. NB-IoT and LTE-M are set with the numbers of the system modes.\<close>

definition new_preference :: "int \<Rightarrow> preference_mode \<Rightarrow> int \<Rightarrow> int" where
  "new_preference configured mode p =
     (case mode of
        RESET_PREFERENCE \<Rightarrow> configured
      | SWAP_PREFERENCE \<Rightarrow> swapped_preference p
      | NBIOT_PREFERENCE \<Rightarrow> LTE_LC_SYSTEM_MODE_NBIOT
      | LTE_M_PREFERENCE \<Rightarrow> LTE_LC_SYSTEM_MODE_LTEM)"

definition modem_set_preference ::
  "'w modem_lib \<Rightarrow> int \<Rightarrow> preference_mode \<Rightarrow> ('h, 'w) modem_at \<Rightarrow> bool \<times> ('h, 'w) modem_at" where
  "modem_set_preference lib configured mode ma =
     (let (m, a) = ma; (r, a) = modem_at_system_mode_get lib a
      in case r of
           Inl _ \<Rightarrow> (False, m, a)
         | Inr (lte_mode, lte_preference) \<Rightarrow>
             if lte_mode = LTE_LC_SYSTEM_MODE_LTEM_NBIOT \<or> lte_mode = LTE_LC_SYSTEM_MODE_LTEM_NBIOT_GPS
             then (if swapped_preference lte_preference \<noteq> lte_preference
                   then (let p = new_preference configured mode lte_preference;
                             a = (if p \<noteq> lte_preference then snd (modem_at_system_mode_set lib lte_mode p a) else a)
                         in (True, set_bits {MODEM_LTE_MODE_PREFERENCE} m, a))
                   else (False, m, a))
             else (False, clear_bits {MODEM_LTE_MODE_PREFERENCE} m, a))"

section \<open>Function mode and identity\<close>

text \<open>The APN of the settings; a result that is not 0, also an error, configures what the buffer holds.\<close>

definition modem_apply_apn :: "'w modem_lib \<Rightarrow> 'st settings \<Rightarrow> ('h, 'w) at_state \<Rightarrow> ('h, 'w) at_state" where
  "modem_apply_apn lib st a =
     (let (res, text) = appl_settings_get_apn 32 st
      in if res \<noteq> 0 then a\<lparr>at_world := pdn_ctx_configure lib (bytes_text text) (at_world a)\<rparr> else a)"

definition modem_on_cfun ::
  "'w modem_lib \<Rightarrow> (cstring \<Rightarrow> cstring \<Rightarrow> cstring \<Rightarrow> int + lte_lc_psm_cfg) \<Rightarrow> 'st settings \<Rightarrow> int \<Rightarrow> int \<Rightarrow> ('h, 'w) modem_at
   \<Rightarrow> ('h, 'w) modem_at" where
  "modem_on_cfun lib psm_parse st now mode ma =
     (let (m, a) = ma
      in if mode = LTE_LC_FUNC_MODE_NORMAL \<or> mode = LTE_LC_FUNC_MODE_ACTIVATE_LTE
         then (let m = clear_bits {MODEM_LOW_POWER} (m\<lparr>lte_starts := lte_starts m + 1,
                         edrx_status := (edrx_status m)\<lparr>edrx_mode := LTE_LC_LTE_MODE_NONE\<rparr>\<rparr>);
                   edrx_time_s = requested_edrx_time_s m; ptw_time_s = requested_ptw_time_s m;
                   ma = (if edrx_time_s \<noteq> 0 then snd (modem_set_edrx lib edrx_time_s (m, a)) else (m, a));
                   ma = (if ptw_time_s \<noteq> 0 then snd (modem_set_ptw lib ptw_time_s ma) else ma);
                   (_, m, a) = modem_read_network_info lib psm_parse now True ma;
                   (changed, m) = modem_states_changed MODEM_ON_OFF True m
               in (if changed then state_change_callback LTE_STATE_ON True m else m, a))
         else if mode \<in> {LTE_LC_FUNC_MODE_POWER_OFF, LTE_LC_FUNC_MODE_OFFLINE, LTE_LC_FUNC_MODE_DEACTIVATE_LTE, LTE_LC_FUNC_MODE_ACTIVATE_UICC}
         then (let (changed, m) = modem_states_changed MODEM_ON_OFF False m
               in if \<not> changed then (m, a)
                  else (let a = (if MODEM_FIRMWARE_2 \<in> modem_states m
                                 then snd (modem_at_cmd lib None (Some ''%RAI: '') ''AT%RAI=2'' a) else a)
                        in (state_change_callback LTE_STATE_ON False m, modem_apply_apn lib st a)))
         else (m, a))"

text \<open>The start of \<open>modem_start\<close>: nothing is known of the network but the lock.\<close>

definition modem_start_reset :: "modem \<Rightarrow> modem" where
  "modem_start_reset m =
     (let m = modem_cancel_all_job m
      in m\<lparr>network_info := network_info_init\<lparr>plmn_lock := plmn_lock (network_info m)\<rparr>,
           ce_info := ce_info_init\<lparr>rsrp := INVALID_SIGNAL_VALUE, rsrq := INVALID_SIGNAL_VALUE, cinr := INVALID_SIGNAL_VALUE,
             snr := INVALID_SIGNAL_VALUE\<rparr>,
           rai_time := - 1, rai_network_state := LTE_NETWORK_RAI_UNKNOWN\<rparr>)"

definition modem_start_search :: "'w modem_lib \<Rightarrow> ('h, 'w) at_state \<Rightarrow> int \<times> ('h, 'w) at_state" where
  "modem_start_search lib a = (let ((res, _), a) = modem_at_cmd lib None None ''AT%PERIODICSEARCHCONF=3'' a in (res, a))"

text \<open>\<open>imei\<close> is the one of \<open>modem_info\<close>; \<open>len\<close> is the size of the buffer, if there is one.\<close>

definition modem_get_imei ::
  "'w modem_lib \<Rightarrow> cstring \<Rightarrow> nat option \<Rightarrow> ('h, 'w) modem_at \<Rightarrow> (int \<times> cstring option) \<times> ('h, 'w) modem_at" where
  "modem_get_imei lib imei len ma =
     (let (m, a) = ma
      in if MODEM_INITIALIZED \<notin> modem_states m
         then (let a = (if MODEM_LIB_INITIALIZED \<notin> modem_states m then a\<lparr>at_world := nrf_modem_lib_init lib (at_world a)\<rparr> else a);
                   m = set_bits {MODEM_LIB_INITIALIZED} m;
                   ((err, temp), a) = modem_at_cmd lib (Some 64) None ''AT+CGSN'' a
               in ((err, if err < 0 then None else map_option (\<lambda>n. take (n - 1) (the temp)) len), m, a))
         else ((int (length imei), map_option (\<lambda>n. take (n - 1) imei) len), m, a))"

definition modem_factory_reset :: "'w modem_lib \<Rightarrow> ('h, 'w) at_state \<Rightarrow> int \<times> ('h, 'w) at_state" where
  "modem_factory_reset lib a = (let ((err, _), a) = modem_at_cmd lib (Some 16) None ''AT%XFACTORYRESET=0'' a in (err, a))"

end
