(* ===== verification/Modem_Laws.thy ===== *)
theory Modem_Laws
  imports Modem_Set "HOL-Library.Multiset"
begin

text \<open>
  What the states of the modem promise: the bits that are reported agree with what is known of the network, cells are
  listed by their quality, the codes of PSM and eDRX stand for the requested times, faults restart the device when there
  are too many of them, and waiting for the network ends. Also where the code does not keep its promise: a state that
  is read without reports, a list of cells that is longer than its buffer, repetitions that do not fit into 8 bits, and
  a request for PSM that failed.
\<close>

section \<open>Bits and network\<close>

lemmas modem_defs = on_network_def set_bits_def clear_bits_def modem_states_changed_def work_submit_to_io_queue_def
  work_submit_to_cmd_queue_def state_change_callback_def

definition states_agree :: "modem \<Rightarrow> bool" where
  "states_agree m \<longleftrightarrow> (MODEM_READY \<in> modem_states m \<longleftrightarrow> is_ready (network_info m)) \<and>
     (MODEM_CONNECTED \<in> modem_states m \<longleftrightarrow> is_connected (network_info m))"

text \<open>What the agreement depends on.\<close>

definition agree_part :: "modem \<Rightarrow> bool \<times> bool \<times> bool \<times> bool" where
  "agree_part m = (MODEM_READY \<in> modem_states m, MODEM_CONNECTED \<in> modem_states m, is_ready (network_info m), is_connected (network_info m))"

lemma states_agree_cong: "agree_part m = agree_part m' \<Longrightarrow> states_agree m = states_agree m'"
  by (simp add: agree_part_def states_agree_def)

lemma network_state_on [simp]: "network_state b = LTE_NETWORK_STATE_ON \<longleftrightarrow> b"
  by (simp add: network_state_def)

lemma submit_keeps [simp]:
  "network_info (work_submit_to_io_queue j m) = network_info m" "modem_states (work_submit_to_io_queue j m) = modem_states m"
  "network_info (work_submit_to_cmd_queue j m) = network_info m" "modem_states (work_submit_to_cmd_queue j m) = modem_states m"
  "io_queue (work_submit_to_cmd_queue j m) = io_queue m"
  "network_info (state_change_callback t b m) = network_info m" "modem_states (state_change_callback t b m) = modem_states m"
  by (simp_all add: work_submit_to_io_queue_def work_submit_to_cmd_queue_def state_change_callback_def)

lemma bits_simps [simp]:
  "modem_states (set_bits bs m) = modem_states m \<union> bs" "network_info (set_bits bs m) = network_info m" "io_queue (set_bits bs m) = io_queue m"
  "modem_states (clear_bits bs m) = modem_states m - bs" "network_info (clear_bits bs m) = network_info m"
  "io_queue (clear_bits bs m) = io_queue m"
  by (simp_all add: set_bits_def clear_bits_def)

lemma search_keeps [simp]:
  "network_info (lte_start_search now m) = network_info m" "modem_states (lte_start_search now m) = modem_states m"
  "io_queue (lte_start_search now m) = io_queue m" "network_info (lte_end_search now m) = network_info m"
  "modem_states (lte_end_search now m) = modem_states m" "io_queue (lte_end_search now m) = io_queue m"
  by (simp_all add: lte_start_search_def lte_end_search_def Let_def)

lemma parts_network [simp]:
  "network_info (drop_connected con m) = network_info m" "network_info (change_ready ready m) = network_info m"
  "network_info (get_connected on con m) = network_info m"
  by (simp_all add: drop_connected_def change_ready_def get_connected_def modem_states_changed_def Let_def)

lemma parts_bits [simp]:
  "modem_states (drop_connected con m) = (if con then modem_states m else modem_states m - {MODEM_CONNECTED})"
  "MODEM_READY \<in> modem_states (change_ready ready m) \<longleftrightarrow> ready"
  "MODEM_CONNECTED \<in> modem_states (change_ready ready m) \<longleftrightarrow> MODEM_CONNECTED \<in> modem_states m"
  "modem_states (get_connected on con m) = (if con then insert MODEM_CONNECTED (modem_states m) else modem_states m)"
  by (auto simp: drop_connected_def change_ready_def get_connected_def modem_states_changed_def Let_def)

lemma connection_status_network [simp]: "network_info (lte_connection_status on m) = network_info m"
  by (simp add: lte_connection_status_def Let_def)

lemma connection_status_agrees: "states_agree (lte_connection_status on m)"
  by (simp add: states_agree_def lte_connection_status_def Let_def)

lemma on_network_agrees:
  "registered (f (network_info m)) = registered (network_info m) \<Longrightarrow> pdn_active (f (network_info m)) = pdn_active (network_info m) \<Longrightarrow>
   rrc_active (f (network_info m)) = rrc_active (network_info m) \<Longrightarrow> states_agree (on_network f m) = states_agree m"
  by (simp add: states_agree_def on_network_def is_ready_def is_connected_def)

lemma callback_agrees [simp]: "states_agree (state_change_callback t b m) = states_agree m"
  by (simp add: states_agree_def modem_defs)

lemma agrees_update [simp]:
  "states_agree (m\<lparr>rai_time := x\<rparr>) = states_agree m" "states_agree (m\<lparr>phase := p\<rparr>) = states_agree m"
  "states_agree (m\<lparr>phase_start_time := x\<rparr>) = states_agree m" "states_agree (m\<lparr>active_time := x\<rparr>) = states_agree m"
  "states_agree (m\<lparr>edrx_status := e\<rparr>) = states_agree m" "states_agree (m\<lparr>psm_status := s\<rparr>) = states_agree m"
  "states_agree (m\<lparr>psm_signaled := b\<rparr>) = states_agree m" "states_agree (m\<lparr>rai_network_state := r\<rparr>) = states_agree m"
  "states_agree (lte_inc_wakeups x m) = states_agree m" "states_agree (lte_add_connected x m) = states_agree m"
  "states_agree (lte_add_asleep x m) = states_agree m" "states_agree (lte_inc_psm_delays x m) = states_agree m"
  "states_agree (lte_rai a b m) = states_agree m" "states_agree (lte_end_search x m) = states_agree m"
  "states_agree (work_submit_to_cmd_queue j m) = states_agree m" "states_agree (lte_start_search x m) = states_agree m"
  by (simp_all add: states_agree_def lte_inc_wakeups_def lte_add_connected_def lte_add_asleep_def lte_inc_psm_delays_def lte_rai_def
      lte_end_search_def work_submit_to_cmd_queue_def lte_start_search_def Let_def)

lemma set_agrees [simp]:
  "states_agree m \<Longrightarrow> states_agree (lte_registration_set on reg m)"
  "states_agree m \<Longrightarrow> states_agree (lte_connection_status_set on con m)"
  "states_agree m \<Longrightarrow> states_agree (lte_pdn_status_set on act m)"
  "states_agree (lte_network_mode_set mode m) = states_agree m"
  "states_agree (lte_network_sleeping_set sleep m) = states_agree m"
  "states_agree (lte_update_cell tac cell m) = states_agree m"
  "states_agree (modem_set_low_power m) = states_agree m"
  "states_agree (lte_set_psm_status psm notify m) = states_agree m"
  by (simp_all add: lte_registration_set_def lte_connection_status_set_def lte_pdn_status_set_def connection_status_agrees
      lte_network_mode_set_def lte_network_sleeping_set_def lte_update_cell_def modem_set_low_power_def lte_set_psm_status_def Let_def)
    (auto simp: states_agree_def modem_defs is_ready_def is_connected_def)

lemma cell_meas_agrees [simp]: "states_agree (lte_neighbor_cell_meas now info m) = states_agree m"
  by (simp add: lte_neighbor_cell_meas_def count_meas_def Let_def states_agree_def split: prod.split)

text \<open>Whatever events come from the modem, the bits for ready and for connected are what the known state of the network says.\<close>

lemma event_agrees:
  assumes "states_agree m"
  shows "states_agree (lte_handler reboots on now evt m)" "states_agree (pdn_handler reboots on event m)"
proof -
  have reg: "states_agree (Modem.lte_registration on now s m)" for s
    using assms by (simp add: Modem.lte_registration_def Let_def)
  have rrc: "states_agree (rrc_connected on now m)" "states_agree (rrc_idle on now m)" "states_agree (modem_sleep_enter now t m)" for t
    using assms by (simp_all add: rrc_connected_def rrc_idle_def modem_sleep_enter_def Let_def)
  show "states_agree (lte_handler reboots on now evt m)"
    using assms reg rrc by (cases evt) (simp_all add: lte_handler_def lte_set_edrx_status_def)
  show "states_agree (pdn_handler reboots on event m)" using assms by (cases event) (simp_all add: pdn_handler_def)
qed

text \<open>The state of the network is read without reports while the modem lost its registration: the known state is replaced, the
  bit for ready stays set, and the event of the lost registration that follows finds no change. So the application is
  not told that the modem is not ready, and the modem does not know it itself.\<close>

lemma silent_read_keeps_ready:
  fixes on :: bool and now :: int
  assumes "MODEM_READY \<in> modem_states m" "registered (xm_info x) = LTE_NETWORK_STATE_OFF"
    "reg_status \<notin> {LTE_LC_NW_REG_REGISTERED_HOME, LTE_LC_NW_REG_REGISTERED_ROAMING}"
  defines "m' \<equiv> lte_handler False on now (LTE_LC_EVT_NW_REG_STATUS reg_status) (set_network_info on now False x m)"
  shows "\<not> is_ready (network_info m') \<and> MODEM_READY \<in> modem_states m' \<and>
    (State_Change LTE_STATE_READY False \<in> set (io_queue m') \<longleftrightarrow> State_Change LTE_STATE_READY False \<in> set (io_queue m))"
proof -
  define m1 where "m1 = set_network_info on now False x m"
  have m1: "registered (network_info m1) = LTE_NETWORK_STATE_OFF" "modem_states m1 = modem_states m" "io_queue m1 = io_queue m"
    using assms(2) by (simp_all add: m1_def set_network_info_def Let_def)
  define m2 where "m2 = state_change_callback LTE_STATE_REGISTRATION False
      (if reg_status = LTE_LC_NW_REG_SEARCHING then work_submit_to_cmd_queue Read_Sim (lte_start_search now m1) else lte_end_search now m1)"
  have "network_info m2 = network_info m1" "modem_states m2 = modem_states m1"
      "State_Change LTE_STATE_READY False \<in> set (io_queue m2) \<longleftrightarrow> State_Change LTE_STATE_READY False \<in> set (io_queue m1)"
    by (simp_all add: m2_def state_change_callback_def work_submit_to_io_queue_def work_submit_to_cmd_queue_def)
  moreover have "m' = m2"
    using assms(3) m1(1) \<open>network_info m2 = network_info m1\<close>
    by (simp add: m'_def lte_handler_def Modem.lte_registration_def lte_registration_set_def network_state_def Let_def
        flip: m1_def m2_def)
  ultimately show ?thesis using assms(1) m1 by (simp add: is_ready_def)
qed

section \<open>Cells\<close>

lemma bubble_cell_mset: "mset (bubble_cell q c xs) = add_mset c (mset xs)"
  by (induction xs) auto

lemma bubble_cell_sorted: "sorted (map q xs) \<Longrightarrow> sorted (map q (bubble_cell q c xs))"
proof (induction xs)
  case (Cons x xs)
  have "set (bubble_cell q c xs) = insert c (set xs)" by (metis bubble_cell_mset set_mset_add_mset_insert set_mset_mset)
  then show ?case using Cons by (auto)
qed simp

lemma bubble_cell_filter: "sorted (map q xs) \<Longrightarrow>
  filter (\<lambda>x. q x = k) (bubble_cell q c xs) = (if q c = k then c # filter (\<lambda>x. q x = k) xs else filter (\<lambda>x. q x = k) xs)"
  by (induction xs) auto

lemma fold_bubble_sorted: "sorted (map q acc) \<Longrightarrow> sorted (map q (fold (bubble_cell q) xs acc))"
  by (induction xs arbitrary: acc) (simp_all add: bubble_cell_sorted)

lemma fold_bubble_mset: "mset (fold (bubble_cell q) xs acc) = mset xs + mset acc"
  by (induction xs arbitrary: acc) (simp_all add: bubble_cell_mset)

lemma fold_bubble_filter: "sorted (map q acc) \<Longrightarrow>
  filter (\<lambda>x. q x = k) (fold (bubble_cell q) xs acc) = rev (filter (\<lambda>x. q x = k) xs) @ filter (\<lambda>x. q x = k) acc"
  by (induction xs arbitrary: acc) (simp_all add: bubble_cell_sorted bubble_cell_filter)

text \<open>C29. The list of measured cells, built by exchanging pointers, is the stable sort by falling quality.\<close>

theorem sort_cells_stable: "sort_cells quality cells = sort_key (\<lambda>c. - quality c) cells"
proof (rule properties_for_sort_key [symmetric])
  show "mset (sort_cells quality cells) = mset cells" by (simp add: sort_cells_def fold_bubble_mset)
next
  fix k
  have "filter (\<lambda>x. - quality k = - quality x) ys = filter (\<lambda>x. quality x = quality k) ys" for ys :: "'a list"
    by (rule filter_cong) auto
  then show "filter (\<lambda>x. - quality k = - quality x) (sort_cells quality cells) = filter (\<lambda>x. - quality k = - quality x) cells"
    by (simp add: sort_cells_def fold_bubble_filter rev_filter flip: rev_filter)
next
  have "sorted (map quality (fold (bubble_cell quality) cells []))" by (simp add: fold_bubble_sorted)
  then show "sorted (map (\<lambda>c. - quality c) (sort_cells quality cells))"
    by (auto simp: sort_cells_def sorted_wrt_map rev_map sorted_wrt_rev simp flip: rev_map)
qed

section \<open>The list of cells in its buffer\<close>

lemma append_result_cases:
  assumes "length text < sz" "line \<noteq> []"
  shows "append_result sz text line =
    (if length text + length line + 1 < sz then (False, text @ line @ [CHR 0x0A])
     else if length text = sz - 1 then (False, text)
     else (True, text @ take (sz - length text - 1) line @ [CHR 0x0A]))"
  using assms by (auto simp: append_result_def Let_def min_def)

text \<open>The places where the lines end, when there is room for all of them.\<close>

fun line_ends :: "nat \<Rightarrow> cstring list \<Rightarrow> nat list" where
  "line_ends n [] = [n]"
| "line_ends n (l # ls) = n # line_ends (n + length (take 127 l) + 1) ls"

lemma line_ends_not_Nil [simp]: "line_ends n ls \<noteq> []" "[] \<noteq> line_ends n ls"
  by (cases ls; simp)+

lemma line_ends_mono: "k \<in> set (line_ends n ls) \<Longrightarrow> n \<le> k"
  by (induction ls arbitrary: n) fastforce+

lemma last_line_ends: "n \<le> last (line_ends n ls)"
proof (induction ls arbitrary: n)
  case (Cons l ls)
  show ?case using Cons [of "n + length (take 127 l) + 1"] by simp
qed simp

lemma fold_overrun_kept:
  "fst (fold (append_line sz) ls (True, t))"
  by (induction ls arbitrary: t) (simp_all add: append_line_def split_beta Let_def)

lemma append_full: "length t = sz - 1 \<Longrightarrow> 0 < sz \<Longrightarrow>
  fold (append_line sz) ls (b, t) = (b, t)"
  by (induction ls) (simp_all add: append_line_def append_result_def Let_def)

lemma append_results_overrun:
  assumes "length t < sz" "[] \<notin> set ls"
  shows "fst (append_results sz t ls) \<longleftrightarrow> sz \<le> last (line_ends (length t) ls) \<and> sz - 1 \<notin> set (line_ends (length t) ls)"
  using assms
proof (induction ls arbitrary: t)
  case Nil
  then show ?case by (simp add: append_results_def)
next
  case (Cons l ls)
  have l: "take 127 l \<noteq> []" using Cons.prems(2) by auto
  have le: "length t + length (take 127 l) + 1 \<le> last (line_ends (length t + length (take 127 l) + 1) ls)" by (rule last_line_ends)
  have split: "append_results sz t (l # ls) = fold (append_line sz)
      ls (append_result sz t (take 127 l))"
    by (simp add: append_results_def append_line_def split_beta Let_def)
  consider "length t + length (take 127 l) + 1 < sz" | "length t = sz - 1"
    | "sz \<le> length t + length (take 127 l) + 1" "length t \<noteq> sz - 1" by linarith
  then show ?case
  proof cases
    case 1
    have "append_results sz t (l # ls) = append_results sz (t @ take 127 l @ [CHR 0x0A]) ls"
      using 1 l Cons.prems(1) by (simp add: append_result_cases append_results_def append_line_def)
    moreover have "length (t @ take 127 l @ [CHR 0x0A]) = length t + length (take 127 l) + 1" by simp
    ultimately show ?thesis using Cons.IH [of "t @ take 127 l @ [CHR 0x0A]"] 1 Cons.prems(2) by auto
  next
    case 2
    then show ?thesis using l Cons.prems(1) by (simp add: split append_result_cases append_full)
  next
    case 3
    have "fst (append_results sz t (l # ls))" using 3 l Cons.prems(1) by (simp add: split append_result_cases fold_overrun_kept)
    moreover have "sz - 1 \<notin> set (line_ends (length t) (l # ls))"
    proof
      assume "sz - 1 \<in> set (line_ends (length t) (l # ls))"
      then have "length t + length (take 127 l) + 1 \<le> sz - 1" using 3(2) line_ends_mono by force
      then show False using 3(1) Cons.prems(1) by linarith
    qed
    ultimately show ?thesis using le 3(1) by (simp del: length_take)
  qed
qed

lemma meas_lines_not_empty: "[] \<notin> set (meas_lines m time info)"
  by (simp add: meas_lines_def current_cell_line_def gci_lines_def ncell_lines_def gci_line_def Let_def image_iff)

text \<open>A list of measured cells that is longer than the buffer for it writes the terminator behind the buffer, unless the
  lines before fill the buffer up to exactly its last byte.\<close>

lemma cell_report_overrun:
  defines "ends \<equiv> \<lambda>now info m. let (time, m) = count_meas now info m in line_ends 0 (meas_lines m time info)"
  shows "meas_overrun (lte_neighbor_cell_meas now info m) \<longleftrightarrow>
    meas_overrun m \<or> NEIGHBOR_CELL_MEAS_SIZE \<le> last (ends now info m) \<and> NEIGHBOR_CELL_MEAS_SIZE - 1 \<notin> set (ends now info m)"
proof -
  obtain time m1 where m1: "count_meas now info m = (time, m1)" by fastforce
  have "meas_overrun m1 = meas_overrun m" using m1 by (auto simp: count_meas_def Let_def split: if_splits)
  moreover have "fst (append_results 800 [] (meas_lines m1 time info)) \<longleftrightarrow>
      800 \<le> last (line_ends 0 (meas_lines m1 time info)) \<and> 800 - 1 \<notin> set (line_ends 0 (meas_lines m1 time info))"
    using append_results_overrun [of "[]" 800, OF _ meas_lines_not_empty] by simp
  ultimately show ?thesis by (simp add: ends_def lte_neighbor_cell_meas_def m1 split_beta Let_def)
qed

text \<open>A scan for 15 cells, the most that can be asked for.\<close>

definition sim_cell :: lte_lc_cell where
  "sim_cell = \<lparr>nc_earfcn = 6400, nc_phys_cell_id = 100, nc_rsrp = 60, nc_rsrq = 20, gci_mcc = 262, gci_mnc = 2, gci_tac = 0x1234,
     gci_id = 0x01234500\<rparr>"

definition sim_scan :: lte_lc_cells_info where
  "sim_scan = \<lparr>current_cell = sim_cell\<lparr>gci_id := LTE_LC_CELL_EUTRAN_ID_INVALID\<rparr>, gci_cells = replicate 15 sim_cell, neighbor_cells = []\<rparr>"

lemma line_ends_cong: "map length ls = map length ls' \<Longrightarrow> line_ends n ls = line_ends n ls'"
proof (induction ls arbitrary: n ls')
  case (Cons l ls)
  then obtain l' ls'' where ls': "ls' = l' # ls''" "length l' = length l" "map length ls = map length ls''" by auto
  then show ?case using Cons.IH [OF ls'(3)] by simp
qed simp

lemma fold_bubble_equal: "\<forall>c \<in> set cells \<union> set acc. q c = k \<Longrightarrow> fold (bubble_cell q) cells acc = rev cells @ acc"
proof (induction cells arbitrary: acc)
  case (Cons c cells)
  have "bubble_cell q c acc = c # acc" using Cons.prems by (cases acc) simp_all
  then show ?case using Cons by simp
qed simp

lemma sim_scan_sorted: "sort_cells lte_cell_quality (replicate 15 sim_cell) = replicate 15 sim_cell"
  unfolding sort_cells_def
  by (subst fold_bubble_equal [where k = 70]) (auto simp: lte_cell_quality_def sim_cell_def c_div_nonneg)

lemma sim_line_length:
  assumes "i < 15"
  shows "length (gci_line 2 False i sim_cell) = 56"
proof -
  have "length (fmt_width 2 (print_nat i)) = 2"
    using assms by (simp add: fmt_width_def print_nat.simps div_less_iff_less_mult)
  moreover have "length (gci_line 2 False i sim_cell) = length (fmt_width 2 (print_nat i)) + 54"
    by (simp add: gci_line_def) code_simp
  ultimately show ?thesis by simp
qed

lemma sim_scan_lengths: "map length (meas_lines (modem_init_state\<lparr>meas_scans := 1\<rparr>) 0 sim_scan) = [36, 59] @ replicate 15 56"
proof -
  have cells: "gci_cells sim_scan = replicate 15 sim_cell" "gci_id (current_cell sim_scan) = 0xFFFFFFFF" "neighbor_cells sim_scan = []"
    by (simp_all add: sim_scan_def)
  have no_match: "\<not> gci_matches (modem_init_state\<lparr>meas_scans := 1\<rparr>) sim_cell"
    by (simp add: gci_matches_def modem_init_state_def network_info_init_def sim_cell_def)
  have lines: "map (\<lambda>i. length (gci_line 2 (gci_matches (modem_init_state\<lparr>meas_scans := 1\<rparr>) (replicate 15 sim_cell ! i)) i (replicate 15 sim_cell ! i)))
      [0..<15] = replicate 15 56"
    by (rule nth_equalityI) (use sim_line_length no_match in \<open>auto simp del: upt_rec_numeral\<close>)
  have matched: "filter (\<lambda>i. gci_matches (modem_init_state\<lparr>meas_scans := 1\<rparr>) (replicate 15 sim_cell ! i)) [0..<15] = []"
    using no_match by (auto simp: filter_empty_conv simp del: upt_rec_numeral)
  have heads: "length (modem_get_network_mode_description (ni_mode (network_info modem_init_state)) @ '' neighbor cell measurements '' @
      print_nat 0 @ ''/'' @ print_nat 15) = 36" "length (''  '' @ fmt_width 2 ''#'' @ '' :  plmn    tac      cell  band earfnc pid rsrp/q dB(m)'') = 59"
    by code_simp+
  show ?thesis
    using heads lines by (simp add: meas_lines_def cells gci_lines_def sim_scan_sorted matched Let_def comp_def del: upt_rec_numeral)
qed

section \<open>Times\<close>

text \<open>The time a code of 8 bits stands for: the unit in the first three, the value in the last five.\<close>

definition psm_active_seconds :: "cstring \<Rightarrow> int" where
  "psm_active_seconds code =
     (let unit = fst (strtol (take 3 code) 2); value = fst (strtol (drop 3 code) 2)
      in value * (if unit = 0 then 2 else if unit = 1 then 60 else 360))"

lemma psm_code_value:
  assumes "0 \<le> v"
  shows "fst (strtol (print_bin 5 (word_of_int v)) 2) = v mod 32"
proof -
  have "uint (take_bit 5 (word_of_int v :: u32)) = take_bit 5 (take_bit 32 v)"
    by (simp add: unsigned_take_bit_eq uint_word_of_int_eq)
  then have "uint (take_bit 5 (word_of_int v :: u32)) = v mod 32" by (simp add: take_bit_eq_mod mod_mod_cancel)
  then show ?thesis by (simp add: print_bin_strtol)
qed

lemma psm_code_unit: "fst (strtol ''000'' 2) = 0" "fst (strtol ''001'' 2) = 1" "fst (strtol ''010'' 2) = 2"
  by code_simp+

lemma psm_seconds:
  assumes "0 \<le> v"
  shows "psm_active_seconds (''000'' @ print_bin 5 (word_of_int v)) = v mod 32 * 2"
    "psm_active_seconds (''001'' @ print_bin 5 (word_of_int v)) = v mod 32 * 60"
    "psm_active_seconds (''010'' @ print_bin 5 (word_of_int v)) = v mod 32 * 360"
  using psm_code_value [OF assms] psm_code_unit by (simp_all add: psm_active_seconds_def Let_def)

lemma psm_rat_code_units:
  assumes "0 \<le> t"
  shows "psm_rat_code t = (if t < 64 then ''000'' @ print_bin 5 (word_of_int (t div 2))
      else if t < 1920 then ''001'' @ print_bin 5 (word_of_int (t div 60)) else ''010'' @ print_bin 5 (word_of_int (t div 360)))"
proof -
  have c: "c_div t 2 = t div 2" "c_div (t div 2) 30 = t div 60" "c_div (t div 60) 6 = t div 360"
    using assms by (simp_all add: c_div_nonneg pos_imp_zdiv_nonneg_iff flip: zdiv_zmult2_eq)
  have "31 < t div 2 \<longleftrightarrow> \<not> t < 64" "31 < t div 60 \<longleftrightarrow> \<not> t < 1920" by linarith+
  then show ?thesis by (simp only: psm_rat_code_def Let_def c if_not_P if_P) auto
qed

text \<open>The active time that is requested for PSM is the wanted one, rounded down to units of 2 seconds, of minutes or of 6
  minutes. From 11520 seconds on, which is 32 units, the value does not fit into its five bits and is cut: for 3 hours
  and 12 minutes no time at all is requested.\<close>

lemma psm_active_time_requested:
  assumes "0 \<le> t" "t \<le> 32767"
  shows "psm_active_seconds (psm_rat_code t) =
    (if t < 64 then t - t mod 2 else if t < 1920 then t - t mod 60 else if t < 11520 then t - t mod 360 else t div 360 mod 32 * 360)"
proof -
  have code: "psm_rat_code t = (if t < 64 then ''000'' @ print_bin 5 (word_of_int (t div 2))
      else if t < 1920 then ''001'' @ print_bin 5 (word_of_int (t div 60)) else ''010'' @ print_bin 5 (word_of_int (t div 360)))"
    by (rule psm_rat_code_units [OF assms(1)])
  have nonneg: "0 \<le> t div 2" "0 \<le> t div 60" "0 \<le> t div 360" using assms(1) by simp_all
  consider "t < 64" | "64 \<le> t" "t < 1920" | "1920 \<le> t" "t < 11520" | "11520 \<le> t" by linarith
  then show ?thesis
  proof cases
    case 1
    then have "t div 2 mod 32 = t div 2" using nonneg by simp
    then show ?thesis using 1 by (simp only: code if_True psm_seconds [OF nonneg(1)] minus_mod_eq_div_mult)
  next
    case 2
    then have "t div 60 mod 32 = t div 60" "\<not> t < 64" using nonneg by simp_all
    then show ?thesis using 2 by (simp only: code if_True if_False psm_seconds [OF nonneg(2)] minus_mod_eq_div_mult)
  next
    case 3
    then have "t div 360 mod 32 = t div 360" "\<not> t < 64" "\<not> t < 1920" using nonneg by simp_all
    then show ?thesis using 3 by (simp only: code if_True if_False psm_seconds [OF nonneg(3)] minus_mod_eq_div_mult)
  next
    case 4
    then have "\<not> t < 64" "\<not> t < 1920" "\<not> t < 11520" by simp_all
    then show ?thesis by (simp only: code if_False psm_seconds [OF nonneg(3)])
  qed
qed

text \<open>A request for PSM that fails is remembered as if it were done: asking again for the same time returns success, and
  nothing is sent to the modem.\<close>

lemma psm_failure_remembered:
  assumes "- 2 \<le> psm_rat m" "modem_set_psm lib time (m, a) = (res, m', a')" "res \<noteq> 0"
  shows "modem_set_psm lib time (m', a') = (0, m', a')"
proof -
  have "psm_rat m' = (if time < - 1 then - 1 else time)"
    using assms by (auto simp: modem_set_psm_def Let_def clear_bits_def split: if_splits prod.splits)
  then show ?thesis by (simp add: modem_set_psm_def Let_def)
qed

lemma u8_less: "unat w < 256" for w :: u8
  by (rule order_less_le_trans [OF unsigned_less]) simp

text \<open>The repetitions of the uplink count four times and are kept in 8 bits: with 64, 128 or 192 of them they are 0, and a
  modem at the limit of its coverage is not given more time.\<close>

lemma time_scale_wraps:
  assumes "uplink_repetition (ce_info m) \<in> {64, 128, 192}" "rsrp (ce_info m) > - 110"
  shows "modem_get_time_scale m = 100"
proof -
  have "unat (downlink_repetition (ce_info m)) \<le> unat (uplink_repetition (ce_info m)) * 4"
    using assms(1) u8_less [of "downlink_repetition (ce_info m)"] by auto
  then have "of_nat (max (unat (downlink_repetition (ce_info m))) (unat (uplink_repetition (ce_info m)) * 4)) = (0 :: u8)"
    using assms(1) by (auto simp: max_def)
  then show ?thesis using assms(2) by (simp add: modem_get_time_scale_def modem_get_coverage_enhancement_info_def)
qed

lemma find_code_range: "start \<le> find_code cycle t n start \<and> find_code cycle t n start \<le> start + int n"
proof (induction n arbitrary: start)
  case (Suc n)
  show ?case using Suc [of "start + 1"] by auto
qed simp

lemma find_code_least: "start \<le> c \<Longrightarrow> c < find_code cycle t n start \<Longrightarrow> cycle c < t * 100"
proof (induction n arbitrary: start)
  case (Suc n)
  then show ?case using Suc.IH [of "start + 1"] by (cases "c = start") (auto split: if_splits)
qed simp

lemma find_code_found: "find_code cycle t n start < start + int n \<Longrightarrow> t * 100 \<le> cycle (find_code cycle t n start)"
proof (induction n arbitrary: start)
  case (Suc n)
  then show ?case using Suc.IH [of "start + 1"] by auto
qed simp

text \<open>The code for eDRX is one of the 16 codes; all smaller ones stand for a shorter cycle than the requested time, and its
  own cycle is as long as requested if any cycle is.\<close>

lemma edrx_code_least:
  "0 \<le> edrx_code t \<and> edrx_code t \<le> 15 \<and> (\<forall>c. 0 \<le> c \<and> c < edrx_code t \<longrightarrow> modem_get_edrx_multiplier c * 512 < t * 100) \<and>
   (t * 100 \<le> 2048 * 512 \<longrightarrow> t * 100 \<le> modem_get_edrx_multiplier (edrx_code t) * 512)"
proof -
  let ?f = "\<lambda>c. modem_get_edrx_multiplier c * 512"
  have "0 \<le> edrx_code t \<and> edrx_code t \<le> 15" using find_code_range [of 0 ?f t 15] by (simp add: edrx_code_def)
  moreover have "\<forall>c. 0 \<le> c \<and> c < edrx_code t \<longrightarrow> ?f c < t * 100" using find_code_least [of 0 _ ?f t 15] by (auto simp: edrx_code_def)
  moreover have "t * 100 \<le> ?f (edrx_code t)" if "t * 100 \<le> 2048 * 512"
  proof (cases "edrx_code t < 15")
    case True
    then show ?thesis using find_code_found [of ?f t 15 0] by (simp add: edrx_code_def)
  next
    case False
    then have "edrx_code t = 15" using calculation(1) by linarith
    then show ?thesis using that by (simp add: modem_get_edrx_multiplier_def edrx_multiplier_def)
  qed
  ultimately show ?thesis by blast
qed

section \<open>Faults\<close>

text \<open>Which of the faults at the times \<open>ts\<close> reboot the device.\<close>

fun fault_run :: "nat \<Rightarrow> int list \<Rightarrow> fault_state \<Rightarrow> bool list" where
  "fault_run threshold [] f = []"
| "fault_run threshold (t # ts) f = (let (b, f) = nrf_modem_fault_handler threshold t f in b # fault_run threshold ts f)"

definition fault_at :: "int \<Rightarrow> nat \<Rightarrow> fault_state \<Rightarrow> bool" where
  "fault_at t0 k f \<longleftrightarrow> fault_counter1 f = of_nat k \<and> fault_counter2 f = (of_nat k XOR 0xABCDEF) \<and> fault_time1 f = word_of_int t0 \<and>
     fault_time2 f = (word_of_int t0 XOR 0xABCDEF)"

lemma xor_mask: "(w XOR v) XOR v = w" for w v :: "'a :: len word"
  by (simp add: xor.assoc)

text \<open>A state whose copies do not match: every fault reboots.\<close>

lemma fault_mismatch: "fault_counter1 f \<noteq> (fault_counter2 f XOR 0xABCDEF) \<Longrightarrow> fault_run threshold ts f = replicate (length ts) True"
  by (induction ts) (simp_all add: nrf_modem_fault_handler_def)

lemma fault_next:
  assumes "fault_at t0 k f" "0 < k" "k < 2 ^ 32" "0 < threshold" "0 \<le> t0" "t0 < 2 ^ 63" "t \<le> t0 + WEEK_IN_MILLIS"
  shows "nrf_modem_fault_handler threshold t f = (threshold \<le> k,
    if k < threshold then f\<lparr>fault_counter1 := of_nat (Suc k), fault_counter2 := of_nat (Suc k) XOR 0xABCDEF\<rparr> else f\<lparr>fault_counter1 := of_nat (Suc k)\<rparr>)"
proof -
  have "sint (word_of_int t0 :: u64) = t0" using assms(5,6) by (simp add: signed_of_int signed_take_bit_int_eq_self)
  moreover have "unat (of_nat k :: u32) = k" using assms(3) by (simp add: take_bit_nat_eq_self unsigned_of_nat)
  moreover from this assms(2) have "(of_nat k :: u32) \<noteq> 0" by (metis less_numeral_extra(3) unsigned_0)
  ultimately show ?thesis using assms(1,4,7) by (auto simp: nrf_modem_fault_handler_def fault_at_def xor_mask Let_def add.commute)
qed

lemma fault_run_week:
  assumes "fault_at t0 k f" "0 < k" "k + length ts < 2 ^ 32" "0 < threshold" "k \<le> threshold" "0 \<le> t0" "t0 < 2 ^ 63"
    "\<forall>t \<in> set ts. t \<le> t0 + WEEK_IN_MILLIS"
  shows "fault_run threshold ts f = map (\<lambda>i. threshold \<le> i) [k..<k + length ts]"
  using assms
proof (induction ts arbitrary: k f)
  case (Cons t ts)
  have step: "nrf_modem_fault_handler threshold t f = (threshold \<le> k,
    if k < threshold then f\<lparr>fault_counter1 := of_nat (Suc k), fault_counter2 := of_nat (Suc k) XOR 0xABCDEF\<rparr> else f\<lparr>fault_counter1 := of_nat (Suc k)\<rparr>)"
    by (rule fault_next [OF Cons.prems(1)]) (use Cons.prems in simp_all)
  have up: "[k..<Suc (k + length ts)] = k # [Suc k..<Suc (k + length ts)]" by (simp add: upt_conv_Cons del: upt_Suc)
  show ?case
  proof (cases "k < threshold")
    case True
    have "fault_at t0 (Suc k) (f\<lparr>fault_counter1 := of_nat (Suc k), fault_counter2 := of_nat (Suc k) XOR 0xABCDEF\<rparr>)"
      using Cons.prems(1) by (simp add: fault_at_def)
    from Cons.IH [OF this] Cons.prems True show ?thesis by (simp add: step up del: upt_Suc)
  next
    case False
    have "fault_run threshold ts (f\<lparr>fault_counter1 := of_nat (Suc k)\<rparr>) = replicate (length ts) True"
      by (rule fault_mismatch) (use Cons.prems(1) in \<open>simp add: fault_at_def xor_mask\<close>)
    moreover have "map (\<lambda>i. threshold \<le> i) [Suc k..<Suc (k + length ts)] = map (\<lambda>_. True) [Suc k..<Suc (k + length ts)]"
      by (rule map_cong) (use False in \<open>auto simp del: upt_Suc\<close>)
    then have "map (\<lambda>i. threshold \<le> i) [Suc k..<Suc (k + length ts)] = replicate (length ts) True" by (simp add: map_replicate_const del: upt_Suc)
    ultimately show ?thesis using False by (simp add: step up del: upt_Suc)
  qed
qed simp



section \<open>Waiting\<close>

lemma wait_ready_ends:
  assumes "\<forall>k < length ts. n + 1500 * (int k + 1) \<le> wt_now (ts ! k) - start" "timeout_ms < n + 1500 * int (length ts)" "ts \<noteq> []"
  shows "\<exists>r. wait_ready_loop start timeout_ms ts err = Some r"
  using assms
proof (induction ts arbitrary: n err)
  case (Cons t ts)
  have t: "n + 1500 \<le> wt_now t - start" using Cons.prems(1) by force
  have rest: "\<forall>k < length ts. n + 1500 + 1500 * (int k + 1) \<le> wt_now (ts ! k) - start"
  proof (intro allI impI)
    fix k assume "k < length ts"
    then show "n + 1500 + 1500 * (int k + 1) \<le> wt_now (ts ! k) - start" using Cons.prems(1) [rule_format, of "Suc k"] by simp
  qed
  show ?case
  proof (cases "ts = []")
    case True
    then show ?thesis using t Cons.prems(2) by simp
  next
    case False
    then show ?thesis using Cons.IH [OF rest] Cons.prems(2) by simp
  qed
qed simp

text \<open>Waiting for the network ends: each turn takes one and a half seconds, so after enough of them the timeout is over, if
  the modem was not ready or interrupted before.\<close>

lemma wait_ready_terminates:
  assumes "\<forall>k < length turns. start + 1500 * (int k + 1) \<le> wt_now (turns ! k)" "timeout_ms < 1500 * int (length turns)"
    "turns \<noteq> []"
  shows "\<exists>r. modem_wait_ready start timeout_ms first_result turns = Some r"
proof -
  have "\<exists>r. wait_ready_loop start timeout_ms turns err = Some r" for err
    by (rule wait_ready_ends [where n = 0]) (use assms in \<open>auto simp: algebra_simps\<close>)
  then show ?thesis by (simp add: modem_wait_ready_def)
qed

end
