(* ===== verification/Modem_Client.thy ===== *)
theory Modem_Client
  imports Modem_Laws Dtls_Loop
begin

text \<open>
  The modem and the client together: the states that \<open>modem.c\<close> reports with the works of the I/O queue are the ones that
  \<open>dtls_lte_state_handler\<close> of \<open>dtls_client.c\<close> keeps. If the queue is empty when the next event comes, the client knows
  what the modem knows; if not, a work that is still pending is not submitted again, and the client may be left with
  an old state.
\<close>

section \<open>Running the reports\<close>

definition report :: "('s, 'd) net_env \<Rightarrow> modem_job \<Rightarrow> ('s, 'd) dtls_client \<Rightarrow> ('s, 'd) dtls_client" where
  "report env j c = (case j of State_Change t b \<Rightarrow> dtls_lte_state_handler env t b c | _ \<Rightarrow> c)"

text \<open>All works of the I/O queue are run, in their order.\<close>

definition run_reports :: "('s, 'd) net_env \<Rightarrow> modem \<times> ('s, 'd) dtls_client \<Rightarrow> modem \<times> ('s, 'd) dtls_client" where
  "run_reports env mc = (let (m, c) = mc in (m\<lparr>io_queue := []\<rparr>, fold (report env) (io_queue m) c))"

datatype modem_event = Lte_Event int lte_lc_evt | Pdn_Event pdn_event

definition modem_event :: "bool \<Rightarrow> modem_event \<Rightarrow> modem \<Rightarrow> modem" where
  "modem_event on e m = (case e of Lte_Event now evt \<Rightarrow> lte_handler False on now evt m | Pdn_Event evt \<Rightarrow> pdn_handler False on evt m)"

text \<open>Each event is followed by the run of its reports.\<close>

definition event_reported :: "('s, 'd) net_env \<Rightarrow> bool \<Rightarrow> modem_event \<Rightarrow> modem \<times> ('s, 'd) dtls_client \<Rightarrow> modem \<times> ('s, 'd) dtls_client" where
  "event_reported env on e mc = (let (m, c) = mc in run_reports env (modem_event on e m, c))"

section \<open>What a report does to the client\<close>

definition not_rebooting :: "('s, 'd) net_env \<Rightarrow> ('s, 'd) dtls_client \<Rightarrow> bool" where
  "not_rebooting env c \<longleftrightarrow> \<not> cl_reboots (ne_clients env) (clients_state c)"

lemma trigger_keeps_view: "clients_state (dtls_trigger env t f c) = clients_state c"
  "LTE_READY \<in> general_states (dtls_trigger env t f c) \<longleftrightarrow> LTE_READY \<in> general_states c"
  "LTE_CONNECTED \<in> general_states (dtls_trigger env t f c) \<longleftrightarrow> LTE_CONNECTED \<in> general_states c"
  by (simp_all add: dtls_trigger_def Let_def client_defs)

lemma connected_keeps: "clients_state (lte_connected env c) = clients_state c"
  "LTE_READY \<in> general_states (lte_connected env c) \<longleftrightarrow> LTE_READY \<in> general_states c"
  "LTE_CONNECTED \<in> general_states (lte_connected env c) \<longleftrightarrow> LTE_CONNECTED \<in> general_states c"
  by (simp_all add: lte_connected_def Let_def trigger_keeps_view client_defs)

lemma report_not_rebooting: "not_rebooting env (report env j c) = not_rebooting env c"
proof (cases j)
  case (State_Change t b)
  then show ?thesis
    by (cases t) (simp_all add: not_rebooting_def report_def dtls_lte_state_handler_def lte_state_bit_def Dtls_Client.lte_registration_def
        search_event_def emit_def connected_keeps client_defs Let_def)
qed (simp_all add: report_def)

section \<open>The view of the client\<close>

text \<open>The two flags of the client, and what a report does to them.\<close>

definition client_view :: "('s, 'd) dtls_client \<Rightarrow> bool \<times> bool" where
  "client_view c = (LTE_READY \<in> general_states c, LTE_CONNECTED \<in> general_states c)"

definition modem_view :: "modem \<Rightarrow> bool \<times> bool" where
  "modem_view m = (MODEM_READY \<in> modem_states m, MODEM_CONNECTED \<in> modem_states m)"

definition view_step :: "modem_job \<Rightarrow> bool \<times> bool \<Rightarrow> bool \<times> bool" where
  "view_step j v =
     (let (r, k) = v
      in case j of
           State_Change t b \<Rightarrow>
             if t = LTE_STATE_CONNECTED then (r, b)
             else if t = LTE_STATE_READY then (b, k \<and> (b \<or> \<not> r))
             else if t = LTE_STATE_REGISTRATION then (b \<and> r, b \<and> k)
             else (r, k)
         | _ \<Rightarrow> (r, k))"

lemma report_view:
  assumes "not_rebooting env c"
  shows "client_view (report env j c) = view_step j (client_view c)"
proof (cases j)
  case (State_Change t b)
  then show ?thesis using assms
    by (cases t) (auto simp: client_view_def view_step_def not_rebooting_def report_def dtls_lte_state_handler_def lte_state_bit_def
        Dtls_Client.lte_registration_def search_event_def connected_keeps client_defs Let_def)
qed (simp_all add: report_def view_step_def client_view_def)

lemma reports_view: "not_rebooting env c \<Longrightarrow>
  client_view (fold (report env) js c) = fold view_step js (client_view c) \<and> not_rebooting env (fold (report env) js c)"
  by (induction js arbitrary: c) (simp_all add: report_view report_not_rebooting)

section \<open>What the modem reports\<close>

definition fresh :: "modem \<Rightarrow> bool" where
  "fresh m \<longleftrightarrow> (\<forall>b. State_Change LTE_STATE_READY b \<notin> set (io_queue m) \<and> State_Change LTE_STATE_CONNECTED b \<notin> set (io_queue m))"

definition reported :: "bool \<times> bool \<Rightarrow> modem \<Rightarrow> bool" where
  "reported v m \<longleftrightarrow> fold view_step (io_queue m) v = modem_view m"

lemma submit_queue: "io_queue (state_change_callback t b m) =
  (if State_Change t b \<in> set (io_queue m) then io_queue m else io_queue m @ [State_Change t b])"
  by (simp add: state_change_callback_def work_submit_to_io_queue_def)

lemma connection_status_queue:
  assumes "fresh m"
  shows "io_queue (lte_connection_status on m) = io_queue m @
    (if \<not> is_connected (network_info m) \<and> MODEM_CONNECTED \<in> modem_states m then [State_Change LTE_STATE_CONNECTED False] else []) @
    (if (MODEM_READY \<in> modem_states m) \<noteq> is_ready (network_info m) then [State_Change LTE_STATE_READY (is_ready (network_info m))] else []) @
    (if is_connected (network_info m) \<and> MODEM_CONNECTED \<notin> modem_states m then [State_Change LTE_STATE_CONNECTED True] else [])"
proof -
  have drop: "io_queue (drop_connected con m) =
      io_queue m @ (if \<not> con \<and> MODEM_CONNECTED \<in> modem_states m then [State_Change LTE_STATE_CONNECTED False] else [])" for con
    using assms by (simp add: drop_connected_def submit_queue fresh_def)
  have ready: "io_queue (change_ready r m') =
      io_queue m' @ (if (MODEM_READY \<in> modem_states m') \<noteq> r then [State_Change LTE_STATE_READY r] else [])"
    if "\<forall>b. State_Change LTE_STATE_READY b \<notin> set (io_queue m')" for r m'
    using that by (simp add: change_ready_def submit_queue modem_states_changed_def Let_def)
  have get: "io_queue (get_connected on con m') =
      io_queue m' @ (if con \<and> MODEM_CONNECTED \<notin> modem_states m' then [State_Change LTE_STATE_CONNECTED True] else [])"
    if "State_Change LTE_STATE_CONNECTED True \<notin> set (io_queue m')" for con m'
    using that by (simp add: get_connected_def submit_queue Let_def)
  show ?thesis using assms
    by (simp add: lte_connection_status_def Let_def get ready drop fresh_def)
qed

lemma connection_status_reported:
  assumes "fresh m" "reported v m \<or> fold view_step (io_queue m) v = (False, False) \<and> \<not> is_ready (network_info m)"
  shows "reported v (lte_connection_status on m)"
proof -
  have view: "modem_view (lte_connection_status on m) = (is_ready (network_info m), is_connected (network_info m))"
    using connection_status_agrees [of on m] by (simp add: states_agree_def modem_view_def)
  have "is_connected (network_info m) \<Longrightarrow> is_ready (network_info m)" by (simp add: is_connected_def)
  moreover have "fold view_step (io_queue m) v = (MODEM_READY \<in> modem_states m, MODEM_CONNECTED \<in> modem_states m) \<or>
      fold view_step (io_queue m) v = (False, False) \<and> \<not> is_ready (network_info m)"
    using assms(2) by (simp add: reported_def modem_view_def)
  ultimately show ?thesis unfolding reported_def view connection_status_queue [OF assms(1)] by (auto simp: view_step_def)
qed

text \<open>Reports of other states do not matter.\<close>

lemma reported_other:
  assumes "reported v m" "t \<notin> {LTE_STATE_READY, LTE_STATE_CONNECTED, LTE_STATE_REGISTRATION}"
  shows "reported v (state_change_callback t b m)"
  using assms by (simp add: reported_def submit_queue modem_view_def view_step_def split_beta)

lemma reported_cong: "io_queue m' = io_queue m \<Longrightarrow> modem_states m' = modem_states m \<Longrightarrow> reported v m' = reported v m"
  by (simp add: reported_def modem_view_def)

lemma reported_updates [simp]:
  "reported v (on_network f m) = reported v m" "reported v (m\<lparr>rai_time := x\<rparr>) = reported v m"
  "reported v (m\<lparr>phase := p\<rparr>) = reported v m" "reported v (m\<lparr>phase_start_time := x\<rparr>) = reported v m"
  "reported v (m\<lparr>active_time := x\<rparr>) = reported v m" "reported v (m\<lparr>edrx_status := e\<rparr>) = reported v m"
  "reported v (m\<lparr>psm_status := s\<rparr>) = reported v m" "reported v (m\<lparr>psm_signaled := b\<rparr>) = reported v m"
  "reported v (m\<lparr>rai_network_state := r\<rparr>) = reported v m" "reported v (m\<lparr>lte_low_voltage := l\<rparr>) = reported v m"
  "reported v (m\<lparr>lte_cell_updates := l\<rparr>) = reported v m" "reported v (lte_inc_wakeups x m) = reported v m"
  "reported v (lte_add_connected x m) = reported v m" "reported v (lte_add_asleep x m) = reported v m"
  "reported v (lte_inc_psm_delays x m) = reported v m" "reported v (lte_rai b1 b2 m) = reported v m"
  by (rule reported_cong; simp add: on_network_def lte_inc_wakeups_def lte_add_connected_def lte_add_asleep_def lte_inc_psm_delays_def
      lte_rai_def)+

lemma reported_bits [simp]:
  "reported v (set_bits {MODEM_PSM_UPDATE} m) = reported v m" "reported v (set_bits {MODEM_LOW_POWER} m) = reported v m"
  by (simp_all add: reported_def modem_view_def)

lemma reported_sets:
  "reported v m \<Longrightarrow> reported v (lte_network_mode_set mode m)"
  "reported v m \<Longrightarrow> reported v (lte_network_sleeping_set sleep m)"
  "reported v m \<Longrightarrow> reported v (lte_update_cell tac cell m)"
  "reported v m \<Longrightarrow> reported v (modem_set_low_power m)"
  "reported v m \<Longrightarrow> reported v (lte_set_psm_status psm notify m)"
  "reported v m \<Longrightarrow> reported v (lte_neighbor_cell_meas now info m)"
  by (simp_all add: lte_network_mode_set_def lte_network_sleeping_set_def lte_update_cell_def modem_set_low_power_def
      lte_set_psm_status_def reported_other Let_def)
    (simp add: lte_neighbor_cell_meas_def count_meas_def Let_def reported_def modem_view_def split: prod.split)

lemma fresh_updates [simp]: "fresh (lte_inc_wakeups x m) = fresh m" "fresh (m\<lparr>phase := p\<rparr>) = fresh m"
  "fresh (m\<lparr>phase_start_time := x\<rparr>) = fresh m"
  by (simp_all add: fresh_def lte_inc_wakeups_def)

lemma reported_status_sets:
  assumes "reported v m" "fresh m"
  shows "reported v (lte_connection_status_set on con m)" "reported v (lte_pdn_status_set on act m)"
  using assms by (auto simp: lte_connection_status_set_def lte_pdn_status_set_def intro!: connection_status_reported)
    (simp_all add: fresh_def on_network_def)

lemma registration_reported:
  assumes "io_queue m = []" "states_agree m"
  shows "reported (modem_view m) (Modem.lte_registration on now status m)"
proof -
  define reg where "reg = (status = LTE_LC_NW_REG_REGISTERED_HOME \<or> status = LTE_LC_NW_REG_REGISTERED_ROAMING)"
  define m1 where "m1 = state_change_callback LTE_STATE_REGISTRATION reg
      (if status = LTE_LC_NW_REG_SEARCHING then work_submit_to_cmd_queue Read_Sim (lte_start_search now m) else lte_end_search now m)"
  have m1: "io_queue m1 = [State_Change LTE_STATE_REGISTRATION reg]" "network_info m1 = network_info m" "modem_states m1 = modem_states m"
    using assms(1) by (simp_all add: m1_def submit_queue)
  have view: "fold view_step (io_queue m1) (modem_view m) = (if reg then modem_view m else (False, False))"
    by (simp add: m1 view_step_def modem_view_def)
  have r: "Modem.lte_registration on now status m = lte_registration_set on reg m1"
    by (simp add: Modem.lte_registration_def reg_def m1_def Let_def)
  show ?thesis
  proof (cases "registered (network_info m) = network_state reg")
    case True
    then have "modem_view m = (if reg then modem_view m else (False, False))"
      using assms(2) by (auto simp: modem_view_def states_agree_def is_connected_def is_ready_def network_state_def split: if_splits)
    then show ?thesis using True view m1 by (simp add: r lte_registration_set_def reported_def modem_view_def)
  next
    case False
    define m2 where "m2 = (on_network (\<lambda>n. n\<lparr>registered := network_state reg\<rparr>) m1)\<lparr>rai_time := - 1\<rparr>"
    have m2: "io_queue m2 = io_queue m1" "modem_view m2 = modem_view m" "\<not> reg \<Longrightarrow> \<not> is_ready (network_info m2)"
      using m1 by (simp_all add: m2_def on_network_def modem_view_def is_ready_def)
    have "reported (modem_view m) (lte_connection_status on m2)"
      by (rule connection_status_reported) (use m1 m2 view in \<open>auto simp: fresh_def reported_def\<close>)
    then show ?thesis using False m1 by (simp add: r lte_registration_set_def m2_def)
  qed
qed

lemma event_view:
  assumes "io_queue m = []" "states_agree m"
  shows "reported (modem_view m) (modem_event on e m)"
proof -
  have start: "reported (modem_view m) m" "fresh m" using assms(1) by (simp_all add: reported_def fresh_def)
  have rrc: "reported (modem_view m) (rrc_connected on now m)" "reported (modem_view m) (rrc_idle on now m)"
      "reported (modem_view m) (modem_sleep_enter now t m)" for now t
    using start by (simp_all add: rrc_connected_def rrc_idle_def modem_sleep_enter_def Let_def)
      (auto intro!: reported_sets reported_status_sets)
  show ?thesis
  proof (cases e)
    case (Lte_Event now evt)
    then show ?thesis using start rrc registration_reported [OF assms]
      by (cases evt) (simp_all add: modem_event_def lte_handler_def lte_set_edrx_status_def reported_sets)
  next
    case (Pdn_Event evt)
    then show ?thesis using start by (cases evt) (simp_all add: modem_event_def pdn_handler_def reported_status_sets)
  qed
qed

text \<open>C13. When the reports of each event are run before the next event, the client knows what the modem knows: whatever the events
  were, its flags for ready and for connected are those of the modem, and the modem's are what it knows of the network.\<close>

theorem client_knows_modem:
  fixes on :: bool and events :: "modem_event list"
  assumes "states_agree m" "io_queue m = []" "not_rebooting env c" "client_view c = modem_view m"
  defines "mc \<equiv> fold (event_reported env on) events (m, c)"
  shows "client_view (snd mc) = modem_view (fst mc) \<and> states_agree (fst mc)"
proof -
  have "states_agree (fst mc) \<and> io_queue (fst mc) = [] \<and> not_rebooting env (snd mc) \<and> client_view (snd mc) = modem_view (fst mc)"
    using assms(1-4) unfolding mc_def
  proof (induction events arbitrary: m c)
    case (Cons e events)
    have "states_agree (modem_event on e m)"
      using Cons.prems(1) by (cases e) (simp_all add: modem_event_def event_agrees)
    then have "states_agree ((modem_event on e m)\<lparr>io_queue := []\<rparr>)" by (simp add: states_agree_def)
    moreover have "client_view (fold (report env) (io_queue (modem_event on e m)) c) = modem_view ((modem_event on e m)\<lparr>io_queue := []\<rparr>)"
      using reports_view [OF Cons.prems(3), of "io_queue (modem_event on e m)"] event_view [OF Cons.prems(2,1), of on e] Cons.prems(4)
      by (simp add: reported_def modem_view_def)
    ultimately show ?case
      using Cons.IH [of "(modem_event on e m)\<lparr>io_queue := []\<rparr>"] reports_view [OF Cons.prems(3)]
      by (simp add: event_reported_def run_reports_def)
  qed simp
  then show ?thesis by simp
qed

theorem client_knows_modem_witness:
  "let mc = fold (event_reported (sim_net sim_clients) True) [Lte_Event 5 (LTE_LC_EVT_NW_REG_STATUS 1), Pdn_Event PDN_EVENT_ACTIVATED,
       Lte_Event 9 (LTE_LC_EVT_RRC_UPDATE True)] (modem_init_state, (sim_client sim_handler NONE ())\<lparr>general_states := {}\<rparr>)
   in client_view (snd mc) = modem_view (fst mc)"
  using client_knows_modem [of modem_init_state "sim_net sim_clients" "(sim_client sim_handler NONE ())\<lparr>general_states := {}\<rparr>" True
      "[Lte_Event 5 (LTE_LC_EVT_NW_REG_STATUS 1), Pdn_Event PDN_EVENT_ACTIVATED, Lte_Event 9 (LTE_LC_EVT_RRC_UPDATE True)]"]
  by (simp add: states_agree_def modem_init_state_def is_ready_def is_connected_def network_info_init_def not_rebooting_def sim_defs
      client_view_def modem_view_def Let_def)

section \<open>Pending reports\<close>

text \<open>The PDN is activated and deactivated in turn, \<open>n\<close> times, while no report is run.\<close>

definition pdn_turns :: "bool \<Rightarrow> nat \<Rightarrow> modem \<Rightarrow> modem" where
  "pdn_turns on n m = fold (\<lambda>i. modem_event on (Pdn_Event (if even i then PDN_EVENT_ACTIVATED else PDN_EVENT_DEACTIVATED))) [0..<n] m"

definition no_pdn :: "modem \<Rightarrow> bool" where
  "no_pdn m \<longleftrightarrow> states_agree m \<and> registered (network_info m) = LTE_NETWORK_STATE_ON \<and> pdn_active (network_info m) = LTE_NETWORK_STATE_OFF \<and>
     rrc_active (network_info m) = LTE_NETWORK_STATE_OFF \<and> io_queue m = []"

definition ready_reports :: "nat \<Rightarrow> modem_job list" where
  "ready_reports n = (if n = 0 then [] else if n = 1 then [State_Change LTE_STATE_READY True]
     else [State_Change LTE_STATE_READY True, State_Change LTE_STATE_READY False])"

lemma pdn_turns_state:
  assumes "no_pdn m"
  shows "registered (network_info (pdn_turns on n m)) = LTE_NETWORK_STATE_ON \<and> rrc_active (network_info (pdn_turns on n m)) = LTE_NETWORK_STATE_OFF \<and>
    pdn_active (network_info (pdn_turns on n m)) = network_state (odd n) \<and> states_agree (pdn_turns on n m) \<and>
    io_queue (pdn_turns on n m) = ready_reports n"
proof (induction n)
  case 0
  show ?case using assms by (simp add: pdn_turns_def no_pdn_def network_state_def ready_reports_def)
next
  case (Suc n)
  define m1 where "m1 = pdn_turns on n m"
  define m2 where "m2 = on_network (\<lambda>x. x\<lparr>pdn_active := network_state (even n)\<rparr>) m1"
  have "pdn_turns on (Suc n) m = lte_pdn_status_set on (even n) m1"
    by (simp add: pdn_turns_def m1_def modem_event_def pdn_handler_def)
  moreover have "pdn_active (network_info m1) \<noteq> network_state (even n)" using Suc by (auto simp: m1_def network_state_def)
  ultimately have turn: "pdn_turns on (Suc n) m = lte_connection_status on m2" by (simp add: lte_pdn_status_set_def m2_def)
  have m2: "is_ready (network_info m2) \<longleftrightarrow> even n" "\<not> is_connected (network_info m2)" "MODEM_CONNECTED \<notin> modem_states m2"
      "MODEM_READY \<in> modem_states m2 \<longleftrightarrow> odd n" "io_queue m2 = ready_reports n"
    using Suc by (auto simp: m2_def m1_def on_network_def is_ready_def is_connected_def states_agree_def)
  have "io_queue (lte_connection_status on m2) = ready_reports (Suc n)"
    using m2 by (auto simp: lte_connection_status_def get_connected_def change_ready_def drop_connected_def modem_states_changed_def
        submit_queue ready_reports_def Let_def)
  then show ?case using Suc by (simp add: turn connection_status_agrees m2_def m1_def on_network_def)
qed

text \<open>C39. The PDN goes on and off \<open>n\<close> times before the I/O queue runs. A pending report is not submitted again, so the client ends
  with the last state that was reported first: for three, five and so on changes the modem is ready and the client is told
  that it is not.\<close>

theorem pending_reports_stale:
  fixes on :: bool and n :: nat
  assumes "no_pdn m" "not_rebooting env c" "client_view c = (False, False)"
  defines "mc \<equiv> run_reports env (pdn_turns on n m, c)"
  shows "(LTE_READY \<in> general_states (snd mc) \<longleftrightarrow> n = 1) \<and> (MODEM_READY \<in> modem_states (fst mc) \<longleftrightarrow> odd n)"
proof -
  have "client_view (snd mc) = fold view_step (ready_reports n) (False, False)"
    using reports_view [OF assms(2)] pdn_turns_state [OF assms(1), of on n] assms(3) by (simp add: mc_def run_reports_def)
  then have "LTE_READY \<in> general_states (snd mc) \<longleftrightarrow> n = 1"
    by (auto simp: client_view_def ready_reports_def view_step_def split: if_splits)
  moreover have "MODEM_READY \<in> modem_states (fst mc) \<longleftrightarrow> odd n"
    using pdn_turns_state [OF assms(1), of on n] by (simp add: mc_def run_reports_def states_agree_def is_ready_def)
  ultimately show ?thesis by simp
qed

theorem pending_reports_stale_witness:
  "let m = modem_init_state\<lparr>network_info := network_info_init\<lparr>registered := LTE_NETWORK_STATE_ON, pdn_active := LTE_NETWORK_STATE_OFF,
         rrc_active := LTE_NETWORK_STATE_OFF\<rparr>\<rparr>;
       mc = run_reports (sim_net sim_clients) (pdn_turns True 3 m, (sim_client sim_handler NONE ())\<lparr>general_states := {}\<rparr>)
   in LTE_READY \<notin> general_states (snd mc) \<and> MODEM_READY \<in> modem_states (fst mc)"
  using pending_reports_stale [of "modem_init_state\<lparr>network_info := network_info_init\<lparr>registered := LTE_NETWORK_STATE_ON,
      pdn_active := LTE_NETWORK_STATE_OFF, rrc_active := LTE_NETWORK_STATE_OFF\<rparr>\<rparr>" "sim_net sim_clients"
      "(sim_client sim_handler NONE ())\<lparr>general_states := {}\<rparr>" True 3]
  by (simp add: no_pdn_def states_agree_def modem_init_state_def is_ready_def is_connected_def not_rebooting_def sim_defs
      client_view_def Let_def)

end
