(* ===== verification/Modem_Start.thy ===== *)
theory Modem_Start
  imports Modem_Client
begin

text \<open>
  Initialising the modem and connecting it, from \<open>src/src/modem.c\<close>: the AT commands in their order, and what they find out
  about the modem. The configuration is the one of \<open>prj.conf\<close> (PDN, SMS, PSM, AS-RAI, no eDRX, no fixed bands or PLMN, NCS
  2.6.0 or later); what boards may change is in \<open>modem_config\<close>. The state of the SIM card is reset too, see
  \<open>Modem_Sim\<close>. What the hook \<open>modem_on_cfun\<close> does when the modem is switched off and on for a mode is not part of it.
\<close>

section \<open>State\<close>

record lte_modem_info =
  mi_version :: cstring
  mi_firmware :: cstring
  mi_imei :: cstring

record modem_setup =
  modem_info :: lte_modem_info
  lte_initial_config :: int
  lte_initial_mode :: int
  modem_sms_callback_id :: int

record modem_config =
  stationary :: bool
  mixed_antenna :: bool
  mode_preference :: int
  psm_connect_rat :: int

type_synonym ('h, 'w) modem_all = "modem_setup \<times> ('h, 'w) modem_at"

abbreviation (input) MODEM_ID_SIZE :: nat where "MODEM_ID_SIZE \<equiv> 24"

definition modem_info_init :: lte_modem_info where
  "modem_info_init = \<lparr>mi_version = [], mi_firmware = [], mi_imei = []\<rparr>"

definition modem_setup_init :: modem_setup where
  "modem_setup_init = \<lparr>modem_info = modem_info_init, lte_initial_config = 0, lte_initial_mode = LTE_LC_SYSTEM_MODE_LTEM, modem_sms_callback_id = - 1\<rparr>"

section \<open>Commands\<close>

text \<open>Commands whose response is only logged, in their order, each with the text that is skipped.\<close>

definition at_commands :: "'w modem_lib \<Rightarrow> (cstring option \<times> cstring) list \<Rightarrow> ('h, 'w) at_state \<Rightarrow> ('h, 'w) at_state" where
  "at_commands lib cmds a = fold (\<lambda>(skip, cmd) a. snd (modem_at_cmd lib (Some 128) skip cmd a)) cmds a"

text \<open>The identity behind one of two prefixes, cut to its buffer.\<close>

definition strip_prefix :: "cstring \<Rightarrow> cstring \<Rightarrow> cstring \<Rightarrow> cstring" where
  "strip_prefix p1 p2 buf =
     (let index = strstart buf p1 True; index = (if index = 0 then strstart buf p2 True else index)
      in take (MODEM_ID_SIZE - 1) (drop (nat index) buf))"

definition read_modem_info :: "'w modem_lib \<Rightarrow> ('h, 'w) at_state \<Rightarrow> lte_modem_info \<times> ('h, 'w) at_state" where
  "read_modem_info lib a =
     (let info = modem_info_init;
          ((err, buf), a) = modem_at_cmd lib (Some 128) (Some ''%HWVERSION: '') ''AT%HWVERSION'' a;
          info = (if err > 0 then info\<lparr>mi_version := strip_prefix ''nRF9160 SICA '' ''nRF9161 LACA '' (the buf)\<rparr> else info);
          ((err, buf), a) = modem_at_cmd lib (Some 128) None ''AT+CGMR'' a;
          info = (if err > 0 then info\<lparr>mi_firmware := strip_prefix ''mfw_nrf9160_'' ''mfw_nrf91x1_'' (the buf)\<rparr> else info);
          ((err, buf), a) = modem_at_cmd lib (Some 128) None ''AT+CGSN'' a
      in (if err < 0 then info else info\<lparr>mi_imei := take (MODEM_ID_SIZE - 1) (the buf)\<rparr>, a))"

definition firmware_2 :: "lte_modem_info \<Rightarrow> bool" where
  "firmware_2 info \<longleftrightarrow> of_char (c_deref (mi_firmware info)) \<ge> (50 :: nat)"

text \<open>The mode of the network that the buttons at the start force, or the first one again.\<close>

definition init_mode :: "'w modem_lib \<Rightarrow> modem_config \<Rightarrow> int \<Rightarrow> int \<Rightarrow> ('h, 'w) modem_at \<Rightarrow> ('h, 'w) modem_at" where
  "init_mode lib cfg config first_mode ma =
     (let (m, a) = ma; b0 = bit config 0; b1 = bit config 1;
          (m, a) = (if b0 \<and> b1 then (m, at_commands lib [(None, ''AT%XFACTORYRESET=0'')] a)
                    else if b1 then (set_bits {MODEM_LTE_MODE_FORCE} m,
                                     snd (modem_at_system_mode_set lib LTE_LC_SYSTEM_MODE_NBIOT LTE_LC_SYSTEM_MODE_PREFER_NBIOT a))
                    else if b0 then (set_bits {MODEM_LTE_MODE_FORCE} m,
                                     snd (modem_at_system_mode_set lib LTE_LC_SYSTEM_MODE_LTEM LTE_LC_SYSTEM_MODE_PREFER_LTEM a))
                    else (m, a))
      in (m, if MODEM_LTE_MODE_INITIALIZED \<in> modem_states m \<and> MODEM_LTE_MODE_FORCE \<notin> modem_states m
             then snd (modem_at_system_mode_set lib first_mode (mode_preference cfg) a) else a))"

fun is_infix :: "cstring \<Rightarrow> cstring \<Rightarrow> bool" where
  "is_infix t [] = (t = [])"
| "is_infix t (c # cs) = (take (length t) (c # cs) = t \<or> is_infix t cs)"

definition init_features :: "'w modem_lib \<Rightarrow> modem_config \<Rightarrow> bool \<Rightarrow> ('h, 'w) at_state \<Rightarrow> ('h, 'w) at_state" where
  "init_features lib cfg fw2 a =
     (if fw2
      then (let ((err, buf), a) = modem_at_cmd lib (Some 128) (Some ''%FEACONF: '') ''AT%FEACONF=2'' a;
                features = (if err > 0 then take 29 (the buf) else []);
                a = at_commands lib [(None, ''AT%FEACONF=0,1,0''), (Some ''%FEACONF: '', ''AT%FEACONF=1,1'')] a;
                a = (if is_infix ''3,'' features
                     then at_commands lib [(None, ''AT%FEACONF=0,3,0''), (Some ''%FEACONF: '', ''AT%FEACONF=1,3'')] a else a)
            in at_commands lib [(None, if mixed_antenna cfg then ''AT%XANTCFG=1'' else ''AT%XANTCFG=0'')] a)
      else at_commands lib [(None, ''AT%REL14FEAT=0,1,0,0,0''), (Some ''%REL14FEAT: '', ''AT%REL14FEAT?'')] a)"

definition init_psm :: "'w modem_lib \<Rightarrow> modem_config \<Rightarrow> ('h, 'w) modem_at \<Rightarrow> ('h, 'w) modem_at" where
  "init_psm lib cfg ma =
     (let (err, m, a) = modem_set_psm lib (psm_connect_rat cfg) ma
      in (m, if err \<noteq> 0 then a else at_commands lib [(Some ''+CPSMS: '', ''AT+CPSMS?'')] a))"

definition init_rai :: "'w modem_lib \<Rightarrow> bool \<Rightarrow> ('h, 'w) at_state \<Rightarrow> ('h, 'w) at_state" where
  "init_rai lib fw2 a =
     (let a = (if fw2 then a else at_commands lib [(Some ''%XRAI: '', ''AT%XRAI=0'')] a)
      in snd (modem_at_cmdf lib (Some 128) (Some ''%RAI: '') (''AT%RAI='' @ fmt_int (if fw2 then 2 else 1)) a))"

definition init_power :: "'w modem_lib \<Rightarrow> modem_config \<Rightarrow> ('h, 'w) at_state \<Rightarrow> ('h, 'w) at_state" where
  "init_power lib cfg a =
     at_commands lib
       [(None, if stationary cfg then ''AT%REDMOB=1'' else ''AT%REDMOB=2''),
        (None, if stationary cfg then ''AT%XDATAPRFL=0'' else ''AT%XDATAPRFL=2''),
        (Some ''%XDATAPRFL: '', ''AT%XDATAPRFL?''),
        (None, ''AT%PERIODICSEARCHCONF=0,0,1,1,'' @ [CHR 0x22] @ ''1,300,600,1200,3600,7200'' @ [CHR 0x22]),
        (Some ''%PERIODICSEARCHCONF: '', ''AT%PERIODICSEARCHCONF=1''),
        (None, ''AT+SSRDA=1,1,5'')] (snd (modem_at_edrx_req lib False a))"

definition init_sms :: "'w modem_lib \<Rightarrow> modem_setup \<Rightarrow> ('h, 'w) at_state \<Rightarrow> int \<times> modem_setup \<times> ('h, 'w) at_state" where
  "init_sms lib su a =
     (let listening = (modem_sms_callback_id su \<ge> 0);
          w = (if listening then sms_unregister_listener lib (modem_sms_callback_id su) (at_world a) else at_world a);
          su = (if listening then su\<lparr>modem_sms_callback_id := - 1\<rparr> else su);
          (err, w) = sms_register_listener lib w
      in (err, if err < 0 then su else su\<lparr>modem_sms_callback_id := err\<rparr>, a\<lparr>at_world := w\<rparr>))"

section \<open>Initialisation\<close>

text \<open>Nothing is known of the modem; the bit for ready is cleared without a report, and reports that wait are cancelled.\<close>

definition init_forget :: "modem \<Rightarrow> modem" where
  "init_forget m =
     clear_bits {MODEM_SIGNAL_READY, MODEM_READY} ((modem_cancel_all_job m)\<lparr>network_info := network_info_init, rai_time := - 1,
       rai_network_state := LTE_NETWORK_RAI_UNKNOWN\<rparr>)"

definition modem_init ::
  "'w modem_lib \<Rightarrow> modem_config \<Rightarrow> 'st settings \<Rightarrow> int \<Rightarrow> ('h, 'w) modem_all \<Rightarrow> int \<times> ('h, 'w) modem_all" where
  "modem_init lib cfg st config s =
     (let (su, m, a) = s
      in if MODEM_INITIALIZED \<in> modem_states m then (0, s)
         else (let m = init_forget (set_bits {MODEM_INITIALIZED} m);
                   a = (if MODEM_LIB_INITIALIZED \<notin> modem_states m then a\<lparr>at_world := nrf_modem_lib_init lib (at_world a)\<rparr> else a);
                   m = set_bits {MODEM_LIB_INITIALIZED} m;
                   (info, a) = read_modem_info lib a; fw2 = firmware_2 info;
                   su = su\<lparr>modem_info := info, lte_initial_config := config\<rparr>;
                   m = (if fw2 then set_bits {MODEM_FIRMWARE_2} m else clear_bits {MODEM_FIRMWARE_2} m);
                   (m, a) = init_mode lib cfg config (lte_initial_mode su) (m, a);
                   a = init_features lib cfg fw2 a;
                   a = at_commands lib [(None, ''AT%XCONNSTAT=1''), (Some ''%XBANDLOCK: '', ''AT%XBANDLOCK?''), (None, ''AT+COPS=0'')] a;
                   m = on_network (\<lambda>n. n\<lparr>plmn_lock := LTE_NETWORK_STATE_OFF\<rparr>) m;
                   (m, a) = init_psm lib cfg (m, a);
                   a = modem_apply_apn lib st (init_power lib cfg (init_rai lib fw2 a));
                   (err, su, a) = init_sms lib su a;
                   (_, m, a) = modem_set_preference lib (mode_preference cfg) RESET_PREFERENCE (m, a)
               in (err, su, m, a)))"

definition modem_reinit ::
  "'w modem_lib \<Rightarrow> modem_config \<Rightarrow> 'st settings \<Rightarrow> bool \<Rightarrow> ('h, 'w) modem_all \<Rightarrow> int \<times> ('h, 'w) modem_all" where
  "modem_reinit lib cfg st with_lib s =
     (let (su, m, a) = s; m = clear_bits {MODEM_INITIALIZED} m;
          (m, a) = (if with_lib \<and> MODEM_LIB_INITIALIZED \<in> modem_states m
                    then (clear_bits {MODEM_LIB_INITIALIZED} m, a\<lparr>at_world := nrf_modem_lib_shutdown lib (at_world a)\<rparr>) else (m, a))
      in modem_init lib cfg st (lte_initial_config su) (su, m, a))"

definition modem_connect :: "'w modem_lib \<Rightarrow> ('h, 'w) modem_all \<Rightarrow> int \<times> ('h, 'w) modem_all" where
  "modem_connect lib s =
     (let (su, m, a) = s; (err, w) = lte_lc_connect_async lib (at_world a); a = a\<lparr>at_world := w\<rparr>;
          err = (if err = - EINPROGRESS then 0 else err)
      in if err \<noteq> 0 then (err, su, m, a)
         else (let (r, a) = modem_at_system_mode_get lib a
               in case r of
                    Inl _ \<Rightarrow> (0, su, m, a)
                  | Inr (lte_mode, _) \<Rightarrow>
                      (0, if MODEM_LTE_MODE_INITIALIZED \<notin> modem_states m then su\<lparr>lte_initial_mode := lte_mode\<rparr> else su,
                       set_bits {MODEM_LTE_MODE_INITIALIZED} m, a)))"

section \<open>Initialisation and the client\<close>

text \<open>Nothing in the initialisation reports a state, or sets the bit for ready.\<close>

definition silent :: "modem \<Rightarrow> bool" where
  "silent m \<longleftrightarrow> MODEM_READY \<notin> modem_states m \<and> (\<forall>t b. State_Change t b \<notin> set (io_queue m))"

lemma silent_forget: "silent (init_forget m)"
  by (auto simp: silent_def init_forget_def modem_cancel_all_job_def)

lemma silent_updates [simp]:
  "MODEM_READY \<notin> bs \<Longrightarrow> silent m \<Longrightarrow> silent (set_bits bs m)" "silent m \<Longrightarrow> silent (clear_bits bs m)"
  "silent m \<Longrightarrow> silent (on_network f m)" "silent m \<Longrightarrow> silent (m\<lparr>psm_rat := r\<rparr>)"
  by (simp_all add: silent_def on_network_def)

lemma silent_mode: "silent m \<Longrightarrow> init_mode lib cfg config mode (m, a) = (m', a') \<Longrightarrow> silent m'"
  by (auto simp: init_mode_def Let_def split: if_splits)

lemma silent_psm: "silent m \<Longrightarrow> init_psm lib cfg (m, a) = (m', a') \<Longrightarrow> silent m'"
  by (auto simp: init_psm_def modem_set_psm_def Let_def split: if_splits prod.splits)

lemma silent_preference: "silent m \<Longrightarrow> modem_set_preference lib cfg mode (m, a) = (b, m', a') \<Longrightarrow> silent m'"
  by (auto simp: modem_set_preference_def Let_def split: if_splits prod.splits sum.splits)

lemma init_silent:
  assumes "MODEM_INITIALIZED \<notin> modem_states m" "modem_init lib cfg st config (su, m, a) = (err, su', m', a')"
  shows "silent m'"
proof -
  define m0 where "m0 = init_forget (set_bits {MODEM_INITIALIZED} m)"
  define a0 where "a0 = (if MODEM_LIB_INITIALIZED \<notin> modem_states m0 then a\<lparr>at_world := nrf_modem_lib_init lib (at_world a)\<rparr> else a)"
  obtain info a1 where info: "read_modem_info lib a0 = (info, a1)" by fastforce
  define m1 where "m1 = (if firmware_2 info then set_bits {MODEM_FIRMWARE_2} (set_bits {MODEM_LIB_INITIALIZED} m0)
    else clear_bits {MODEM_FIRMWARE_2} (set_bits {MODEM_LIB_INITIALIZED} m0))"
  obtain m2 a2 where mode: "init_mode lib cfg config (lte_initial_mode (su\<lparr>modem_info := info, lte_initial_config := config\<rparr>)) (m1, a1) = (m2, a2)"
    by fastforce
  define a3 where "a3 = at_commands lib [(None, ''AT%XCONNSTAT=1''), (Some ''%XBANDLOCK: '', ''AT%XBANDLOCK?''), (None, ''AT+COPS=0'')]
    (init_features lib cfg (firmware_2 info) a2)"
  define m3 where "m3 = on_network (\<lambda>n. n\<lparr>plmn_lock := LTE_NETWORK_STATE_OFF\<rparr>) m2"
  obtain m4 a4 where psm: "init_psm lib cfg (m3, a3) = (m4, a4)" by fastforce
  define a5 where "a5 = modem_apply_apn lib st (init_power lib cfg (init_rai lib (firmware_2 info) a4))"
  obtain e5 su5 a6 where sms: "init_sms lib (su\<lparr>modem_info := info, lte_initial_config := config\<rparr>) a5 = (e5, su5, a6)" by (metis prod_cases3)
  obtain b m6 a7 where pref: "modem_set_preference lib (mode_preference cfg) RESET_PREFERENCE (m4, a6) = (b, m6, a7)" by (metis prod_cases3)
  have "modem_init lib cfg st config (su, m, a) = (e5, su5, m6, a7)"
    using assms(1) unfolding modem_init_def Let_def
    by (simp only: prod.case if_False m0_def [symmetric] a0_def [symmetric] info m1_def [symmetric] mode
        a3_def [symmetric] m3_def [symmetric] psm a5_def [symmetric] sms pref)
  moreover have "silent m0" "silent m1" by (simp_all add: m0_def m1_def silent_forget)
  then have "silent m2" using silent_mode [OF _ mode] by blast
  then have "silent m4" using silent_psm [OF _ psm] by (simp add: m3_def)
  then have "silent m6" by (rule silent_preference [OF _ pref])
  ultimately show ?thesis using assms(2) by simp
qed

text \<open>Initialising a ready modem again forgets that it is ready, with all reports that wait: the client is not told and goes on
  with a modem that is not ready.\<close>

lemma init_not_reported:
  assumes "MODEM_INITIALIZED \<notin> modem_states m" "modem_init lib cfg st config (su, m, a) = (err, su', m', a')" "LTE_READY \<in> general_states c"
  shows "MODEM_READY \<notin> modem_states m' \<and> LTE_READY \<in> general_states (snd (run_reports env (m', c)))"
proof -
  have quiet: "fold (report env) js c = c" if "\<forall>t b. State_Change t b \<notin> set js" for js
    using that by (induction js) (auto simp: report_def split: modem_job.splits)
  show ?thesis using init_silent [OF assms(1,2)] assms(3) quiet [of "io_queue m'"] by (simp add: silent_def run_reports_def)
qed

definition sim_config :: modem_config where
  "sim_config = \<lparr>stationary = False, mixed_antenna = False, mode_preference = 0, psm_connect_rat = 16\<rparr>"

end
