(* ===== verification/Modem_Cmd.thy ===== *)
theory Modem_Cmd
  imports Modem_Start Sh_Cmd
begin

text \<open>
  The commands of \<open>src/src/modem_cmd.c\<close>: what each does with its parameter, the modem, the settings and the shell, and the
  result it returns. What is only logged is left out, the text of \<open>edrx\<close> and the list of bands apart. A number of
  \<open>sscanf\<close> is read as \<open>strtol\<close> reads it.
\<close>

section \<open>State\<close>

text \<open>The handlers of late responses.\<close>

datatype cmd_handler = Cmd_Resp_Callback | Cmd_Resp_Callback_Send

record ('w, 'st) modem_cmd =
  mc_all :: "(cmd_handler, 'w) modem_all"
  mc_settings :: "'st settings"
  mc_shell :: shell
  scan_search_type :: int
  scan_gci_count :: int
  power_indication :: int

record ('w, 'st) cmd_env =
  ce_lib :: "'w modem_lib"
  ce_config :: modem_config
  ce_zephyr :: "'st zephyr_settings"
  ce_settings :: settings_env
  ce_sh :: sh_env
  ce_ticks_5s :: nat
  ce_psm_parse :: "cstring \<Rightarrow> cstring \<Rightarrow> cstring \<Rightarrow> int + lte_lc_psm_cfg"
  ce_now :: int
  ce_use_connect :: bool

abbreviation (input) ETIME :: int where "ETIME \<equiv> 62"
abbreviation (input) LTE_LC_NEIGHBOR_SEARCH_TYPE_GCI_DEFAULT :: int where "LTE_LC_NEIGHBOR_SEARCH_TYPE_GCI_DEFAULT \<equiv> 4"

definition mc_at :: "('w, 'st) modem_cmd \<Rightarrow> (cmd_handler, 'w) at_state" where
  "mc_at s = snd (snd (mc_all s))"

definition mc_modem :: "('w, 'st) modem_cmd \<Rightarrow> modem" where
  "mc_modem s = fst (snd (mc_all s))"

definition set_at :: "(cmd_handler, 'w) at_state \<Rightarrow> ('w, 'st) modem_cmd \<Rightarrow> ('w, 'st) modem_cmd" where
  "set_at a s = s\<lparr>mc_all := (fst (mc_all s), mc_modem s, a)\<rparr>"

definition set_modem :: "modem \<Rightarrow> ('w, 'st) modem_cmd \<Rightarrow> ('w, 'st) modem_cmd" where
  "set_modem m s = s\<lparr>mc_all := (fst (mc_all s), m, mc_at s)\<rparr>"

text \<open>An operation on the AT interface, or on both.\<close>

definition with_at :: "((cmd_handler, 'w) at_state \<Rightarrow> 'r \<times> (cmd_handler, 'w) at_state) \<Rightarrow> ('w, 'st) modem_cmd \<Rightarrow> 'r \<times> ('w, 'st) modem_cmd" where
  "with_at f s = (let (r, a) = f (mc_at s) in (r, set_at a s))"

definition with_both :: "((cmd_handler, 'w) modem_at \<Rightarrow> 'r \<times> (cmd_handler, 'w) modem_at) \<Rightarrow> ('w, 'st) modem_cmd \<Rightarrow> 'r \<times> ('w, 'st) modem_cmd" where
  "with_both f s = (let (r, m, a) = f (snd (mc_all s)) in (r, s\<lparr>mc_all := (fst (mc_all s), m, a)\<rparr>))"

definition cmd_inactive :: "('w, 'st) cmd_env \<Rightarrow> ('w, 'st) modem_cmd \<Rightarrow> ('w, 'st) modem_cmd" where
  "cmd_inactive env s = s\<lparr>mc_shell := sh_app_set_inactive (ce_sh env) (ce_ticks_5s env) (mc_shell s)\<rparr>"

text \<open>The modem is off while \<open>f\<close> runs, which is skipped when it cannot be switched off.\<close>

definition while_off :: "('w, 'st) cmd_env \<Rightarrow> (('w, 'st) modem_cmd \<Rightarrow> ('w, 'st) modem_cmd) \<Rightarrow> ('w, 'st) modem_cmd \<Rightarrow> bool \<times> ('w, 'st) modem_cmd" where
  "while_off env f s =
     (let (off, s) = with_at (modem_at_push_off (ce_lib env)) s
      in if off = 0 then (True, snd (with_at (modem_at_restore (ce_lib env)) (f s))) else (False, s))"

definition psm_for_connect :: "('w, 'st) cmd_env \<Rightarrow> ('w, 'st) modem_cmd \<Rightarrow> ('w, 'st) modem_cmd" where
  "psm_for_connect env s = snd (with_both (modem_set_psm_for_connect (ce_lib env) (psm_connect_rat (ce_config env))) s)"

text \<open>The result of \<open>sscanf\<close> for one number: 1, 0, or -1 for an empty text, with the number.\<close>

definition scan_unsigned :: "cstring \<Rightarrow> int \<times> u32" where
  "scan_unsigned t = (let (v, k) = strtol t 10 in (if k > 0 then 1 else if list_all isspace t then - 1 else 0, word_of_int v))"

definition next_value :: "nat \<Rightarrow> cstring \<Rightarrow> cstring \<times> cstring" where
  "next_value sz cur = (let (cur, v) = parse_next_text cur (CHR '' '') (Some sz) in (cur, the v))"

section \<open>Late responses\<close>

text \<open>\<open>alloc\<close> tells whether the heap has room; the work that waits for the ready modem has the number 0.\<close>

definition modem_send_on_ready_work_fn :: "bool \<Rightarrow> ('w, 'st) modem_cmd \<Rightarrow> ('w, 'st) modem_cmd" where
  "modem_send_on_ready_work_fn alloc s = s\<lparr>mc_shell := snd (sh_cmd_append alloc ''send'' 1000 (mc_shell s))\<rparr>"

definition send_on_ready :: "('w, 'st) modem_cmd \<Rightarrow> ('w, 'st) modem_cmd" where
  "send_on_ready s = set_modem (snd (modem_on_ready 0 (mc_modem s))) s"

definition cmd_resp_callback :: "('w, 'st) cmd_env \<Rightarrow> ('w, 'st) modem_cmd \<Rightarrow> ('w, 'st) modem_cmd" where
  "cmd_resp_callback env s = s\<lparr>mc_shell := sh_cmd_at_finish (ce_sh env) (mc_shell s)\<rparr>"

definition cmd_resp_callback_send :: "('w, 'st) cmd_env \<Rightarrow> cstring \<Rightarrow> ('w, 'st) modem_cmd \<Rightarrow> ('w, 'st) modem_cmd" where
  "cmd_resp_callback_send env at_response s =
     (let s = s\<lparr>mc_shell := sh_cmd_at_finish (ce_sh env) (mc_shell s)\<rparr>
      in if take 2 at_response = ''OK'' then send_on_ready s else s)"

definition cmd_response :: "('w, 'st) cmd_env \<Rightarrow> cstring \<Rightarrow> ('w, 'st) modem_cmd \<Rightarrow> ('w, 'st) modem_cmd" where
  "cmd_response env response s =
     (let (h, s) = with_at (modem_at_cmd_async_response_handler response) s
      in case h of
           None \<Rightarrow> s
         | Some (Cmd_Resp_Callback, _) \<Rightarrow> cmd_resp_callback env s
         | Some (Cmd_Resp_Callback_Send, t) \<Rightarrow> cmd_resp_callback_send env t s)"

section \<open>Configuration and connection\<close>

definition modem_is_plmn :: "cstring \<Rightarrow> bool" where
  "modem_is_plmn value \<longleftrightarrow> list_all (is_digit_in 10) value \<and> 5 \<le> length value \<and> length value \<le> 6"

definition cmd_reinit :: "('w, 'st) cmd_env \<Rightarrow> bool \<Rightarrow> ('w, 'st) modem_cmd \<Rightarrow> int \<times> ('w, 'st) modem_cmd" where
  "cmd_reinit env with_lib s =
     (let is_on = modem_at_is_on (mc_at s);
          (_, s) = while_off env (\<lambda>s. s\<lparr>mc_all := snd (modem_reinit (ce_lib env) (ce_config env) (mc_settings s) with_lib (mc_all s))\<rparr>) s
      in (0, if is_on then send_on_ready (cmd_inactive env s) else s))"

definition modem_cmd_reinit :: "('w, 'st) cmd_env \<Rightarrow> cstring \<Rightarrow> ('w, 'st) modem_cmd \<Rightarrow> int \<times> ('w, 'st) modem_cmd" where
  "modem_cmd_reinit env config s = cmd_reinit env True s"

definition gps_mode :: "int \<Rightarrow> bool" where
  "gps_mode m \<longleftrightarrow> m = LTE_LC_SYSTEM_MODE_LTEM_NBIOT_GPS \<or> m = LTE_LC_SYSTEM_MODE_LTEM_GPS \<or> m = LTE_LC_SYSTEM_MODE_NBIOT_GPS"

text \<open>The mode and the preference that two texts ask for.\<close>

definition new_mode :: "cstring \<Rightarrow> cstring \<Rightarrow> int \<times> int \<Rightarrow> int \<times> int" where
  "new_mode value2 value3 old =
     (let gps = gps_mode (fst old);
          both = (if gps then LTE_LC_SYSTEM_MODE_LTEM_NBIOT_GPS else LTE_LC_SYSTEM_MODE_LTEM_NBIOT)
      in if stricmp ''auto'' value2 = 0 then (both, LTE_LC_SYSTEM_MODE_PREFER_AUTO)
         else if stricmp ''nb'' value2 = 0
         then (if stricmp ''m1'' value3 = 0 then (both, LTE_LC_SYSTEM_MODE_PREFER_NBIOT)
               else (if gps then LTE_LC_SYSTEM_MODE_NBIOT_GPS else LTE_LC_SYSTEM_MODE_NBIOT, LTE_LC_SYSTEM_MODE_PREFER_AUTO))
         else if stricmp ''m1'' value2 = 0
         then (if stricmp ''nb'' value3 = 0 then (both, LTE_LC_SYSTEM_MODE_PREFER_LTEM)
               else (if gps then LTE_LC_SYSTEM_MODE_LTEM_GPS else LTE_LC_SYSTEM_MODE_LTEM, LTE_LC_SYSTEM_MODE_PREFER_AUTO))
         else old)"

definition config_valid :: "cstring \<Rightarrow> cstring \<Rightarrow> cstring \<Rightarrow> bool" where
  "config_valid value1 value2 value3 \<longleftrightarrow>
     (stricmp ''auto'' value1 = 0 \<or> modem_is_plmn value1) \<and>
     (value2 = [] \<or> stricmp ''nb'' value2 = 0 \<or> stricmp ''m1'' value2 = 0 \<or> stricmp ''auto'' value2 = 0) \<and>
     (value3 = [] \<or> stricmp ''nb'' value3 = 0 \<or> stricmp ''m1'' value3 = 0) \<and>
     \<not> (stricmp ''auto'' value2 = 0 \<and> value3 \<noteq> [])"

text \<open>The mode is switched while the modem is off; if it cannot be switched off, the result is still success.\<close>

definition config_mode :: "('w, 'st) cmd_env \<Rightarrow> cstring \<Rightarrow> cstring \<Rightarrow> ('w, 'st) modem_cmd \<Rightarrow> int \<times> ('w, 'st) modem_cmd" where
  "config_mode env value2 value3 s =
     (let lib = ce_lib env; (r, s) = with_at (modem_at_system_mode_get lib) s
      in case r of
           Inl res \<Rightarrow> (res, s)
         | Inr old \<Rightarrow>
             (let (mode, preference) = new_mode value2 value3 old
              in if (mode, preference) = old then (0, s)
                 else (let (off, s) = with_at (modem_at_push_off lib) s
                       in if off \<noteq> 0 then (0, s)
                          else (let (res, s) = with_at (modem_at_system_mode_set lib mode preference) s;
                                    (_, s) = with_both (modem_set_preference lib (mode_preference (ce_config env)) RESET_PREFERENCE) s;
                                    s = psm_for_connect env s;
                                    (_, s) = with_at (modem_at_restore lib) s
                                in (if res = 0 then 0 else if res < 0 then res else - EINVAL, s)))))"

definition cmd_handler_for :: "('w, 'st) modem_cmd \<Rightarrow> cmd_handler" where
  "cmd_handler_for s = (if modem_at_is_on (mc_at s) then Cmd_Resp_Callback_Send else Cmd_Resp_Callback)"

text \<open>The operator is chosen, automatically or with its PLMN and \<open>act\<close>.\<close>

definition select_operator :: "('w, 'st) cmd_env \<Rightarrow> cmd_handler \<Rightarrow> cstring \<Rightarrow> cstring \<Rightarrow> ('w, 'st) modem_cmd \<Rightarrow> int \<times> ('w, 'st) modem_cmd" where
  "select_operator env h plmn act s =
     (let auto = (stricmp ''auto'' plmn = 0);
          (res, s) = with_at (if auto then Modem_At.modem_at_cmd_async (ce_lib env) h (Some ''+COPS: '') ''AT+COPS=0''
                              else modem_at_cmdf_async (ce_lib env) h (Some ''+COPS: '')
                                     (''AT+COPS=1,2,'' @ [CHR 0x22] @ plmn @ [CHR 0x22] @ act)) s
      in if res < 0 then (res, s) else (0, set_modem (modem_lock_plmn (\<not> auto) (mc_modem s)) s))"

definition modem_cmd_config :: "('w, 'st) cmd_env \<Rightarrow> cstring \<Rightarrow> ('w, 'st) modem_cmd \<Rightarrow> int \<times> ('w, 'st) modem_cmd" where
  "modem_cmd_config env config s =
     (let h = cmd_handler_for s;
          (cur, value1) = next_value 8 config; (cur, value2) = next_value 6 cur; (cur, value3) = next_value 4 cur
      in if value1 = []
         then (let (r, s) = with_at (modem_at_system_mode_get (ce_lib env)) s
               in case r of
                    Inl res \<Rightarrow> (res, s)
                  | Inr _ \<Rightarrow> (0, snd (with_at (modem_at_cmd (ce_lib env) (Some 32) (Some ''+COPS: '') ''AT+COPS?'') s)))
         else if stricmp ''init'' value1 = 0
         then (if value2 \<noteq> [] then (- EINVAL, s) else cmd_reinit env False s)
         else if \<not> config_valid value1 value2 value3 then (- EINVAL, s)
         else (let (res, s) = (if value2 \<noteq> [] then config_mode env value2 value3 s else (0, s))
               in if res \<noteq> 0 then (res, s) else select_operator env h value1 [] s))"

definition modem_cmd_connect :: "('w, 'st) cmd_env \<Rightarrow> cstring \<Rightarrow> ('w, 'st) modem_cmd \<Rightarrow> int \<times> ('w, 'st) modem_cmd" where
  "modem_cmd_connect env config s =
     (let h = cmd_handler_for s; (cur, value1) = next_value 8 config; (cur, value2) = next_value 4 cur
      in if value1 = [] then (0, snd (with_at (modem_at_cmd (ce_lib env) (Some 32) (Some ''+COPS: '') ''AT+COPS?'') s))
         else if stricmp ''auto'' value1 = 0
         then (if value2 \<noteq> [] then (- EINVAL, s) else select_operator env h value1 [] s)
         else if \<not> modem_is_plmn value1 then (- EINVAL, s)
         else if value2 = [] then select_operator env h value1 [] s
         else if stricmp ''nb'' value2 = 0 then select_operator env h value1 '',9'' s
         else if stricmp ''m1'' value2 = 0 then select_operator env h value1 '',7'' s
         else (- EINVAL, s))"

section \<open>APN\<close>

definition modem_cmd_apn :: "('w, 'st) cmd_env \<Rightarrow> cstring \<Rightarrow> ('w, 'st) modem_cmd \<Rightarrow> int \<times> ('w, 'st) modem_cmd" where
  "modem_cmd_apn env config s =
     (let (off, len) = strtrim config; v = text_bytes (take len (drop (nat off) config))
      in if len = 0 then (0, s)
         else (let (res, st) = settings_runtime_set (ce_zephyr env) (ce_settings env) ''csrv/apn'' v (mc_settings s);
                   (res, st) = (if res = 0 then settings_save_one (ce_zephyr env) ''csrv/apn'' v st else (res, st));
                   s = s\<lparr>mc_settings := st\<rparr>
               in (res, if res \<noteq> 0 then s else snd (while_off env (\<lambda>s. cmd_inactive env (psm_for_connect env s)) s))))"

definition modem_cmd_apnclr :: "('w, 'st) cmd_env \<Rightarrow> ('w, 'st) modem_cmd \<Rightarrow> int \<times> ('w, 'st) modem_cmd" where
  "modem_cmd_apnclr env s =
     (let (res, st) = settings_delete (ce_zephyr env) ''csrv/apn'' (mc_settings s);
          (_, st) = settings_runtime_set (ce_zephyr env) (ce_settings env) ''csrv/apn'' [] st; s = s\<lparr>mc_settings := st\<rparr>
      in (res, if res \<noteq> 0 then s else snd (while_off env (\<lambda>s. cmd_inactive env (psm_for_connect env s)) s)))"

section \<open>Scans\<close>

text \<open>The type is kept also when the count is refused.\<close>

definition scan_params :: "cstring \<Rightarrow> ('w, 'st) modem_cmd \<Rightarrow> int \<times> ('w, 'st) modem_cmd" where
  "scan_params config s =
     (if config = [] then (0, s)
      else (let (type, k) = strtol config 10; rest = drop k config
            in if k = 0 \<or> type < 0 \<or> type > 5 then (- EINVAL, s)
               else (let s = s\<lparr>scan_search_type := type + 1\<rparr>
                     in if c_deref rest = CHR '','' \<or> c_deref rest = CHR '' ''
                        then (let count = fst (strtol (tl rest) 10)
                              in if count < 2 \<or> count > 15 then (- EINVAL, s) else (0, s\<lparr>scan_gci_count := count\<rparr>))
                        else (0, s))))"

definition modem_cmd_scan :: "('w, 'st) cmd_env \<Rightarrow> cstring \<Rightarrow> ('w, 'st) modem_cmd \<Rightarrow> int \<times> ('w, 'st) modem_cmd" where
  "modem_cmd_scan env config s =
     (let (res, s) = scan_params config s
      in if res < 0 then (res, s)
         else (let s = set_modem (modem_set_scan_time (ce_now env) (mc_modem s)) s;
                   (res, s) = with_at (\<lambda>a. modem_at_lock (at_free (ce_lib env) (at_world a)) a) s
               in if res \<noteq> 0 then (res, s)
                  else with_at (\<lambda>a. let (res, w) = lte_lc_neighbor_cell_measurement (ce_lib env) (scan_search_type s) (scan_gci_count s) (at_world a)
                                    in (res, modem_at_unlock (a\<lparr>at_world := w\<rparr>))) s))"

text \<open>Polling once per second: what is left of the timeout when the condition is seen, with \<open>seen i\<close> for the \<open>i\<close>th time.\<close>

fun poll :: "(nat \<Rightarrow> bool) \<Rightarrow> nat \<Rightarrow> nat" where
  "poll seen 0 = 0"
| "poll seen (Suc n) = (if seen 0 then Suc n else poll (\<lambda>i. seen (Suc i)) n)"

definition modem_wait_sleeping :: "(nat \<Rightarrow> modem) \<Rightarrow> nat \<Rightarrow> nat" where
  "modem_wait_sleeping modems secs = poll (\<lambda>i. modem_get_power_state (modems i) = Inr LTE_POWER_STATE_SLEEPING) secs"

definition modem_wait_scan_result :: "(nat \<Rightarrow> modem) \<Rightarrow> nat \<Rightarrow> nat" where
  "modem_wait_scan_result modems secs = poll (\<lambda>i. modem_get_last_neighbor_cell_meas 2 (modems i) \<noteq> []) secs"

text \<open>\<open>modems1\<close> and \<open>modems2\<close> are the states of the modem that are seen while waiting for sleep and for the result, the last
  of them is where the modem went.\<close>

definition modem_cmd_rscan ::
  "('w, 'st) cmd_env \<Rightarrow> bool \<Rightarrow> (nat \<Rightarrow> modem) \<Rightarrow> (nat \<Rightarrow> modem) \<Rightarrow> cstring \<Rightarrow> ('w, 'st) modem_cmd \<Rightarrow> int \<times> ('w, 'st) modem_cmd" where
  "modem_cmd_rscan env alloc modems1 modems2 config s =
     (let s = set_modem (modem_clear_last_neighbor_cell_meas (mc_modem s)) s; left = modem_wait_sleeping modems1 60
      in if left = 0 then (- ETIME, set_modem (modems1 59) s)
         else (let (res, s) = modem_cmd_scan env config (set_modem (modems1 (60 - left)) s)
               in if res < 0 then (res, s)
                  else (let left = modem_wait_scan_result modems2 300
                        in if left = 0 then (- ETIME, set_modem (modems2 299) s)
                           else (let (res, sh) = sh_cmd_prepend alloc ''sendresult'' 2000 (mc_shell s)
                                 in (res, (set_modem (modems2 (300 - left)) s)\<lparr>mc_shell := sh\<rparr>)))))"

section \<open>PSM and RAI\<close>

definition ROUND_UP_TIME :: "int \<Rightarrow> int \<Rightarrow> int" where
  "ROUND_UP_TIME t d = c_div (t + (d - 1)) d"

definition wrap32 :: "int \<Rightarrow> int" where
  "wrap32 v = sint (word_of_int v :: u32)"

definition rat_code :: "int \<Rightarrow> cstring" where
  "rat_code act =
     (let t = ROUND_UP_TIME act 2
      in if t > 31
         then (let t = ROUND_UP_TIME t 30
               in if t > 31 then ''010'' @ print_bin 5 (word_of_int (ROUND_UP_TIME t 6)) else ''001'' @ print_bin 5 (word_of_int t))
         else ''000'' @ print_bin 5 (word_of_int t))"

text \<open>The units of the periodic update: how many of the smaller unit make one, and the code.\<close>

definition tau_units :: "(int \<times> nat) list" where
  "tau_units = [(15, 4), (2, 5), (10, 0), (6, 1), (10, 2), (32, 6)]"

fun tau_round :: "(int \<times> nat) list \<Rightarrow> int \<times> nat \<Rightarrow> int \<times> nat" where
  "tau_round [] r = r"
| "tau_round ((d, u) # us) (t, unit) = (if t > 31 then tau_round us (ROUND_UP_TIME t d, u) else (t, unit))"

definition tau_code :: "int \<Rightarrow> cstring" where
  "tau_code tau_time =
     (let (t, unit) = tau_round tau_units (ROUND_UP_TIME tau_time 2, 3) in print_bin 3 (of_nat unit) @ print_bin 5 (word_of_int t))"

definition tau_seconds :: "int \<Rightarrow> char \<Rightarrow> int" where
  "tau_seconds t unit =
     (if unit = CHR ''d'' then wrap32 (t * (3600 * 24)) else if unit = CHR ''h'' then wrap32 (t * 3600)
      else if unit = CHR ''m'' then wrap32 (t * 60) else t)"

text \<open>Two numbers and a unit behind the second, if both numbers are there.\<close>

definition scan_psm :: "cstring \<Rightarrow> (int \<times> int \<times> char) option" where
  "scan_psm config =
     (let (act, k) = strtol config 10; rest = drop k config; (tau, k2) = strtol rest 10
      in if k = 0 \<or> k2 = 0 then None
         else Some (act, tau, if drop k2 rest = [] then CHR ''s'' else c_deref (drop k2 rest)))"

definition modem_cmd_psm :: "('w, 'st) cmd_env \<Rightarrow> cstring \<Rightarrow> ('w, 'st) modem_cmd \<Rightarrow> int \<times> ('w, 'st) modem_cmd" where
  "modem_cmd_psm env config s =
     (let lib = ce_lib env; (_, value) = next_value 8 config
      in if value = []
         then with_at (\<lambda>a. let (res, a) = modem_at_lock (at_free lib (at_world a)) a
                           in if res \<noteq> 0 then (res, a) else (lte_lc_psm_get lib (at_world a), modem_at_unlock a)) s
         else if stricmp ''normal'' value = 0
         then with_both (modem_set_psm_for_connect lib (psm_connect_rat (ce_config env))) (set_modem (modem_lock_psm False (mc_modem s)) s)
         else if stricmp ''off'' value = 0
         then with_at (modem_at_psm_req lib False) (set_modem (modem_lock_psm True (mc_modem s)) (cmd_inactive env s))
         else (case scan_psm config of
                 None \<Rightarrow> (- EINVAL, s)
               | Some (act, tau, unit) \<Rightarrow>
                   (let s = set_modem (modem_lock_psm True (mc_modem s)) (cmd_inactive env s);
                        a = mc_at s;
                        s = set_at (a\<lparr>at_world := lte_lc_psm_param_set lib (tau_code (tau_seconds tau unit)) (rat_code act) (at_world a)\<rparr>) s
                    in with_at (modem_at_psm_req lib True) s)))"

definition modem_cmd_rai :: "('w, 'st) cmd_env \<Rightarrow> cstring \<Rightarrow> ('w, 'st) modem_cmd \<Rightarrow> int \<times> ('w, 'st) modem_cmd" where
  "modem_cmd_rai env config s =
     (let (_, value) = next_value 5 config
      in if value = [] then (fst (modem_get_rai_status (mc_modem s)), s)
         else if stricmp ''on'' value = 0 then (0, set_modem (modem_lock_rai False (mc_modem s)) s)
         else if stricmp ''off'' value = 0
         then (let (_, s) = with_both (modem_set_rai_mode (ce_use_connect env) (ce_lib env) RAI_MODE_OFF (- 1)) s
               in (0, set_modem (modem_lock_rai True (mc_modem s)) s))
         else (- EINVAL, s))"

section \<open>eDRX\<close>

definition is_line_end :: "char \<Rightarrow> bool" where
  "is_line_end c \<longleftrightarrow> c = CHR 0x0A \<or> c = CHR 0x0D"

definition requested_cfg :: "int \<Rightarrow> cstring \<Rightarrow> lte_lc_edrx_cfg" where
  "requested_cfg type value =
     \<lparr>edrx_mode = (if type = 4 then LTE_LC_LTE_MODE_LTEM else if type = 5 then LTE_LC_LTE_MODE_NBIOT else LTE_LC_LTE_MODE_NONE),
      edrx_time = modem_get_edrx_multiplier (fst (strtol value 2)) * 512, edrx_ptw = 0\<rparr>"

text \<open>The lines for the response to \<open>AT+CEDRXS?\<close>; each turn needs the text that it starts with, so the length of the buffer
  is enough for \<open>n\<close>.\<close>

fun edrx_requests :: "nat \<Rightarrow> cstring \<Rightarrow> cstring list" where
  "edrx_requests 0 cur = []"
| "edrx_requests (Suc n) cur =
     (let res = strstart cur ''+CEDRXS: '' True
      in if res \<le> 0 then []
         else (let (cur, type) = parse_next_long (drop (nat res) cur) 10 (Some 0);
                   (lines, cur) = (if c_deref cur = CHR '',''
                                   then (let (cur, value) = parse_next_qtext (tl cur) (CHR 0x22) (Some 16)
                                         in ([modem_print_edrx ''req'' (requested_cfg (the type) (the value))], cur))
                                   else ([], dropWhile (\<lambda>c. \<not> is_line_end c) cur))
               in lines @ (if c_deref cur = NUL \<or> \<not> is_line_end (c_deref cur) then [] else edrx_requests n (dropWhile is_line_end cur))))"

definition modem_cmd_show_edrx :: "('w, 'st) cmd_env \<Rightarrow> ('w, 'st) modem_cmd \<Rightarrow> (int \<times> cstring list) \<times> ('w, 'st) modem_cmd" where
  "modem_cmd_show_edrx env s =
     (let lib = ce_lib env; cell = edrx_status (mc_modem s);
          (net, s) = with_at (\<lambda>a. let (res, a) = modem_at_lock (at_free lib (at_world a)) a
                                  in if res \<noteq> 0 then (Inl res, a) else (lte_lc_edrx_get lib (at_world a), modem_at_unlock a)) s;
          lines = (case net of
                     Inl _ \<Rightarrow> [modem_print_edrx ''cell'' cell]
                   | Inr (mode, time, ptw) \<Rightarrow>
                       (let cfg = \<lparr>edrx_mode = mode, edrx_time = time, edrx_ptw = ptw\<rparr>
                        in if cfg = cell then [modem_print_edrx ''cell/net'' cfg]
                           else [modem_print_edrx ''cell'' cell, modem_print_edrx ''net'' cfg]));
          ((res, buf), s) = with_at (modem_at_cmd lib (Some 64) None ''AT+CEDRXS?'') s
      in if res > 0 then ((0, lines @ edrx_requests 64 (the buf)), s) else ((res, lines), s))"

text \<open>The number is given to a function with a parameter of 16 bits.\<close>

definition modem_cmd_edrx :: "('w, 'st) cmd_env \<Rightarrow> cstring \<Rightarrow> ('w, 'st) modem_cmd \<Rightarrow> int \<times> ('w, 'st) modem_cmd" where
  "modem_cmd_edrx env config s =
     (let (_, value) = next_value 16 config
      in if value = [] then (let ((res, _), s) = modem_cmd_show_edrx env s in (res, s))
         else (let (res, time) = (if stricmp ''off'' value = 0 then (1, 0) else scan_unsigned config)
               in if res = 1 then with_both (modem_set_edrx (ce_lib env) (to_i16 (uint time))) s else (- EINVAL, s)))"

definition modem_cmd_ptw :: "('w, 'st) cmd_env \<Rightarrow> cstring \<Rightarrow> ('w, 'st) modem_cmd \<Rightarrow> int \<times> ('w, 'st) modem_cmd" where
  "modem_cmd_ptw env config s =
     (let (_, value) = next_value 16 config
      in if value = [] then (let ((res, _), s) = modem_cmd_show_edrx env s in (res, s))
         else (let (res, time) = scan_unsigned config
               in if res = 1 then with_both (modem_set_ptw (ce_lib env) (to_i16 (uint time))) s else (- EINVAL, s)))"

section \<open>Bands\<close>

text \<open>The bands that are shown, of a text with a digit for each band, the first band last.\<close>

definition modem_cmd_print_bands :: "cstring \<Rightarrow> nat list" where
  "modem_cmd_print_bands bands = filter (\<lambda>band. bands ! (length bands - band) = CHR ''1'') [1..<length bands]"

abbreviation (input) NUMBER_OF_BANDS :: nat where "NUMBER_OF_BANDS \<equiv> 88"

text \<open>The digits for the bands of the parameter, and whether a digit was written in front of the array. A turn takes the text
  of the number.\<close>

fun bands_loop :: "nat \<Rightarrow> cstring \<Rightarrow> cstring \<Rightarrow> bool \<times> cstring \<Rightarrow> bool \<times> cstring" where
  "bands_loop 0 value cur r = r"
| "bands_loop (Suc n) value cur r =
     (let (rest, band) = parse_next_long value 10 (Some 0)
      in if rest = value then r
         else (let (outside, bands) = r; band = the band;
                   r = (if band > int NUMBER_OF_BANDS then (True, bands)
                        else if band > 0 then (outside, bands[NUMBER_OF_BANDS - nat band := CHR ''1'']) else r);
                   (cur, value) = next_value 5 cur
               in bands_loop n value cur r))"

definition band_digits :: "cstring \<Rightarrow> bool \<times> cstring" where
  "band_digits config =
     (let (cur, value) = next_value 5 config in bands_loop (Suc (length config)) value cur (False, replicate NUMBER_OF_BANDS (CHR ''0'')))"

definition set_bands :: "('w, 'st) cmd_env \<Rightarrow> bool \<Rightarrow> cstring \<Rightarrow> ('w, 'st) modem_cmd \<Rightarrow> ('w, 'st) modem_cmd" where
  "set_bands env all bands s =
     snd (while_off env (\<lambda>s. cmd_inactive env (psm_for_connect env (snd (with_at
       (if all then modem_at_cmd (ce_lib env) (Some 128) (Some ''%XBANDLOCK: '') ''AT%XBANDLOCK=0''
        else modem_at_cmdf (ce_lib env) (Some 128) (Some ''%XBANDLOCK: '') (''AT%XBANDLOCK=1,'' @ [CHR 0x22] @ bands @ [CHR 0x22])) s)))) s)"

definition modem_cmd_band :: "('w, 'st) cmd_env \<Rightarrow> cstring \<Rightarrow> ('w, 'st) modem_cmd \<Rightarrow> bool \<times> ('w, 'st) modem_cmd" where
  "modem_cmd_band env config s =
     (let (_, value) = next_value 5 config
      in if value = []
         then (let ((res, buf), s) = with_at (modem_at_cmd (ce_lib env) (Some 128) (Some ''%XBANDLOCK: '') ''AT%XBANDLOCK?'') s
               in (False, if res > 0 \<and> modem_cmd_print_bands (the (snd (parse_next_qtext (the buf) (CHR 0x22) (Some 128)))) = []
                          then snd (with_at (modem_at_cmd (ce_lib env) (Some 128) (Some ''%XCBAND: '') ''AT%XCBAND=?'') s) else s))
         else if stricmp value ''all'' = 0 then (False, set_bands env True [] s)
         else (let (outside, bands) = band_digits config in (outside, set_bands env False bands s)))"

section \<open>Other modes\<close>

definition modem_cmd_reduced_mobility :: "('w, 'st) cmd_env \<Rightarrow> cstring \<Rightarrow> ('w, 'st) modem_cmd \<Rightarrow> int \<times> ('w, 'st) modem_cmd" where
  "modem_cmd_reduced_mobility env config s =
     (let (res, mode) = scan_unsigned config
      in if res = 1
         then (if mode > 2 then (- EINVAL, s) else with_at (modem_set_reduced_mobility (ce_lib env) (uint mode)) s)
         else if res = - 1 then with_at (modem_get_reduced_mobility (ce_lib env)) s
         else (res, s))"

definition modem_cmd_power_level :: "('w, 'st) cmd_env \<Rightarrow> cstring \<Rightarrow> ('w, 'st) modem_cmd \<Rightarrow> int \<times> ('w, 'st) modem_cmd" where
  "modem_cmd_power_level env config s =
     (let (res, level) = scan_unsigned config
      in if res = 1
         then (if level > 4 then (- EINVAL, s) else with_at (modem_set_power_level (ce_lib env) (uint level)) s)
         else if res = - 1 then with_at (modem_get_power_level (ce_lib env)) s
         else (res, s))"

definition modem_cmd_power_indication :: "('w, 'st) cmd_env \<Rightarrow> cstring \<Rightarrow> ('w, 'st) modem_cmd \<Rightarrow> int \<times> ('w, 'st) modem_cmd" where
  "modem_cmd_power_indication env config s =
     (let (res, level) = scan_unsigned config
      in if res = 1
         then (if level > 1 then (- EINVAL, s)
               else (let (res, s) = with_at (modem_set_power_indication (ce_lib env) (uint level)) s
                     in (res, if res = 0 then s\<lparr>power_indication := uint level\<rparr> else s)))
         else (res, s))"

definition modem_cmd_switch_on :: "('w, 'st) cmd_env \<Rightarrow> ('w, 'st) modem_cmd \<Rightarrow> int \<times> ('w, 'st) modem_cmd" where
  "modem_cmd_switch_on env s = with_at (modem_at_set_normal (ce_lib env)) (cmd_inactive env s)"

definition modem_cmd_switch_off :: "('w, 'st) cmd_env \<Rightarrow> ('w, 'st) modem_cmd \<Rightarrow> int \<times> ('w, 'st) modem_cmd" where
  "modem_cmd_switch_off env s = with_at (modem_at_power_off (ce_lib env)) (cmd_inactive env s)"

definition modem_cmd_state :: "('w, 'st) cmd_env \<Rightarrow> ('w, 'st) modem_cmd \<Rightarrow> int \<times> ('w, 'st) modem_cmd" where
  "modem_cmd_state env s = with_both (modem_read_network_info (ce_lib env) (ce_psm_parse env) (ce_now env) True) s"

definition modem_cmd_network_quality :: "('w, 'st) cmd_env \<Rightarrow> ('w, 'st) modem_cmd \<Rightarrow> int \<times> ('w, 'st) modem_cmd" where
  "modem_cmd_network_quality env s = with_both (modem_read_coverage_enhancement_info (ce_lib env)) s"

definition modem_cmd_rate_limit :: "('w, 'st) cmd_env \<Rightarrow> ('w, 'st) modem_cmd \<Rightarrow> int \<times> ('w, 'st) modem_cmd" where
  "modem_cmd_rate_limit env s = with_both (modem_read_rate_limit_time (ce_lib env)) s"

definition modem_cmd_deepsearch :: "('w, 'st) cmd_env \<Rightarrow> cstring \<Rightarrow> ('w, 'st) modem_cmd \<Rightarrow> int \<times> ('w, 'st) modem_cmd" where
  "modem_cmd_deepsearch env config s =
     (let (_, value) = next_value 5 config; lib = ce_lib env; result = (\<lambda>((res, _), s). (res, s))
      in if value = [] then result (with_at (modem_at_cmd lib (Some 128) (Some ''%XDEEPSEARCH: '') ''AT%XDEEPSEARCH?'') s)
         else if stricmp ''off'' value = 0 \<or> stricmp ''0'' value = 0
         then result (with_at (modem_at_cmdf lib (Some 128) None ''AT%XDEEPSEARCH=0'') s)
         else if stricmp ''on'' value = 0 \<or> stricmp ''1'' value = 0
         then result (with_at (modem_at_cmdf lib (Some 128) None ''AT%XDEEPSEARCH=1'') s)
         else (- EINVAL, s))"

definition modem_cmd_sms :: "('w, 'st) cmd_env \<Rightarrow> cstring \<Rightarrow> ('w, 'st) modem_cmd \<Rightarrow> int \<times> ('w, 'st) modem_cmd" where
  "modem_cmd_sms env config s =
     (let (cur, destination) = next_value 32 config; (_, s) = with_both (modem_set_psm (ce_lib env) 120) s
      in if destination = [] then (0, s)
         else with_at (\<lambda>a. let (res, w) = sms_send_text (ce_lib env) destination cur (at_world a) in (res, a\<lparr>at_world := w\<rparr>)) s)"

section \<open>Numbers as texts\<close>

lemma digits_val_append: "digits_val base acc (xs @ [c]) = digits_val base acc xs * int base + int (the (digit_val c))"
  by (induction xs arbitrary: acc) simp_all

lemma digit_char: "d < 10 \<Longrightarrow> digit_val (char_of (48 + d)) = Some d"
  by (simp add: digit_val_def Let_def)

lemma print_nat_value: "digits_val 10 0 (print_nat n) = int n \<and> list_all (is_digit_in 10) (print_nat n) \<and> print_nat n \<noteq> []"
proof (induction n rule: print_nat.induct)
  case (1 n)
  have d: "digit_val (char_of (48 + n mod 10)) = Some (n mod 10)" by (rule digit_char) simp
  show ?case
  proof (cases "n < 10")
    case True
    then show ?thesis using d by (simp add: print_nat.simps is_digit_in_def)
  next
    case False
    then show ?thesis using 1 d by (simp add: print_nat.simps [of n] digits_val_append is_digit_in_def) presburger
  qed
qed

lemma print_nat_length: "n < 10 ^ k \<Longrightarrow> 0 < k \<Longrightarrow> length (print_nat n) \<le> k"
proof (induction n arbitrary: k rule: print_nat.induct)
  case (1 n)
  show ?case
  proof (cases "n < 10")
    case True
    then show ?thesis using 1(3) by (simp add: print_nat.simps)
  next
    case False
    obtain j where k: "k = Suc j" "0 < j" using False 1(2,3) by (cases k; cases "k = 1") auto
    then have "n div 10 < 10 ^ j" using 1(2) by (simp add: less_mult_imp_div_less mult.commute)
    from 1(1) [OF False this k(2)] False k(1) show ?thesis by (simp add: print_nat.simps [of n])
  qed
qed

lemma digit_no_space: "is_digit_in 10 c \<Longrightarrow> \<not> isspace c \<and> c \<noteq> CHR '' '' \<and> c \<noteq> CHR ''-'' \<and> c \<noteq> CHR ''+'' \<and> c \<noteq> NUL"
  by (auto simp: is_digit_in_def digit_val_def isspace_def split: option.splits)

lemma strtol_digits:
  assumes "list_all (is_digit_in 10) t" "t \<noteq> []"
  shows "strtol t 10 = (long_clamp (digits_val 10 0 t), length t)"
proof -
  have c: "is_digit_in 10 (c_deref t)" using assms by (cases t) simp_all
  then have "takeWhile isspace t = []" using digit_no_space by (cases t) auto
  moreover have "takeWhile (is_digit_in 10) t = t" using assms(1) by (simp add: list_all_iff takeWhile_eq_all_conv)
  ultimately show ?thesis using digit_no_space [OF c] assms(2) by (simp add: strtol_def Let_def del: takeWhile_eq_all_conv)
qed

lemma strtol_print_nat: "n < 2 ^ 31 \<Longrightarrow> strtol (print_nat n) 10 = (int n, length (print_nat n))"
  using strtol_digits [of "print_nat n"] print_nat_value [of n] by (simp add: long_clamp_def)

lemma next_value_word:
  assumes "CHR '' '' \<notin> set t" "length t < sz"
  shows "next_value sz t = ([], t)"
proof -
  have "takeWhile (\<lambda>c. c \<noteq> CHR '' '') t = t" using assms(1) by (auto simp: takeWhile_eq_all_conv)
  moreover have "c_deref t \<noteq> CHR '' ''" using assms(1) by (cases t) auto
  ultimately show ?thesis using assms(2) by (simp add: next_value_def parse_next_text_spec Let_def del: takeWhile_eq_all_conv)
qed

section \<open>Bands\<close>

lemma filter_upt: "filter (\<lambda>b. b = n) [k..<m] = (if k \<le> n \<and> n < m then [n] else [])"
  by (induction m) auto

text \<open>The command \<open>band\<close> with one band: a band up to 88 gets its digit and no other; a greater number writes a digit in front
  of the array. Reading the digits back shows the band again, but never the highest band of the text.\<close>

lemma band_command_digits:
  assumes "0 < n" "n < 10000"
  shows "if n \<le> 88 then band_digits (print_nat n) = (False, (replicate 88 (CHR ''0''))[88 - n := CHR ''1'']) \<and>
             modem_cmd_print_bands (snd (band_digits (print_nat n))) = (if n < 88 then [n] else [])
         else fst (band_digits (print_nat n))"
proof -
  have t: "print_nat n \<noteq> []" "list_all (is_digit_in 10) (print_nat n)" "length (print_nat n) < 5"
    using print_nat_value [of n] print_nat_length [of n 4] assms(2) by simp_all
  then have "CHR '' '' \<notin> set (print_nat n)" using digit_no_space by (auto simp: list_all_iff)
  then have word: "next_value 5 (print_nat n) = ([], print_nat n)" using t(3) by (rule next_value_word)
  have empty: "next_value 5 [] = ([], [])" by (rule next_value_word) simp_all
  have num: "parse_next_long (print_nat n) 10 (Some 0) = ([], Some (int n))"
    using assms t(1) by (simp add: parse_next_long_def strtol_print_nat)
  have none: "parse_next_long [] 10 (Some 0) = ([], Some 0)" by (simp add: parse_next_long_def strtol_def)
  obtain k where k: "length (print_nat n) = Suc k" using t(1) by (cases "print_nat n") simp_all
  have digits: "band_digits (print_nat n) = (if n > 88 then (True, replicate 88 (CHR ''0''))
      else (False, (replicate 88 (CHR ''0''))[88 - n := CHR ''1'']))"
    using assms t(1) by (simp add: band_digits_def word k num none empty Let_def)
  have "modem_cmd_print_bands ((replicate 88 (CHR ''0''))[88 - n := CHR ''1'']) = (if n < 88 then [n] else [])" if "n \<le> 88"
  proof -
    have "(replicate 88 (CHR ''0''))[88 - n := CHR ''1''] ! (88 - b) = CHR ''1'' \<longleftrightarrow> b = n" if "b \<in> set [1..<88]" for b
      using that \<open>n \<le> 88\<close> assms(1) by (auto simp: nth_list_update)
    then have "modem_cmd_print_bands ((replicate 88 (CHR ''0''))[88 - n := CHR ''1'']) = filter (\<lambda>b. b = n) [1..<88]"
      unfolding modem_cmd_print_bands_def by (intro filter_cong) simp_all
    then show ?thesis using assms(1) that by (simp only: filter_upt) auto
  qed
  then show ?thesis using digits by auto
qed

end
