(* ===== verification/Sim_Card.thy ===== *)
theory Sim_Card
  imports Modem_Cmd
begin

text \<open>
  The SIM card of \<open>src/src/modem_sim.c\<close>: what is read from it with AT commands, the selection of one of several
  identities (IMSI) with a test and a fallback, the commands that write its lists, and the start of the modem
  (\<open>modem_start\<close> of \<open>src/src/modem.c\<close>), which reads the card. The codecs are in \<open>Modem_Sim\<close>. The state is the one of the
  card together with the one of the modem commands. What is only logged is left out.

  \<^item> An answer that ends with its opening quote is not expected; the length of its data is \<open>-1\<close> here.
  \<^item> Behind a short answer the buffer of \<open>modem_sim_read\<close> holds the rest of an earlier one; here it is empty.
  \<^item> \<open>find_id\<close> for an empty id reads behind a text that is not empty: \<open>id_overread\<close> records it.
\<close>

section \<open>State\<close>

record lte_sim_info =
  si_valid :: bool
  edrx_cycle_support :: bool
  imsi_select_support :: bool
  imsi_select :: u16
  imsi_interval :: int
  imsi_counter :: u16
  hpplmn_search_interval :: int
  hpplmn :: cstring
  forbidden :: cstring
  iccid :: cstring
  si_imsi :: cstring
  prev_imsi :: cstring

definition sim_info_init :: lte_sim_info where
  "sim_info_init = \<lparr>si_valid = False, edrx_cycle_support = False, imsi_select_support = False, imsi_select = 0, imsi_interval = 0,
     imsi_counter = 0, hpplmn_search_interval = 0, hpplmn = [], forbidden = [], iccid = [], si_imsi = [], prev_imsi = []\<rparr>"

text \<open>\<open>select_pending\<close> and \<open>test_pending\<close> are the bits of \<open>sim_status\<close>, \<open>reset_work\<close> is scheduled for the fallback,
  \<open>read_service\<close> is the static variable of \<open>modem_sim_read\<close>.\<close>

record sim =
  select_pending :: bool
  test_pending :: bool
  imsi_success :: int
  sim_service :: u8
  sim_info :: lte_sim_info
  imsi_time :: int
  read_service :: u8
  network_registered :: bool
  reset_work :: bool
  id_overread :: bool

definition sim_init :: sim where
  "sim_init = \<lparr>select_pending = False, test_pending = False, imsi_success = - 1, sim_service = 0, sim_info = sim_info_init, imsi_time = 0,
     read_service = 0xFF, network_registered = False, reset_work = False, id_overread = False\<rparr>"

type_synonym ('w, 'st) sim_cmd = "sim \<times> ('w, 'st) modem_cmd"

text \<open>The lists of ICCIDs of the configuration.\<close>

record sim_lists =
  imsi_select_list :: "cstring option"
  ltem_list :: "cstring option"
  nbiot_list :: "cstring option"

abbreviation (input) MODEM_ID_SIZE :: nat where "MODEM_ID_SIZE \<equiv> 24"
abbreviation (input) MAX_PLMNS :: nat where "MAX_PLMNS \<equiv> 15"
abbreviation (input) CRSM_HEADER_SIZE :: nat where "CRSM_HEADER_SIZE \<equiv> 28"
abbreviation (input) SIM_BUF_SIZE :: nat where "SIM_BUF_SIZE \<equiv> 178"
abbreviation (input) PLMNS_SIZE :: nat where "PLMNS_SIZE \<equiv> 105"
abbreviation (input) MAX_SIM_RETRIES :: nat where "MAX_SIM_RETRIES \<equiv> 5"
abbreviation (input) SIM_USER_HPPLMN_ID :: nat where "SIM_USER_HPPLMN_ID \<equiv> 28512"

section \<open>AT commands\<close>

definition with_sim :: "(sim \<Rightarrow> sim) \<Rightarrow> ('w, 'st) sim_cmd \<Rightarrow> ('w, 'st) sim_cmd" where
  "with_sim f s = (f (fst s), snd s)"

definition on_sim_info :: "(lte_sim_info \<Rightarrow> lte_sim_info) \<Rightarrow> ('w, 'st) sim_cmd \<Rightarrow> ('w, 'st) sim_cmd" where
  "on_sim_info f s = with_sim (\<lambda>sm. sm\<lparr>sim_info := f (sim_info sm)\<rparr>) s"

text \<open>The result and the text in the buffer, which is not used after an error.\<close>

definition sim_at_cmd :: "('w, 'st) cmd_env \<Rightarrow> nat \<Rightarrow> cstring option \<Rightarrow> cstring \<Rightarrow> ('w, 'st) sim_cmd \<Rightarrow> (int \<times> cstring) \<times> ('w, 'st) sim_cmd" where
  "sim_at_cmd env len skip cmd s =
     (let ((res, buf), c) = with_at (modem_at_cmd (ce_lib env) (Some len) skip cmd) (snd s)
      in ((res, case buf of Some t \<Rightarrow> t | None \<Rightarrow> []), fst s, c))"

definition sim_at_cmdf :: "('w, 'st) cmd_env \<Rightarrow> nat \<Rightarrow> cstring option \<Rightarrow> cstring \<Rightarrow> ('w, 'st) sim_cmd \<Rightarrow> (int \<times> cstring) \<times> ('w, 'st) sim_cmd" where
  "sim_at_cmdf env len skip cmd s =
     (let ((res, buf), c) = with_at (modem_at_cmdf (ce_lib env) (Some len) skip cmd) (snd s)
      in ((res, case buf of Some t \<Rightarrow> t | None \<Rightarrow> []), fst s, c))"

text \<open>The data of a successful answer, without the quotes.\<close>

definition crsm_data :: "int \<Rightarrow> cstring \<Rightarrow> int \<times> cstring" where
  "crsm_data res buf =
     (let skip = strstart buf CRSM_SUCCESS False
      in if skip > 0 then (res - (skip + 1), take (nat (res - (skip + 1))) (drop (nat skip) buf)) else (- EINVAL, buf))"

primrec sim_retry :: "('w, 'st) cmd_env \<Rightarrow> nat \<Rightarrow> cstring option \<Rightarrow> cstring \<Rightarrow> nat \<Rightarrow> (int \<times> cstring) \<times> ('w, 'st) sim_cmd
    \<Rightarrow> (int \<times> cstring) \<times> ('w, 'st) sim_cmd" where
  "sim_retry env len skip cmd 0 r = r"
| "sim_retry env len skip cmd (Suc retries) r =
     (if fst (fst r) < 0 then sim_retry env len skip cmd retries (sim_at_cmd env len skip cmd (snd r)) else r)"

definition modem_sim_read_with_retry ::
  "('w, 'st) cmd_env \<Rightarrow> nat \<Rightarrow> nat \<Rightarrow> cstring option \<Rightarrow> cstring \<Rightarrow> ('w, 'st) sim_cmd \<Rightarrow> (int \<times> cstring) \<times> ('w, 'st) sim_cmd" where
  "modem_sim_read_with_retry env retries len skip cmd s =
     (let r = sim_at_cmd env len skip cmd s
      in if fst (fst r) = - EBUSY then r else sim_retry env len skip cmd retries r)"

text \<open>Also after a success, which is a positive result, the command is sent again without the lock.\<close>

definition modem_sim_read_locked_with_retry ::
  "('w, 'st) cmd_env \<Rightarrow> nat \<Rightarrow> nat \<Rightarrow> cstring option \<Rightarrow> cstring \<Rightarrow> ('w, 'st) sim_cmd \<Rightarrow> (int \<times> cstring) \<times> ('w, 'st) sim_cmd" where
  "modem_sim_read_locked_with_retry env retries len skip cmd s =
     (let (res, c) = with_at (modem_at_lock_no_warn True) (snd s); s = (fst s, c)
      in if res \<noteq> 0 then ((res, []), s)
         else (let (r, sm, c) = modem_sim_read_with_retry env (retries - 1) len skip cmd s;
                   s = (sm, set_at (modem_at_unlock (mc_at c)) c)
               in if fst r \<noteq> 0 then modem_sim_read_with_retry env 0 len skip cmd s else (r, s)))"

definition sim_read_cmd :: "('w, 'st) cmd_env \<Rightarrow> bool \<Rightarrow> nat \<Rightarrow> cstring option \<Rightarrow> cstring \<Rightarrow> ('w, 'st) sim_cmd \<Rightarrow> (int \<times> cstring) \<times> ('w, 'st) sim_cmd" where
  "sim_read_cmd env init =
     (if init then modem_sim_read_locked_with_retry env MAX_SIM_RETRIES else modem_sim_read_with_retry env MAX_SIM_RETRIES)"

definition modem_cmd_read_iccid :: "('w, 'st) cmd_env \<Rightarrow> bool \<Rightarrow> nat \<Rightarrow> ('w, 'st) sim_cmd \<Rightarrow> (int \<times> cstring) \<times> ('w, 'st) sim_cmd" where
  "modem_cmd_read_iccid env init len s =
     (let ((res, buf), s) = sim_read_cmd env init len (Some ''+CRSM: '') ''AT+CRSM=176,12258,0,0,12'' s
      in if res > 0
         then (let (res, t) = crsm_data res buf in ((res, if res > 0 then snd (flip_digits t (nat res)) else t), s))
         else ((res, buf), s))"

section \<open>Selection of an identity\<close>

text \<open>The upper bytes are what is to be selected, the lowest is what is used.\<close>

definition modem_sim_get_imsi_sel :: "u32 \<Rightarrow> int" where
  "modem_sim_get_imsi_sel selected =
     (let select = uint (drop_bit 8 selected); used = uint (take_bit 8 selected)
      in if select = 0 then 0 else if select = used then (if select = 0xFF then 0 else select) else - EINVAL)"

definition modem_sim_read_imsi_sel :: "('w, 'st) cmd_env \<Rightarrow> ('w, 'st) sim_cmd \<Rightarrow> (int \<times> u32) \<times> ('w, 'st) sim_cmd" where
  "modem_sim_read_imsi_sel env s =
     (let ((res, buf), s) = sim_at_cmd env 64 (Some ''+CRSM: '') ''AT+CRSM=178,28616,1,4,13'' s
      in if res \<le> 0 then ((res, 0), s)
         else (let skip = strstart buf CRSM_SUCCESS False
               in if skip = 0 then ((- ENOTSUP, 0), s)
                  else (let (v, k) = strtol (take 6 (drop (nat skip) buf)) 16; selected = word_of_int v
                        in if k = 0 then ((0, 0), s)
                           else ((1, selected),
                             on_sim_info (\<lambda>i. if imsi_select_support i then i\<lparr>imsi_select := ucast selected\<rparr> else i) s))))"

definition modem_sim_write_imsi_sel :: "('w, 'st) cmd_env \<Rightarrow> nat \<Rightarrow> bool \<Rightarrow> ('w, 'st) sim_cmd \<Rightarrow> int \<times> ('w, 'st) sim_cmd" where
  "modem_sim_write_imsi_sel env select again s =
     (let ((res, buf), s) = sim_at_cmdf env 64 (Some ''+CRSM: '')
            (''AT+CRSM=220,28616,1,4,13,'' @ [CHR 0x22] @ fmt_zeros 4 (fmt_hex lower_digits select) @
             replicate 22 (CHR ''F'') @ [CHR 0x22]) s
      in if res \<le> 0 then (res, s)
         else (let res = strstart buf CRSM_SUCCESS False
               in if res > 0
                  then (let s = with_sim (\<lambda>sm. sm\<lparr>select_pending := True\<rparr>) s
                        in if again
                           then (let (off, c) = while_off env (\<lambda>c. cmd_inactive env (psm_for_connect env c)) (snd s); s = (fst s, c)
                                 in if off then (let (r, s) = modem_sim_read_imsi_sel env s in (fst r, s)) else (res, s))
                           else (res, s))
                  else (res, s)))"

definition modem_sim_automatic_multi_imsi :: "sim \<Rightarrow> bool" where
  "modem_sim_automatic_multi_imsi sm \<longleftrightarrow>
     prev_imsi (sim_info sm) \<noteq> [] \<and>
     (\<not> imsi_select_support (sim_info sm) \<or> modem_sim_get_imsi_sel (ucast (imsi_select (sim_info sm))) = 0)"

definition modem_sim_get_info :: "sim \<Rightarrow> int \<times> lte_sim_info" where
  "modem_sim_get_info sm = (if modem_sim_automatic_multi_imsi sm then 1 else 0, sim_info sm)"

definition modem_sim_init :: "sim \<Rightarrow> sim" where
  "modem_sim_init sm = sm\<lparr>sim_info := sim_info_init\<lparr>hpplmn_search_interval := - ENODATA\<rparr>, imsi_time := 0\<rparr>"

definition modem_sim_network :: "int \<Rightarrow> bool \<Rightarrow> sim \<Rightarrow> sim" where
  "modem_sim_network now reg sm =
     (if network_registered sm \<noteq> reg
      then (let sm = sm\<lparr>network_registered := reg\<rparr> in if \<not> reg then sm\<lparr>imsi_time := now\<rparr> else sm)
      else sm)"

definition modem_sim_on_cfun :: "int \<Rightarrow> int \<Rightarrow> sim \<Rightarrow> sim" where
  "modem_sim_on_cfun now mode sm =
     (if mode = LTE_LC_FUNC_MODE_NORMAL \<or> mode = LTE_LC_FUNC_MODE_ACTIVATE_LTE then sm\<lparr>imsi_time := now\<rparr> else sm)"

text \<open>The modem has registered: the selected identity works, and a test of it is over.\<close>

definition modem_sim_ready :: "('w, 'st) cmd_env \<Rightarrow> ('w, 'st) sim_cmd \<Rightarrow> ('w, 'st) sim_cmd" where
  "modem_sim_ready env s =
     (let i = sim_info (fst s)
      in if \<not> imsi_select_support i then s
         else (let ((res, select), s) = modem_sim_read_imsi_sel env s; ident = modem_sim_get_imsi_sel select
               in if res = 1 \<and> 0 \<le> ident \<and> ident = modem_sim_get_imsi_sel (ucast (imsi_select i))
                  then with_sim (\<lambda>sm. sm\<lparr>imsi_success := ident, test_pending := False, reset_work := False\<rparr>) s else s))"

text \<open>A test that did not succeed is taken back.\<close>

definition modem_sim_reset :: "('w, 'st) cmd_env \<Rightarrow> bool \<Rightarrow> ('w, 'st) sim_cmd \<Rightarrow> ('w, 'st) sim_cmd" where
  "modem_sim_reset env again s =
     (if test_pending (fst s)
      then (let ident = imsi_success (fst s);
                s = with_sim (\<lambda>sm. sm\<lparr>test_pending := False, imsi_success := - 1, reset_work := False\<rparr>) s
            in if 0 \<le> ident then snd (modem_sim_write_imsi_sel env (nat ident) again s) else s)
      else s)"

definition modem_cmd_sim_reset_fn :: "('w, 'st) cmd_env \<Rightarrow> ('w, 'st) sim_cmd \<Rightarrow> ('w, 'st) sim_cmd" where
  "modem_cmd_sim_reset_fn env s = modem_sim_reset env True (with_sim (\<lambda>sm. sm\<lparr>reset_work := False\<rparr>) s)"

text \<open>The selection of the command \<open>imsi\<close>: \<open>None\<close> for an invalid parameter.\<close>

definition imsi_param :: "cstring \<Rightarrow> u32 option" where
  "imsi_param t =
     (if stricmp t ''auto'' = 0 then Some 0
      else if stricmp t ''next'' = 0 then Some 0xFE
      else (let (res, select) = scan_unsigned t in if res = 1 \<and> select \<le> 10 then Some select else None))"

text \<open>With \<open>force\<close> nothing is remembered for a fallback, but a test that is running stays.\<close>

definition imsi_select_cmd :: "('w, 'st) cmd_env \<Rightarrow> bool \<Rightarrow> u32 \<Rightarrow> u32 \<Rightarrow> ('w, 'st) sim_cmd \<Rightarrow> ('w, 'st) sim_cmd" where
  "imsi_select_cmd env force select selected s =
     (if select = drop_bit 8 selected then s
      else (let ident = imsi_success (fst s); (res, s) = modem_sim_write_imsi_sel env (unat select) True s
            in if \<not> force \<and> res = 1 \<and> 0 < select \<and> select < 255 \<and> 0 \<le> ident
               then with_sim (\<lambda>sm. sm\<lparr>test_pending := True, reset_work := True\<rparr>) s else s))"

definition modem_cmd_imsi_sel :: "('w, 'st) cmd_env \<Rightarrow> cstring \<Rightarrow> ('w, 'st) sim_cmd \<Rightarrow> int \<times> ('w, 'st) sim_cmd" where
  "modem_cmd_imsi_sel env parameter s =
     (let ((res, selected), s) = modem_sim_read_imsi_sel env s;
          (cur, t) = next_value 64 parameter; force = (stricmp t ''force'' = 0);
          t' = (if force then snd (next_value 64 cur) else t);
          done_with = (\<lambda>s. (0, snd (sim_at_cmd env 64 None ''AT+CIMI'' s)))
      in if res \<noteq> 1 \<or> t = [] then done_with s
         else if t' = [] then (- EINVAL, s)
         else (case imsi_param t' of None \<Rightarrow> (- EINVAL, s) | Some select \<Rightarrow> done_with (imsi_select_cmd env force select selected s)))"

section \<open>Lists of networks\<close>

text \<open>The networks, or, without a buffer for them, the data of the list.\<close>

definition modem_sim_read_forbidden_list :: "('w, 'st) cmd_env \<Rightarrow> nat \<Rightarrow> nat option \<Rightarrow> ('w, 'st) sim_cmd \<Rightarrow> (int \<times> cstring) \<times> ('w, 'st) sim_cmd" where
  "modem_sim_read_forbidden_list env buf_len plmns s =
     (let bytes = (if CRSM_HEADER_SIZE + MAX_PLMNS * 3 * 2 > buf_len then (buf_len - CRSM_HEADER_SIZE) div 6 else MAX_PLMNS * 3);
          ((res, buf), s) = sim_at_cmdf env buf_len (Some ''+CRSM: '') (''AT+CRSM=176,28539,0,0,'' @ print_nat bytes) s
      in if res < 0 then ((res, []), s)
         else (case plmns of
                 Some len \<Rightarrow> (let (n, t) = get_plmns buf (nat res) len in ((int n, t), s))
               | None \<Rightarrow> (crsm_data res buf, s)))"

definition modem_sim_read_hpplm_list :: "('w, 'st) cmd_env \<Rightarrow> nat \<Rightarrow> nat \<Rightarrow> nat option \<Rightarrow> ('w, 'st) sim_cmd \<Rightarrow> (int \<times> cstring) \<times> ('w, 'st) sim_cmd" where
  "modem_sim_read_hpplm_list env ident buf_len plmns s =
     (let bytes = (if CRSM_HEADER_SIZE + MAX_PLMNS * 5 * 2 > buf_len then (buf_len - CRSM_HEADER_SIZE) div 10 else MAX_PLMNS * 5);
          ((res, buf), s) = sim_at_cmdf env buf_len (Some ''+CRSM: '') (''AT+CRSM=176,'' @ print_nat ident @ '',0,0,'' @ print_nat bytes) s
      in if res < 0 then ((res, []), s)
         else (case plmns of
                 Some len \<Rightarrow> (let (n, t) = get_prio_plmns buf (nat res) len in ((int n, t), s))
               | None \<Rightarrow> (crsm_data res buf, s)))"

text \<open>The number of digits of the list that are in use: \<open>none\<close> is an entry that is not used.\<close>

fun last_entry :: "cstring \<Rightarrow> cstring \<Rightarrow> nat \<Rightarrow> nat" where
  "last_entry none buf 0 = 0"
| "last_entry none buf (Suc l) = (if take (length none) (drop (l * length none) buf) \<noteq> none then l else last_entry none buf l)"

definition used_digits :: "cstring \<Rightarrow> cstring \<Rightarrow> nat \<Rightarrow> nat" where
  "used_digits none buf res =
     (let n = length none; l = last_entry none buf ((res + n - 1) div n)
      in if take n (drop (l * n) buf) = none then 0 else (l + 1) * n)"

definition write_list :: "('w, 'st) cmd_env \<Rightarrow> nat \<Rightarrow> nat \<Rightarrow> cstring \<Rightarrow> ('w, 'st) sim_cmd \<Rightarrow> int \<times> ('w, 'st) sim_cmd" where
  "write_list env ident buf_len digits s =
     (let ((res, _), s) = sim_at_cmdf env buf_len (Some ''+CRSM: '')
            (''AT+CRSM=214,'' @ print_nat ident @ '',0,0,'' @ print_nat (length digits div 2) @ '','' @ [CHR 0x22] @ digits @ [CHR 0x22]) s
      in (if res \<ge> 0 then 0 else res, s))"

definition modem_cmd_banclr :: "('w, 'st) cmd_env \<Rightarrow> ('w, 'st) sim_cmd \<Rightarrow> int \<times> ('w, 'st) sim_cmd" where
  "modem_cmd_banclr env s =
     (let ((res, buf), s) = modem_sim_read_forbidden_list env 118 None s;
          len = (if 0 < res then used_digits ''FFFFFF'' buf (nat res) else MAX_PLMNS * 6)
      in if len = 0 then (0, s) else write_list env 28539 118 (replicate len (CHR ''F'')) s)"

text \<open>The encoded networks of the parameter. A turn takes at least one character of it.\<close>

fun ban_loop :: "nat \<Rightarrow> cstring \<Rightarrow> cstring \<Rightarrow> cstring \<Rightarrow> cstring" where
  "ban_loop 0 plmn cur buf = buf"
| "ban_loop (Suc n) plmn cur buf =
     (if plmn = [] then buf
      else (let buf = (case encode_plmn plmn (118 - length buf) of Some t \<Rightarrow> buf @ t | None \<Rightarrow> buf);
                (cur, plmn) = next_value 8 cur
            in ban_loop n plmn cur buf))"

definition modem_cmd_ban :: "('w, 'st) cmd_env \<Rightarrow> cstring \<Rightarrow> ('w, 'st) sim_cmd \<Rightarrow> int \<times> ('w, 'st) sim_cmd" where
  "modem_cmd_ban env parameter s =
     (let (cur, plmn) = next_value 8 parameter
      in if plmn \<noteq> []
         then (let buf = ban_loop (Suc (length parameter)) plmn cur []
               in if buf \<noteq> [] then write_list env 28539 118 buf s else (0, s))
         else (let (r, s) = modem_sim_read_forbidden_list env 118 (Some PLMNS_SIZE) s in (if fst r > 0 then 0 else fst r, s)))"

abbreviation (input) HPPLMN_SELECTOR_NONE :: cstring where "HPPLMN_SELECTOR_NONE \<equiv> ''FFFFFF0000''"

definition modem_cmd_prioclr :: "('w, 'st) cmd_env \<Rightarrow> ('w, 'st) sim_cmd \<Rightarrow> int \<times> ('w, 'st) sim_cmd" where
  "modem_cmd_prioclr env s =
     (if \<not> bit (sim_service (fst s)) 0 then (0, s)
      else (let ((res, buf), s) = modem_sim_read_hpplm_list env SIM_USER_HPPLMN_ID SIM_BUF_SIZE None s;
                len = (if 0 < res then used_digits HPPLMN_SELECTOR_NONE buf (nat res) else MAX_PLMNS * 10)
            in if len = 0 then (0, s)
               else write_list env SIM_USER_HPPLMN_ID SIM_BUF_SIZE (concat (replicate (len div 10) HPPLMN_SELECTOR_NONE)) s))"

text \<open>The digits of the technology are also appended for a network that is not encoded.\<close>

fun prio_loop :: "nat \<Rightarrow> cstring \<Rightarrow> cstring \<Rightarrow> cstring \<Rightarrow> cstring" where
  "prio_loop 0 plmn cur buf = buf"
| "prio_loop (Suc n) plmn cur buf =
     (if plmn = [] \<or> \<not> length buf + 10 < SIM_BUF_SIZE then buf
      else (let buf = (case encode_plmn plmn (SIM_BUF_SIZE - length buf) of Some t \<Rightarrow> buf @ t | None \<Rightarrow> buf) @ ''4000'';
                (cur, plmn) = next_value 8 cur
            in prio_loop n plmn cur buf))"

definition modem_cmd_prio :: "('w, 'st) cmd_env \<Rightarrow> cstring \<Rightarrow> ('w, 'st) sim_cmd \<Rightarrow> int \<times> ('w, 'st) sim_cmd" where
  "modem_cmd_prio env parameter s =
     (if \<not> bit (sim_service (fst s)) 0 then (0, s)
      else (let (cur, plmn) = next_value 8 parameter
            in if plmn \<noteq> []
               then write_list env SIM_USER_HPPLMN_ID SIM_BUF_SIZE (prio_loop (Suc (length parameter)) plmn cur []) s
               else (let (r, s) = modem_sim_read_hpplm_list env SIM_USER_HPPLMN_ID SIM_BUF_SIZE (Some PLMNS_SIZE) s
                     in (if fst r > 0 then 0 else fst r, s))))"

section \<open>Reading the card\<close>

text \<open>Each step tells whether reading goes on. A new card clears what is known of the old one.\<close>

definition new_card :: "sim_lists \<Rightarrow> cstring \<Rightarrow> sim \<Rightarrow> bool \<times> sim" where
  "new_card ids t sm =
     (let t = take (MODEM_ID_SIZE - 1) t;
          support = (t \<noteq> [] \<and> (case imsi_select_list ids of Some l \<Rightarrow> find_id l (take 5 t) \<noteq> None | None \<Rightarrow> False))
      in (support, sm\<lparr>sim_info := sim_info_init\<lparr>iccid := t, imsi_select_support := support\<rparr>, read_service := 0xFF\<rparr>))"

text \<open>The first result tells whether reading goes on, the second whether the card is new and has several identities.\<close>

definition sim_read_iccid :: "('w, 'st) cmd_env \<Rightarrow> sim_lists \<Rightarrow> bool \<Rightarrow> ('w, 'st) sim_cmd \<Rightarrow> (bool \<times> bool) \<times> ('w, 'st) sim_cmd" where
  "sim_read_iccid env ids init s =
     (let ((res, t), sm, c) = modem_cmd_read_iccid env init SIM_BUF_SIZE s; t = (if res = 20 then take 19 t else t)
      in if res < 0 then ((False, False), sm, c)
         else if iccid (sim_info sm) \<noteq> t then (let (support, sm) = new_card ids t sm in ((True, support), sm, c))
         else ((True, False), sm, c))"

definition new_imsi :: "int \<Rightarrow> bool \<Rightarrow> cstring \<Rightarrow> sim \<Rightarrow> sim" where
  "new_imsi now init t sm =
     (let i = sim_info sm
      in if si_imsi i \<noteq> t
         then (let i = (if si_imsi i \<noteq> []
                        then i\<lparr>prev_imsi := si_imsi i,
                               imsi_interval := (if select_pending sm then imsi_interval i else min (MSEC_TO_SEC (now - imsi_time sm)) 30000),
                               imsi_counter := imsi_counter i + 1\<rparr>
                        else i)
               in sm\<lparr>select_pending := False, sim_info := i\<lparr>si_imsi := take (MODEM_ID_SIZE - 1) t\<rparr>, imsi_time := now\<rparr>)
         else if init then sm\<lparr>imsi_time := now\<rparr> else sm)"

definition sim_read_imsi :: "('w, 'st) cmd_env \<Rightarrow> bool \<Rightarrow> ('w, 'st) sim_cmd \<Rightarrow> bool \<times> ('w, 'st) sim_cmd" where
  "sim_read_imsi env init s =
     (let ((res, t), s) = sim_read_cmd env init SIM_BUF_SIZE None ''AT+CIMI'' s
      in if res < 0 then (False, s) else (True, with_sim (new_imsi (ce_now env) init t) s))"

text \<open>A file of the card: the data of a successful answer is passed on.\<close>

definition sim_read_file ::
  "('w, 'st) cmd_env \<Rightarrow> cstring \<Rightarrow> (nat \<Rightarrow> cstring \<Rightarrow> sim \<Rightarrow> sim) \<Rightarrow> ('w, 'st) sim_cmd \<Rightarrow> bool \<times> ('w, 'st) sim_cmd" where
  "sim_read_file env cmd f s =
     (let ((res, buf), s) = sim_at_cmd env SIM_BUF_SIZE (Some ''+CRSM: '') cmd s; start = nat (strstart buf CRSM_SUCCESS False)
      in if res < 0 then (False, s)
         else (True, if start > 0 then with_sim (f (nat res - start) (drop start buf)) s else s))"

definition sim_edrx :: "nat \<Rightarrow> cstring \<Rightarrow> sim \<Rightarrow> sim" where
  "sim_edrx len t sm = sm\<lparr>sim_info := (sim_info sm)\<lparr>edrx_cycle_support := (of_char (c_deref (drop 6 t)) > (of_char (CHR ''7'') :: nat))\<rparr>\<rparr>"

definition sim_period :: "nat \<Rightarrow> cstring \<Rightarrow> sim \<Rightarrow> sim" where
  "sim_period len t sm =
     (let interval = fst (strtol t 16) * 2;
          interval = (if interval > 80 then min (interval * 2) 240 else interval)
      in sm\<lparr>sim_info := (sim_info sm)\<lparr>hpplmn_search_interval := interval\<rparr>\<rparr>)"

definition sim_services :: "nat \<Rightarrow> cstring \<Rightarrow> sim \<Rightarrow> sim" where
  "sim_services len t sm =
     (let service = fold (\<lambda>(n, number) v. check_service v n t len number) [(0, 20), (1, 42), (2, 43), (3, 71), (4, 74), (5, 96)] (read_service sm)
      in sm\<lparr>read_service := service, sim_service := service\<rparr>)"

definition copied :: "cstring \<Rightarrow> cstring option \<Rightarrow> cstring" where
  "copied plmns mcc = (case snd (copy_plmn plmns MODEM_PLMN_SIZE mcc) of Some t \<Rightarrow> t | None \<Rightarrow> [])"

text \<open>The first network of the lists, and the first of the country.\<close>

definition pick_plmns :: "cstring \<Rightarrow> cstring \<Rightarrow> cstring \<times> cstring \<Rightarrow> cstring \<times> cstring" where
  "pick_plmns mcc plmns p =
     (if fst p = [] then copied plmns None else fst p, if snd p = [] \<and> mcc \<noteq> [] then copied plmns (Some mcc) else snd p)"

definition sim_read_list ::
  "('w, 'st) cmd_env \<Rightarrow> nat \<Rightarrow> nat \<Rightarrow> (cstring \<times> cstring) \<times> ('w, 'st) sim_cmd \<Rightarrow> (cstring \<times> cstring) \<times> ('w, 'st) sim_cmd" where
  "sim_read_list env n ident r =
     (let (p, s) = r
      in if bit (read_service (fst s)) n
         then (let ((res, plmns), s) = modem_sim_read_hpplm_list env ident SIM_BUF_SIZE (Some PLMNS_SIZE) s
               in (if res > 0 then pick_plmns (modem_get_mcc (mc_modem (snd s))) plmns p else p, s))
         else r)"

definition sim_set_hpplmn :: "cstring \<times> cstring \<Rightarrow> sim \<Rightarrow> sim" where
  "sim_set_hpplmn p sm = sm\<lparr>sim_info := (sim_info sm)\<lparr>hpplmn := (if snd p \<noteq> [] then snd p else fst p), si_valid := True\<rparr>\<rparr>"

definition sim_read_forbidden :: "('w, 'st) cmd_env \<Rightarrow> ('w, 'st) sim_cmd \<Rightarrow> ('w, 'st) sim_cmd" where
  "sim_read_forbidden env s =
     (let ((res, plmns), s) = modem_sim_read_forbidden_list env SIM_BUF_SIZE (Some PLMNS_SIZE) s;
          mcc = modem_get_mcc (mc_modem (snd s))
      in if res < 0 then s
         else with_sim (\<lambda>sm. sm\<lparr>id_overread := id_overread sm \<or> mcc = [] \<and> plmns \<noteq> [],
                sim_info := (sim_info sm)\<lparr>forbidden := (if fst (copy_plmn plmns MODEM_PLMN_SIZE (Some mcc)) = 0
                                                      then copied plmns None else copied plmns (Some mcc))\<rparr>\<rparr>) s)"

text \<open>A file that is only logged, if the card has the service.\<close>

definition sim_read_service ::
  "(nat \<Rightarrow> cstring option \<Rightarrow> cstring \<Rightarrow> ('w, 'st) sim_cmd \<Rightarrow> (int \<times> cstring) \<times> ('w, 'st) sim_cmd) \<Rightarrow> nat \<Rightarrow> cstring
   \<Rightarrow> ('w, 'st) sim_cmd \<Rightarrow> bool \<times> ('w, 'st) sim_cmd" where
  "sim_read_service at_cmd n cmd s =
     (if bit (read_service (fst s)) n then (let (r, s) = at_cmd SIM_BUF_SIZE (Some ''+CRSM: '') cmd s in (\<not> fst r < 0, s)) else (True, s))"

definition sim_then :: "bool \<times> 's \<Rightarrow> ('s \<Rightarrow> bool \<times> 's) \<Rightarrow> bool \<times> 's" where
  "sim_then r f = (if fst r then f (snd r) else r)"

definition sim_read_hpplmn :: "('w, 'st) cmd_env \<Rightarrow> ('w, 'st) sim_cmd \<Rightarrow> bool \<times> ('w, 'st) sim_cmd" where
  "sim_read_hpplmn env s =
     (let (p, s) = sim_read_list env 1 28513 (sim_read_list env 0 SIM_USER_HPPLMN_ID (sim_read_list env 2 28514 (([], []), s)));
          (ok, s) = sim_read_service (sim_at_cmd env) 4 ''AT+CRSM=176,28636,0,0,1'' s
      in if ok then (True, sim_read_forbidden env (with_sim (sim_set_hpplmn p) s)) else (False, s))"

definition modem_sim_read :: "('w, 'st) cmd_env \<Rightarrow> sim_lists \<Rightarrow> bool \<Rightarrow> ('w, 'st) sim_cmd \<Rightarrow> ('w, 'st) sim_cmd" where
  "modem_sim_read env ids init s =
     (let ((ok, imsi_sel), s) = sim_read_iccid env ids init s;
          r = fold (\<lambda>f r. sim_then r f)
                [sim_read_imsi env init, sim_read_file env ''AT+CRSM=176,28589,0,0,0'' sim_edrx,
                 sim_read_file env ''AT+CRSM=176,28465,0,0,0'' sim_period, sim_read_file env ''AT+CRSM=176,28472,0,0,40'' sim_services,
                 sim_read_service (sim_at_cmdf env) 3 ''AT+CRSM=176,28633,0,0,45'', sim_read_hpplmn env,
                 sim_read_service (sim_at_cmdf env) 5 ''AT+CRSM=176,28648,0,0,75''] (ok, s)
      in if fst r \<and> imsi_sel then snd (modem_sim_read_imsi_sel env (snd r)) else snd r)"

definition modem_sim_read_info :: "('w, 'st) cmd_env \<Rightarrow> sim_lists \<Rightarrow> bool \<Rightarrow> ('w, 'st) sim_cmd \<Rightarrow> (int \<times> lte_sim_info) \<times> ('w, 'st) sim_cmd" where
  "modem_sim_read_info env ids init s = (let s = modem_sim_read env ids init s in (modem_sim_get_info (fst s), s))"

definition modem_cmd_sim :: "('w, 'st) cmd_env \<Rightarrow> sim_lists \<Rightarrow> ('w, 'st) sim_cmd \<Rightarrow> int \<times> ('w, 'st) sim_cmd" where
  "modem_cmd_sim env ids s = (0, snd (modem_sim_read_info env ids True s))"

definition modem_cmd_iccid :: "('w, 'st) cmd_env \<Rightarrow> ('w, 'st) sim_cmd \<Rightarrow> int \<times> ('w, 'st) sim_cmd" where
  "modem_cmd_iccid env s = (0, snd (modem_cmd_read_iccid env False 64 s))"

definition modem_read_sim_work_fn :: "('w, 'st) cmd_env \<Rightarrow> sim_lists \<Rightarrow> ('w, 'st) sim_cmd \<Rightarrow> ('w, 'st) sim_cmd" where
  "modem_read_sim_work_fn env ids s = snd (modem_sim_read_info env ids False s)"

section \<open>Start of the modem\<close>

definition in_list :: "cstring option \<Rightarrow> cstring \<Rightarrow> bool" where
  "in_list l ident \<longleftrightarrow> (case l of Some t \<Rightarrow> find_id t ident \<noteq> None | None \<Rightarrow> False)"

definition start_preference :: "('w, 'st) cmd_env \<Rightarrow> preference_mode \<Rightarrow> ('w, 'st) modem_cmd \<Rightarrow> ('w, 'st) modem_cmd" where
  "start_preference env mode c = snd (with_both (modem_set_preference (ce_lib env) (mode_preference (ce_config env)) mode) c)"

definition modem_sim_apply_iccid_preference :: "('w, 'st) cmd_env \<Rightarrow> sim_lists \<Rightarrow> ('w, 'st) sim_cmd \<Rightarrow> bool \<times> ('w, 'st) sim_cmd" where
  "modem_sim_apply_iccid_preference env ids s =
     (let t = take 5 (iccid (sim_info (fst s)))
      in if t = [] then (False, s)
         else if in_list (ltem_list ids) t then (True, fst s, start_preference env LTE_M_PREFERENCE (snd s))
         else if in_list (nbiot_list ids) t then (True, fst s, start_preference env NBIOT_PREFERENCE (snd s))
         else (False, s))"

text \<open>The card is read while the modem is powered but offline, unless the voltage is low. \<open>cp_rai\<close> is \<open>CONFIG_CP_RAI_ON\<close>.\<close>

definition modem_init_rai :: "('w, 'st) cmd_env \<Rightarrow> bool \<Rightarrow> ('w, 'st) modem_cmd \<Rightarrow> ('w, 'st) modem_cmd" where
  "modem_init_rai env cp_rai c = (if cp_rai then snd (with_at (modem_at_cmd (ce_lib env) None None ''AT%XRAI=0'') c) else c)"

definition start_read_sim :: "('w, 'st) cmd_env \<Rightarrow> sim_lists \<Rightarrow> ('w, 'st) sim_cmd \<Rightarrow> ('w, 'st) sim_cmd" where
  "start_read_sim env ids s =
     (let ((res, buf), s) = sim_at_cmd env 32 (Some ''%XVBAT: '') ''AT%XVBAT'' s
      in if res > 0 \<and> fst (strtol buf 10) > 3025
         then (let ((res, _), c) = with_at (modem_at_cmd (ce_lib env) None None ''AT+CFUN=41'') (snd s); s = (fst s, c)
               in if res > 0
                  then (let (_, s) = modem_sim_read_info env ids True s;
                            s = (if MODEM_LTE_MODE_PREFERENCE \<in> modem_states (mc_modem (snd s))
                                 then snd (modem_sim_apply_iccid_preference env ids s) else s)
                        in (fst s, snd (with_at (modem_at_set_offline (ce_lib env)) (snd s))))
                  else s)
         else s)"

text \<open>A wait for the network: when it begins, what the first look and the turns observe, what the events of the modem do
  meanwhile, and when it ends.\<close>

record ('w, 'st) attach =
  at_begin :: int
  at_first :: int
  at_turns :: "wait_turn list"
  at_events :: "('w, 'st) sim_cmd \<Rightarrow> ('w, 'st) sim_cmd"
  at_end :: int

definition attach_wait :: "int \<Rightarrow> ('w, 'st) attach \<Rightarrow> ('w, 'st) sim_cmd \<Rightarrow> int option \<times> ('w, 'st) sim_cmd" where
  "attach_wait timeout_ms w s = (modem_wait_ready (at_begin w) timeout_ms (at_first w) (at_turns w), at_events w s)"

text \<open>The modem saves its state when it is switched off. \<open>lte_searchs\<close> does not count the search that follows.\<close>

definition start_save :: "('w, 'st) cmd_env \<Rightarrow> ('w, 'st) modem_cmd \<Rightarrow> ('w, 'st) modem_cmd" where
  "start_save env c =
     (let m = mc_modem c; mode = ni_mode (network_info m);
          current = (if MODEM_LTE_MODE_PREFERENCE \<in> modem_states m
                     then (if mode = LTE_LC_LTE_MODE_LTEM then LTE_M_PREFERENCE
                           else if mode = LTE_LC_LTE_MODE_NBIOT then NBIOT_PREFERENCE else RESET_PREFERENCE)
                     else RESET_PREFERENCE);
          c = set_modem (m\<lparr>lte_searchs := lte_searchs m - 1\<rparr>) c;
          c = snd (with_at (modem_at_power_off (ce_lib env)) c);
          c = (if current \<noteq> RESET_PREFERENCE then start_preference env current c else c)
      in snd (with_at (modem_at_set_normal (ce_lib env)) c))"

text \<open>\<open>threshold\<close> is \<open>CONFIG_MODEM_SAVE_CONFIG_THRESHOLD\<close> in seconds. The result is \<open>None\<close> while a wait has not ended.\<close>

definition saves :: "int \<Rightarrow> bool \<Rightarrow> int \<Rightarrow> sim \<Rightarrow> bool" where
  "saves threshold save time sm \<longleftrightarrow>
     0 < threshold \<and> save \<and> \<not> modem_sim_automatic_multi_imsi sm \<and> (threshold = 1 \<or> time > threshold * 1000)"

definition modem_start ::
  "('w, 'st) cmd_env \<Rightarrow> sim_lists \<Rightarrow> bool \<Rightarrow> int \<Rightarrow> int \<Rightarrow> bool \<Rightarrow> ('w, 'st) attach \<Rightarrow> ('w, 'st) attach \<Rightarrow> ('w, 'st) sim_cmd
   \<Rightarrow> int option \<times> ('w, 'st) sim_cmd" where
  "modem_start env ids cp_rai threshold timeout_ms save w1 w2 s =
     (let c = modem_init_rai env cp_rai (set_modem (modem_start_reset (mc_modem (snd s))) (snd s));
          (sm, c) = start_read_sim env ids (fst s, c);
          (err, all) = modem_connect (ce_lib env) (mc_all c); s = (sm, c\<lparr>mc_all := all\<rparr>)
      in if err \<noteq> 0 then (Some err, s)
         else (let (r, s) = attach_wait timeout_ms w1 s
               in if r = Some 0 \<and> saves threshold save (at_end w1 - at_begin w1) (fst s)
                  then attach_wait timeout_ms w2 (fst s, start_save env (snd s)) else (r, s)))"

end
