(* ===== verification/Sim_Laws.thy ===== *)
theory Sim_Laws
  imports Sim_Card
begin

text \<open>
  What holds of the SIM card: the country of a network is never found in the lists, a test of an identity always has a
  fallback, which a forced selection does not stop, and the list of forbidden networks is read back as it is written.
\<close>

section \<open>The country of a network\<close>

lemma strstr_suffix_Some: "strstr_suffix hay t = Some pos \<Longrightarrow> \<exists>pre. hay = pre @ pos \<and> take (length t) pos = t"
proof (induction hay)
  case (Cons c hay)
  show ?case
  proof (cases "take (length t) (c # hay) = t")
    case True
    then have "pos = c # hay" using Cons.prems by simp
    then show ?thesis using True by (intro exI [of _ "[]"]) simp
  next
    case False
    then obtain pre where "hay = pre @ pos" "take (length t) pos = t" using Cons by auto
    then show ?thesis by (intro exI [of _ "c # pre"]) simp
  qed
qed (simp split: if_splits)

lemma find_id_loop_Some: "find_id_loop prev hay t = Some pos \<Longrightarrow>
  \<exists>pre. hay = pre @ pos \<and> last (prev # pre) = CHR '','' \<and> take (length t) pos = t \<and> c_deref (drop (length t) pos) \<in> {CHR '','', NUL}"
proof (induction prev hay t rule: find_id_loop.induct)
  case (1 prev hay t)
  obtain q where q: "strstr_suffix hay t = Some q" using "1.prems" by (subst (asm) find_id_loop.simps) (auto split: option.splits)
  then obtain pre where pre: "hay = pre @ q" "take (length t) q = t" using strstr_suffix_Some by blast
  define before where "before = (if length q = length hay then prev else hay ! (length hay - length q - 1))"
  have before: "before = last (prev # pre)"
    by (cases pre rule: rev_cases) (auto simp: before_def pre(1) nth_append)
  show ?case
  proof (cases "before = CHR '','' \<and> c_deref (drop (length t) q) \<in> {CHR '','', NUL}")
    case True
    then have "pos = q" using "1.prems" q by (subst (asm) find_id_loop.simps) (simp add: before_def Let_def)
    then show ?thesis using pre True before by auto
  next
    case False
    then have rec: "q \<noteq> []" "find_id_loop (hd q) (tl q) t = Some pos"
      using "1.prems" q by (subst (asm) find_id_loop.simps; auto simp: before_def Let_def split: if_splits)+
    obtain pre2 where "tl q = pre2 @ pos" "last (hd q # pre2) = CHR '',''" "take (length t) pos = t"
        "c_deref (drop (length t) pos) \<in> {CHR '','', NUL}"
      using "1.IH" [OF q refl _ rec(1,2)] False by (auto simp: before_def)
    moreover from this rec(1) have "hay = (pre @ hd q # pre2) @ pos" using pre(1) by (cases q) auto
    ultimately show ?thesis by (intro exI [of _ "pre @ hd q # pre2"]) auto
  qed
qed

lemma butlast_join_Cons: "butlast (join_plmns (p # ps)) = p @ (if ps = [] then [] else CHR '','' # butlast (join_plmns ps))"
  by (cases ps) (simp_all add: join_plmns_def butlast_append)

text \<open>What follows a comma, or the begin of the list, starts with an entry of the list.\<close>

lemma join_entry:
  assumes "\<forall>p \<in> set ps. CHR '','' \<notin> set p" "butlast (join_plmns ps) = pre @ pos" "last (CHR '','' # pre) = CHR '',''" "pos \<noteq> []"
  shows "\<exists>p \<in> set ps. \<exists>rest. pos = p @ rest"
  using assms
proof (induction ps arbitrary: pre)
  case (Cons p ps)
  show ?case
  proof (cases "pre = []")
    case True
    then show ?thesis using Cons.prems(2) by (auto simp: butlast_join_Cons)
  next
    case False
    then have comma: "CHR '','' \<in> set pre" using Cons.prems(3) by (metis last.simps last_in_set)
    define t where "t = (if ps = [] then [] else CHR '','' # butlast (join_plmns ps))"
    have split: "p @ t = pre @ pos" using Cons.prems(2) by (simp add: butlast_join_Cons t_def)
    have "\<nexists>us. p = pre @ us" using comma Cons.prems(1) by auto
    then obtain us where us: "pre = p @ us" "us @ pos = t" using split by (auto simp: append_eq_append_conv2)
    have "us \<noteq> []" using us(1) False Cons.prems(1,3) comma by auto
    then obtain pre' where pre': "us = CHR '','' # pre'" "butlast (join_plmns ps) = pre' @ pos" "ps \<noteq> []"
      using us(2) by (cases us) (auto simp: t_def split: if_splits)
    have "last (CHR '','' # pre') = CHR '',''" using Cons.prems(3) us(1) pre'(1) by (simp split: if_splits)
    then show ?thesis using Cons.IH [of pre'] Cons.prems(1,4) pre'(2) by auto
  qed
qed (simp add: join_plmns_def)

lemma country_not_found:
  assumes "\<forall>p \<in> set ps. CHR '','' \<notin> set p \<and> NUL \<notin> set p \<and> length mcc < length p" "mcc \<noteq> []"
  shows "find_id (butlast (join_plmns ps)) mcc = None"
proof (rule ccontr)
  assume "find_id (butlast (join_plmns ps)) mcc \<noteq> None"
  then obtain pre pos where pos: "butlast (join_plmns ps) = pre @ pos" "last (CHR '','' # pre) = CHR '',''" "take (length mcc) pos = mcc"
      "c_deref (drop (length mcc) pos) \<in> {CHR '','', NUL}"
    unfolding find_id_def using find_id_loop_Some by blast
  have "pos \<noteq> []" using pos(3) assms(2) by auto
  then obtain p rest where p: "p \<in> set ps" "pos = p @ rest" using join_entry [OF _ pos(1,2)] assms(1) by blast
  then have "c_deref (drop (length mcc) pos) = p ! length mcc" using assms(1) by (simp add: c_deref_def Cons_nth_drop_Suc [symmetric])
  moreover have "p ! length mcc \<in> set p" using p(1) assms(1) by simp
  ultimately show False using pos(4) p(1) assms(1) by (metis insertE singletonD)
qed

text \<open>C40. The card prefers networks in lists of five or six digit numbers. The program takes the first one of the country in which
  the modem is, but it compares the three digits of the country with whole entries: none is found, whatever the list
  is, and the first entry is taken.\<close>

theorem country_network_ignored:
  assumes "\<forall>p \<in> set ps. length p \<in> {5, 6} \<and> CHR '','' \<notin> set p \<and> NUL \<notin> set p" "length mcc = 3" "ps \<noteq> []"
  shows "hpplmn (sim_info (sim_set_hpplmn (pick_plmns mcc (butlast (join_plmns ps)) ([], [])) sm)) = hd ps"
proof -
  obtain p qs where ps: "ps = p # qs" using assms(3) by (cases ps) auto
  have "find_id (butlast (join_plmns ps)) mcc = None" by (rule country_not_found) (use assms in auto)
  then have country: "copied (butlast (join_plmns ps)) (Some mcc) = []" by (simp add: copied_def copy_plmn_def)
  have "takeWhile (\<lambda>c. c \<noteq> CHR '','') (butlast (join_plmns ps)) = p"
  proof -
    have "\<forall>c \<in> set p. c \<noteq> CHR '',''" using assms(1) ps by auto
    then show ?thesis by (simp add: ps butlast_join_Cons takeWhile_append2)
  qed
  then have "copied (butlast (join_plmns ps)) None = p" using assms(1) by (auto simp: copied_def copy_plmn_def ps)
  then show ?thesis using country by (simp add: pick_plmns_def sim_set_hpplmn_def ps)
qed

theorem country_network_ignored_witness:
  "hpplmn (sim_info (sim_set_hpplmn (pick_plmns ''262'' (butlast (join_plmns [''22801'', ''26201''])) ([], [])) sim_init)) = ''22801''"
  using country_network_ignored [of "[''22801'', ''26201'']" "''262''" sim_init] by simp

section \<open>The test of an identity\<close>

text \<open>What a test keeps: whether it runs, the identity to go back to, and the work that does so.\<close>

definition test_of :: "sim \<Rightarrow> bool \<times> int \<times> bool" where
  "test_of sm = (test_pending sm, imsi_success sm, reset_work sm)"

named_theorems test_simps

lemma at_cmd_sim [simp, test_simps]: "fst (snd (sim_at_cmd env len skip cmd s)) = fst s" "fst (snd (sim_at_cmdf env len skip cmd s)) = fst s"
  by (simp_all add: sim_at_cmd_def sim_at_cmdf_def split_beta Let_def)

lemma with_sim_test [test_simps]: "(\<And>sm. test_of (f sm) = test_of sm) \<Longrightarrow> test_of (fst (with_sim f s)) = test_of (fst s)"
  by (simp add: with_sim_def)

lemma test_of_updates [simp]:
  "test_of (sm\<lparr>sim_info := i\<rparr>) = test_of sm" "test_of (sm\<lparr>imsi_time := t\<rparr>) = test_of sm" "test_of (sm\<lparr>read_service := v\<rparr>) = test_of sm"
  "test_of (sm\<lparr>sim_service := v\<rparr>) = test_of sm" "test_of (sm\<lparr>select_pending := b\<rparr>) = test_of sm" "test_of (sm\<lparr>id_overread := b\<rparr>) = test_of sm"
  "test_of (sm\<lparr>network_registered := b\<rparr>) = test_of sm"
  by (simp_all add: test_of_def)

lemma retry_test [test_simps]: "fst (snd (sim_retry env len skip cmd n r)) = fst (snd r)"
  by (induction n arbitrary: r) simp_all

lemma read_retry_test [test_simps]: "fst (snd (modem_sim_read_with_retry env n len skip cmd s)) = fst s"
  by (simp add: modem_sim_read_with_retry_def retry_test Let_def)

lemma read_cmd_test [test_simps]: "fst (snd (sim_read_cmd env init len skip cmd s)) = fst s"
  by (simp add: sim_read_cmd_def modem_sim_read_locked_with_retry_def read_retry_test split_beta Let_def)

lemma read_sel_test [test_simps]: "test_of (fst (snd (modem_sim_read_imsi_sel env s))) = test_of (fst s)"
  by (simp add: modem_sim_read_imsi_sel_def on_sim_info_def with_sim_def split_beta Let_def)

lemma write_sel_test [test_simps]: "test_of (fst (snd (modem_sim_write_imsi_sel env n again s))) = test_of (fst s)"
  by (simp add: modem_sim_write_imsi_sel_def with_sim_def read_sel_test split_beta Let_def)

lemma lists_test [test_simps]:
  "fst (snd (modem_sim_read_forbidden_list env n p s)) = fst s" "fst (snd (modem_sim_read_hpplm_list env k n p s)) = fst s"
  by (simp_all add: modem_sim_read_forbidden_list_def modem_sim_read_hpplm_list_def split_beta Let_def split: option.splits)

lemma read_steps_test [test_simps]:
  "test_of (fst (snd (sim_read_iccid env ids init s))) = test_of (fst s)"
  "test_of (fst (snd (sim_read_imsi env init s))) = test_of (fst s)"
  "(\<And>n t sm. test_of (f n t sm) = test_of sm) \<Longrightarrow> test_of (fst (snd (sim_read_file env cmd f s))) = test_of (fst s)"
  "(\<And>k sk c s. fst (snd (g k sk c s)) = fst s) \<Longrightarrow> test_of (fst (snd (sim_read_service g n cmd s))) = test_of (fst s)"
  "test_of (fst (snd (sim_read_list env n k r))) = test_of (fst (snd r))"
  "test_of (fst (sim_read_forbidden env s)) = test_of (fst s)"
  by (simp_all add: sim_read_iccid_def modem_cmd_read_iccid_def new_card_def sim_read_imsi_def new_imsi_def sim_read_file_def
      sim_read_service_def sim_read_list_def sim_read_forbidden_def with_sim_def test_simps split_beta Let_def)

lemma file_parts_test [simp]: "test_of (sim_edrx n t sm) = test_of sm" "test_of (sim_period n t sm) = test_of sm"
    "test_of (sim_services n t sm) = test_of sm"
  by (simp_all add: sim_edrx_def sim_period_def sim_services_def Let_def)

lemma hpplmn_test [test_simps]: "test_of (fst (snd (sim_read_hpplmn env s))) = test_of (fst s)"
  by (simp add: sim_read_hpplmn_def test_simps sim_set_hpplmn_def split_beta Let_def)

lemma then_test [test_simps]: "test_of (fst (snd (f (snd r)))) = test_of (fst (snd r)) \<Longrightarrow> test_of (fst (snd (sim_then r f))) = test_of (fst (snd r))"
  by (simp add: sim_then_def)

lemma read_test [test_simps]: "test_of (fst (modem_sim_read env ids init s)) = test_of (fst s)"
  by (simp add: modem_sim_read_def test_simps split_beta Let_def)

text \<open>What may happen to the card: its commands, the ready modem, restarts, the end of the time for a test, reading, and anything
  that does not concern the card.\<close>

inductive sim_step :: "('w, 'st) cmd_env \<Rightarrow> sim_lists \<Rightarrow> ('w, 'st) sim_cmd \<Rightarrow> ('w, 'st) sim_cmd \<Rightarrow> bool" for env ids where
  Select: "sim_step env ids s (snd (modem_cmd_imsi_sel env parameter s))"
| Ready: "sim_step env ids s (modem_sim_ready env s)"
| Reset: "sim_step env ids s (modem_sim_reset env again s)"
| Timeout: "reset_work (fst s) \<Longrightarrow> sim_step env ids s (modem_cmd_sim_reset_fn env s)"
| Read: "sim_step env ids s (modem_sim_read env ids init s)"
| Init: "sim_step env ids (sm, c) (modem_sim_init sm, c)"
| Network: "sim_step env ids (sm, c) (modem_sim_network now reg sm, c)"
| Cfun: "sim_step env ids (sm, c) (modem_sim_on_cfun now mode sm, c)"
| Other: "sim_step env ids (sm, c) (sm, c')"

inductive sim_reachable :: "('w, 'st) cmd_env \<Rightarrow> sim_lists \<Rightarrow> ('w, 'st) sim_cmd \<Rightarrow> bool" for env ids where
  Start: "sim_reachable env ids (sim_init, c)"
| Step: "sim_reachable env ids s \<Longrightarrow> sim_step env ids s s' \<Longrightarrow> sim_reachable env ids s'"

definition test_ok :: "bool \<times> int \<times> bool \<Rightarrow> bool" where
  "test_ok t = (case t of (running, ident, work) \<Rightarrow> (running \<longleftrightarrow> work) \<and> (running \<longrightarrow> 0 \<le> ident) \<and> ident < 255)"

lemma select_cmd_test:
  "test_of (fst (imsi_select_cmd env force select selected s)) \<in> {test_of (fst s), (True, imsi_success (fst s), True)}"
  "test_of (fst (imsi_select_cmd env force select selected s)) \<noteq> test_of (fst s) \<Longrightarrow> \<not> force \<and> 0 \<le> imsi_success (fst s)"
proof -
  obtain res s' where w: "modem_sim_write_imsi_sel env (unat select) True s = (res, s')" by (cases "modem_sim_write_imsi_sel env (unat select) True s")
  then have "test_of (fst s') = test_of (fst s)" using write_sel_test [of env "unat select" True s] by simp
  then have t: "test_of (fst s') = test_of (fst s)" "imsi_success (fst s') = imsi_success (fst s)" by (simp_all add: test_of_def)
  show "test_of (fst (imsi_select_cmd env force select selected s)) \<in> {test_of (fst s), (True, imsi_success (fst s), True)}"
    using t by (simp add: imsi_select_cmd_def w with_sim_def Let_def) (simp add: test_of_def)
  show "test_of (fst (imsi_select_cmd env force select selected s)) \<noteq> test_of (fst s) \<Longrightarrow> \<not> force \<and> 0 \<le> imsi_success (fst s)"
    using t by (simp add: imsi_select_cmd_def w Let_def split: if_splits)
qed

lemma imsi_cmd_test:
  "test_of (fst (snd (modem_cmd_imsi_sel env p s))) \<in> {test_of (fst s), (True, imsi_success (fst s), True)}"
  "test_of (fst (snd (modem_cmd_imsi_sel env p s))) \<noteq> test_of (fst s) \<Longrightarrow> stricmp (snd (next_value 64 p)) ''force'' \<noteq> 0 \<and> 0 \<le> imsi_success (fst s)"
proof -
  obtain res selected s' where r: "modem_sim_read_imsi_sel env s = ((res, selected), s')" by (metis prod.exhaust)
  have t: "test_of (fst s') = test_of (fst s)" using read_sel_test [of env s] r by simp
  then have i: "imsi_success (fst s') = imsi_success (fst s)" by (simp add: test_of_def)
  note sel = select_cmd_test [of env _ _ selected s', unfolded t i]
  show "test_of (fst (snd (modem_cmd_imsi_sel env p s))) \<in> {test_of (fst s), (True, imsi_success (fst s), True)}"
    using t sel(1) by (simp add: modem_cmd_imsi_sel_def r split_beta Let_def split: option.splits)
  show "test_of (fst (snd (modem_cmd_imsi_sel env p s))) \<noteq> test_of (fst s) \<Longrightarrow> stricmp (snd (next_value 64 p)) ''force'' \<noteq> 0 \<and> 0 \<le> imsi_success (fst s)"
    using t sel(2) by (auto simp: modem_cmd_imsi_sel_def r split_beta Let_def split: option.splits if_splits)
qed

lemma reset_test: "test_of (fst (modem_sim_reset env again s)) = (if test_pending (fst s) then (False, - 1, False) else test_of (fst s))"
  by (simp add: modem_sim_reset_def with_sim_def write_sel_test Let_def) (simp add: test_of_def)

lemma imsi_sel_range: "modem_sim_get_imsi_sel v < 255"
proof -
  have "uint (take_bit 8 v) < 256" using take_bit_int_less_exp [of 8 "uint v"] by (simp add: unsigned_take_bit_eq)
  then show ?thesis by (auto simp: modem_sim_get_imsi_sel_def Let_def)
qed

lemma ready_test: "test_of (fst (modem_sim_ready env s)) = test_of (fst s) \<or> (\<exists>i < 255. test_of (fst (modem_sim_ready env s)) = (False, i, False))"
  by (simp add: modem_sim_ready_def with_sim_def read_sel_test imsi_sel_range split_beta Let_def) (simp add: test_of_def imsi_sel_range)

lemma sim_step_test: "sim_step env ids s s' \<Longrightarrow> test_ok (test_of (fst s)) \<Longrightarrow> test_ok (test_of (fst s'))"
proof (induction rule: sim_step.induct)
  case (Select s p)
  have "test_ok (True, imsi_success (fst s), True)" if "0 \<le> imsi_success (fst s)" using that Select by (simp add: test_ok_def test_of_def)
  then show ?case using imsi_cmd_test [of env p s] Select by (metis insertE singletonD)
next
  case (Ready s)
  then show ?case using ready_test [of env s] by (auto simp: test_ok_def)
next
  case (Timeout s)
  then have "test_pending (fst s)" by (simp add: test_ok_def test_of_def)
  then show ?case by (simp add: modem_cmd_sim_reset_fn_def reset_test with_sim_def test_ok_def)
next
  case (Reset s again)
  then show ?case by (simp add: reset_test test_ok_def)
qed (simp_all add: read_test modem_sim_init_def modem_sim_network_def modem_sim_on_cfun_def Let_def)

lemma sim_reachable_test: "sim_reachable env ids s \<Longrightarrow> test_ok (test_of (fst s))"
proof (induction rule: sim_reachable.induct)
  case (Start c)
  show ?case by (simp add: sim_init_def test_of_def test_ok_def)
qed (rule sim_step_test)

text \<open>The AT command that selects an identity, and an AT interface that is not in use.\<close>

definition select_cmd :: "nat \<Rightarrow> cstring" where
  "select_cmd ident = ''AT+CRSM=220,28616,1,4,13,'' @ [CHR 0x22] @ fmt_zeros 4 (fmt_hex lower_digits ident) @ replicate 22 (CHR ''F'') @ [CHR 0x22]"

definition at_ready :: "'w modem_lib \<Rightarrow> ('h, 'w) at_state \<Rightarrow> bool" where
  "at_ready lib a \<longleftrightarrow> lte_at_response_handler a = None \<and> at_free lib (at_world a)"

lemma at_cmd_world:
  assumes "lte_at_response_handler a = None"
  shows "at_world (snd (modem_at_cmd lib buf skip cmd a)) = snd (snd (nrf_modem_at_cmd lib cmd (at_world a)))"
proof -
  obtain err response w where "nrf_modem_at_cmd lib cmd (at_world a) = (err, response, w)" by (metis prod_cases3)
  then show ?thesis using assms
    by (simp add: modem_at_cmd_def modem_at_lock_internal_def modem_at_lock_def modem_at_unlock_def Let_def split: option.splits nat.splits)
qed

lemma at_cmdf_world:
  assumes "at_ready lib a" "length cmd < 256"
  shows "at_world (snd (modem_at_cmdf lib buf skip cmd a)) = snd (snd (nrf_modem_at_cmd lib cmd (at_world a)))"
proof -
  define a1 where "a1 = (if lte_at_counter a \<noteq> 0 then a\<lparr>lte_at_counter := lte_at_counter a + 1\<rparr> else a)"
  have a1: "lte_at_response_handler a1 = None" "at_world a1 = at_world a" using assms(1) by (simp_all add: a1_def at_ready_def)
  have "modem_at_lock (at_free lib (at_world a)) a = (0, a1)" using assms(1) by (simp add: modem_at_lock_def at_ready_def a1_def)
  then show ?thesis using at_cmd_world [OF a1(1), of lib buf skip cmd] a1(2) assms(2)
    by (simp add: modem_at_cmdf_def modem_at_unlock_def split_beta Let_def)
qed

lemma select_cmd_short: "ident < 256 \<Longrightarrow> length (select_cmd ident) < 256"
proof -
  assume "ident < 256"
  then have "ident div 16 < 16" by simp
  then have "length (fmt_hex lower_digits ident) \<le> 2" by (subst fmt_hex.simps, subst fmt_hex.simps) simp
  then show ?thesis by (simp add: select_cmd_def fmt_zeros_def)
qed

lemma reset_world:
  assumes "test_pending (fst s)" "0 \<le> imsi_success (fst s)" "imsi_success (fst s) < 255" "at_ready (ce_lib env) (mc_at (snd s))"
  shows "at_world (mc_at (snd (modem_sim_reset env False s))) =
    snd (snd (nrf_modem_at_cmd (ce_lib env) (select_cmd (nat (imsi_success (fst s)))) (at_world (mc_at (snd s)))))"
proof -
  have "length (select_cmd (nat (imsi_success (fst s)))) < 256" by (rule select_cmd_short) (use assms in simp)
  from at_cmdf_world [OF assms(4) this, unfolded select_cmd_def] show ?thesis using assms(1,2)
    by (simp add: modem_sim_reset_def modem_sim_write_imsi_sel_def sim_at_cmdf_def with_at_def with_sim_def set_at_def mc_at_def
        select_cmd_def split_beta Let_def)
qed

text \<open>A card with several identities: the world is the function mode of the modem and the identity that is selected and used.\<close>

definition crsm_answer :: "cstring \<Rightarrow> cstring" where
  "crsm_answer t = ''+CRSM: '' @ CRSM_SUCCESS @ t @ [CHR 0x22, CHR 0x0D, CHR 0x0A, CHR ''O'', CHR ''K'', CHR 0x0D, CHR 0x0A]"

definition sim_card_cmd :: "cstring \<Rightarrow> int \<times> cstring \<Rightarrow> int \<times> cstring \<times> int \<times> cstring" where
  "sim_card_cmd cmd w =
     (if cmd = ''AT+CRSM=176,12258,0,0,12'' then (0, crsm_answer ''9888020000000000000F'', w)
      else if cmd = ''AT+CRSM=178,28616,1,4,13'' then (0, crsm_answer (snd w), w)
      else if take 12 cmd = ''AT+CRSM=220,'' then (0, crsm_answer [], fst w, take 4 (drop 26 cmd) @ take 2 (drop 28 cmd))
      else (- 1, [], w))"

definition sim_card_lib :: "(int \<times> cstring) modem_lib" where
  "sim_card_lib = \<lparr>at_free = (\<lambda>_. True), nrf_modem_at_cmd = sim_card_cmd, nrf_modem_at_err = id,
     nrf_modem_at_cmd_async = (\<lambda>_ w. (0, w)), lte_lc_func_mode_set = (\<lambda>mode w. (0, [mode], mode, snd w)), lte_lc_func_mode_get = (\<lambda>w. Inr (fst w)),
     lte_lc_normal = (\<lambda>w. (0, [1], 1, snd w)), lte_lc_system_mode_get = (\<lambda>_. Inr (6, 1)), lte_lc_system_mode_set = (\<lambda>_ _ w. (0, w)),
     lte_lc_psm_req = (\<lambda>_ w. (0, w)), lte_lc_edrx_req = (\<lambda>_ w. (0, w)),
     lte_lc_psm_param_set = (\<lambda>_ _ w. w), pdn_ctx_configure = (\<lambda>_ w. w), nrf_modem_lib_init = id, set_rai_option = (\<lambda>_ _ w. (0, w)),
     nrf_modem_lib_shutdown = id, sms_register_listener = (\<lambda>w. (0, w)), sms_unregister_listener = (\<lambda>_ w. w),
     lte_lc_connect_async = (\<lambda>w. (0, w)), lte_lc_neighbor_cell_measurement = (\<lambda>_ _ w. (0, w)),
     lte_lc_psm_get = (\<lambda>_. 0), lte_lc_edrx_get = (\<lambda>_. Inr (0, 0, 0)), sms_send_text = (\<lambda>_ _ w. (0, w))\<rparr>"

definition sim_card_env :: "nat zephyr_settings \<Rightarrow> settings_env \<Rightarrow> sh_env \<Rightarrow> (int \<times> cstring, nat) cmd_env" where
  "sim_card_env z se sh = \<lparr>ce_lib = sim_card_lib, ce_config = sim_config, ce_zephyr = z, ce_settings = se, ce_sh = sh, ce_ticks_5s = 100,
     ce_psm_parse = (\<lambda>_ _ _. Inl (- 1)), ce_now = 0, ce_use_connect = False\<rparr>"

definition sim_card_ids :: sim_lists where
  "sim_card_ids = \<lparr>imsi_select_list = Some ''89883,89882'', ltem_list = None, nbiot_list = None\<rparr>"

definition sim_card_start :: "nat settings \<Rightarrow> shell \<Rightarrow> (int \<times> cstring, nat) sim_cmd" where
  "sim_card_start st shell = (sim_init, \<lparr>mc_all = (modem_setup_init, modem_init_state, (at_state_init (1, ''000001''))\<lparr>modem_mode := 1\<rparr>),
     mc_settings = st, mc_shell = shell, scan_search_type = 4, scan_gci_count = 6, power_indication = - 1\<rparr>)"

text \<open>The card is read, the modem gets ready, and another identity is tested.\<close>

definition sim_card_test :: "nat zephyr_settings \<Rightarrow> settings_env \<Rightarrow> sh_env \<Rightarrow> nat settings \<Rightarrow> shell \<Rightarrow> (int \<times> cstring, nat) sim_cmd" where
  "sim_card_test z se sh st shell =
     (let env = sim_card_env z se sh
      in snd (modem_cmd_imsi_sel env ''2'' (modem_sim_ready env (modem_sim_read env sim_card_ids False (sim_card_start st shell)))))"

lemma terminate_answer:
  "terminate_at_buffer (t @ [CHR 0x0D, CHR 0x0A, CHR ''O'', CHR ''K'', CHR 0x0D, CHR 0x0A]) = t"
proof -
  have "strend (t @ [CHR 0x0D, CHR 0x0A, CHR ''O'', CHR ''K'', CHR 0x0D, CHR 0x0A]) [CHR 0x0D, CHR 0x0A, CHR ''O'', CHR ''K'', CHR 0x0D, CHR 0x0A] True = 6"
    by (cases t) (simp_all add: strend_def strstart_def nat_add_distrib)
  then show ?thesis by (simp add: terminate_at_buffer_def Let_def)
qed

lemma strstart_append: "strstart (t @ u) t ic = int (length t)"
proof -
  have "strstart_loop ic (t @ u) t = []" by (induction t) (simp_all add: char_eq_def)
  then show ?thesis by (simp add: strstart_def)
qed

lemma crsm_exchange:
  assumes "lte_at_response_handler a = None" "lte_at_counter a \<noteq> - 1"
    "nrf_modem_at_cmd lib cmd (at_world a) = (0, crsm_answer d, w)" "length d + 9 \<le> n" "length d < 235"
  shows "modem_at_cmd lib (Some n) (Some ''+CRSM: '') cmd a =
    ((int (length d) + 8, Some (CRSM_SUCCESS @ d @ [CHR 0x22])), a\<lparr>at_world := w\<rparr>)"
proof -
  have t: "terminate_at_buffer (take 255 (crsm_answer d)) = ''+CRSM: '' @ CRSM_SUCCESS @ d @ [CHR 0x22]"
    using terminate_answer [of "''+CRSM: '' @ CRSM_SUCCESS @ d @ [CHR 0x22]"] assms(5) by (simp add: crsm_answer_def)
  have skip: "strstart (''+CRSM: '' @ CRSM_SUCCESS @ d @ [CHR 0x22]) ''+CRSM: '' True = 7"
    using strstart_append [of "''+CRSM: ''" "CRSM_SUCCESS @ d @ [CHR 0x22]" True] by simp
  obtain k where n: "n = Suc k" using assms(4) by (cases n) auto
  show ?thesis using assms(1-4) t skip
    by (simp add: modem_at_cmd_def modem_at_lock_internal_def modem_at_lock_def modem_at_unlock_def n Let_def)
qed

lemma sim_crsm:
  assumes "lte_at_response_handler (mc_at c) = None" "lte_at_counter (mc_at c) \<noteq> - 1"
    "nrf_modem_at_cmd (ce_lib env) cmd (at_world (mc_at c)) = (0, crsm_answer d, w)" "length d + 9 \<le> n" "length d < 235"
  shows "sim_at_cmd env n (Some ''+CRSM: '') cmd (sm, c) =
    ((int (length d) + 8, CRSM_SUCCESS @ d @ [CHR 0x22]), sm, set_at ((mc_at c)\<lparr>at_world := w\<rparr>) c)"
  using crsm_exchange [OF assms] by (simp add: sim_at_cmd_def with_at_def)

lemma sim_crsmf:
  assumes "at_ready (ce_lib env) (mc_at c)" "0 \<le> lte_at_counter (mc_at c)" "length cmd < 256"
    "nrf_modem_at_cmd (ce_lib env) cmd (at_world (mc_at c)) = (0, crsm_answer d, w)" "length d + 9 \<le> n" "length d < 235"
  shows "sim_at_cmdf env n (Some ''+CRSM: '') cmd (sm, c) =
    ((int (length d) + 8, CRSM_SUCCESS @ d @ [CHR 0x22]), sm, set_at ((mc_at c)\<lparr>at_world := w\<rparr>) c)"
proof -
  define a where "a = mc_at c"
  define a1 where "a1 = (if lte_at_counter a \<noteq> 0 then a\<lparr>lte_at_counter := lte_at_counter a + 1\<rparr> else a)"
  have a1: "lte_at_response_handler a1 = None" "lte_at_counter a1 \<noteq> - 1" "at_world a1 = at_world a"
    using assms(1,2) by (simp_all add: a1_def at_ready_def a_def)
  have "modem_at_lock (at_free (ce_lib env) (at_world a)) a = (0, a1)" using assms(1) by (simp add: modem_at_lock_def at_ready_def a1_def a_def)
  moreover have "modem_at_unlock (a1\<lparr>at_world := w\<rparr>) = a\<lparr>at_world := w\<rparr>" using assms(2) by (simp add: modem_at_unlock_def a1_def a_def)
  ultimately show ?thesis
    using crsm_exchange [OF a1(1,2) assms(4) [folded a_def, folded a1(3)] assms(5,6)] assms(3)
    by (simp add: sim_at_cmdf_def with_at_def modem_at_cmdf_def flip: a_def)
qed

section \<open>The list of forbidden networks\<close>

definition plmn_ok :: "cstring \<Rightarrow> bool" where
  "plmn_ok p \<longleftrightarrow> length p \<in> {5, 6} \<and> list_all dec_digit p"

text \<open>An entry of the list on the card.\<close>

definition plmn_entry :: "cstring option \<Rightarrow> cstring" where
  "plmn_entry e = (case e of Some p \<Rightarrow> the (encode_plmn p 7) | None \<Rightarrow> ''FFFFFF'')"

definition networks :: "cstring option list \<Rightarrow> cstring list" where
  "networks es = concat (map (\<lambda>e. case e of Some p \<Rightarrow> [p] | None \<Rightarrow> []) es)"

lemma encode_entry:
  assumes "plmn_ok p" "6 < len"
  shows "encode_plmn p len = Some (plmn_entry (Some p))" "length (plmn_entry (Some p)) = 6" "get_plmn (plmn_entry (Some p)) 6 = p"
proof -
  have "length p = 5 \<or> length p = 6" "list_all dec_digit p" using assms(1) by (auto simp: plmn_ok_def)
  from plmn_roundtrip [OF this, of 7] obtain enc where e: "encode_plmn p 7 = Some enc" "length enc = 6" "get_plmn enc 6 = p" by auto
  moreover have "encode_plmn p len = encode_plmn p 7" using assms(2) by (simp add: encode_plmn_def)
  ultimately show "encode_plmn p len = Some (plmn_entry (Some p))" "length (plmn_entry (Some p)) = 6" "get_plmn (plmn_entry (Some p)) 6 = p"
    by (simp_all add: plmn_entry_def)
qed

lemma get_plmn_append: "length enc = 6 \<Longrightarrow> get_plmn (enc @ rest) 6 = get_plmn enc 6"
  by (cases enc) (simp_all add: get_plmn_def nth_append)

lemma plmns_of_entries:
  assumes "\<forall>p. Some p \<in> set es \<longrightarrow> plmn_ok p" "7 * length es \<le> sz"
  shows "plmns_loop 6 (\<lambda>l. take 6 l \<noteq> ''FFFFFF'') (concat (map plmn_entry es) @ [CHR 0x22]) (6 * length es + 1) sz = networks es"
  using assms
proof (induction es arbitrary: sz)
  case Nil
  show ?case by (subst plmns_loop.simps) (simp add: networks_def)
next
  case (Cons e es)
  define rest where "rest = concat (map plmn_entry es) @ [CHR 0x22]"
  have IH: "plmns_loop 6 (\<lambda>l. take 6 l \<noteq> ''FFFFFF'') rest (6 * length es + 1) k = networks es" if "7 * length es \<le> k" for k
    using Cons.IH [of k] Cons.prems(1) that by (simp add: rest_def)
  show ?case
  proof (cases e)
    case None
    then show ?thesis using IH [of sz] Cons.prems(2)
      by (subst plmns_loop.simps) (simp add: plmn_entry_def networks_def flip: rest_def)
  next
    case (Some p)
    then have p: "plmn_ok p" using Cons.prems(1) by simp
    define enc where "enc = plmn_entry (Some p)"
    have e: "length enc = 6" "get_plmn enc 6 = p" using encode_entry [OF p, of 7] by (simp_all add: enc_def)
    have "p \<noteq> []" "length p \<le> 6" using p by (auto simp: plmn_ok_def)
    then have first: "c_deref (enc @ rest) \<noteq> NUL" "c_deref (enc @ rest) \<noteq> CHR 0x22" "take 6 (enc @ rest) \<noteq> ''FFFFFF''"
      using e by (cases enc; auto simp: get_plmn_def split: if_splits)+
    have "7 * length es \<le> sz - Suc (length p)" using Cons.prems(2) \<open>length p \<le> 6\<close> by simp
    from IH [OF this] show ?thesis using first e Cons.prems(2) \<open>p \<noteq> []\<close> get_plmn_append [OF e(1), of rest]
      by (subst plmns_loop.simps) (simp add: Some networks_def flip: enc_def rest_def)
  qed
qed

text \<open>The parameter of the command \<open>ban\<close>: networks separated by spaces.\<close>

fun ban_param :: "cstring list \<Rightarrow> cstring" where
  "ban_param [] = []"
| "ban_param [p] = p"
| "ban_param (p # ps) = p @ CHR '' '' # ban_param ps"

lemma dec_digit_no_space: "dec_digit c \<Longrightarrow> c \<noteq> CHR '' ''"
  by (auto simp: dec_digit_def)

lemma next_network:
  assumes "plmn_ok p"
  shows "next_value 8 (ban_param (p # ps)) = (ban_param ps, p)"
proof -
  have p: "\<forall>c \<in> set p. c \<noteq> CHR '' ''" "p \<noteq> []" "length p \<le> 7"
    using assms dec_digit_no_space by (auto simp: plmn_ok_def list_all_iff)
  then have "c_deref p \<noteq> CHR '' ''" by (cases p) auto
  then have first: "c_deref (p @ t) \<noteq> CHR '' ''" for t using p(2) by (cases p) auto
  have "takeWhile (\<lambda>c. c \<noteq> CHR '' '') p = p" using p(1) by (simp only: takeWhile_eq_all_conv)
  then show ?thesis using p first first [of "[]"]
    by (cases ps) (simp_all add: next_value_def parse_next_text_spec takeWhile_append2 Let_def del: takeWhile_eq_all_conv)
qed

lemma next_network_none: "next_value 8 [] = ([], [])"
  by (rule next_value_word) simp_all

lemma ban_loop_networks:
  assumes "\<forall>p \<in> set (p # ps). plmn_ok p" "length buf + 6 * length ps \<le> 111" "length ps < n"
  shows "ban_loop (Suc n) p (ban_param ps) buf = buf @ concat (map (\<lambda>p. plmn_entry (Some p)) (p # ps))"
  using assms
proof (induction ps arbitrary: p buf n)
  case Nil
  then obtain k where "n = Suc k" by (cases n) auto
  moreover have "p \<noteq> []" using Nil.prems(1) by (auto simp: plmn_ok_def)
  ultimately show ?case using encode_entry(1) [of p "118 - length buf"] Nil.prems by (simp add: next_network_none)
next
  case (Cons q ps)
  then obtain k where n: "n = Suc k" "length ps < k" by (cases n) auto
  have p: "p \<noteq> []" "plmn_ok p" "plmn_ok q" using Cons.prems(1) by (auto simp: plmn_ok_def)
  define buf' where "buf' = buf @ plmn_entry (Some p)"
  have "encode_plmn p (118 - length buf) = Some (plmn_entry (Some p))" using encode_entry(1) [OF p(2)] Cons.prems(2) by simp
  then have "ban_loop (Suc n) p (ban_param (q # ps)) buf = ban_loop n q (ban_param ps) buf'"
    using p(1) next_network [OF p(3), of ps] by (simp add: buf'_def del: ban_param.simps)
  also have "\<dots> = buf' @ concat (map (\<lambda>p. plmn_entry (Some p)) (q # ps))"
    unfolding n(1) by (rule Cons.IH) (use Cons.prems n encode_entry(2) [OF p(2), of 7] in \<open>simp_all add: buf'_def\<close>)
  finally show ?case by (simp add: buf'_def)
qed

lemma ban_param_length: "\<forall>p \<in> set ps. plmn_ok p \<Longrightarrow> length ps \<le> length (ban_param ps)"
proof (induction ps rule: ban_param.induct)
  case (3 p q ps)
  then show ?case by simp
qed (auto simp: plmn_ok_def)

lemma ban_digits:
  assumes "\<forall>p \<in> set ps. plmn_ok p" "ps \<noteq> []" "length ps \<le> 15"
  shows "let (cur, plmn) = next_value 8 (ban_param ps)
    in plmn \<noteq> [] \<and> ban_loop (Suc (length (ban_param ps))) plmn cur [] = concat (map (\<lambda>p. plmn_entry (Some p)) ps)"
proof -
  obtain p qs where ps: "ps = p # qs" using assms(2) by (cases ps) auto
  then have "plmn_ok p" "p \<noteq> []" using assms(1) by (auto simp: plmn_ok_def)
  moreover have "length qs < length (ban_param ps)" using ban_param_length [OF assms(1)] ps by simp
  ultimately show ?thesis using ban_loop_networks [of p qs "[]" "length (ban_param ps)"] next_network [of p qs] assms(1,3)
    by (simp add: ps del: ban_loop.simps ban_param.simps)
qed

lemma entries_length: "\<forall>p. Some p \<in> set es \<longrightarrow> plmn_ok p \<Longrightarrow> length (concat (map plmn_entry es)) = 6 * length es"
proof (induction es)
  case (Cons e es)
  then show ?case using encode_entry(2) [of _ 7] by (cases e) (auto simp: plmn_entry_def)
qed simp

lemma networks_Some: "networks (map Some ps @ es) = ps @ networks es"
  by (induction ps) (simp_all add: networks_def)

text \<open>The card answers with its list of 15 entries, and replaces the first ones by those that are written.\<close>

definition card_list :: "'w modem_lib \<Rightarrow> 'w \<Rightarrow> cstring option list \<Rightarrow> bool" where
  "card_list lib w es \<longleftrightarrow> at_free lib w \<and> length es = 15 \<and> (\<forall>p. Some p \<in> set es \<longrightarrow> plmn_ok p) \<and>
     nrf_modem_at_cmd lib ''AT+CRSM=176,28539,0,0,45'' w = (0, crsm_answer (concat (map plmn_entry es)), w)"

definition forbid_cmd :: "cstring list \<Rightarrow> cstring" where
  "forbid_cmd ps = ''AT+CRSM=214,28539,0,0,'' @ print_nat (3 * length ps) @ '','' @ [CHR 0x22] @
     concat (map (\<lambda>p. plmn_entry (Some p)) ps) @ [CHR 0x22]"

definition card_update :: "'w modem_lib \<Rightarrow> 'w \<Rightarrow> cstring option list \<Rightarrow> cstring list \<Rightarrow> 'w \<Rightarrow> bool" where
  "card_update lib w es ps w' \<longleftrightarrow> card_list lib w es \<and> nrf_modem_at_cmd lib (forbid_cmd ps) w = (0, crsm_answer [], w') \<and>
     card_list lib w' (map Some ps @ drop (length ps) es)"

lemma read_forbidden_card:
  assumes "card_list (ce_lib env) (at_world (mc_at c)) es" "lte_at_response_handler (mc_at c) = None" "0 \<le> lte_at_counter (mc_at c)"
  shows "fst (modem_sim_read_forbidden_list env SIM_BUF_SIZE (Some PLMNS_SIZE) (sm, c)) =
    (int (length (join_plmns (networks es))), butlast (join_plmns (networks es)))"
proof -
  let ?w = "at_world (mc_at c)"
  have card: "at_free (ce_lib env) ?w" "length es = 15" "\<forall>p. Some p \<in> set es \<longrightarrow> plmn_ok p"
      "nrf_modem_at_cmd (ce_lib env) ''AT+CRSM=176,28539,0,0,45'' ?w = (0, crsm_answer (concat (map plmn_entry es)), ?w)"
    using assms(1) by (simp_all add: card_list_def)
  have d: "length (concat (map plmn_entry es)) = 90" using entries_length [OF card(3)] card(2) by simp
  have "at_ready (ce_lib env) (mc_at c)" using assms(2) card(1) by (simp add: at_ready_def)
  from sim_crsmf [OF this assms(3) _ card(4), of SIM_BUF_SIZE sm] d
  have r: "sim_at_cmdf env SIM_BUF_SIZE (Some ''+CRSM: '') ''AT+CRSM=176,28539,0,0,45'' (sm, c) =
      ((98, CRSM_SUCCESS @ concat (map plmn_entry es) @ [CHR 0x22]), sm, set_at (mc_at c) c)" by simp
  have s: "strstart (CRSM_SUCCESS @ concat (map plmn_entry es) @ [CHR 0x22]) CRSM_SUCCESS False = 7"
    using strstart_append [of CRSM_SUCCESS _ False] by simp
  have l: "plmns_loop 6 (\<lambda>l. take 6 l \<noteq> ''FFFFFF'') (concat (map plmn_entry es) @ [CHR 0x22]) 91 PLMNS_SIZE = networks es"
    using plmns_of_entries [OF card(3), of PLMNS_SIZE] card(2) by simp
  have "print_nat 45 = ''45''" by code_simp
  then show ?thesis using r s l by (simp add: modem_sim_read_forbidden_list_def get_plmns_def Let_def)
qed

lemma set_at_at: "mc_at (set_at a c) = a"
  by (simp add: set_at_def mc_at_def)

lemma print_nat_short: "n < 100 \<Longrightarrow> length (print_nat n) \<le> 2"
  by (rule print_nat_length) simp_all

lemma ban_writes:
  assumes "\<forall>p \<in> set ps. plmn_ok p" "ps \<noteq> []" "length ps \<le> 15" "card_update (ce_lib env) (at_world (mc_at c)) es ps w'"
    "lte_at_response_handler (mc_at c) = None" "0 \<le> lte_at_counter (mc_at c)"
  shows "snd (modem_cmd_ban env (ban_param ps) (sm, c)) = (sm, set_at ((mc_at c)\<lparr>at_world := w'\<rparr>) c)"
proof -
  define digits where "digits = concat (map (\<lambda>p. plmn_entry (Some p)) ps)"
  have "length (concat (map plmn_entry (map Some ps))) = 6 * length ps" using entries_length [of "map Some ps"] assms(1) by auto
  then have len: "length digits = 6 * length ps" by (simp add: digits_def comp_def)
  obtain cur plmn where n: "next_value 8 (ban_param ps) = (cur, plmn)" "plmn \<noteq> []" "ban_loop (Suc (length (ban_param ps))) plmn cur [] = digits"
    using ban_digits [OF assms(1-3)] by (auto simp: digits_def split: prod.splits)
  have ready: "at_ready (ce_lib env) (mc_at c)" using assms(4,5) by (simp add: at_ready_def card_update_def card_list_def)
  have "length (forbid_cmd ps) < 256"
    using len assms(3) print_nat_short [of "3 * length ps"] by (simp add: forbid_cmd_def flip: digits_def)
  moreover have "nrf_modem_at_cmd (ce_lib env) (forbid_cmd ps) (at_world (mc_at c)) = (0, crsm_answer [], w')"
    using assms(4) by (simp add: card_update_def)
  ultimately have "sim_at_cmdf env 118 (Some ''+CRSM: '') (forbid_cmd ps) (sm, c) =
      ((8, CRSM_SUCCESS @ [CHR 0x22]), sm, set_at ((mc_at c)\<lparr>at_world := w'\<rparr>) c)"
    using sim_crsmf [OF ready assms(6), of "forbid_cmd ps" "[]" w' 118 sm] by simp
  moreover have "''AT+CRSM=214,'' @ print_nat 28539 @ '',0,0,'' @ print_nat (length digits div 2) @ '','' @ [CHR 0x22] @ digits @ [CHR 0x22] = forbid_cmd ps"
  proof -
    have "print_nat 28539 = ''28539''" by code_simp
    then show ?thesis using len by (simp add: forbid_cmd_def flip: digits_def)
  qed
  moreover have "digits \<noteq> []" using len assms(2) by auto
  ultimately show ?thesis using n by (simp add: modem_cmd_ban_def write_list_def split_beta Let_def del: ban_loop.simps)
qed

text \<open>C34. The networks given to the command \<open>ban\<close> are those that are read from the card afterwards, in their order, followed by
  the entries that the list had behind them: the command does not clear the rest of the list.\<close>

theorem ban_list_read_back:
  assumes "\<forall>p \<in> set ps. plmn_ok p" "ps \<noteq> []" "length ps \<le> 15" "card_update (ce_lib env) (at_world (mc_at c)) es ps w'"
    "lte_at_response_handler (mc_at c) = None" "0 \<le> lte_at_counter (mc_at c)"
  shows "snd (fst (modem_sim_read_forbidden_list env SIM_BUF_SIZE (Some PLMNS_SIZE) (snd (modem_cmd_ban env (ban_param ps) (sm, c))))) =
    butlast (join_plmns (ps @ networks (drop (length ps) es)))"
proof -
  let ?c = "set_at ((mc_at c)\<lparr>at_world := w'\<rparr>) c"
  have "card_list (ce_lib env) (at_world (mc_at ?c)) (map Some ps @ drop (length ps) es)"
    using assms(4) by (simp add: card_update_def set_at_at)
  from read_forbidden_card [OF this, of sm] show ?thesis
    using ban_writes [OF assms, of sm] assms(5,6) by (simp add: set_at_at networks_Some)
qed

text \<open>A card whose list has three networks, of which the first two are replaced.\<close>

definition sim_forbidden :: "bool \<Rightarrow> cstring option list" where
  "sim_forbidden w = (if w then [Some ''26201'', Some ''310410'', Some ''23415''] else [Some ''22801'', Some ''22802'', Some ''23415'']) @ replicate 12 None"

definition sim_forbidden_lib :: "bool modem_lib" where
  "sim_forbidden_lib = \<lparr>at_free = (\<lambda>_. True),
     nrf_modem_at_cmd = (\<lambda>cmd w. if cmd = forbid_cmd [''26201'', ''310410''] then (0, crsm_answer [], True)
       else (0, crsm_answer (concat (map plmn_entry (sim_forbidden w))), w)), nrf_modem_at_err = id,
     nrf_modem_at_cmd_async = (\<lambda>_ w. (0, w)), lte_lc_func_mode_set = (\<lambda>mode w. (0, [mode], w)), lte_lc_func_mode_get = (\<lambda>w. Inr 1),
     lte_lc_normal = (\<lambda>w. (0, [1], w)), lte_lc_system_mode_get = (\<lambda>_. Inr (6, 1)), lte_lc_system_mode_set = (\<lambda>_ _ w. (0, w)),
     lte_lc_psm_req = (\<lambda>_ w. (0, w)), lte_lc_edrx_req = (\<lambda>_ w. (0, w)),
     lte_lc_psm_param_set = (\<lambda>_ _ w. w), pdn_ctx_configure = (\<lambda>_ w. w), nrf_modem_lib_init = id, set_rai_option = (\<lambda>_ _ w. (0, w)),
     nrf_modem_lib_shutdown = id, sms_register_listener = (\<lambda>w. (0, w)), sms_unregister_listener = (\<lambda>_ w. w),
     lte_lc_connect_async = (\<lambda>w. (0, w)), lte_lc_neighbor_cell_measurement = (\<lambda>_ _ w. (0, w)),
     lte_lc_psm_get = (\<lambda>_. 0), lte_lc_edrx_get = (\<lambda>_. Inr (0, 0, 0)), sms_send_text = (\<lambda>_ _ w. (0, w))\<rparr>"

lemma sim_forbidden_ok: "Some p \<in> set (sim_forbidden w) \<Longrightarrow> plmn_ok p" "length (sim_forbidden w) = 15"
  by (auto simp: sim_forbidden_def plmn_ok_def dec_digit_def split: if_splits)

lemma sim_forbidden_card: "card_update sim_forbidden_lib False (sim_forbidden False) [''26201'', ''310410''] True"
proof -
  have "card_list sim_forbidden_lib w (sim_forbidden w)" for w
    using sim_forbidden_ok(1) [of _ w] sim_forbidden_ok(2) [of w] by (simp add: card_list_def sim_forbidden_lib_def forbid_cmd_def)
  from this [of True] this [of False] show ?thesis
    by (simp add: card_update_def sim_forbidden_lib_def) (simp add: sim_forbidden_def)
qed

theorem ban_list_read_back_witness:
  "\<forall>(env :: (bool, nat) cmd_env) (c :: (bool, nat) modem_cmd) sm.
     let env = env\<lparr>ce_lib := sim_forbidden_lib\<rparr>; c = c\<lparr>mc_all := (modem_setup_init, modem_init_state, at_state_init False)\<rparr>
     in snd (fst (modem_sim_read_forbidden_list env SIM_BUF_SIZE (Some PLMNS_SIZE) (snd (modem_cmd_ban env ''26201 310410'' (sm, c))))) =
        ''26201,310410,23415''"
proof -
  have entries: "butlast (join_plmns ([''26201'', ''310410''] @ networks (drop (length [''26201'', ''310410'']) (sim_forbidden False)))) = ''26201,310410,23415''"
    by (simp add: sim_forbidden_def networks_def join_plmns_def)
  have ok: "\<forall>p \<in> set [''26201'', ''310410'']. plmn_ok p" by (simp add: plmn_ok_def dec_digit_def)
  have at: "card_update (ce_lib (env\<lparr>ce_lib := sim_forbidden_lib\<rparr>)) (at_world (mc_at (c\<lparr>mc_all := (modem_setup_init, modem_init_state, at_state_init False)\<rparr>)))
      (sim_forbidden False) [''26201'', ''310410''] True" for env :: "(bool, nat) cmd_env" and c :: "(bool, nat) modem_cmd"
    using sim_forbidden_card by (simp add: mc_at_def at_state_init_def)
  show ?thesis
    unfolding Let_def using ban_list_read_back [OF ok _ _ at] entries by (simp add: mc_at_def at_state_init_def)
qed

section \<open>A test of an identity\<close>

definition sim_card_at :: "int \<times> cstring \<Rightarrow> (cmd_handler, int \<times> cstring) at_state" where
  "sim_card_at w = (at_state_init w)\<lparr>modem_mode := 1\<rparr>"

lemma sim_card_idle: "lte_at_response_handler (sim_card_at w) = None" "lte_at_counter (sim_card_at w) = 0" "at_world (sim_card_at w) = w"
    "(sim_card_at w)\<lparr>at_world := w'\<rparr> = sim_card_at w'"
  by (simp_all add: sim_card_at_def at_state_init_def)

lemma sim_card_env_lib: "ce_lib (sim_card_env z se sh) = sim_card_lib" "ce_config (sim_card_env z se sh) = sim_config"
  by (simp_all add: sim_card_env_def)

lemma set_at_same: "set_at (mc_at c) c = c"
  by (simp add: set_at_def mc_at_def mc_modem_def)

lemma sim_card_reads_sel:
  assumes "mc_at c = sim_card_at (m, t)" "length t = 6" "strtol t 16 = (v, Suc k)"
  shows "modem_sim_read_imsi_sel (sim_card_env z se sh) (sm, c) =
    ((1, word_of_int v), sm\<lparr>sim_info := (if imsi_select_support (sim_info sm) then (sim_info sm)\<lparr>imsi_select := word_of_int v\<rparr> else sim_info sm)\<rparr>, c)"
proof -
  have a: "sim_at_cmd (sim_card_env z se sh) 64 (Some ''+CRSM: '') ''AT+CRSM=178,28616,1,4,13'' (sm, c) =
      ((14, CRSM_SUCCESS @ t @ [CHR 0x22]), sm, c)"
    using sim_crsm [of c "sim_card_env z se sh" "''AT+CRSM=178,28616,1,4,13''" t "(m, t)" 64 sm] assms(1,2) set_at_same [of c]
    by (simp add: sim_card_idle sim_card_env_lib sim_card_lib_def sim_card_cmd_def)
  moreover have "strstart (CRSM_SUCCESS @ t @ [CHR 0x22]) CRSM_SUCCESS False = 7"
    using strstart_append [of CRSM_SUCCESS "t @ [CHR 0x22]" False] by simp
  moreover have "(ucast (word_of_int v :: u32) :: u16) = word_of_int v" by (rule bit_word_eqI) (simp add: bit_simps)
  ultimately show ?thesis using assms(2,3)
    by (simp add: modem_sim_read_imsi_sel_def on_sim_info_def with_sim_def)
qed

lemma sim_card_reads_iccid:
  assumes "mc_at c = sim_card_at w"
  shows "modem_cmd_read_iccid (sim_card_env z se sh) False 178 (sm, c) = ((20, ''898820000000000000F0''), sm, c)"
proof -
  have a: "sim_at_cmd (sim_card_env z se sh) 178 (Some ''+CRSM: '') ''AT+CRSM=176,12258,0,0,12'' (sm, c) =
      ((28, CRSM_SUCCESS @ ''9888020000000000000F'' @ [CHR 0x22]), sm, c)"
    using sim_crsm [of c "sim_card_env z se sh" "''AT+CRSM=176,12258,0,0,12''" "''9888020000000000000F''" w 178 sm] assms set_at_same [of c]
    by (simp add: sim_card_idle sim_card_env_lib sim_card_lib_def sim_card_cmd_def)
  have "crsm_data 28 (CRSM_SUCCESS @ ''9888020000000000000F'' @ [CHR 0x22]) = (20, ''9888020000000000000F'')" by code_simp
  moreover have "snd (flip_digits ''9888020000000000000F'' 20) = ''898820000000000000F0''" by code_simp
  ultimately show ?thesis using a
    by (simp add: modem_cmd_read_iccid_def sim_read_cmd_def modem_sim_read_with_retry_def numeral_eq_Suc)
qed

lemma sim_card_no_imsi:
  assumes "mc_at c = sim_card_at w"
  shows "sim_read_imsi (sim_card_env z se sh) False (sm, c) = (False, sm, c)"
proof -
  have "modem_at_cmd sim_card_lib (Some 178) None ''AT+CIMI'' (sim_card_at w) = ((- 1, None), sim_card_at w)"
    by (simp add: modem_at_cmd_def modem_at_lock_internal_def modem_at_lock_def modem_at_unlock_def sim_card_idle sim_card_lib_def
        sim_card_cmd_def Let_def)
  then have a: "sim_at_cmd (sim_card_env z se sh) 178 None ''AT+CIMI'' (sm, c) = ((- 1, []), sm, c)"
    using assms set_at_same [of c] by (simp add: sim_at_cmd_def with_at_def sim_card_env_lib)
  have "sim_retry (sim_card_env z se sh) 178 None ''AT+CIMI'' n ((- 1, []), sm, c) = ((- 1, []), sm, c)" for n
    by (induction n) (simp_all add: a)
  then show ?thesis using a by (simp add: sim_read_imsi_def sim_read_cmd_def modem_sim_read_with_retry_def)
qed

definition sim_card_read :: sim where
  "sim_card_read = sim_init\<lparr>sim_info := sim_info_init\<lparr>iccid := ''898820000000000000F'', imsi_select_support := True\<rparr>, read_service := 0xFF\<rparr>"

lemma sim_card_is_read:
  assumes "mc_at c = sim_card_at w"
  shows "modem_sim_read (sim_card_env z se sh) sim_card_ids False (sim_init, c) = (sim_card_read, c)"
proof -
  have "find_id ''89883,89882'' ''89882'' \<noteq> None" by code_simp
  then have "new_card sim_card_ids ''898820000000000000F'' sim_init = (True, sim_card_read)"
    by (simp add: new_card_def sim_card_ids_def sim_card_read_def)
  then have "sim_read_iccid (sim_card_env z se sh) sim_card_ids False (sim_init, c) = ((True, True), sim_card_read, c)"
    using sim_card_reads_iccid [OF assms, of z se sh sim_init]
    by (simp add: sim_read_iccid_def) (simp add: sim_init_def sim_info_init_def)
  then show ?thesis using sim_card_no_imsi [OF assms, of z se sh sim_card_read] by (simp add: modem_sim_read_def sim_then_def)
qed

lemma strtol_sel: "strtol ''000001'' 16 = (1, Suc 5)" "strtol ''000202'' 16 = (514, Suc 5)"
  by code_simp+

lemma sim_card_is_ready:
  assumes "mc_at c = sim_card_at (1, ''000001'')"
  shows "fst (modem_sim_ready (sim_card_env z se sh) (sim_card_read, c)) =
    sim_card_read\<lparr>imsi_success := 0, sim_info := (sim_info sim_card_read)\<lparr>imsi_select := 1\<rparr>\<rparr> \<and>
    snd (modem_sim_ready (sim_card_env z se sh) (sim_card_read, c)) = c"
proof -
  have "modem_sim_get_imsi_sel 1 = 0" "modem_sim_get_imsi_sel 0 = 0" by code_simp+
  moreover have i: "imsi_select_support (sim_info sim_card_read)" "imsi_select (sim_info sim_card_read) = 0"
    by (simp_all add: sim_card_read_def sim_info_init_def)
  moreover have "\<not> test_pending sim_card_read" "\<not> reset_work sim_card_read" by (simp_all add: sim_card_read_def sim_init_def)
  ultimately show ?thesis using sim_card_reads_sel [OF assms _ strtol_sel(1), of z se sh sim_card_read]
    by (simp add: modem_sim_ready_def with_sim_def)
qed

text \<open>The identity 2 is written; the modem is switched off and on.\<close>

lemma sim_card_off:
  assumes "mc_at c = sim_card_at (1, t)" "mc_modem c = modem_init_state"
  shows "fst (while_off (sim_card_env z se sh) (\<lambda>c. cmd_inactive (sim_card_env z se sh) (psm_for_connect (sim_card_env z se sh) c)) c) \<and>
    mc_at (snd (while_off (sim_card_env z se sh) (\<lambda>c. cmd_inactive (sim_card_env z se sh) (psm_for_connect (sim_card_env z se sh) c)) c)) = sim_card_at (1, t)"
proof -
  obtain su where c: "mc_all c = (su, modem_init_state, sim_card_at (1, t))"
    using assms by (cases "mc_all c") (auto simp: mc_at_def mc_modem_def)
  define a where "a = (sim_card_at (0, t))\<lparr>modem_mode := 0, previous_mode := 1, pushs_counter := 1\<rparr>"
  have idle: "at_locked f x = f x" if "lte_at_response_handler x = None" "lte_at_counter x = 0" "lte_at_counter (snd (f x)) = 0"
    for f and x :: "(cmd_handler, int \<times> cstring) at_state"
    using that by (simp add: at_locked_def modem_at_lock_internal_def modem_at_lock_def modem_at_unlock_def split_beta)
  have "modem_at_set_func_mode sim_card_lib 0 ((sim_card_at (1, t))\<lparr>previous_mode := 1, pushs_counter := 1\<rparr>) = (0, a)"
    unfolding modem_at_set_func_mode_def
    by (subst idle) (simp_all add: at_mode_call_def sim_card_lib_def sim_card_at_def at_state_init_def modem_at_on_cfun_def a_def)
  then have push: "modem_at_push_off sim_card_lib (sim_card_at (1, t)) = (0, a)"
    unfolding modem_at_push_off_def
    by (subst idle) (simp_all add: sim_card_lib_def sim_card_at_def at_state_init_def a_def)
  have "modem_at_psm_req sim_card_lib b a = (0, a)" for b
    unfolding modem_at_psm_req_def by (subst idle) (simp_all add: sim_card_lib_def sim_card_at_def at_state_init_def a_def)
  moreover have "a\<lparr>at_world := lte_lc_psm_param_set sim_card_lib r k (at_world a)\<rparr> = a" for r k by (simp add: sim_card_lib_def)
  ultimately have psm: "snd (snd (modem_set_psm_for_connect sim_card_lib k (m, a))) = a" for k m
    by (simp add: modem_set_psm_for_connect_def modem_set_psm_def Let_def)
  have restore: "modem_at_restore sim_card_lib a = (0, sim_card_at (1, t))"
    unfolding modem_at_restore_def
    by (subst idle) (simp_all add: at_mode_call_def sim_card_lib_def sim_card_at_def at_state_init_def modem_at_on_cfun_def a_def)
  show ?thesis using push psm restore
    by (simp add: while_off_def with_at_def mc_at_def mc_modem_def set_at_def c sim_card_env_lib cmd_inactive_def psm_for_connect_def with_both_def split_beta)
qed

lemma sim_card_writes_sel:
  assumes "mc_at c = sim_card_at (1, ''000001'')" "mc_modem c = modem_init_state"
  shows "fst (modem_sim_write_imsi_sel (sim_card_env z se sh) 2 True (sm, c)) = 1"
    "mc_at (snd (snd (modem_sim_write_imsi_sel (sim_card_env z se sh) 2 True (sm, c)))) = sim_card_at (1, ''000202'')"
proof -
  let ?env = "sim_card_env z se sh" and ?f = "\<lambda>c. cmd_inactive (sim_card_env z se sh) (psm_for_connect (sim_card_env z se sh) c)"
  have cmd: "select_cmd 2 = ''AT+CRSM=220,28616,1,4,13,'' @ [CHR 0x22] @ ''0002FFFFFFFFFFFFFFFFFFFFFF'' @ [CHR 0x22]" by code_simp
  define c1 where "c1 = set_at (sim_card_at (1, ''000202'')) c"
  have "at_ready (ce_lib ?env) (mc_at c)" by (simp add: at_ready_def assms(1) sim_card_idle sim_card_env_lib) (simp add: sim_card_lib_def)
  from sim_crsmf [OF this _ select_cmd_short, of 2 "[]" "(1, ''000202'')" 64 sm]
  have w: "sim_at_cmdf ?env 64 (Some ''+CRSM: '') (select_cmd 2) (sm, c) = ((8, CRSM_SUCCESS @ [CHR 0x22]), sm, c1)"
    using assms(1) by (simp add: sim_card_idle sim_card_env_lib sim_card_lib_def sim_card_cmd_def cmd c1_def)
  have "mc_at c1 = sim_card_at (1, ''000202'')" by (simp add: c1_def set_at_at)
  moreover have "mc_modem c1 = modem_init_state" using assms(2) by (simp add: c1_def set_at_def mc_modem_def)
  ultimately obtain c2 where c2: "while_off ?env ?f c1 = (True, c2)" "mc_at c2 = sim_card_at (1, ''000202'')"
    using sim_card_off [of c1 "''000202''" z se sh] by (cases "while_off ?env ?f c1") simp
  have s: "strstart (CRSM_SUCCESS @ [CHR 0x22]) CRSM_SUCCESS False = 7" by code_simp
  have "modem_sim_write_imsi_sel ?env 2 True (sm, c) =
      (let (r, s) = modem_sim_read_imsi_sel ?env (sm\<lparr>select_pending := True\<rparr>, c2) in (fst r, s))"
    using w [unfolded select_cmd_def] s c2(1) by (simp add: modem_sim_write_imsi_sel_def with_sim_def)
  then show "fst (modem_sim_write_imsi_sel ?env 2 True (sm, c)) = 1"
      "mc_at (snd (snd (modem_sim_write_imsi_sel ?env 2 True (sm, c)))) = sim_card_at (1, ''000202'')"
    using sim_card_reads_sel [OF c2(2) _ strtol_sel(2), of z se sh "sm\<lparr>select_pending := True\<rparr>"] c2(2) by simp_all
qed

lemma sim_card_test_reachable: "sim_reachable (sim_card_env z se sh) sim_card_ids (sim_card_test z se sh st shell)"
proof -
  let ?env = "sim_card_env z se sh" and ?s = "sim_card_start st shell"
  have "sim_reachable ?env sim_card_ids ?s" unfolding sim_card_start_def by (rule sim_reachable.Start)
  then have "sim_reachable ?env sim_card_ids (modem_sim_read ?env sim_card_ids False ?s)" by (rule sim_reachable.Step) (rule sim_step.Read)
  then have "sim_reachable ?env sim_card_ids (modem_sim_ready ?env (modem_sim_read ?env sim_card_ids False ?s))"
    by (rule sim_reachable.Step) (rule sim_step.Ready)
  then show ?thesis unfolding sim_card_test_def Let_def by (rule sim_reachable.Step) (rule sim_step.Select)
qed

lemma sim_card_tests:
  "test_of (fst (sim_card_test z se sh st shell)) = (True, 0, True)"
  "mc_at (snd (sim_card_test z se sh st shell)) = sim_card_at (1, ''000202'')"
proof -
  let ?env = "sim_card_env z se sh"
  define c where "c = snd (sim_card_start st shell)"
  have start: "sim_card_start st shell = (sim_init, c)" by (simp add: c_def sim_card_start_def)
  have c: "mc_at c = sim_card_at (1, ''000001'')" "mc_modem c = modem_init_state"
    by (simp_all add: c_def sim_card_start_def mc_at_def mc_modem_def sim_card_at_def)
  obtain sm where r: "modem_sim_ready ?env (sim_card_read, c) = (sm, c)" "imsi_success sm = 0"
    using sim_card_is_ready [OF c(1), of z se sh] by (cases "modem_sim_ready ?env (sim_card_read, c)") simp
  define sm' where "sm' = sm\<lparr>sim_info := (if imsi_select_support (sim_info sm) then (sim_info sm)\<lparr>imsi_select := word_of_int 1\<rparr> else sim_info sm)\<rparr>"
  have sel: "modem_sim_read_imsi_sel ?env (sm, c) = ((1, 1), sm', c)"
    using sim_card_reads_sel [OF c(1) _ strtol_sel(1), of z se sh sm] by (simp add: sm'_def)
  obtain s2 where s2: "modem_sim_write_imsi_sel ?env 2 True (sm', c) = (1, s2)" "mc_at (snd s2) = sim_card_at (1, ''000202'')"
    using sim_card_writes_sel [OF c, of z se sh sm'] by (cases "modem_sim_write_imsi_sel ?env 2 True (sm', c)") simp
  have "test_of (fst s2) = test_of sm'" using write_sel_test [of ?env 2 True "(sm', c)"] s2(1) by simp
  then have t: "imsi_success (fst s2) = 0" using r(2) by (simp add: test_of_def sm'_def)
  have n: "next_value 64 ''2'' = ([], ''2'')" by (rule next_value_word) simp_all
  have p: "imsi_param ''2'' = Some 2" "stricmp ''2'' ''force'' \<noteq> 0" by code_simp+
  define s3 where "s3 = with_sim (\<lambda>sm. sm\<lparr>test_pending := True, reset_work := True\<rparr>) s2"
  have "imsi_select_cmd ?env False 2 1 (sm', c) = s3"
    using s2(1) r(2) by (simp add: imsi_select_cmd_def sm'_def s3_def)
  then have all: "sim_card_test z se sh st shell = snd (sim_at_cmd ?env 64 None ''AT+CIMI'' s3)"
    using sim_card_is_read [OF c(1), of z se sh] r(1) sel n p
    by (simp add: sim_card_test_def modem_cmd_imsi_sel_def Let_def start del: stricmp.simps)
  show "test_of (fst (sim_card_test z se sh st shell)) = (True, 0, True)"
    using t by (simp add: all s3_def with_sim_def test_of_def)
  have "modem_at_cmd sim_card_lib (Some 64) None ''AT+CIMI'' (sim_card_at (1, ''000202'')) = ((- 1, None), sim_card_at (1, ''000202''))"
    by (simp add: modem_at_cmd_def modem_at_lock_internal_def modem_at_lock_def modem_at_unlock_def sim_card_idle sim_card_lib_def
        sim_card_cmd_def Let_def)
  then show "mc_at (snd (sim_card_test z se sh st shell)) = sim_card_at (1, ''000202'')"
    using s2(2) by (simp add: all s3_def with_sim_def sim_at_cmd_def with_at_def sim_card_env_lib set_at_at)
qed



text \<open>The command \<open>imsi force\<close>, which is to select an identity without a fallback, keeps the fallback of a test that is running,
  so that its selection is taken back with it.\<close>

lemma forced_selection_undone:
  assumes "sim_reachable env ids s" "test_pending (fst s)" "stricmp (snd (next_value 64 p)) ''force'' = 0"
  defines "s' \<equiv> snd (modem_cmd_imsi_sel env p s)"
  shows "test_pending (fst s') \<and> reset_work (fst s') \<and> imsi_success (fst s') = imsi_success (fst s)"
proof -
  have "test_of (fst s') = test_of (fst s)" using imsi_cmd_test(2) [of env p s] assms(3) by (auto simp: s'_def)
  then show ?thesis using sim_reachable_test [OF assms(1)] assms(2) by (simp add: test_of_def test_ok_def)
qed

end
