(* ===== verification/Uart.thy ===== *)
theory Uart
  imports Xmodem Sh_Cmd
begin

text \<open>
  The UART of \<open>src/src/uart_manager.c\<close>: the output of log messages through a buffer, the input of commands line by line, the
  receiver that is switched off with its line, and the firmware update with XMODEM, whose blocks are collected in the
  buffer of the commands.

  \<^item> What is sent is the list \<open>uart_out\<close>, whether it is polled out or sent from the buffer. The text of a log message is
    the one that Zephyr formats.
  \<^item> Work items are \<open>None\<close>, or \<open>Some\<close> with their delay in milliseconds; the works on the I/O queue that pause the output
    are kept in their order.
  \<^item> The configuration is the one with the log backend and the update (\<open>prj.conf\<close>), not the immediate mode of logging.
    LEDs are left out.
\<close>

section \<open>State\<close>

record ('c, 'w) uart =
  uart_suspended :: bool
  uart_tx_enabled :: bool
  uart_panic :: bool
  uart_pending :: bool
  uart_update :: bool
  uart_update_start :: bool
  uart_update_apply :: bool
  uart_out :: "u8 list"
  uart_tx_buf :: "u8 list"
  uart_tx_buf_lines :: nat
  uart_tx_in_pause :: bool
  uart_end_pause_work :: bool
  uart_pause_queue :: "bool list"
  uart_cmd_buf :: "u8 list"
  inside_quotes :: bool
  at_cmd_len :: nat
  last_rx :: int
  xmodem :: xmodem_rx
  xmodem_retries :: int
  xmodem_start_work :: "nat option"
  xmodem_nak_work :: "nat option"
  xmodem_ack_work :: "nat option"
  xmodem_timeout_work :: "nat option"
  xmodem_write_work :: bool
  xmodem_ready_work :: bool
  rx_enable_work :: "nat option"
  rx_interrupt :: bool
  uart_rx_buf_id :: nat
  buf_requests :: int
  uart_dfu :: "('c, 'w) dfu_state"
  uart_shell :: shell

abbreviation (input) UART_CMD_MAX_LEN :: nat where "UART_CMD_MAX_LEN \<equiv> 2048"
abbreviation (input) UART_TX_BUF_LEN :: nat where "UART_TX_BUF_LEN \<equiv> 256"
abbreviation (input) UART_RX_CHECK_INTERVAL_MS :: nat where "UART_RX_CHECK_INTERVAL_MS \<equiv> 50"
abbreviation (input) UART_RX_CHECK_INTERVAL_S :: nat where "UART_RX_CHECK_INTERVAL_S \<equiv> 60"
abbreviation (input) XMODEM_ACK :: u8 where "XMODEM_ACK \<equiv> 0x06"
abbreviation (input) XMODEM_NAK :: u8 where "XMODEM_NAK \<equiv> 0x15"
abbreviation (input) XMODEM_CRC :: u8 where "XMODEM_CRC \<equiv> 0x43"
abbreviation (input) UART_CR :: u8 where "UART_CR \<equiv> 0x0D"
abbreviation (input) UART_LF :: u8 where "UART_LF \<equiv> 0x0A"
abbreviation (input) UART_QUOTE :: u8 where "UART_QUOTE \<equiv> 0x22"
abbreviation (input) UART_SPACE :: u8 where "UART_SPACE \<equiv> 0x20"

record ('c, 'w) uart_env =
  ue_xmodem :: xmodem_env
  ue_dfu :: "('c, 'w) dfu_env"
  ue_now :: int

section \<open>Output\<close>

definition uart_poll_out :: "u8 \<Rightarrow> ('c, 'w) uart \<Rightarrow> ('c, 'w) uart" where
  "uart_poll_out c u = u\<lparr>uart_out := uart_out u @ [c]\<rparr>"

definition uart_tx_pause :: "bool \<Rightarrow> ('c, 'w) uart \<Rightarrow> ('c, 'w) uart" where
  "uart_tx_pause pause u = (if uart_tx_in_pause u \<noteq> pause then u\<lparr>uart_tx_in_pause := pause, uart_end_pause_work := pause\<rparr> else u)"

text \<open>A work of the I/O queue starts or stops the pause, the delayed work stops it.\<close>

definition uart_pause_tx_fn :: "bool \<Rightarrow> ('c, 'w) uart \<Rightarrow> ('c, 'w) uart" where
  "uart_pause_tx_fn start_work u = uart_tx_pause start_work u"

definition uart_tx_off :: "bool \<Rightarrow> ('c, 'w) uart \<Rightarrow> ('c, 'w) uart" where
  "uart_tx_off off u = u\<lparr>uart_tx_enabled := \<not> off\<rparr>"

text \<open>While the UART is suspended nothing is sent. \<open>UART_PENDING\<close> is set only as long as the transfer takes.\<close>

definition uart_tx_out :: "u8 list \<Rightarrow> ('c, 'w) uart \<Rightarrow> ('c, 'w) uart" where
  "uart_tx_out data u =
     (if uart_panic u then u\<lparr>uart_out := uart_out u @ data\<rparr>
      else if \<not> uart_suspended u then u\<lparr>uart_out := uart_out u @ data, uart_pending := (if length data = 1 then uart_pending u else False)\<rparr>
      else u)"

definition uart_tx_out_buf :: "u8 \<Rightarrow> ('c, 'w) uart \<Rightarrow> ('c, 'w) uart" where
  "uart_tx_out_buf c u =
     (if uart_panic u then uart_poll_out c u
      else (let u = (if length (uart_tx_buf u) = UART_TX_BUF_LEN then (uart_tx_out (uart_tx_buf u) u)\<lparr>uart_tx_buf := []\<rparr> else u)
            in u\<lparr>uart_tx_buf := uart_tx_buf u @ [c]\<rparr>))"

fun tx_out_lines :: "nat \<Rightarrow> ('c, 'w) uart \<Rightarrow> ('c, 'w) uart" where
  "tx_out_lines 0 u = u"
| "tx_out_lines (Suc n) u = tx_out_lines n (uart_tx_out_buf UART_LF (uart_tx_out_buf UART_CR u))"

definition uart_tx_out_nl :: "('c, 'w) uart \<Rightarrow> ('c, 'w) uart" where
  "uart_tx_out_nl u = tx_out_lines (uart_tx_buf_lines u) (u\<lparr>uart_tx_buf_lines := 0\<rparr>)"

definition uart_tx_out_flush :: "('c, 'w) uart \<Rightarrow> ('c, 'w) uart" where
  "uart_tx_out_flush u =
     (let u = uart_tx_out_nl (if uart_tx_buf_lines u = 0 then u\<lparr>uart_tx_buf_lines := 1\<rparr> else u)
      in (uart_tx_out (uart_tx_buf u) u)\<lparr>uart_tx_buf := []\<rparr>)"

definition uart_tx_out_func :: "u8 \<Rightarrow> ('c, 'w) uart \<Rightarrow> ('c, 'w) uart" where
  "uart_tx_out_func c u =
     (if c = UART_CR then u
      else if c = UART_LF then u\<lparr>uart_tx_buf_lines := uart_tx_buf_lines u + 1\<rparr>
      else uart_tx_out_buf c (uart_tx_out_nl u))"

section \<open>Log messages\<close>

definition hex_chars :: "u8 \<Rightarrow> u8 list" where
  "hex_chars b = map (\<lambda>n. if n < 10 then 0x30 + n else 0x57 + n) [b div 16, b mod 16]"

definition is_printable :: "u8 \<Rightarrow> bool" where
  "is_printable c \<longleftrightarrow> 0x20 \<le> c \<and> c \<le> 0x7E"

text \<open>The line of a dump: columns for \<open>bytes\<close> bytes, of which the data may be fewer.\<close>

definition uart_log_dump_hex_line :: "nat \<Rightarrow> nat \<Rightarrow> u8 list \<Rightarrow> u8 list" where
  "uart_log_dump_hex_line indent bytes data =
     replicate indent UART_SPACE @
     concat (map (\<lambda>i. (if 0 < i \<and> i mod 8 = 0 then [UART_SPACE] else []) @
                      (if i < length data then hex_chars (data ! i) @ [UART_SPACE] else replicate 3 UART_SPACE)) [0..<bytes]) @
     [0x7C] @
     concat (map (\<lambda>i. (if i mod 8 = 0 then [UART_SPACE] else []) @ [if is_printable (data ! i) then data ! i else 0x2E]) [0..<length data]) @
     [UART_LF]"

function dump_lines :: "nat \<Rightarrow> nat \<Rightarrow> u8 list \<Rightarrow> u8 list" where
  "dump_lines indent bytes data =
     (if data = [] then [] else uart_log_dump_hex_line indent bytes (take 16 data) @ dump_lines indent bytes (drop 16 data))"
  by pat_completeness auto
termination
  by (relation "measure (\<lambda>(p, b, d). length d)") auto

declare dump_lines.simps [simp del]

definition uart_log_dump_hex :: "nat \<Rightarrow> u8 list \<Rightarrow> u8 list" where
  "uart_log_dump_hex indent data = dump_lines indent (if length data \<le> 8 then 8 else 16) data"

text \<open>The begin of a line: level, seconds and milliseconds.\<close>

definition digits_of :: "nat \<Rightarrow> nat \<Rightarrow> u8 list" where
  "digits_of w n = map (\<lambda>i. 0x30 + of_nat (n div 10 ^ (w - 1 - i) mod 10)) [0..<w]"

definition log_prefix :: "u8 \<Rightarrow> nat \<Rightarrow> nat \<Rightarrow> u8 list" where
  "log_prefix level timestamp cycles =
     [level, UART_SPACE] @ digits_of 2 (timestamp div cycles mod 100) @ [0x2E] @
     digits_of 3 (timestamp mod cycles * 1000 div cycles) @ [UART_SPACE, 0x3A, UART_SPACE]"

record log_msg =
  lm_level :: u8
  lm_timestamp :: nat
  lm_cycles :: nat
  lm_text :: "u8 list"
  lm_data :: "u8 list"

definition uart_update_pending :: "('c, 'w) uart \<Rightarrow> bool" where
  "uart_update_pending u = uart_update u"

text \<open>A message waits while the output is in a pause; this is what happens when it goes on. The level 0 has no prefix.\<close>

definition uart_log_process :: "log_msg \<Rightarrow> ('c, 'w) uart \<Rightarrow> ('c, 'w) uart" where
  "uart_log_process msg u =
     (if \<not> uart_panic u \<and> (uart_suspended u \<or> \<not> uart_tx_enabled u) then u
      else if lm_text msg = [] \<and> lm_data msg = [] then u
      else (let level = (if uart_update_pending u then 0x75 else if sh_busy (uart_shell u) \<noteq> 0 then 0x62 else lm_level msg);
                indent = (if lm_level msg = 0 then [] else log_prefix level (lm_timestamp msg) (lm_cycles msg));
                u = uart_tx_out_flush (fold uart_tx_out_func (indent @ lm_text msg) u)
            in if lm_data msg = [] then u
               else uart_tx_out_flush (fold uart_tx_out_func (uart_log_dump_hex (length indent) (lm_data msg)) u)))"

definition uart_log_panic :: "('c, 'w) uart \<Rightarrow> ('c, 'w) uart" where
  "uart_log_panic u = uart_tx_out_flush (u\<lparr>uart_panic := True\<rparr>)"

definition uart_log_dropped :: "u8 list \<Rightarrow> ('c, 'w) uart \<Rightarrow> ('c, 'w) uart" where
  "uart_log_dropped line u = uart_tx_out_flush (fold uart_tx_out_func line u)"

section \<open>Receiver\<close>

definition uart_reschedule_rx_enable :: "nat \<Rightarrow> ('c, 'w) uart \<Rightarrow> ('c, 'w) uart" where
  "uart_reschedule_rx_enable delay u = u\<lparr>rx_enable_work := Some delay\<rparr>"

definition uart_rx_line_active :: "('c, 'w) uart \<Rightarrow> ('c, 'w) uart" where
  "uart_rx_line_active u = uart_reschedule_rx_enable UART_RX_CHECK_INTERVAL_MS (u\<lparr>rx_interrupt := False\<rparr>)"

definition uart_enable_rx_interrupt :: "('c, 'w) uart \<Rightarrow> ('c, 'w) uart" where
  "uart_enable_rx_interrupt u = u\<lparr>rx_interrupt := True\<rparr>"

text \<open>\<open>line\<close> is the level of the receive line, \<open>err\<close> the state of the receiver, \<open>enabled\<close> the result of switching it on.\<close>

definition uart_enable_rx_fn :: "int \<Rightarrow> int \<Rightarrow> int \<Rightarrow> ('c, 'w) uart \<Rightarrow> ('c, 'w) uart" where
  "uart_enable_rx_fn line err enabled u =
     (let u = u\<lparr>rx_enable_work := None\<rparr>;
          u = (if line = 1 then u\<lparr>uart_suspended := False\<rparr>
               else if line = 0 \<and> \<not> uart_pending u then u\<lparr>uart_suspended := True\<rparr> else u);
          off = uart_enable_rx_interrupt (uart_reschedule_rx_enable (UART_RX_CHECK_INTERVAL_S * 1000) u)
      in if line = 1 \<or> line = - 61
         then (if err \<noteq> 0 \<and> err \<noteq> - 88 then uart_reschedule_rx_enable UART_RX_CHECK_INTERVAL_MS u
               else if enabled = - EBUSY \<or> enabled = 0 then u else off)
         else off)"

text \<open>A character of a command: whether the line is complete. The bytes behind the text in the buffer are those of earlier
  commands.\<close>

definition line_text :: "('c, 'w) uart \<Rightarrow> u8 list" where
  "line_text u = takeWhile (\<lambda>c. c \<noteq> 0) (take (at_cmd_len u) (uart_cmd_buf u))"

definition rx_timeout :: "int \<Rightarrow> ('c, 'w) uart \<Rightarrow> ('c, 'w) uart" where
  "rx_timeout now u =
     (let u = (if now - last_rx u > 30000
               then u\<lparr>uart_cmd_buf := (if at_cmd_len u > 0 then (uart_cmd_buf u)[at_cmd_len u := 0] else uart_cmd_buf u),
                      at_cmd_len := 0, inside_quotes := False\<rparr> else u)
      in u\<lparr>last_rx := now\<rparr>)"

definition rx_store :: "u8 \<Rightarrow> ('c, 'w) uart \<Rightarrow> ('c, 'w) uart" where
  "rx_store c u =
     (if at_cmd_len u > UART_CMD_MAX_LEN - 2 then u
      else u\<lparr>uart_cmd_buf := (uart_cmd_buf u)[at_cmd_len u := c], at_cmd_len := at_cmd_len u + 1,
             inside_quotes := (if c = UART_QUOTE then \<not> inside_quotes u else inside_quotes u)\<rparr>)"

definition rx_line :: "('c, 'w) uart \<Rightarrow> bool \<times> ('c, 'w) uart" where
  "rx_line u =
     (let t = line_text u; u = u\<lparr>uart_cmd_buf := (uart_cmd_buf u)[at_cmd_len u := 0], at_cmd_len := 0\<rparr>
      in if list_ex (\<lambda>c. c > UART_SPACE) t
         then (True, u\<lparr>uart_pause_queue := uart_pause_queue u @ [False], uart_shell := snd (sh_cmd_execute (map (\<lambda>c. char_of (unat c)) t) (uart_shell u))\<rparr>)
         else (False, u))"

definition uart_receiver_handler :: "int \<Rightarrow> u8 \<Rightarrow> ('c, 'w) uart \<Rightarrow> bool \<times> ('c, 'w) uart" where
  "uart_receiver_handler now character u =
     (let u = rx_timeout now u
      in if character = 0x08 \<or> character = 0x7F
         then (False, if at_cmd_len u > 0
                      then u\<lparr>at_cmd_len := at_cmd_len u - 1,
                             inside_quotes := (if uart_cmd_buf u ! at_cmd_len u = UART_QUOTE then \<not> inside_quotes u else inside_quotes u)\<rparr>
                      else u)
         else if (character = UART_CR \<or> character = UART_LF) \<and> \<not> inside_quotes u then rx_line u
         else (False, rx_store character u))"

fun receive_chars :: "int \<Rightarrow> u8 list \<Rightarrow> ('c, 'w) uart \<Rightarrow> ('c, 'w) uart" where
  "receive_chars now [] u = u"
| "receive_chars now (c # cs) u = (let (complete, u) = uart_receiver_handler now c u in if complete then u else receive_chars now cs u)"

section \<open>Firmware update\<close>

text \<open>The blocks are collected in the buffer of the commands.\<close>

definition uart_rx :: "('c, 'w) uart \<Rightarrow> xmodem_rx" where
  "uart_rx u = (xmodem u)\<lparr>xmodem_buffer := uart_cmd_buf u\<rparr>"

definition set_rx :: "xmodem_rx \<Rightarrow> ('c, 'w) uart \<Rightarrow> ('c, 'w) uart" where
  "set_rx x u = u\<lparr>xmodem := x, uart_cmd_buf := xmodem_buffer x\<rparr>"

definition update_cancel :: "('c, 'w) uart_env \<Rightarrow> ('c, 'w) uart \<Rightarrow> ('c, 'w) uart" where
  "update_cancel env u =
     u\<lparr>uart_dfu := snd (appl_update_cancel (ue_dfu env) (ue_now env) (uart_dfu u)), uart_update := False, uart_update_start := False,
       uart_update_apply := False\<rparr>"

definition uart_xmodem_start_fn :: "('c, 'w) uart_env \<Rightarrow> ('c, 'w) uart \<Rightarrow> ('c, 'w) uart" where
  "uart_xmodem_start_fn env u =
     (let u = u\<lparr>xmodem_start_work := None\<rparr>; retry = xmodem_retries u; u = u\<lparr>xmodem_retries := xmodem_retries u + 1\<rparr>;
          (res, u) = (if retry = 0
                      then (let u = uart_tx_off True (u\<lparr>uart_update_start := True\<rparr>); (res, st) = appl_update_erase (ue_dfu env) (uart_dfu u)
                            in (res, u\<lparr>uart_dfu := st\<rparr>))
                      else (0, u))
      in if res \<noteq> 0 then uart_tx_off False (update_cancel env u)
         else if retry < 3
         then (uart_poll_out XMODEM_CRC (set_rx (appl_update_xmodem_start (uart_cmd_buf u) True (uart_rx u)) u))\<lparr>xmodem_start_work := Some 2000\<rparr>
         else if retry < 6
         then (uart_poll_out XMODEM_NAK (set_rx (appl_update_xmodem_start (uart_cmd_buf u) False (uart_rx u)) u))\<lparr>xmodem_start_work := Some 2000\<rparr>
         else uart_tx_off False (update_cancel env u))"

text \<open>After an error the block is asked for again, up to ten times in a row; then the transfer is given up. The time for a
  block is over with \<open>cancel\<close>.\<close>

definition xmodem_failed :: "('c, 'w) uart_env \<Rightarrow> bool \<Rightarrow> bool \<Rightarrow> ('c, 'w) uart \<Rightarrow> ('c, 'w) uart" where
  "xmodem_failed env retry cancel u =
     (let (cancel, u) =
        (if retry
         then (let n = xmodem_retries u; u = u\<lparr>xmodem_retries := n + 1\<rparr> in if n < 10 then (cancel, uart_poll_out XMODEM_NAK u) else (True, u))
         else (cancel, u))
      in if cancel then uart_tx_off False (uart_poll_out XMODEM_NAK (update_cancel env u)) else u)"

definition xmodem_write_fn :: "('c, 'w) uart_env \<Rightarrow> ('c, 'w) uart \<Rightarrow> ('c, 'w) uart" where
  "xmodem_write_fn env u =
     (let started = uart_update_start u; u = u\<lparr>xmodem_write_work := False, xmodem_nak_work := None\<rparr>;
          (rc, x, st) = appl_update_xmodem_write_block (ue_xmodem env) (ue_dfu env) (uart_rx u) (uart_dfu u);
          u = (set_rx x u)\<lparr>uart_dfu := st\<rparr>
      in if rc < 0 then (if started then u else xmodem_failed env True False u)
         else if rc = XMODEM_DUPLICATE_RC then (if started then u else u\<lparr>xmodem_ack_work := Some 500\<rparr>)
         else (let u = (if started then u\<lparr>uart_update_start := False, xmodem_start_work := None\<rparr> else u)
               in uart_poll_out XMODEM_ACK (u\<lparr>xmodem_retries := 0, xmodem_ack_work := None, xmodem_timeout_work := Some 15000\<rparr>)))"

definition xmodem_nak_fn :: "('c, 'w) uart_env \<Rightarrow> ('c, 'w) uart \<Rightarrow> ('c, 'w) uart" where
  "xmodem_nak_fn env u =
     (let u = set_rx (appl_update_xmodem_retry (uart_rx u)) (u\<lparr>xmodem_nak_work := None\<rparr>)
      in if uart_update_start u then u else xmodem_failed env True False u)"

definition xmodem_timeout_fn :: "('c, 'w) uart_env \<Rightarrow> ('c, 'w) uart \<Rightarrow> ('c, 'w) uart" where
  "xmodem_timeout_fn env u =
     (let u = u\<lparr>xmodem_timeout_work := None\<rparr> in if uart_update_start u then u else xmodem_failed env False True u)"

definition xmodem_ack_fn :: "('c, 'w) uart \<Rightarrow> ('c, 'w) uart" where
  "xmodem_ack_fn u = uart_poll_out XMODEM_ACK (u\<lparr>xmodem_ack_work := None\<rparr>)"

text \<open>The image is finished, and applied if asked for.\<close>

definition xmodem_ready_fn :: "('c, 'w) uart_env \<Rightarrow> ('c, 'w) uart \<Rightarrow> ('c, 'w) uart" where
  "xmodem_ready_fn env u =
     (let apply_it = uart_update_apply u; denv = ue_dfu env;
          u = u\<lparr>xmodem_ready_work := False, xmodem_nak_work := None, xmodem_ack_work := None, xmodem_timeout_work := None\<rparr>;
          (rc, st) = appl_update_finish denv (ue_now env) (uart_dfu u);
          u = uart_tx_off False (uart_poll_out XMODEM_ACK (u\<lparr>uart_update := False, uart_update_start := False, uart_update_apply := False\<rparr>));
          rc = (if rc = 0 then appl_update_dump_pending_image denv st else rc);
          (rc, st) = (if rc = 0 then appl_update_request_upgrade denv st else (rc, st));
          st = (if rc = 0 \<and> apply_it then snd (appl_update_reboot denv st) else st)
      in u\<lparr>uart_dfu := st\<rparr>)"

definition uart_xmodem_handler :: "u8 list \<Rightarrow> ('c, 'w) uart \<Rightarrow> ('c, 'w) uart" where
  "uart_xmodem_handler buffer u =
     (let (rc, x) = appl_update_xmodem_append buffer (uart_rx u); u = set_rx x u
      in case rc of
           XMODEM_NOT_OK \<Rightarrow> u\<lparr>xmodem_nak_work := Some 2000\<rparr>
         | XMODEM_BLOCK_READY \<Rightarrow> u\<lparr>xmodem_write_work := True\<rparr>
         | XMODEM_READY \<Rightarrow> u\<lparr>xmodem_ready_work := True\<rparr>
         | _ \<Rightarrow> u)"

definition sh_cmd_update :: "('c, 'w) uart_env \<Rightarrow> cstring \<Rightarrow> ('c, 'w) uart \<Rightarrow> int \<times> ('c, 'w) uart" where
  "sh_cmd_update env parameter u =
     (let (i, st) = appl_update_cmd (ue_dfu env) parameter (uart_dfu u)
      in if i > 0
         then (let (res, st) = appl_update_start (ue_dfu env) (ue_now env) st; u = u\<lparr>uart_dfu := st\<rparr>
               in (0, if res = 0
                      then u\<lparr>uart_update := True, uart_update_apply := (uart_update_apply u \<or> i = 2), xmodem_retries := 0, xmodem_start_work := Some 500\<rparr>
                      else u))
         else (0, u\<lparr>uart_dfu := st\<rparr>))"

definition uart_receiver_loop :: "int \<Rightarrow> u8 list \<Rightarrow> ('c, 'w) uart \<Rightarrow> ('c, 'w) uart" where
  "uart_receiver_loop now buffer u =
     (if sh_executing (uart_shell u) then u
      else if uart_update_pending u then uart_xmodem_handler buffer u
      else receive_chars now buffer (u\<lparr>uart_pause_queue := uart_pause_queue u @ [True]\<rparr>))"

datatype uart_event = UART_TX_DONE | UART_TX_ABORTED | UART_RX_RDY "u8 list" | UART_RX_BUF_REQUEST | UART_RX_BUF_RELEASED
  | UART_RX_DISABLED | UART_RX_STOPPED

definition uart_receiver_callback :: "int \<Rightarrow> uart_event \<Rightarrow> ('c, 'w) uart \<Rightarrow> ('c, 'w) uart" where
  "uart_receiver_callback now evt u =
     (case evt of
        UART_RX_RDY buffer \<Rightarrow> uart_receiver_loop now buffer u
      | UART_RX_BUF_REQUEST \<Rightarrow> u\<lparr>buf_requests := buf_requests u + 1, uart_rx_buf_id := 1 - uart_rx_buf_id u\<rparr>
      | UART_RX_BUF_RELEASED \<Rightarrow> u\<lparr>buf_requests := buf_requests u - 1\<rparr>
      | UART_RX_DISABLED \<Rightarrow> uart_reschedule_rx_enable UART_RX_CHECK_INTERVAL_MS u
      | UART_RX_STOPPED \<Rightarrow> uart_reschedule_rx_enable UART_RX_CHECK_INTERVAL_MS u
      | _ \<Rightarrow> u)"

end
