(* ===== verification/Uart_Laws.thy ===== *)
theory Uart_Laws
  imports Uart
begin

text \<open>
  What holds of the UART: a log message is sent completely and in order, a line that is typed is the command that is
  executed, a deleted quote keeps the line open, and an update that nobody sends is given up.
\<close>

section \<open>Output\<close>

definition tx_ready :: "('c, 'w) uart \<Rightarrow> bool" where
  "tx_ready u \<longleftrightarrow> \<not> uart_panic u \<and> \<not> uart_suspended u \<and> length (uart_tx_buf u) \<le> UART_TX_BUF_LEN"

text \<open>What is sent, or is going to be sent.\<close>

definition sent :: "('c, 'w) uart \<Rightarrow> u8 list" where
  "sent u = uart_out u @ uart_tx_buf u"

definition crlfs :: "nat \<Rightarrow> u8 list" where
  "crlfs n = concat (replicate n [UART_CR, UART_LF])"

definition stream :: "('c, 'w) uart \<Rightarrow> u8 list" where
  "stream u = sent u @ crlfs (uart_tx_buf_lines u)"

definition crlf :: "u8 \<Rightarrow> u8 list" where
  "crlf c = (if c = UART_CR then [] else if c = UART_LF then [UART_CR, UART_LF] else [c])"

lemma crlfs_simps: "crlfs 0 = []" "crlfs (Suc n) = [UART_CR, UART_LF] @ crlfs n"
  by (simp_all add: crlfs_def)

lemma crlfs_snoc: "crlfs n @ [UART_CR, UART_LF] = crlfs (Suc n)"
  by (induction n) (simp_all add: crlfs_simps)

lemma out_buf_stream:
  assumes "tx_ready u"
  shows "tx_ready (uart_tx_out_buf c u)" "sent (uart_tx_out_buf c u) = sent u @ [c]"
    "uart_tx_buf_lines (uart_tx_out_buf c u) = uart_tx_buf_lines u"
  using assms by (auto simp: uart_tx_out_buf_def uart_tx_out_def tx_ready_def sent_def Let_def)

lemma out_lines_stream:
  assumes "tx_ready u"
  shows "tx_ready (tx_out_lines n u) \<and> uart_tx_buf_lines (tx_out_lines n u) = uart_tx_buf_lines u \<and> sent (tx_out_lines n u) = sent u @ crlfs n"
  using assms by (induction n arbitrary: u) (simp_all add: crlfs_simps out_buf_stream)

lemma out_nl_stream:
  assumes "tx_ready u"
  shows "tx_ready (uart_tx_out_nl u)" "stream (uart_tx_out_nl u) = stream u" "uart_tx_buf_lines (uart_tx_out_nl u) = 0"
proof -
  have "tx_ready (u\<lparr>uart_tx_buf_lines := 0\<rparr>)" "sent (u\<lparr>uart_tx_buf_lines := 0\<rparr>) = sent u" using assms by (simp_all add: tx_ready_def sent_def)
  with out_lines_stream [OF this(1), of "uart_tx_buf_lines u"]
  show "tx_ready (uart_tx_out_nl u)" "stream (uart_tx_out_nl u) = stream u" "uart_tx_buf_lines (uart_tx_out_nl u) = 0"
    by (simp_all add: uart_tx_out_nl_def stream_def crlfs_simps)
qed

lemma out_func_stream:
  assumes "tx_ready u"
  shows "tx_ready (uart_tx_out_func c u)" "stream (uart_tx_out_func c u) = stream u @ crlf c"
    "uart_tx_buf_lines (uart_tx_out_func c u) = (if c = UART_CR then uart_tx_buf_lines u else if c = UART_LF then Suc (uart_tx_buf_lines u) else 0)"
proof -
  note n = out_nl_stream [OF assms]
  note b = out_buf_stream [OF n(1), of c]
  show "tx_ready (uart_tx_out_func c u)" "stream (uart_tx_out_func c u) = stream u @ crlf c"
    "uart_tx_buf_lines (uart_tx_out_func c u) = (if c = UART_CR then uart_tx_buf_lines u else if c = UART_LF then Suc (uart_tx_buf_lines u) else 0)"
    using assms n b crlfs_snoc [of "uart_tx_buf_lines u"]
    by (simp_all add: uart_tx_out_func_def tx_ready_def crlf_def) (simp_all add: stream_def sent_def crlfs_simps)
qed

text \<open>The lines of a text as they are sent: without carriage returns, each line feed as both, and one more unless the text ends
  with a line feed.\<close>

definition log_lines :: "u8 list \<Rightarrow> u8 list" where
  "log_lines t = concat (map crlf t) @ (let l = filter (\<lambda>c. c \<noteq> UART_CR) t in if l \<noteq> [] \<and> last l = UART_LF then [] else [UART_CR, UART_LF])"

lemma out_text_stream:
  assumes "tx_ready u"
  shows "tx_ready (fold uart_tx_out_func t u) \<and> stream (fold uart_tx_out_func t u) = stream u @ concat (map crlf t) \<and>
    (uart_tx_buf_lines (fold uart_tx_out_func t u) = 0 \<longleftrightarrow>
      (let l = filter (\<lambda>c. c \<noteq> UART_CR) t in if l = [] then uart_tx_buf_lines u = 0 else last l \<noteq> UART_LF))"
  using assms
proof (induction t rule: rev_induct)
  case (snoc c t)
  then show ?case using out_func_stream [of "fold uart_tx_out_func t u" c] by (simp add: Let_def)
qed simp

lemma flush_stream:
  assumes "tx_ready u"
  shows "uart_out (uart_tx_out_flush u) = stream u @ (if uart_tx_buf_lines u = 0 then [UART_CR, UART_LF] else [])"
    "uart_tx_buf (uart_tx_out_flush u) = []" "uart_tx_buf_lines (uart_tx_out_flush u) = 0" "tx_ready (uart_tx_out_flush u)"
proof -
  define u1 where "u1 = (if uart_tx_buf_lines u = 0 then u\<lparr>uart_tx_buf_lines := 1\<rparr> else u)"
  have r: "tx_ready u1" using assms by (simp add: u1_def tx_ready_def)
  have s: "stream u1 = stream u @ (if uart_tx_buf_lines u = 0 then [UART_CR, UART_LF] else [])"
    using crlfs_snoc [of 0] by (simp add: u1_def stream_def sent_def crlfs_simps)
  note n = out_nl_stream [OF r]
  have flush: "uart_tx_out_flush u = (uart_tx_out (uart_tx_buf (uart_tx_out_nl u1)) (uart_tx_out_nl u1))\<lparr>uart_tx_buf := []\<rparr>"
    by (simp add: uart_tx_out_flush_def u1_def Let_def)
  show "uart_out (uart_tx_out_flush u) = stream u @ (if uart_tx_buf_lines u = 0 then [UART_CR, UART_LF] else [])"
      "uart_tx_buf (uart_tx_out_flush u) = []" "uart_tx_buf_lines (uart_tx_out_flush u) = 0" "tx_ready (uart_tx_out_flush u)"
    using n s by (simp_all add: flush uart_tx_out_def tx_ready_def) (simp add: stream_def sent_def crlfs_simps)
qed

lemma text_sent:
  fixes t :: "u8 list"
  assumes "tx_ready u" "uart_tx_buf u = []" "uart_tx_buf_lines u = 0"
  defines "u' \<equiv> uart_tx_out_flush (fold uart_tx_out_func t u)"
  shows "uart_out u' = uart_out u @ log_lines t" "uart_tx_buf u' = []" "uart_tx_buf_lines u' = 0" "tx_ready u'"
proof -
  have "stream u = uart_out u" using assms(2,3) by (simp add: stream_def sent_def crlfs_simps)
  with out_text_stream [OF assms(1), of t] assms(3) flush_stream [of "fold uart_tx_out_func t u"]
  show "uart_out u' = uart_out u @ log_lines t" "uart_tx_buf u' = []" "uart_tx_buf_lines u' = 0" "tx_ready u'"
    by (auto simp: u'_def log_lines_def Let_def split: if_splits)
qed

text \<open>C32. A log message is sent completely and in order, through a buffer of 256 bytes: its prefix and text, and the dump of its
  data, each ended by a line end; nothing of it stays in the buffer.\<close>

theorem log_message_sent:
  assumes "\<not> uart_panic u" "\<not> uart_suspended u" "uart_tx_enabled u" "uart_tx_buf u = []" "uart_tx_buf_lines u = 0" "lm_text msg \<noteq> []"
  defines "level \<equiv> if uart_update u then 0x75 else if sh_busy (uart_shell u) \<noteq> 0 then 0x62 else lm_level msg"
  defines "head \<equiv> if lm_level msg = 0 then [] else log_prefix level (lm_timestamp msg) (lm_cycles msg)"
  shows "uart_out (uart_log_process msg u) = uart_out u @ log_lines (head @ lm_text msg) @
      (if lm_data msg = [] then [] else log_lines (uart_log_dump_hex (length head) (lm_data msg))) \<and>
    uart_tx_buf (uart_log_process msg u) = [] \<and> uart_tx_buf_lines (uart_log_process msg u) = 0"
proof -
  have "tx_ready u" using assms(1,2,4) by (simp add: tx_ready_def)
  note t = text_sent [OF this assms(4,5), of "head @ lm_text msg"]
  define u1 where "u1 = uart_tx_out_flush (fold uart_tx_out_func (head @ lm_text msg) u)"
  have "uart_log_process msg u = (if lm_data msg = [] then u1
      else uart_tx_out_flush (fold uart_tx_out_func (uart_log_dump_hex (length head) (lm_data msg)) u1))"
    using assms(1-3,6) by (simp only: uart_log_process_def uart_update_pending_def u1_def level_def head_def Let_def) simp
  then show ?thesis using t text_sent [of u1 "uart_log_dump_hex (length head) (lm_data msg)"] by (simp add: u1_def)
qed

theorem log_message_sent_witness:
  "\<forall>u :: (nat, nat) uart.
     let u = u\<lparr>uart_panic := False, uart_suspended := False, uart_tx_enabled := True, uart_tx_buf := [], uart_tx_buf_lines := 0, uart_out := [],
              uart_update := True\<rparr>;
         msg = \<lparr>lm_level = 0x49, lm_timestamp = 12345, lm_cycles = 1000, lm_text = [0x6F, 0x6B], lm_data = []\<rparr>
     in uart_out (uart_log_process msg u) =
        [0x75, 0x20, 0x31, 0x32, 0x2E, 0x33, 0x34, 0x35, 0x20, 0x3A, 0x20, 0x6F, 0x6B, 0x0D, 0x0A]"
proof -
  have "log_lines (log_prefix 0x75 12345 1000 @ [0x6F, 0x6B]) = [0x75, 0x20, 0x31, 0x32, 0x2E, 0x33, 0x34, 0x35, 0x20, 0x3A, 0x20, 0x6F, 0x6B, 0x0D, 0x0A]"
    by (simp add: log_lines_def log_prefix_def digits_of_def crlf_def upt_rec)
  moreover have "uart_out (uart_log_process msg u) = log_lines (log_prefix 0x75 12345 1000 @ [0x6F, 0x6B])"
    if "u = v\<lparr>uart_panic := False, uart_suspended := False, uart_tx_enabled := True, uart_tx_buf := [], uart_tx_buf_lines := 0, uart_out := [], uart_update := True\<rparr>"
      "msg = \<lparr>lm_level = 0x49, lm_timestamp = 12345, lm_cycles = 1000, lm_text = [0x6F, 0x6B], lm_data = []\<rparr>"
    for u v :: "(nat, nat) uart" and msg
    using log_message_sent [of u msg] that by simp
  ultimately show ?thesis by (simp add: Let_def)
qed

section \<open>Commands\<close>

definition plain_char :: "u8 \<Rightarrow> bool" where
  "plain_char c \<longleftrightarrow> 0x20 \<le> c \<and> c \<noteq> 0x7F \<and> c \<noteq> UART_QUOTE"

lemma plain_char_not: "plain_char c \<Longrightarrow> c \<noteq> 0 \<and> c \<noteq> 0x08 \<and> c \<noteq> 0x7F \<and> c \<noteq> UART_CR \<and> c \<noteq> UART_LF \<and> c \<noteq> UART_QUOTE"
  by (auto simp: plain_char_def)

text \<open>The line that is typed is in the buffer.\<close>

definition typed :: "u8 list \<Rightarrow> ('c, 'w) uart \<Rightarrow> bool" where
  "typed t u \<longleftrightarrow> length (uart_cmd_buf u) = UART_CMD_MAX_LEN \<and> at_cmd_len u = length t \<and> take (length t) (uart_cmd_buf u) = t"

text \<open>What the input does not touch.\<close>

definition rx_rest :: "('c, 'w) uart \<Rightarrow> shell \<times> bool \<times> bool" where
  "rx_rest u = (uart_shell u, uart_update u, inside_quotes u)"

lemma store_typed:
  assumes "typed t u" "length t < 2047" "c \<noteq> UART_QUOTE"
  shows "typed (t @ [c]) (rx_store c u) \<and> rx_rest (rx_store c u) = rx_rest u \<and> last_rx (rx_store c u) = last_rx u"
  using assms by (simp add: typed_def rx_store_def rx_rest_def take_Suc_conv_app_nth)

lemma timeout_typed:
  assumes "typed t u" "\<not> inside_quotes u" "t = [] \<or> now - last_rx u \<le> 30000"
  shows "rx_timeout now u = u\<lparr>last_rx := now\<rparr>"
  using assms by (cases "t = []") (auto simp: rx_timeout_def typed_def Let_def)

lemma handler_typed:
  assumes "typed t u" "length t < 2047" "plain_char c" "\<not> inside_quotes u" "t = [] \<or> now - last_rx u \<le> 30000"
  shows "\<exists>u'. uart_receiver_handler now c u = (False, u') \<and> typed (t @ [c]) u' \<and> rx_rest u' = rx_rest u \<and> last_rx u' = now"
proof -
  have "uart_receiver_handler now c u = (False, rx_store c (u\<lparr>last_rx := now\<rparr>))"
    using plain_char_not [OF assms(3)] by (simp add: uart_receiver_handler_def timeout_typed [OF assms(1,4,5)] Let_def)
  moreover have "typed t (u\<lparr>last_rx := now\<rparr>)" "rx_rest (u\<lparr>last_rx := now\<rparr>) = rx_rest u" using assms(1) by (simp_all add: typed_def rx_rest_def)
  ultimately show ?thesis using store_typed [of t "u\<lparr>last_rx := now\<rparr>" c] assms(2) plain_char_not [OF assms(3)] by simp
qed

lemma chars_typed:
  assumes "typed t u" "length t + length p \<le> 2047" "list_all plain_char p" "\<not> inside_quotes u" "t = [] \<or> now - last_rx u \<le> 30000"
  shows "\<exists>u'. receive_chars now (p @ q) u = receive_chars now q u' \<and> typed (t @ p) u' \<and> rx_rest u' = rx_rest u \<and>
    last_rx u' = (if p = [] then last_rx u else now)"
  using assms
proof (induction p arbitrary: t u)
  case (Cons c p)
  obtain u1 where u1: "uart_receiver_handler now c u = (False, u1)" "typed (t @ [c]) u1" "rx_rest u1 = rx_rest u" "last_rx u1 = now"
    using handler_typed [of t u c now] Cons.prems by auto
  then have "\<not> inside_quotes u1" using Cons.prems(4) by (simp add: rx_rest_def)
  then obtain u2 where "receive_chars now (p @ q) u1 = receive_chars now q u2" "typed ((t @ [c]) @ p) u2" "rx_rest u2 = rx_rest u1"
      "last_rx u2 = (if p = [] then last_rx u1 else now)"
    using Cons.IH [OF u1(2)] Cons.prems u1(4) by auto
  then show ?case using u1 by (intro exI [of _ u2]) simp
qed auto

text \<open>The line arrives in pieces, each with the time of its arrival; no pause is longer than 30 seconds.\<close>

fun in_time :: "int \<Rightarrow> (int \<times> u8 list) list \<Rightarrow> bool" where
  "in_time l [] = True"
| "in_time l ((t, p) # ps) = (t - l \<le> 30000 \<and> in_time t ps)"

definition receive :: "(int \<times> u8 list) list \<Rightarrow> ('c, 'w) uart \<Rightarrow> ('c, 'w) uart" where
  "receive ps u = fold (\<lambda>(t, p). uart_receiver_loop t p) ps u"

definition rx_idle :: "('c, 'w) uart \<Rightarrow> bool" where
  "rx_idle u \<longleftrightarrow> \<not> inside_quotes u \<and> \<not> uart_update u \<and> \<not> sh_executing (uart_shell u)"

lemma loop_chars: "rx_idle u \<Longrightarrow> uart_receiver_loop t p u = receive_chars t p (u\<lparr>uart_pause_queue := uart_pause_queue u @ [True]\<rparr>)"
  by (simp add: uart_receiver_loop_def rx_idle_def uart_update_pending_def)

lemma pause_queue_typed: "typed t (u\<lparr>uart_pause_queue := q\<rparr>) = typed t u" "rx_rest (u\<lparr>uart_pause_queue := q\<rparr>) = rx_rest u"
  by (simp_all add: typed_def rx_rest_def)

lemma idle_rest: "rx_rest u' = rx_rest u \<Longrightarrow> rx_idle u' = rx_idle u"
  by (simp add: rx_rest_def rx_idle_def)

lemma end_of_line:
  fixes rest :: "u8 list"
  assumes "typed t u" "rx_idle u" "now - last_rx u \<le> 30000" "list_all plain_char t" "list_ex (\<lambda>c. c > UART_SPACE) t" "length t < 512" "e \<in> {UART_CR, UART_LF}"
  defines "u' \<equiv> receive_chars now (e # rest) u"
  shows "sh_cmd_buf (uart_shell u') = map (\<lambda>c. char_of (unat c)) t \<and> execute_work (uart_shell u') \<and> sh_executing (uart_shell u') \<and> at_cmd_len u' = 0"
proof -
  have "takeWhile (\<lambda>c. c \<noteq> 0) t = t" using assms(4) plain_char_not by (auto simp: list_all_iff takeWhile_eq_all_conv)
  moreover have "take (at_cmd_len u) (uart_cmd_buf u) = t" using assms(1) by (simp add: typed_def)
  ultimately have line: "line_text (u\<lparr>last_rx := now\<rparr>) = t" by (simp add: line_text_def)
  have "\<not> inside_quotes u" using assms(2) by (simp add: rx_idle_def)
  then have "uart_receiver_handler now e u = rx_line (u\<lparr>last_rx := now\<rparr>)"
    using assms(7) timeout_typed [OF assms(1) _ disjI2 [OF assms(3)]] by (auto simp: uart_receiver_handler_def Let_def)
  then show ?thesis using assms(2,5,6) by (simp add: u'_def rx_line_def line sh_cmd_execute_def rx_idle_def Let_def)
qed



text \<open>A quote that is deleted again still counts: the line that follows it is not executed, its end is taken into it.\<close>

lemma deleted_quote_counts:
  fixes now :: int and t :: "u8 list"
  assumes "typed [] u" "rx_idle u" "uart_cmd_buf u ! 1 \<noteq> UART_QUOTE" "list_all plain_char t" "length t < 2000"
  defines "u' \<equiv> receive_chars now ([UART_QUOTE, 0x08] @ t @ [UART_CR]) u"
  shows "uart_shell u' = uart_shell u \<and> inside_quotes u' \<and> typed (t @ [UART_CR]) u'"
proof -
  define u1 where "u1 = u\<lparr>last_rx := now, uart_cmd_buf := (uart_cmd_buf u)[0 := UART_QUOTE], inside_quotes := True\<rparr>"
  have len: "length (uart_cmd_buf u) = 2048" "at_cmd_len u = 0" "\<not> inside_quotes u" using assms(1,2) by (simp_all add: typed_def rx_idle_def)
  have "rx_timeout now u = u\<lparr>last_rx := now\<rparr>" using timeout_typed [OF assms(1) len(3)] by simp
  then have "uart_receiver_handler now UART_QUOTE u = (False, u1\<lparr>at_cmd_len := 1\<rparr>)"
    using len by (simp add: uart_receiver_handler_def rx_store_def u1_def Let_def)
  moreover have "uart_receiver_handler now 0x08 (u1\<lparr>at_cmd_len := 1\<rparr>) = (False, u1)"
    using len assms(3) by (simp add: uart_receiver_handler_def rx_timeout_def u1_def Let_def)
  ultimately have u': "u' = receive_chars now (t @ [UART_CR]) u1" by (simp add: u'_def)
  have quoted: "receive_chars now p v = fold rx_store p v" if "inside_quotes v" "last_rx v = now" "list_all (\<lambda>c. plain_char c \<or> c = UART_CR) p" for p and v :: "('a, 'b) uart"
    using that
  proof (induction p arbitrary: v)
    case (Cons c p)
    have "rx_timeout now v = v" using Cons.prems(2) by (simp add: rx_timeout_def)
    then have h: "uart_receiver_handler now c v = (False, rx_store c v)"
      using Cons.prems(1,3) plain_char_not [of c] by (auto simp: uart_receiver_handler_def Let_def)
    have "inside_quotes (rx_store c v)" "last_rx (rx_store c v) = now"
      using Cons.prems plain_char_not [of c] by (auto simp: rx_store_def)
    then show ?case using Cons.IH [of "rx_store c v"] Cons.prems(3) h by simp
  qed simp
  have stored: "typed (s @ p) (fold rx_store p v) \<and> rx_rest (fold rx_store p v) = rx_rest v"
    if "typed s v" "length s + length p \<le> 2047" "UART_QUOTE \<notin> set p" for s p and v :: "('a, 'b) uart"
    using that
  proof (induction p arbitrary: s v)
    case (Cons c p)
    then show ?case using store_typed [of s v c] Cons.IH [of "s @ [c]" "rx_store c v"] by auto
  qed simp
  have "UART_QUOTE \<notin> set (t @ [UART_CR])" using assms(4) plain_char_not by (auto simp: list_all_iff)
  moreover have "list_all (\<lambda>c. plain_char c \<or> c = UART_CR) (t @ [UART_CR])" using assms(4) by (simp add: list_all_iff)
  moreover have "typed [] u1" "inside_quotes u1" "last_rx u1 = now" "uart_shell u1 = uart_shell u"
    using len by (simp_all add: u1_def typed_def)
  ultimately show ?thesis using quoted [of u1 "t @ [UART_CR]"] stored [of "[]" u1 "t @ [UART_CR]"] assms(5) u' by (simp add: rx_rest_def)
qed

section \<open>Firmware update\<close>

text \<open>C33. An update over XMODEM that nobody sends is given up: the device asks three times for blocks with CRC and three times for
  blocks with a checksum, every two seconds, and with the next run the update is canceled and log messages are sent again.\<close>

theorem unanswered_update_given_up:
  assumes "uart_update u" "xmodem_retries u = 0" "fst (appl_update_erase (ue_dfu env) (uart_dfu u)) = 0"
  defines "run \<equiv> \<lambda>k. (uart_xmodem_start_fn env ^^ k) u"
  shows "uart_out (run 7) = uart_out u @ replicate 3 XMODEM_CRC @ replicate 3 XMODEM_NAK \<and> \<not> uart_update (run 7) \<and> \<not> uart_update_start (run 7) \<and>
    uart_tx_enabled (run 7) \<and> xmodem_start_work (run 7) = None \<and> (\<forall>k \<in> {1..6}. xmodem_start_work (run k) = Some 2000 \<and> uart_update (run k) \<and> \<not> uart_tx_enabled (run k))"
proof -
  define sending where "sending k v \<longleftrightarrow> uart_update v \<and> xmodem_retries v = int k \<and> \<not> uart_tx_enabled v \<and> xmodem_start_work v = Some 2000 \<and>
      uart_out v = uart_out u @ take k (replicate 3 XMODEM_CRC @ replicate 3 XMODEM_NAK)" for k and v :: "('a, 'b) uart"
  have first: "sending 1 (run 1)"
    using assms(1-3) by (simp add: run_def sending_def uart_xmodem_start_fn_def uart_poll_out_def set_rx_def uart_tx_off_def split_beta Let_def)
  have rep: "replicate 2 x = [x, x]" "replicate 3 x = [x, x, x]" for x :: u8 by (simp_all add: numeral_eq_Suc)
  have step: "sending (Suc k) (uart_xmodem_start_fn env v)" if "sending k v" "k \<in> {1, 2, 3, 4, 5}" for k v
    using that by (auto simp: sending_def uart_xmodem_start_fn_def uart_poll_out_def set_rx_def rep Let_def)
  have runs: "sending k (run k)" if "k \<in> {1..6}" for k
    using that
  proof (induction k)
    case (Suc k)
    show ?case
    proof (cases "k = 0")
      case False
      then have "sending k (run k)" "k \<in> {1, 2, 3, 4, 5}" using Suc by auto
      from step [OF this] show ?thesis by (simp add: run_def)
    qed (use first in simp)
  qed simp
  have "run 7 = uart_xmodem_start_fn env (run 6)" by (simp add: run_def numeral_eq_Suc)
  moreover have six: "sending 6 (run 6)" by (rule runs) simp
  ultimately have "uart_out (run 7) = uart_out u @ replicate 3 XMODEM_CRC @ replicate 3 XMODEM_NAK \<and> \<not> uart_update (run 7) \<and>
      \<not> uart_update_start (run 7) \<and> uart_tx_enabled (run 7) \<and> xmodem_start_work (run 7) = None"
    by (simp add: sending_def uart_xmodem_start_fn_def update_cancel_def uart_tx_off_def Let_def)
  moreover have "\<forall>k \<in> {1..6}. xmodem_start_work (run k) = Some 2000 \<and> uart_update (run k) \<and> \<not> uart_tx_enabled (run k)"
    using runs by (simp add: sending_def)
  ultimately show ?thesis by blast
qed

theorem unanswered_update_given_up_witness:
  "\<forall>(u :: (u8 list, u8 list) uart) x.
     let env = \<lparr>ue_xmodem = x, ue_dfu = sim_dfu sim_header, ue_now = 0\<rparr>;
         u = u\<lparr>uart_update := True, xmodem_retries := 0, uart_out := [], uart_dfu := sim_dfu_state\<lparr>dfu_flash_area_id := 1\<rparr>\<rparr>
     in uart_out ((uart_xmodem_start_fn env ^^ 7) u) = [0x43, 0x43, 0x43, 0x15, 0x15, 0x15]"
proof -
  have "uart_out ((uart_xmodem_start_fn env ^^ 7) u) = [0x43, 0x43, 0x43, 0x15, 0x15, 0x15]"
    if "env = \<lparr>ue_xmodem = x, ue_dfu = sim_dfu sim_header, ue_now = 0\<rparr>"
      "u = v\<lparr>uart_update := True, xmodem_retries := 0, uart_out := [], uart_dfu := sim_dfu_state\<lparr>dfu_flash_area_id := 1\<rparr>\<rparr>"
    for env x and u v :: "(u8 list, u8 list) uart"
  proof -
    have "fst (appl_update_erase (ue_dfu env) (uart_dfu u)) = 0"
      using that by (simp add: appl_update_erase_def sim_dfu_def sim_dfu_state_def appl_reboots_def)
    then show ?thesis using unanswered_update_given_up [of u env] that by (simp add: numeral_3_eq_3 del: funpow.simps)
  qed
  then show ?thesis by (simp add: Let_def del: funpow.simps)
qed

end
